(* ===== verification/Prelude.thy ===== *)
theory Prelude
  imports Main "HOL-Library.Word" "HOL-Library.State_Monad"
begin

text \<open>
  Shared vocabulary of the development: the machine integers of the C code, the error numbers
  the daemon returns, big-endian encoding of 32-bit values, the proof rules for code written in
  the state monad, and generic lemmas on lists and words.
\<close>

unbundle bit_operations_syntax

section \<open>Machine integers\<close>

type_synonym u8 = "8 word"
type_synonym u16 = "16 word"
type_synonym u32 = "32 word"
type_synonym u64 = "64 word"

text \<open>\<open>errno_t\<close> and \<open>IOReturn\<close> are 32-bit integers; the code mixes the two freely
  (an \<open>IOReturn\<close> is stored into an \<open>errno_t\<close> variable), so both are the same type here.\<close>

type_synonym errno_t = u32
type_synonym IOReturn = u32

text \<open>Error numbers of \<open>errno.h\<close> and \<open>IOReturn.h\<close> that the sources name.\<close>

abbreviation (input) ENOENT :: errno_t where "ENOENT \<equiv> 2"
abbreviation (input) EINTR :: errno_t where "EINTR \<equiv> 4"
abbreviation (input) EIO :: errno_t where "EIO \<equiv> 5"
abbreviation (input) ENXIO :: errno_t where "ENXIO \<equiv> 6"
abbreviation (input) ENOMEM :: errno_t where "ENOMEM \<equiv> 12"
abbreviation (input) EINVAL :: errno_t where "EINVAL \<equiv> 22"
abbreviation (input) EAGAIN :: errno_t where "EAGAIN \<equiv> 35"
abbreviation (input) EINPROGRESS :: errno_t where "EINPROGRESS \<equiv> 36"
abbreviation (input) ENOTSUP :: errno_t where "ENOTSUP \<equiv> 45"
abbreviation (input) EAFNOSUPPORT :: errno_t where "EAFNOSUPPORT \<equiv> 47"
abbreviation (input) ECONNRESET :: errno_t where "ECONNRESET \<equiv> 54"
abbreviation (input) ECONNREFUSED :: errno_t where "ECONNREFUSED \<equiv> 61"
abbreviation (input) EAUTH :: errno_t where "EAUTH \<equiv> 80"
abbreviation (input) EOPNOTSUPP :: errno_t where "EOPNOTSUPP \<equiv> 102"

abbreviation (input) kIOReturnSuccess :: IOReturn where "kIOReturnSuccess \<equiv> 0"
abbreviation (input) kIOReturnNoMemory :: IOReturn where "kIOReturnNoMemory \<equiv> 0xE00002BD"
abbreviation (input) kIOReturnBadArgument :: IOReturn where "kIOReturnBadArgument \<equiv> 0xE00002C2"
abbreviation (input) kIOReturnIOError :: IOReturn where "kIOReturnIOError \<equiv> 0xE00002CA"
abbreviation (input) kIOReturnNotOpen :: IOReturn where "kIOReturnNotOpen \<equiv> 0xE00002CD"
abbreviation (input) kIOReturnNotReady :: IOReturn where "kIOReturnNotReady \<equiv> 0xE00002D8"
abbreviation (input) kIOReturnNoSpace :: IOReturn where "kIOReturnNoSpace \<equiv> 0xE00002DB"
abbreviation (input) kIOReturnNotFound :: IOReturn where "kIOReturnNotFound \<equiv> 0xE00002F0"

section \<open>Exclusive or\<close>

lemma xor_eq_0_iff: "a XOR b = 0 \<longleftrightarrow> a = (b :: 'a::len word)"
proof
  assume "a XOR b = 0"
  then have "bit (a XOR b) n = bit (0 :: 'a word) n" for n by simp
  then have "bit a n = bit b n" for n by (simp add: bit_xor_iff)
  then show "a = b" by (rule bit_eqI)
qed simp

lemma xor_xor_cancel: "(a XOR p) XOR (b XOR p) = a XOR (b :: 'a::len word)"
  by (rule bit_eqI) (auto simp: bit_xor_iff)

lemma xor_right_comm: "(a XOR p) XOR b = (a XOR b) XOR (p :: 'a::len word)"
  by (rule bit_eqI) (auto simp: bit_xor_iff)

lemma drop_bit_xor_word: "drop_bit n (a XOR b) = drop_bit n a XOR drop_bit n (b :: 'a::len word)"
  by (rule bit_eqI) (simp add: bit_simps)

lemma push_bit_xor_word: "push_bit n (a XOR b) = push_bit n a XOR push_bit n (b :: 'a::len word)"
  by (rule bit_eqI) (auto simp: bit_simps)

lemma ucast_xor_word: "ucast (a XOR b) = (ucast a XOR ucast b :: 'b::len word)"
  for a b :: "'a::len word"
  by (rule bit_eqI) (auto simp: bit_simps)

lemma ucast_u64_u32 [simp]: "ucast (ucast (a :: u32) :: u64) = a"
  by (rule bit_word_eqI) (simp add: bit_simps)

section \<open>Bytes\<close>

text \<open>The four digest bytes of \<open>send_crc_digest\<close>, and the shift-and-or expression with which
  the receive path reads a big-endian word back.\<close>

definition be32_bytes :: "u32 \<Rightarrow> u8 list" where
  "be32_bytes w =
     [ucast (drop_bit 24 w), ucast (drop_bit 16 w), ucast (drop_bit 8 w), ucast w]"

definition be32_value :: "u8 \<Rightarrow> u8 \<Rightarrow> u8 \<Rightarrow> u8 \<Rightarrow> u32" where
  "be32_value a b c d =
     push_bit 24 (ucast a) OR push_bit 16 (ucast b) OR push_bit 8 (ucast c) OR ucast d"

lemma length_be32_bytes [simp]: "length (be32_bytes w) = 4"
  by (simp add: be32_bytes_def)

lemma be32_value_bytes:
  "be32_value (ucast (drop_bit 24 w)) (ucast (drop_bit 16 w)) (ucast (drop_bit 8 w)) (ucast w) = w"
proof (rule bit_word_eqI)
  fix n
  assume "n < LENGTH(32)"
  then have n: "n < 32" by simp
  consider "n < 8" | "8 \<le> n" "n < 16" | "16 \<le> n" "n < 24" | "24 \<le> n"
    by linarith
  then show "bit (be32_value (ucast (drop_bit 24 w)) (ucast (drop_bit 16 w))
      (ucast (drop_bit 8 w)) (ucast w)) n = bit w n"
    using n by cases (auto simp: be32_value_def bit_simps)
qed

lemma be32_bytes_nth [simp]:
  "be32_bytes w ! 0 = ucast (drop_bit 24 w)"
  "be32_bytes w ! Suc 0 = ucast (drop_bit 16 w)"
  "be32_bytes w ! 2 = ucast (drop_bit 8 w)"
  "be32_bytes w ! 3 = ucast w"
  by (simp_all add: be32_bytes_def)

section \<open>The state monad\<close>

text \<open>Operations that change state are written in the state monad of the library, so that a
  definition reads as its C function does. These rules evaluate such a program.\<close>

named_theorems monad_simps "evaluation of programs in the state monad"

lemma run_state_if [monad_simps]:
  "run_state (if b then m else n) s = (if b then run_state m s else run_state n s)"
  by simp

lemma run_state_case_option [monad_simps]:
  "run_state (case x of None \<Rightarrow> m | Some y \<Rightarrow> n y) s =
     (case x of None \<Rightarrow> run_state m s | Some y \<Rightarrow> run_state (n y) s)"
  by (simp split: option.split)

lemma run_state_case_prod [monad_simps]:
  "run_state (case p of (a, b) \<Rightarrow> m a b) s = (case p of (a, b) \<Rightarrow> run_state (m a b) s)"
  by (simp split: prod.split)

lemma run_state_Let [monad_simps]:
  "run_state (Let x f) s = (let y = x in run_state (f y) s)"
  by simp

declare run_state_return [monad_simps] run_state_bind [monad_simps]
  run_state_get [monad_simps] run_state_set [monad_simps]

definition gets :: "('s \<Rightarrow> 'a) \<Rightarrow> ('s, 'a) state" where
  "gets f = State (\<lambda>s. (f s, s))"

definition modify :: "('s \<Rightarrow> 's) \<Rightarrow> ('s, unit) state" where
  "modify f = State (\<lambda>s. ((), f s))"

lemma run_state_gets [simp, monad_simps]: "run_state (gets f) s = (f s, s)"
  by (simp add: gets_def)

lemma run_state_modify [simp, monad_simps]: "run_state (modify f) s = ((), f s)"
  by (simp add: modify_def)

text \<open>\<open>exec_state m s\<close> is the state after \<open>m\<close>, \<open>eval_state m s\<close> its result.\<close>

definition exec_state :: "('s, 'a) state \<Rightarrow> 's \<Rightarrow> 's" where
  "exec_state m s = snd (run_state m s)"

definition eval_state :: "('s, 'a) state \<Rightarrow> 's \<Rightarrow> 'a" where
  "eval_state m s = fst (run_state m s)"

section \<open>A C loop over an index range\<close>

text \<open>\<open>for_each xs f\<close> runs \<open>f\<close> on the elements in order.\<close>

primrec for_each :: "'a list \<Rightarrow> ('a \<Rightarrow> ('s, unit) state) \<Rightarrow> ('s, unit) state" where
  "for_each [] f = State_Monad.return ()"
| "for_each (x # xs) f = do { f x; for_each xs f }"

lemma run_for_each_Nil [monad_simps]: "run_state (for_each [] f) s = ((), s)"
  by simp

lemma run_for_each_Cons [monad_simps]:
  "run_state (for_each (x # xs) f) s = run_state (for_each xs f) (snd (run_state (f x) s))"
  by (simp split: prod.split)

lemma for_each_invariant:
  assumes "\<And>x s. x \<in> set xs \<Longrightarrow> P s \<Longrightarrow> P (snd (run_state (f x) s))" and "P s"
  shows "P (snd (run_state (for_each xs f) s))"
  using assms by (induction xs arbitrary: s) (simp_all add: run_for_each_Cons del: for_each.simps(2))

section \<open>Invariants of programs\<close>

text \<open>\<open>preserves P m\<close>: the program \<open>m\<close> keeps the predicate \<open>P\<close> of the state. The rules follow the
  structure of a program, so an invariant is proved by \<open>intro\<close> down to the calls that matter.\<close>

named_theorems preserves_intros "decomposition of invariant proofs along a program"

definition preserves :: "('s \<Rightarrow> bool) \<Rightarrow> ('s, 'a) state \<Rightarrow> bool" where
  "preserves P m \<longleftrightarrow> (\<forall>s. P s \<longrightarrow> P (snd (run_state m s)))"

lemma preservesI: "(\<And>s. P s \<Longrightarrow> P (snd (run_state m s))) \<Longrightarrow> preserves P m"
  by (simp add: preserves_def)

lemma preservesD: "preserves P m \<Longrightarrow> P s \<Longrightarrow> P (snd (run_state m s))"
  by (simp add: preserves_def)

lemma preserves_return [preserves_intros]: "preserves P (State_Monad.return x)"
  by (simp add: preserves_def)

lemma preserves_bind [preserves_intros]:
  assumes "preserves P m" and "\<And>x. preserves P (f x)"
  shows "preserves P (m \<bind> f)"
proof (rule preservesI)
  fix s
  assume "P s"
  obtain x t where "run_state m s = (x, t)" by fastforce
  then show "P (snd (run_state (m \<bind> f) s))"
    using preservesD [OF assms(1) \<open>P s\<close>] preservesD [OF assms(2), of t x] by simp
qed

lemma preserves_if [preserves_intros]:
  "(b \<Longrightarrow> preserves P m) \<Longrightarrow> (\<not> b \<Longrightarrow> preserves P n) \<Longrightarrow> preserves P (if b then m else n)"
  by simp

lemma preserves_case_option [preserves_intros]:
  "(x = None \<Longrightarrow> preserves P m) \<Longrightarrow> (\<And>y. x = Some y \<Longrightarrow> preserves P (f y)) \<Longrightarrow>
     preserves P (case x of None \<Rightarrow> m | Some y \<Rightarrow> f y)"
  by (cases x) simp_all

lemma preserves_case_sum [preserves_intros]:
  "(\<And>y. x = Inl y \<Longrightarrow> preserves P (f y)) \<Longrightarrow> (\<And>y. x = Inr y \<Longrightarrow> preserves P (g y)) \<Longrightarrow>
     preserves P (case x of Inl y \<Rightarrow> f y | Inr y \<Rightarrow> g y)"
  by (cases x) simp_all

lemma preserves_case_prod [preserves_intros]:
  "(\<And>a b. x = (a, b) \<Longrightarrow> preserves P (f a b)) \<Longrightarrow> preserves P (case x of (a, b) \<Rightarrow> f a b)"
  by (cases x) simp

lemma preserves_Let [preserves_intros]:
  "(\<And>y. y = x \<Longrightarrow> preserves P (f y)) \<Longrightarrow> preserves P (Let x f)"
  by simp

lemma preserves_gets [preserves_intros]: "preserves P (gets f)"
  by (simp add: preserves_def)

lemma preserves_modify: "(\<And>s. P s \<Longrightarrow> P (f s)) \<Longrightarrow> preserves P (modify f)"
  by (simp add: preserves_def)

lemma preserves_for_each [preserves_intros]:
  "(\<And>x. x \<in> set xs \<Longrightarrow> preserves P (f x)) \<Longrightarrow> preserves P (for_each xs f)"
  by (rule preservesI) (rule for_each_invariant, auto dest: preservesD)

section \<open>Lists and maps\<close>

text \<open>\<open>find_index P xs\<close> is the loop that scans an array for the first slot that satisfies a
  test and stops there.\<close>

fun find_index :: "('a \<Rightarrow> bool) \<Rightarrow> 'a list \<Rightarrow> nat option" where
  "find_index P [] = None"
| "find_index P (x # xs) = (if P x then Some 0 else map_option Suc (find_index P xs))"

lemma find_index_None: "find_index P xs = None \<longleftrightarrow> (\<forall>x \<in> set xs. \<not> P x)"
  by (induction xs) auto

lemma find_index_Some:
  "find_index P xs = Some i \<Longrightarrow> i < length xs \<and> P (xs ! i) \<and> (\<forall>j < i. \<not> P (xs ! j))"
proof (induction xs arbitrary: i)
  case Nil
  then show ?case by simp
next
  case (Cons x xs)
  show ?case
  proof (cases "P x")
    case True
    with Cons.prems show ?thesis by auto
  next
    case False
    with Cons.prems obtain k where k: "find_index P xs = Some k" and i: "i = Suc k"
      by auto
    from Cons.IH [OF k] False show ?thesis
      by (auto simp: i less_Suc_eq_0_disj)
  qed
qed

lemma find_index_SomeI:
  assumes "i < length xs" and "P (xs ! i)" and "\<And>j. j < i \<Longrightarrow> \<not> P (xs ! j)"
  shows "find_index P xs = Some i"
  using assms
proof (induction xs arbitrary: i)
  case Nil
  then show ?case by simp
next
  case (Cons x xs)
  show ?case
  proof (cases i)
    case 0
    with Cons.prems show ?thesis by simp
  next
    case (Suc k)
    have "\<not> P x" using Cons.prems(3) [of 0] Suc by simp
    moreover have "find_index P xs = Some k"
      using Cons.prems(1,2) Cons.prems(3) [of "Suc j" for j] Suc by (intro Cons.IH) auto
    ultimately show ?thesis using Suc by simp
  qed
qed

lemma take_drop_split: "i \<le> j \<Longrightarrow> take i xs @ take (j - i) (drop i xs) = take j xs"
  by (metis le_add_diff_inverse take_add)

end
