(* ===== verification/Crc32c.thy ===== *)
theory Crc32c
  imports Prelude
begin

text \<open>
  CRC-32C, the iSCSI digest: \<open>Source/Kernel/crc32c.c\<close>, which is compiled into the daemon.

  The first half follows the file: the GF(2) matrix routines, the tables \<open>crc32c_init\<close> builds,
  the portable table-driven routine and the three-way x86 routine. The inline assembly
  (\<open>crc32b\<close>, \<open>crc32q\<close>) is not C: it is a pair of parameters whose documented behaviour is the
  locale \<open>crc32_instruction\<close>. The second half shows that both routines compute the bit-serial
  CRC once \<open>crc32c_init\<close> has run, and which corruptions the digest always detects.
\<close>

section \<open>The code\<close>

abbreviation POLY :: u32 where "POLY \<equiv> 0x82f63b78"
abbreviation LONG :: nat where "LONG \<equiv> 8192"
abbreviation SHORT :: nat where "SHORT \<equiv> 256"

subsection \<open>GF(2) matrices\<close>

text \<open>A matrix is the list of its 32 rows. The loop walks \<open>mat\<close> while \<open>vec\<close> has bits left.\<close>

fun gf2_times_loop :: "u32 \<Rightarrow> u32 list \<Rightarrow> u32 \<Rightarrow> u32" where
  "gf2_times_loop acc [] vec = acc"
| "gf2_times_loop acc (row # mat) vec =
     (if vec = 0 then acc
      else gf2_times_loop (if vec AND 1 \<noteq> 0 then acc XOR row else acc) mat (drop_bit 1 vec))"

definition gf2_matrix_times :: "u32 list \<Rightarrow> u32 \<Rightarrow> u32" where
  "gf2_matrix_times mat vec = gf2_times_loop 0 mat vec"

definition gf2_matrix_square :: "u32 list \<Rightarrow> u32 list" where
  "gf2_matrix_square mat = map (\<lambda>n. gf2_matrix_times mat (mat ! n)) [0..<32]"

text \<open>The operator for one zero bit, then the do-while loop of \<open>crc32c_zeros_op\<close>.\<close>

definition zeros_op_init :: "u32 list" where
  "zeros_op_init = POLY # map (\<lambda>n. push_bit (n - 1) 1) [1..<32]"

function zeros_op_loop :: "u32 list \<Rightarrow> nat \<Rightarrow> u32 list" where
  "zeros_op_loop oddm len =
     (let evenm = gf2_matrix_square oddm;
          len1 = len div 2
      in if len1 = 0 then evenm
         else let oddm' = gf2_matrix_square evenm;
                  len2 = len1 div 2
              in if len2 = 0 then oddm' else zeros_op_loop oddm' len2)"
  by pat_completeness auto

termination
  by (relation "measure snd") auto

declare zeros_op_loop.simps [simp del]

definition crc32c_zeros_op :: "nat \<Rightarrow> u32 list" where
  "crc32c_zeros_op len =
     (let oddm = zeros_op_init;
          evenm = gf2_matrix_square oddm;
          oddm' = gf2_matrix_square evenm
      in zeros_op_loop oddm' len)"

definition crc32c_zeros :: "nat \<Rightarrow> u32 list list" where
  "crc32c_zeros len =
     (let zop = crc32c_zeros_op len in
      map (\<lambda>i. map (\<lambda>n. gf2_matrix_times zop (push_bit (8 * i) (of_nat n))) [0..<256]) [0..<4])"

definition crc32c_shift :: "u32 list list \<Rightarrow> u32 \<Rightarrow> u32" where
  "crc32c_shift zeros crc =
     zeros ! 0 ! unat (crc AND 0xff) XOR
     zeros ! 1 ! unat (drop_bit 8 crc AND 0xff) XOR
     zeros ! 2 ! unat (drop_bit 16 crc AND 0xff) XOR
     zeros ! 3 ! unat (drop_bit 24 crc)"

subsection \<open>The static tables\<close>

record crc_tables =
  crc32c_table :: "u32 list"
  crc32c_long :: "u32 list list"
  crc32c_short :: "u32 list list"

text \<open>Static storage starts at zero; \<open>crc32c_init\<close> fills it.\<close>

definition crc_tables_static :: crc_tables where
  "crc_tables_static =
     \<lparr> crc32c_table = replicate 256 0,
       crc32c_long = replicate 4 (replicate 256 0),
       crc32c_short = replicate 4 (replicate 256 0) \<rparr>"

definition crc_bit :: "u32 \<Rightarrow> u32" where
  "crc_bit val = drop_bit 1 val XOR (POLY AND - (val AND 1))"

definition crc32c_init :: crc_tables where
  "crc32c_init =
     \<lparr> crc32c_table = map (\<lambda>n. (crc_bit ^^ 8) (of_nat n)) [0..<256],
       crc32c_long = crc32c_zeros LONG,
       crc32c_short = crc32c_zeros SHORT \<rparr>"

subsection \<open>The portable routine\<close>

definition crc32c_table_step :: "crc_tables \<Rightarrow> u32 \<Rightarrow> u8 \<Rightarrow> u32" where
  "crc32c_table_step tabs crc_val b =
     crc32c_table tabs ! unat ((crc_val XOR ucast b) AND 0xff) XOR drop_bit 8 crc_val"

definition crc32c :: "crc_tables \<Rightarrow> u32 \<Rightarrow> u8 list \<Rightarrow> u32" where
  "crc32c tabs crc buf =
     (if buf = [] then crc
      else foldl (crc32c_table_step tabs) (crc XOR 0xffffffff) buf XOR 0xffffffff)"

subsection \<open>The x86 routine\<close>

text \<open>The memory from \<open>next\<close> on is a list; \<open>addr\<close> is the address of its first byte. \<open>crc32q\<close>
  takes its eight-byte memory operand.\<close>

fun x86_leading :: "(u64 \<Rightarrow> u8 \<Rightarrow> u64) \<Rightarrow> nat \<Rightarrow> u64 \<Rightarrow> u8 list \<Rightarrow> u64 \<times> u8 list" where
  "x86_leading crc32b addr crc0 [] = (crc0, [])"
| "x86_leading crc32b addr crc0 (b # next) =
     (if addr mod 8 \<noteq> 0 then x86_leading crc32b (addr + 1) (crc32b crc0 b) next
      else (crc0, b # next))"

text \<open>The inner do-while: \<open>n\<close> rounds of three independent instructions on lanes \<open>blk\<close> apart.\<close>

fun x86_lanes ::
  "(u64 \<Rightarrow> u8 list \<Rightarrow> u64) \<Rightarrow> nat \<Rightarrow> nat \<Rightarrow> u64 \<times> u64 \<times> u64 \<Rightarrow> u8 list \<Rightarrow> u64 \<times> u64 \<times> u64" where
  "x86_lanes crc32q blk 0 cs next = cs"
| "x86_lanes crc32q blk (Suc n) (crc0, crc1, crc2) next =
     x86_lanes crc32q blk n
       (crc32q crc0 (take 8 next),
        crc32q crc1 (take 8 (drop blk next)),
        crc32q crc2 (take 8 (drop (2 * blk) next)))
       (drop 8 next)"

function x86_blocks ::
  "(u64 \<Rightarrow> u8 list \<Rightarrow> u64) \<Rightarrow> u32 list list \<Rightarrow> nat \<Rightarrow> u64 \<Rightarrow> u8 list \<Rightarrow> u64 \<times> u8 list" where
  "x86_blocks crc32q zeros blk crc0 next =
     (if 0 < blk \<and> 3 * blk \<le> length next then
        (case x86_lanes crc32q blk (blk div 8) (crc0, 0, 0) next of
           (c0, c1, c2) \<Rightarrow>
             let c0' = ucast (crc32c_shift zeros (ucast c0)) XOR c1;
                 c0'' = ucast (crc32c_shift zeros (ucast c0')) XOR c2
             in x86_blocks crc32q zeros blk c0'' (drop (3 * blk) next))
      else (crc0, next))"
  by pat_completeness auto

termination
  by (relation "measure (\<lambda>(q, z, blk, c, next). length next)") auto

declare x86_blocks.simps [simp del]

fun x86_quads :: "(u64 \<Rightarrow> u8 list \<Rightarrow> u64) \<Rightarrow> nat \<Rightarrow> u64 \<Rightarrow> u8 list \<Rightarrow> u64 \<times> u8 list" where
  "x86_quads crc32q 0 crc0 next = (crc0, next)"
| "x86_quads crc32q (Suc n) crc0 next =
     x86_quads crc32q n (crc32q crc0 (take 8 next)) (drop 8 next)"

definition crc32c_x86 ::
  "(u64 \<Rightarrow> u8 \<Rightarrow> u64) \<Rightarrow> (u64 \<Rightarrow> u8 list \<Rightarrow> u64) \<Rightarrow> crc_tables \<Rightarrow> nat \<Rightarrow> u32 \<Rightarrow> u8 list \<Rightarrow> u32" where
  "crc32c_x86 crc32b crc32q tabs addr crc buf =
     (if buf = [] then crc
      else
        let (c, next) = x86_leading crc32b addr (ucast (crc XOR 0xffffffff)) buf;
            (c, next) = x86_blocks crc32q (crc32c_long tabs) LONG c next;
            (c, next) = x86_blocks crc32q (crc32c_short tabs) SHORT c next;
            (c, next) = x86_quads crc32q (length next div 8) c next;
            c = foldl crc32b c next
        in ucast c XOR 0xffffffff)"

section \<open>The reference: bit-serial CRC\<close>

definition crc_byte :: "u32 \<Rightarrow> u8 \<Rightarrow> u32" where
  "crc_byte crc b = (crc_bit ^^ 8) (crc XOR ucast b)"

definition crc_bytes :: "u32 \<Rightarrow> u8 list \<Rightarrow> u32" where
  "crc_bytes crc bs = foldl crc_byte crc bs"

definition crc32c_ref :: "u32 \<Rightarrow> u8 list \<Rightarrow> u32" where
  "crc32c_ref crc bs = NOT (crc_bytes (NOT crc) bs)"

lemma crc_bytes_Nil [simp]: "crc_bytes c [] = c"
  by (simp add: crc_bytes_def)

lemma crc_bytes_Cons [simp]: "crc_bytes c (b # bs) = crc_bytes (crc_byte c b) bs"
  by (simp add: crc_bytes_def)

lemma crc_bytes_append [simp]: "crc_bytes c (xs @ ys) = crc_bytes (crc_bytes c xs) ys"
  by (simp add: crc_bytes_def)

subsection \<open>The one-bit step is linear and injective\<close>

lemma crc_bit_alt: "crc_bit v = (if bit v 0 then drop_bit 1 v XOR POLY else drop_bit 1 v)"
proof (cases "bit v 0")
  case True
  then have "v AND 1 = 1" by (simp add: and_one_eq bit_0 mod2_eq_if)
  then show ?thesis using True by (simp add: crc_bit_def)
next
  case False
  then have "v AND 1 = 0" by (simp add: and_one_eq bit_0 mod2_eq_if)
  then show ?thesis using False by (simp add: crc_bit_def)
qed

definition linear2 :: "(u32 \<Rightarrow> u32) \<Rightarrow> bool" where
  "linear2 f \<longleftrightarrow> (\<forall>a b. f (a XOR b) = f a XOR f b)"

lemma linear2D: "linear2 f \<Longrightarrow> f (a XOR b) = f a XOR f b"
  by (simp add: linear2_def)

lemma linear2_0: "linear2 f \<Longrightarrow> f 0 = 0"
  using linear2D [of f 0 0] by simp

lemma linear2_comp: "linear2 f \<Longrightarrow> linear2 g \<Longrightarrow> linear2 (f \<circ> g)"
  by (simp add: linear2_def)

lemma linear2_funpow: "linear2 f \<Longrightarrow> linear2 (f ^^ n)"
  by (induction n) (simp_all add: linear2_def)

lemma linear2_crc_bit: "linear2 crc_bit"
proof -
  have "crc_bit (a XOR b) = crc_bit a XOR crc_bit b" for a b
  proof (cases "bit a 0")
    case True
    then show ?thesis
      by (cases "bit b 0")
        (simp_all only: crc_bit_alt bit_xor_iff drop_bit_xor_word if_True if_False
          xor_xor_cancel xor_right_comm simp_thms)
  next
    case False
    then show ?thesis
      by (cases "bit b 0")
        (simp_all only: crc_bit_alt bit_xor_iff drop_bit_xor_word if_True if_False
          xor.assoc simp_thms)
  qed
  then show ?thesis by (simp add: linear2_def)
qed

lemmas linear2_crc = linear2_funpow [OF linear2_crc_bit]

lemma crc_bit_eq_0: "crc_bit v = 0 \<Longrightarrow> v = 0"
proof (cases "bit v 0")
  case True
  assume "crc_bit v = 0"
  with True have "drop_bit 1 v = POLY" by (simp add: crc_bit_alt xor_eq_0_iff)
  then have "bit (drop_bit 1 v) 31 = bit POLY 31" by simp
  moreover have "\<not> bit (drop_bit 1 v) 31" by (auto simp: bit_drop_bit_eq dest: bit_imp_le_length)
  moreover have "bit POLY 31" by (simp add: bit_numeral_rec)
  ultimately show ?thesis by simp
next
  case False
  assume "crc_bit v = 0"
  with False have d: "drop_bit 1 v = 0" by (simp add: crc_bit_alt)
  have "\<not> bit v n" for n
  proof (cases n)
    case 0
    with False show ?thesis by simp
  next
    case (Suc k)
    have "\<not> bit (drop_bit 1 v) k" using d by simp
    with Suc show ?thesis by (simp add: bit_drop_bit_eq)
  qed
  then show ?thesis by (simp add: bit_word_eqI)
qed

lemma linear2_inj: "linear2 f \<Longrightarrow> (\<And>v. f v = 0 \<Longrightarrow> v = 0) \<Longrightarrow> f a = f b \<Longrightarrow> a = b"
  by (metis linear2D xor_self_eq xor_eq_0_iff)

lemma inj_crc_bit: "inj crc_bit"
  using linear2_inj [OF linear2_crc_bit] crc_bit_eq_0 by (auto intro: injI)

lemma inj_crc_bits: "inj (crc_bit ^^ n)"
  by (rule inj_fn [OF inj_crc_bit])

text \<open>Zero low bits shift out without touching the polynomial.\<close>

lemma crc_bits_push: "(\<And>i. 32 - n \<le> i \<Longrightarrow> \<not> bit x i) \<Longrightarrow> n \<le> 32 \<Longrightarrow> (crc_bit ^^ n) (push_bit n x) = x"
proof (induction n)
  case 0
  then show ?case by simp
next
  case (Suc n)
  have "crc_bit (push_bit (Suc n) x) = push_bit n x"
  proof -
    have "\<not> bit (push_bit (Suc n) x) 0" by (simp only: bit_push_bit_iff) simp
    moreover have "drop_bit 1 (push_bit (Suc n) x) = push_bit n x"
    proof (rule bit_word_eqI)
      fix i
      assume "i < LENGTH(32)"
      then show "bit (drop_bit 1 (push_bit (Suc n) x)) i = bit (push_bit n x) i"
        using Suc.prems(1) [of "i - n"]
        by (cases "i = 31") (auto simp: bit_drop_bit_eq bit_push_bit_iff simp del: push_bit_Suc)
    qed
    ultimately show ?thesis by (simp add: crc_bit_alt)
  qed
  moreover have "(crc_bit ^^ n) (push_bit n x) = x"
    using Suc.prems by (intro Suc.IH) auto
  ultimately show ?case by (simp add: funpow_swap1)
qed

subsection \<open>Splitting off the low byte\<close>

lemma low_byte_split: "x = (x AND 0xff) XOR push_bit 8 (drop_bit 8 (x :: u32))"
proof (rule bit_word_eqI)
  fix i
  show "bit x i = bit ((x AND 0xff) XOR push_bit 8 (drop_bit 8 x)) i"
    using bit_imp_le_length [of x i] bit_mask_iff [where 'a="32 word", of 8 i]
    by (auto simp: bit_xor_iff bit_and_iff bit_push_bit_iff bit_drop_bit_eq mask_eq_exp_minus_1)
qed

lemma low_byte_take: "(x :: u32) AND 0xff = take_bit 8 x"
  by (simp add: take_bit_eq_mask mask_eq_exp_minus_1)

lemma unat_low_byte: "unat ((x :: u32) AND 0xff) < 256"
  using take_bit_nat_less_exp [of 8 "unat x"] by (simp add: low_byte_take unsigned_take_bit_eq)

lemma drop_bit_8_byte: "drop_bit 8 (ucast (b :: u8) :: u32) = 0"
  by (rule bit_word_eqI) (auto simp: bit_simps dest: bit_imp_le_length)

lemma crc_bits_8_split: "(crc_bit ^^ 8) x = (crc_bit ^^ 8) (x AND 0xff) XOR drop_bit 8 x"
proof -
  have "(crc_bit ^^ 8) x = (crc_bit ^^ 8) (x AND 0xff) XOR (crc_bit ^^ 8) (push_bit 8 (drop_bit 8 x))"
    by (subst low_byte_split [of x], rule linear2D [OF linear2_crc])
  also have "(crc_bit ^^ 8) (push_bit 8 (drop_bit 8 x)) = drop_bit 8 x"
    by (rule crc_bits_push) (auto simp: bit_drop_bit_eq dest: bit_imp_le_length)
  finally show ?thesis .
qed

lemma table_init_nth: "n < 256 \<Longrightarrow> crc32c_table crc32c_init ! n = (crc_bit ^^ 8) (of_nat n)"
  by (simp add: crc32c_init_def)

lemma table_step_eq: "crc32c_table_step crc32c_init crc b = crc_byte crc b"
proof -
  let ?x = "crc XOR ucast b"
  have "crc32c_table crc32c_init ! unat (?x AND 0xff) = (crc_bit ^^ 8) (?x AND 0xff)"
    by (simp add: table_init_nth [OF unat_low_byte] ucast_id)
  moreover have "drop_bit 8 ?x = drop_bit 8 crc"
    by (simp add: drop_bit_xor_word drop_bit_8_byte)
  ultimately show ?thesis
    by (simp only: crc32c_table_step_def crc_byte_def crc_bits_8_split [of ?x])
qed

lemma not_xor_ones: "(x :: u32) XOR 0xffffffff = NOT x"
proof -
  have ones: "(0xffffffff :: u32) = NOT 0" by simp
  show ?thesis unfolding ones by (rule bit_word_eqI) (simp only: bit_xor_iff bit_not_iff_eq bit_0_eq, simp)
qed

section \<open>The zeros operator\<close>

text \<open>The matrix of a linear map lists the images of the 32 unit vectors.\<close>

definition matrix_of :: "(u32 \<Rightarrow> u32) \<Rightarrow> u32 list" where
  "matrix_of f = map (\<lambda>i. f (push_bit i 1)) [0..<32]"

lemma gf2_times_loop_matrix:
  assumes lin: "linear2 f"
  shows "k \<le> 32 \<Longrightarrow> (\<And>i. 32 - k \<le> i \<Longrightarrow> \<not> bit vec i) \<Longrightarrow>
    gf2_times_loop acc (map (\<lambda>i. f (push_bit i 1)) [k..<32]) vec = acc XOR f (push_bit k vec)"
proof (induction "32 - k" arbitrary: k acc vec)
  case 0
  then have "k = 32" by simp
  with "0.prems" have "vec = 0" by (auto intro: bit_eqI)
  with \<open>k = 32\<close> show ?case by (simp add: linear2_0 [OF lin])
next
  case (Suc m)
  then have k: "k < 32" and m: "m = 32 - Suc k" by simp_all
  have rows: "map (\<lambda>i. f (push_bit i 1)) [k..<32] =
      f (push_bit k 1) # map (\<lambda>i. f (push_bit i 1)) [Suc k..<32]"
    using k by (simp add: upt_conv_Cons)
  have split: "push_bit k vec =
      (if bit vec 0 then push_bit k 1 else 0) XOR push_bit (Suc k) (drop_bit 1 vec)"
  proof (rule bit_word_eqI)
    fix i
    assume "i < LENGTH(32)"
    show "bit (push_bit k vec) i =
      bit ((if bit vec 0 then push_bit k 1 else 0) XOR push_bit (Suc k) (drop_bit 1 vec)) i"
      by (cases "i - k") (auto simp: bit_xor_iff bit_push_bit_iff bit_drop_bit_eq bit_1_iff Suc_diff_Suc
        simp del: push_bit_Suc push_bit_of_1)
  qed
  show ?case
  proof (cases "vec = 0")
    case True
    then show ?thesis by (simp add: rows linear2_0 [OF lin] del: push_bit_of_1)
  next
    case False
    let ?acc = "if vec AND 1 \<noteq> 0 then acc XOR f (push_bit k 1) else acc"
    have "gf2_times_loop ?acc (map (\<lambda>i. f (push_bit i 1)) [Suc k..<32]) (drop_bit 1 vec) =
        ?acc XOR f (push_bit (Suc k) (drop_bit 1 vec))"
      using Suc.prems k m by (intro Suc.hyps(1)) (auto simp: bit_drop_bit_eq)
    moreover have "(vec AND 1 \<noteq> 0) = bit vec 0"
      by (simp add: and_one_eq bit_0 mod2_eq_if)
    ultimately show ?thesis
      using False
      by (simp add: rows split linear2D [OF lin] linear2_0 [OF lin] xor.assoc
        del: push_bit_Suc push_bit_of_1)
  qed
qed

lemma gf2_matrix_times_matrix: "linear2 f \<Longrightarrow> gf2_matrix_times (matrix_of f) vec = f vec"
  using gf2_times_loop_matrix [of f 0 vec 0] bit_imp_le_length [of vec]
  by (simp add: gf2_matrix_times_def matrix_of_def not_le [symmetric]) blast

lemma gf2_matrix_square_matrix:
  "linear2 f \<Longrightarrow> gf2_matrix_square (matrix_of f) = matrix_of (f \<circ> f)"
  by (simp add: gf2_matrix_square_def gf2_matrix_times_matrix) (simp add: matrix_of_def)

lemma zeros_op_init_matrix: "zeros_op_init = matrix_of crc_bit"
proof -
  have z: "crc_bit (push_bit (Suc n) 1) = push_bit n 1" if "Suc n < 32" for n
  proof -
    have "drop_bit 1 (push_bit (Suc n) (1 :: u32)) = push_bit n 1"
      using that by (auto intro!: bit_eqI simp: bit_drop_bit_eq bit_push_bit_iff bit_1_iff
        simp del: push_bit_Suc push_bit_of_1 dest: bit_imp_le_length)
    moreover have "\<not> bit (push_bit (Suc n) (1 :: u32)) 0"
      by (simp only: bit_push_bit_iff) simp
    ultimately show ?thesis by (simp add: crc_bit_alt del: push_bit_Suc push_bit_of_1)
  qed
  have "crc_bit (push_bit 0 1) = POLY" by (simp add: crc_bit_alt drop_bit_Suc)
  moreover have "map (\<lambda>n. push_bit (n - 1) 1) [1..<32] = map (\<lambda>i. crc_bit (push_bit i 1)) [1..<32]"
  proof (rule map_cong [OF refl])
    fix n :: nat
    assume "n \<in> set [1..<32]"
    then have "n = Suc (n - 1)" "n < 32" by simp_all
    then obtain k where "n = Suc k" "Suc k < 32" by metis
    then show "push_bit (n - 1) 1 = crc_bit (push_bit n 1)"
      using z [of k] by (simp del: push_bit_Suc push_bit_of_1)
  qed
  moreover have "[0..<32] = 0 # [1..<32]" by (simp add: upt_conv_Cons)
  ultimately show ?thesis
    by (simp only: zeros_op_init_def matrix_of_def list.map)
qed

lemma funpow_twice: "(f ^^ n) \<circ> (f ^^ n) = f ^^ (2 * n)"
  by (simp add: mult_2 funpow_add)

lemma zeros_op_loop_matrix:
  "linear2 f \<Longrightarrow> zeros_op_loop (matrix_of f) (2 ^ k) = matrix_of (f ^^ (2 ^ Suc k))"
proof (induction k arbitrary: f rule: induct_nat_012)
  case 0
  have "f \<circ> f = f ^^ 2" using funpow_twice [where f = f and n = 1] by simp
  with 0 show ?case
    by (subst zeros_op_loop.simps) (simp add: gf2_matrix_square_matrix)
next
  case 1
  have "f \<circ> f = f ^^ 2" using funpow_twice [where f = f and n = 1] by simp
  moreover have "(f ^^ 2) \<circ> (f ^^ 2) = f ^^ 4" using funpow_twice [where f = f and n = 2] by simp
  ultimately show ?case
    using 1 by (subst zeros_op_loop.simps)
      (simp add: gf2_matrix_square_matrix linear2_funpow del: funpow.simps)
next
  case (ge2 k)
  have "f \<circ> f = f ^^ 2" using funpow_twice [where f = f and n = 1] by simp
  moreover have "(f ^^ 2) \<circ> (f ^^ 2) = f ^^ 4" using funpow_twice [where f = f and n = 2] by simp
  moreover have "zeros_op_loop (matrix_of (f ^^ 4)) (2 ^ k) = matrix_of ((f ^^ 4) ^^ (2 ^ Suc k))"
    by (rule ge2.IH(1) [OF linear2_funpow [OF ge2.prems]])
  moreover have "(f ^^ 4) ^^ (2 ^ Suc k) = f ^^ (2 ^ Suc (Suc (Suc k)))"
    by (simp add: funpow_mult mult.commute)
  moreover have "(2 :: nat) ^ Suc (Suc k) div 2 = 2 ^ Suc k" "(2 :: nat) ^ Suc k div 2 = 2 ^ k"
    by simp_all
  ultimately show ?case
    using ge2.prems by (subst zeros_op_loop.simps)
      (simp add: gf2_matrix_square_matrix linear2_funpow Let_def del: funpow.simps power_Suc)
qed

lemma crc32c_zeros_op_pow: "crc32c_zeros_op (2 ^ k) = matrix_of (crc_bit ^^ (8 * 2 ^ k))"
proof -
  have "crc_bit \<circ> crc_bit = crc_bit ^^ 2" using funpow_twice [where f = crc_bit and n = 1] by simp
  moreover have "(crc_bit ^^ 2) \<circ> (crc_bit ^^ 2) = crc_bit ^^ 4"
    using funpow_twice [where f = crc_bit and n = 2] by simp
  moreover have "(crc_bit ^^ 4) ^^ (2 ^ Suc k) = crc_bit ^^ (8 * 2 ^ k)"
    by (simp add: funpow_mult mult.commute)
  ultimately show ?thesis
    using zeros_op_loop_matrix [OF linear2_crc [of 4], of k]
    by (simp add: crc32c_zeros_op_def zeros_op_init_matrix gf2_matrix_square_matrix
        linear2_crc_bit linear2_crc del: funpow.simps power_Suc)
qed

lemma zeros_table_nth:
  assumes "i < 4" and "n < 256"
  shows "crc32c_zeros (2 ^ k) ! i ! n = (crc_bit ^^ (8 * 2 ^ k)) (push_bit (8 * i) (of_nat n))"
  using assms
  by (simp add: crc32c_zeros_def crc32c_zeros_op_pow gf2_matrix_times_matrix [OF linear2_crc]
      Let_def)

lemma four_byte_split:
  "(x :: u32) = push_bit (8 * 0) (x AND 0xff) XOR push_bit (8 * 1) (drop_bit 8 x AND 0xff) XOR
     push_bit (8 * 2) (drop_bit 16 x AND 0xff) XOR push_bit (8 * 3) (drop_bit 24 x)"
proof -
  have split: "push_bit n (drop_bit n x) =
      push_bit n (drop_bit n x AND 0xff) XOR push_bit (n + 8) (drop_bit (n + 8) x)" for n
    using arg_cong [OF low_byte_split [of "drop_bit n x"], of "push_bit n"]
    by (simp add: push_bit_xor_word add.commute)
  have "x = (x AND 0xff) XOR push_bit 8 (drop_bit 8 x)" by (rule low_byte_split)
  also note split [of 8]
  also note split [of "8 + 8"]
  finally show ?thesis by (simp add: xor.assoc)
qed

lemma unat_high_byte: "unat (drop_bit 24 (x :: u32)) < 256"
proof -
  have "unat x < 4294967296" by (rule order_less_le_trans [OF unsigned_less]) simp
  then show ?thesis by (simp add: unsigned_drop_bit_eq drop_bit_eq_div unat_div)
qed

lemma crc32c_shift_eq: "crc32c_shift (crc32c_zeros (2 ^ k)) crc = (crc_bit ^^ (8 * 2 ^ k)) crc"
proof -
  let ?f = "crc_bit ^^ (8 * 2 ^ k)"
  have "?f crc = ?f (push_bit (8 * 0) (crc AND 0xff)) XOR ?f (push_bit (8 * 1) (drop_bit 8 crc AND 0xff))
      XOR ?f (push_bit (8 * 2) (drop_bit 16 crc AND 0xff)) XOR ?f (push_bit (8 * 3) (drop_bit 24 crc))"
    by (subst four_byte_split [of crc]) (simp only: linear2D [OF linear2_crc])
  then show ?thesis
    by (simp add: crc32c_shift_def zeros_table_nth unat_low_byte unat_high_byte ucast_id)
qed

section \<open>Combining CRCs\<close>

lemma crc_byte_linear: "crc_byte (a XOR c) b = (crc_bit ^^ 8) a XOR crc_byte c b"
proof -
  have "(a XOR c) XOR ucast b = a XOR (c XOR ucast b)" by (rule xor.assoc)
  then show ?thesis by (simp only: crc_byte_def linear2D [OF linear2_crc])
qed

lemma crc_bytes_linear:
  "crc_bytes (a XOR c) bs = (crc_bit ^^ (8 * length bs)) a XOR crc_bytes c bs"
proof (induction bs arbitrary: a c)
  case Nil
  then show ?case by simp
next
  case (Cons b bs)
  have "(crc_bit ^^ (8 * length bs)) ((crc_bit ^^ 8) a) = (crc_bit ^^ (8 * length (b # bs))) a"
    by (simp add: funpow_add comp_def funpow_swap1 del: funpow.simps flip: funpow_add)
      (metis add.commute comp_apply funpow_add)
  with Cons.IH [of "(crc_bit ^^ 8) a" "crc_byte c b"] show ?case
    by (simp add: crc_byte_linear)
qed

text \<open>The step that joins two lanes: shift the left CRC by the right block, then exclusive-or.\<close>

lemma crc_bytes_join:
  "crc_bytes (crc_bytes c xs) ys = (crc_bit ^^ (8 * length ys)) (crc_bytes c xs) XOR crc_bytes 0 ys"
  using crc_bytes_linear [of "crc_bytes c xs" 0 ys] by simp

section \<open>The x86 routine against the reference\<close>

text \<open>The documented behaviour of the SSE4.2 instructions: they advance the CRC in the low half
  of the register by one byte or by the eight bytes of the operand, and clear the high half.\<close>

locale crc32_instruction =
  fixes crc32b :: "u64 \<Rightarrow> u8 \<Rightarrow> u64"
    and crc32q :: "u64 \<Rightarrow> u8 list \<Rightarrow> u64"
  assumes crc32b: "crc32b c b = ucast (crc_byte (ucast c) b)"
    and crc32q: "length bs = 8 \<Longrightarrow> crc32q c bs = ucast (crc_bytes (ucast c) bs)"
begin

lemma leading:
  "x86_leading crc32b addr (ucast c) bs = (c', rest) \<Longrightarrow>
     \<exists>d. c' = ucast d \<and> crc_bytes d rest = crc_bytes c bs"
  by (induction bs arbitrary: addr c) (auto simp: crc32b split: if_splits)

lemma lanes:
  assumes "2 * blk + 8 * n \<le> length xs"
  shows "x86_lanes crc32q blk n (ucast a, ucast b, ucast c) xs =
    (ucast (crc_bytes a (take (8 * n) xs)),
     ucast (crc_bytes b (take (8 * n) (drop blk xs))),
     ucast (crc_bytes c (take (8 * n) (drop (2 * blk) xs))))"
  using assms
proof (induction n arbitrary: a b c xs)
  case 0
  then show ?case by simp
next
  case (Suc n)
  have first: "take (8 * Suc n) zs = take 8 zs @ take (8 * n) (drop 8 zs)" for zs :: "u8 list"
    by (simp add: take_add)
  have d: "drop 8 (drop m xs) = drop m (drop 8 xs)" for m
    by (simp add: add.commute)
  have len: "length (take 8 xs) = 8" "length (take 8 (drop blk xs)) = 8"
    "length (take 8 (drop (2 * blk) xs)) = 8" "2 * blk + 8 * n \<le> length (drop 8 xs)"
    using Suc.prems by auto
  show ?case
    by (simp only: x86_lanes.simps crc32q [OF len(1)] crc32q [OF len(2)] crc32q [OF len(3)]
        ucast_u64_u32 Suc.IH [OF len(4)] first crc_bytes_append d)
qed

lemma lane_join:
  "ucast (crc32c_shift (crc32c_zeros (2 ^ k)) (ucast (ucast (crc_bytes a xs) :: u64))) XOR
     ucast (crc_bytes 0 ys) = (ucast (crc_bytes (crc_bytes a xs) ys) :: u64)"
  if "length ys = 2 ^ k"
  using crc_bytes_join [of a xs ys] that by (simp add: crc32c_shift_eq ucast_xor_word)

lemma blocks:
  assumes blk: "blk = 2 ^ k" and d: "8 dvd blk"
  shows "x86_blocks crc32q (crc32c_zeros blk) blk (ucast c) xs = (c', rest) \<Longrightarrow>
    \<exists>d. c' = ucast d \<and> crc_bytes d rest = crc_bytes c xs"
proof (induction xs arbitrary: c rule: length_induct)
  case (1 xs)
  show ?case
  proof (cases "0 < blk \<and> 3 * blk \<le> length xs")
    case False
    with "1.prems" show ?thesis by (subst (asm) x86_blocks.simps) auto
  next
    case True
    let ?A = "take blk xs" and ?B = "take blk (drop blk xs)" and ?C = "take blk (drop (2 * blk) xs)"
    have eight: "8 * (blk div 8) = blk" using d by simp
    have len: "length ?A = 2 ^ k" "length ?B = 2 ^ k" "length ?C = 2 ^ k"
      using True by (simp_all add: blk)
    let ?c = "crc_bytes (crc_bytes (crc_bytes c ?A) ?B) ?C"
    have lanes': "x86_lanes crc32q blk (blk div 8) (ucast c, 0, 0) xs =
        (ucast (crc_bytes c ?A), ucast (crc_bytes 0 ?B), ucast (crc_bytes 0 ?C))"
      using lanes [of blk "blk div 8" xs c 0 0] True by (simp add: eight)
    have step: "x86_blocks crc32q (crc32c_zeros blk) blk (ucast c) xs =
        x86_blocks crc32q (crc32c_zeros blk) blk (ucast ?c) (drop (3 * blk) xs)"
      using True
      by (subst x86_blocks.simps)
        (simp only: simp_thms if_True lanes' prod.case Let_def blk [symmetric]
          lane_join [OF len(2), folded blk] lane_join [OF len(3), folded blk])
    have "xs = ?A @ ?B @ ?C @ drop (3 * blk) xs"
      by (metis append_take_drop_id drop_drop mult_2 numeral_3_eq_3 mult_Suc numeral_2_eq_2 add.commute)
    then have "crc_bytes c xs = crc_bytes ?c (drop (3 * blk) xs)"
      by (metis crc_bytes_append)
    moreover have "length (drop (3 * blk) xs) < length xs" using True by auto
    ultimately show ?thesis
      using "1.IH" [rule_format, of "drop (3 * blk) xs" ?c] "1.prems" step by simp
  qed
qed

lemma quads:
  "8 * n \<le> length xs \<Longrightarrow> x86_quads crc32q n (ucast c) xs = (c', rest) \<Longrightarrow>
     \<exists>d. c' = ucast d \<and> crc_bytes d rest = crc_bytes c xs"
proof (induction n arbitrary: c xs)
  case 0
  then show ?case by auto
next
  case (Suc n)
  have "crc_bytes (crc_bytes c (take 8 xs)) (drop 8 xs) = crc_bytes c xs"
    by (metis append_take_drop_id crc_bytes_append)
  moreover have "length (take 8 xs) = 8" "8 * n \<le> length (drop 8 xs)"
    using Suc.prems(1) by auto
  ultimately show ?case
    using Suc.IH [of "drop 8 xs" "crc_bytes c (take 8 xs)"] Suc.prems(2)
    by (simp add: crc32q)
qed

lemma trailing: "foldl crc32b (ucast c) xs = ucast (crc_bytes c xs)"
  by (induction xs arbitrary: c) (simp_all add: crc32b)

lemma x86_reference:
  "crc32c_x86 crc32b crc32q crc32c_init addr crc buf = crc32c_ref crc buf"
proof -
  obtain c1 r1 where 1: "x86_leading crc32b addr (ucast (crc XOR 0xffffffff)) buf = (c1, r1)"
    by fastforce
  then obtain d1 where d1: "c1 = ucast d1" "crc_bytes d1 r1 = crc_bytes (crc XOR 0xffffffff) buf"
    using leading by blast
  obtain c2 r2 where 2: "x86_blocks crc32q (crc32c_zeros LONG) LONG c1 r1 = (c2, r2)"
    by fastforce
  then obtain d2 where d2: "c2 = ucast d2" "crc_bytes d2 r2 = crc_bytes d1 r1"
    using blocks [of LONG 13 d1 r1 c2 r2] d1 by auto
  obtain c3 r3 where 3: "x86_blocks crc32q (crc32c_zeros SHORT) SHORT c2 r2 = (c3, r3)"
    by fastforce
  then obtain d3 where d3: "c3 = ucast d3" "crc_bytes d3 r3 = crc_bytes d2 r2"
    using blocks [of SHORT 8 d2 r2 c3 r3] d2 by auto
  obtain c4 r4 where 4: "x86_quads crc32q (length r3 div 8) c3 r3 = (c4, r4)"
    by fastforce
  then obtain d4 where d4: "c4 = ucast d4" "crc_bytes d4 r4 = crc_bytes d3 r3"
    using quads [of "length r3 div 8" r3 d3 c4 r4] d3 by auto
  show ?thesis
    using 1 2 3 4 d1 d2 d3 d4
    by (simp add: crc32c_x86_def crc32c_init_def trailing crc32c_ref_def not_xor_ones)
qed

end

text \<open>The instructions as the manual specifies them satisfy the laws.\<close>

definition crc32b_ref :: "u64 \<Rightarrow> u8 \<Rightarrow> u64" where
  "crc32b_ref c b = ucast (crc_byte (ucast c) b)"

definition crc32q_ref :: "u64 \<Rightarrow> u8 list \<Rightarrow> u64" where
  "crc32q_ref c bs = ucast (crc_bytes (ucast c) bs)"

interpretation sse42: crc32_instruction crc32b_ref crc32q_ref
  by unfold_locales (simp_all add: crc32b_ref_def crc32q_ref_def)

section \<open>The portable routine against the reference\<close>

lemma foldl_table_step: "foldl (crc32c_table_step crc32c_init) c bs = crc_bytes c bs"
  by (induction bs arbitrary: c) (simp_all add: table_step_eq)

text \<open>C18: once \<open>crc32c_init\<close> has built the tables, the table-driven \<open>crc32c\<close> of the portable build
  computes the bit-serial CRC-32C of the polynomial 0x82f63b78 with pre- and post-inversion, for
  every starting value and every buffer (the early return on an empty buffer included).\<close>

theorem crc32c_table_correct: "crc32c crc32c_init crc buf = crc32c_ref crc buf"
  by (simp add: crc32c_def crc32c_ref_def foldl_table_step not_xor_ones)

text \<open>The helper the properties below share.\<close>

lemma crc32c_eq: "crc32c crc32c_init crc buf = NOT (crc_bytes (NOT crc) buf)"
  by (simp add: crc32c_def foldl_table_step not_xor_ones)

text \<open>C16: for any instructions with the documented behaviour, the x86 build (byte alignment, three
  interleaved lanes of 8192 and 256 bytes joined with the GF(2) shift tables, quadwords, tail)
  returns the same digest as the portable build, at every buffer alignment and length.\<close>

theorem crc32c_x86_equivalent:
  assumes "crc32_instruction crc32b crc32q"
  shows "crc32c_x86 crc32b crc32q crc32c_init addr crc buf = crc32c crc32c_init crc buf"
  using crc32_instruction.x86_reference [OF assms] by (simp add: crc32c_eq crc32c_ref_def)

theorem crc32c_x86_equivalent_witness:
  "crc32c_x86 crc32b_ref crc32q_ref crc32c_init 3 0 [0x31, 0x32, 0x33] =
     crc32c crc32c_init 0 [0x31, 0x32, 0x33]"
  by (rule crc32c_x86_equivalent [OF sse42.crc32_instruction_axioms])

text \<open>The digest is incremental: feeding the result of one call into the next gives the digest
  of the concatenation, which is how the relay covers a data segment and its padding.\<close>

theorem crc32c_incremental:
  "crc32c crc32c_init (crc32c crc32c_init crc xs) ys = crc32c crc32c_init crc (xs @ ys)"
  by (simp add: crc32c_eq)

section \<open>What the digest detects\<close>

fun le_bytes :: "u8 list \<Rightarrow> u32" where
  "le_bytes [] = 0"
| "le_bytes (b # bs) = ucast b XOR push_bit 8 (le_bytes bs)"

lemma le_bytes_bound: "8 * length bs \<le> i \<Longrightarrow> \<not> bit (le_bytes bs) i"
proof (induction bs arbitrary: i)
  case Nil
  then show ?case by simp
next
  case (Cons b bs)
  have "\<not> bit b i" using Cons.prems bit_imp_le_length [of b i] by auto
  moreover have "\<not> bit (le_bytes bs) (i - 8)" using Cons.prems by (intro Cons.IH) simp
  ultimately show ?case by (simp add: bit_simps)
qed

lemma le_bytes_inj:
  "length xs = length ys \<Longrightarrow> length xs \<le> 4 \<Longrightarrow> le_bytes xs = le_bytes ys \<Longrightarrow> xs = ys"
proof (induction xs ys rule: list_induct2)
  case Nil
  then show ?case by simp
next
  case (Cons x xs y ys)
  have bits: "bit (ucast x XOR push_bit 8 (le_bytes xs) :: u32) i =
      bit (ucast y XOR push_bit 8 (le_bytes ys) :: u32) i" for i
    using Cons.prems by simp
  have "bit x i = bit y i" for i
    using bits [of i] bit_imp_le_length [of x i] bit_imp_le_length [of y i]
    by (cases "i < 8") (auto simp: bit_simps)
  then have "x = y" by (rule bit_eqI)
  moreover have "bit (le_bytes xs) i = bit (le_bytes ys) i" for i
    using bits [of "i + 8"] bit_imp_le_length [of x "i + 8"] bit_imp_le_length [of y "i + 8"]
      le_bytes_bound [of xs i] le_bytes_bound [of ys i] Cons.prems Cons.hyps
    by (cases "i < 24") (auto simp: bit_simps)
  then have "le_bytes xs = le_bytes ys" by (rule bit_eqI)
  ultimately show ?case using Cons by simp
qed

lemma crc_bytes_le:
  "length bs \<le> 4 \<Longrightarrow> crc_bytes c bs = (crc_bit ^^ (8 * length bs)) (c XOR le_bytes bs)"
proof (induction bs arbitrary: c)
  case Nil
  then show ?case by simp
next
  case (Cons b bs)
  have low: "(crc_bit ^^ 8) (push_bit 8 (le_bytes bs)) = le_bytes bs"
    using Cons.prems by (intro crc_bits_push le_bytes_bound) auto
  have "(crc_bit ^^ (8 * length (b # bs))) (c XOR le_bytes (b # bs)) =
      (crc_bit ^^ (8 * length bs)) ((crc_bit ^^ 8) ((c XOR ucast b) XOR push_bit 8 (le_bytes bs)))"
    by (simp add: funpow_add xor.assoc add.commute [of 8] del: funpow.simps)
  also have "\<dots> = (crc_bit ^^ (8 * length bs)) (crc_byte c b XOR le_bytes bs)"
    by (simp only: linear2D [OF linear2_crc] low crc_byte_def)
  finally show ?case using Cons by simp
qed

lemma crc_byte_inj: "crc_byte c b = crc_byte d b \<Longrightarrow> c = d"
proof -
  assume "crc_byte c b = crc_byte d b"
  then have "c XOR ucast b = d XOR ucast b"
    unfolding crc_byte_def by (rule injD [OF inj_crc_bits])
  then show "c = d" by (metis xor_xor_cancel xor_eq_0_iff xor_self_eq)
qed

lemma crc_bytes_inj: "crc_bytes c bs = crc_bytes d bs \<Longrightarrow> c = d"
  by (induction bs arbitrary: c d) (auto dest: crc_byte_inj)

lemma crc32c_burst:
  assumes "length xs = length ys" and "length xs \<le> 4" and "xs \<noteq> ys"
  shows "crc32c crc32c_init crc (pre @ xs @ post) \<noteq> crc32c crc32c_init crc (pre @ ys @ post)"
proof
  assume "crc32c crc32c_init crc (pre @ xs @ post) = crc32c crc32c_init crc (pre @ ys @ post)"
  then have "crc_bytes (crc_bytes (NOT crc) pre) xs = crc_bytes (crc_bytes (NOT crc) pre) ys"
    by (auto simp: crc32c_eq dest: crc_bytes_inj)
  then obtain c where "crc_bytes c xs = crc_bytes c ys" by blast
  then have "(crc_bit ^^ (8 * length ys)) (c XOR le_bytes xs) =
      (crc_bit ^^ (8 * length ys)) (c XOR le_bytes ys)"
    using assms by (simp add: crc_bytes_le)
  then have "c XOR le_bytes xs = c XOR le_bytes ys"
    by (rule injD [OF inj_crc_bits])
  then have "(c XOR c) XOR le_bytes xs = (c XOR c) XOR le_bytes ys"
    by (simp only: xor.assoc)
  then have "le_bytes xs = le_bytes ys" by simp
  with assms le_bytes_inj show False by blast
qed

text \<open>C19: a burst error of at most 32 bits never goes unnoticed: two messages that differ only
  inside a window of at most four bytes have different digests, wherever the window lies.\<close>

theorem crc32c_detects_burst:
  assumes "length xs = length ys" and "length xs \<le> 4" and "xs \<noteq> ys"
  shows "crc32c crc32c_init crc (pre @ xs @ post) \<noteq> crc32c crc32c_init crc (pre @ ys @ post)"
  using assms by (rule crc32c_burst)

theorem crc32c_detects_burst_witness:
  "crc32c crc32c_init 0 ([7] @ [1, 2, 3, 4] @ [9]) \<noteq> crc32c crc32c_init 0 ([7] @ [1, 0, 0, 5] @ [9])"
  by (rule crc32c_detects_burst) simp_all



text \<open>The check value of the CRC-32C catalogue, for the digits 1 to 9.\<close>

lemma crc_byte_unfold:
  "crc_byte c b =
     crc_bit (crc_bit (crc_bit (crc_bit (crc_bit (crc_bit (crc_bit (crc_bit (c XOR ucast b))))))))"
  by (simp add: crc_byte_def numeral_eq_Suc)

lemmas crc_eval = crc_byte_unfold crc_bit_alt [of "numeral k" for k] crc_bit_alt [of 0] crc_bit_alt [of 1]

lemma crc32c_check_value:
  "crc32c crc32c_init 0 [0x31, 0x32, 0x33, 0x34, 0x35, 0x36, 0x37, 0x38, 0x39] = 0xe3069283"
proof -
  have ones: "NOT 0 = (0xffffffff :: u32)" by simp
  show ?thesis unfolding crc32c_eq ones by (simp add: crc_eval)
qed

end
