(* ===== verification/World.thy ===== *)
theory World
  imports Prelude
begin

text \<open>
  The environment of the daemon: the operating system and IOKit as the sources see them.

  System calls, IOKit and CoreFoundation calls are not code of the repository. Each is a value of
  \<open>syscall\<close>; its result is drawn from the arbitrary function \<open>respond\<close>, a parameter of the model, and the pair is
  appended to a trace. So a theorem about the model holds for every behaviour of the system, and
  may speak of what was sent, closed or asked for. Errors of memory use that a C program would
  commit silently (a second \<open>free\<close>, a read through a dangling pointer) are recorded in \<open>faults\<close>.
\<close>

section \<open>Calls and results\<close>

datatype kfilter = EVFILT_READ | EVFILT_WRITE | EVFILT_OTHER

datatype kflag = EV_ADD | EV_CLEAR | EV_DISABLE | EV_ENABLE | EV_DELETE

record kchange =
  kc_ident :: int
  kc_filter :: kfilter
  kc_flags :: "kflag list"
  kc_udata :: "nat option"

text \<open>\<open>EV_SET\<close>.\<close>

definition EV_SET :: "int \<Rightarrow> kfilter \<Rightarrow> kflag list \<Rightarrow> nat option \<Rightarrow> kchange" where
  "EV_SET fd flt flags p = \<lparr> kc_ident = fd, kc_filter = flt, kc_flags = flags, kc_udata = p \<rparr>"

record kevent =
  ke_filter :: kfilter
  ke_eof :: bool
  ke_data :: nat
  ke_udata :: "nat option"

text \<open>\<open>struct sockaddr_storage\<close>: length, family, port in network byte order, remaining bytes.\<close>

record sockaddr_storage =
  ss_len :: u8
  ss_family :: nat
  ss_port :: u16
  ss_rest :: "u8 list"

abbreviation (input) AF_UNSPEC :: nat where "AF_UNSPEC \<equiv> 0"
abbreviation (input) AF_INET :: nat where "AF_INET \<equiv> 2"
abbreviation (input) AF_INET6 :: nat where "AF_INET6 \<equiv> 30"

datatype sockopt =
  TCP_NODELAY
| IPV6_BOUND_IF u32
| IP_BOUND_IF u32
| SO_RCVTIMEO nat

datatype syscall =
  SysKqueue
| SysClose int
| SysSocket nat
| SysGetFlags int
| SysSetFlags int u32
| SysSetCloexec int
| SysSetsockopt int sockopt
| SysGetSoError int
| SysIfNameToIndex string
| SysGetsockname int
| SysBind int sockaddr_storage
| SysConnect int sockaddr_storage
| SysKevent int "kchange list"
| SysKeventPoll int nat
| SysWrite int "u8 list"
| SysRead int nat
| SysSend int "u8 list"
| SysSendmsg int "u8 list list"
| SysRecv int nat
| SysAlloc nat
| SysRealloc nat
| SysIOConnect u32 nat "u64 list" "u8 list"
| SysIOServiceMatching string
| SysIOGetMatchingServices
| SysIOGetMatchingService
| SysIOIteratorNext
| SysIOObjectRelease u32
| SysIOServiceOpen u32
| SysIOServiceClose u32
| SysIOSetNotificationPort u32 u32
| SysMachPortAllocate
| SysMachPortDestroy u32
| SysCFMachPortCreate u32
| SysCFMachPortInvalidate u32
| SysCFRelease u32
| SysRunLoopSourceCreate u32
| SysRunLoopAddSource u32
| SysRunLoopRemoveSource u32
| SysFree
| SysPDUResponse u8 u32 "u8 list" "u8 list option"
| SysHBACallback u8 "u8 list"
| SysContextRetain
| SysContextRelease
| SysCFFileDescriptorEnable
| SysStack nat
| SysRandom
| SysGetaddrinfo "u8 list" "u8 list"
| SysFreeaddrinfo
| SysGetifaddrs
| SysFreeifaddrs

record sysret =
  sr_ret :: int
  sr_errno :: u32
  sr_bytes :: "u8 list"
  sr_words :: "u64 list"
  sr_size :: nat
  sr_kevents :: "kevent list"
  sr_addrs :: "(u8 list \<times> sockaddr_storage) list"

section \<open>The state of the environment\<close>

datatype fault = DoubleFree | UseAfterFree | OutOfBounds | NullDeref | BadObject

type_synonym event = "syscall \<times> sysret"

record world =
  respond :: "nat \<Rightarrow> sysret"
  clock :: nat
  trace :: "event list"
  faults :: "fault list"

definition sys :: "syscall \<Rightarrow> ('z world_scheme, sysret) state" where
  "sys c = State (\<lambda>w. let r = respond w (clock w) in
     (r, w\<lparr> clock := Suc (clock w), trace := trace w @ [(c, r)] \<rparr>))"

definition fault :: "fault \<Rightarrow> ('z world_scheme, unit) state" where
  "fault f = modify (\<lambda>w. w\<lparr> faults := faults w @ [f] \<rparr>)"

text \<open>The state after a call: the next answer and the state with the call on the trace.\<close>

definition answer :: "'z world_scheme \<Rightarrow> sysret" where
  "answer w = respond w (clock w)"

definition called :: "syscall \<Rightarrow> 'z world_scheme \<Rightarrow> 'z world_scheme" where
  "called c w = w\<lparr> clock := Suc (clock w), trace := trace w @ [(c, answer w)] \<rparr>"

lemma run_sys [simp, monad_simps]: "run_state (sys c) w = (answer w, called c w)"
  by (simp add: sys_def answer_def called_def Let_def)

lemma run_fault [simp, monad_simps]:
  "run_state (fault f) w = ((), w\<lparr> faults := faults w @ [f] \<rparr>)"
  by (simp add: fault_def)

lemma called_simps [simp]:
  "respond (called c w) = respond w"
  "clock (called c w) = Suc (clock w)"
  "trace (called c w) = trace w @ [(c, answer w)]"
  "faults (called c w) = faults w"
  by (simp_all add: called_def)

lemma more_called [simp]: "world.more (called c w) = world.more w"
  by (simp add: called_def)

section \<open>Results of the calls\<close>

text \<open>\<open>write\<close> and \<open>send\<close> accept a prefix of what they are given: the count they return is cut at
  the length of the data. \<open>Inl\<close> is a return value of -1 with its \<open>errno\<close>.\<close>

definition count_result :: "nat \<Rightarrow> sysret \<Rightarrow> errno_t + nat" where
  "count_result len r = (if sr_ret r < 0 then Inl (sr_errno r) else Inr (min len (nat (sr_ret r))))"

definition os_write :: "int \<Rightarrow> u8 list \<Rightarrow> ('z world_scheme, errno_t + nat) state" where
  "os_write fd data = do {
     r \<leftarrow> sys (SysWrite fd data);
     State_Monad.return (count_result (length data) r)
   }"

definition os_send :: "int \<Rightarrow> u8 list \<Rightarrow> ('z world_scheme, errno_t + nat) state" where
  "os_send fd data = do {
     r \<leftarrow> sys (SysSend fd data);
     State_Monad.return (count_result (length data) r)
   }"

text \<open>\<open>sendmsg\<close> gathers the pieces of its vector.\<close>

definition os_sendmsg :: "int \<Rightarrow> u8 list list \<Rightarrow> ('z world_scheme, errno_t + nat) state" where
  "os_sendmsg fd iov = do {
     r \<leftarrow> sys (SysSendmsg fd iov);
     State_Monad.return (count_result (length (concat iov)) r)
   }"

text \<open>\<open>read\<close> and \<open>recv\<close> deliver at most the number of bytes asked for.\<close>

definition bytes_result :: "nat \<Rightarrow> sysret \<Rightarrow> errno_t + u8 list" where
  "bytes_result len r = (if sr_ret r < 0 then Inl (sr_errno r) else Inr (take len (sr_bytes r)))"

definition os_read :: "int \<Rightarrow> nat \<Rightarrow> ('z world_scheme, errno_t + u8 list) state" where
  "os_read fd n = do {
     r \<leftarrow> sys (SysRead fd n);
     State_Monad.return (bytes_result n r)
   }"

definition os_recv :: "int \<Rightarrow> nat \<Rightarrow> ('z world_scheme, errno_t + u8 list) state" where
  "os_recv fd n = do {
     r \<leftarrow> sys (SysRecv fd n);
     State_Monad.return (bytes_result n r)
   }"

text \<open>Calls that only succeed or fail.\<close>

definition os_unit :: "syscall \<Rightarrow> ('z world_scheme, errno_t + unit) state" where
  "os_unit c = do {
     r \<leftarrow> sys c;
     State_Monad.return (if sr_ret r < 0 then Inl (sr_errno r) else Inr ())
   }"

definition os_close :: "int \<Rightarrow> ('z world_scheme, unit) state" where
  "os_close fd = do { sys (SysClose fd); State_Monad.return () }"

text \<open>\<open>malloc\<close> and \<open>calloc\<close>: true when memory was found.\<close>

definition os_alloc :: "nat \<Rightarrow> ('z world_scheme, bool) state" where
  "os_alloc n = do { r \<leftarrow> sys (SysAlloc n); State_Monad.return (0 \<le> sr_ret r) }"

section \<open>Heap buffers\<close>

text \<open>A pointer to a byte buffer: null, a live block with its contents, or the address of a block
  that was freed.\<close>

datatype cbuf = NULL | Mem "u8 list" | Freed

primrec contents :: "cbuf \<Rightarrow> u8 list" where
  "contents NULL = []"
| "contents (Mem bs) = bs"
| "contents Freed = []"

definition os_free :: "cbuf \<Rightarrow> ('z world_scheme, unit) state" where
  "os_free b = (case b of
     NULL \<Rightarrow> State_Monad.return ()
   | Mem _ \<Rightarrow> do { sys SysFree; State_Monad.return () }
   | Freed \<Rightarrow> fault DoubleFree)"

text \<open>\<open>realloc\<close> keeps the contents up to the new size. On success the old pointer is dangling.\<close>

definition os_realloc :: "cbuf \<Rightarrow> nat \<Rightarrow> ('z world_scheme, cbuf) state" where
  "os_realloc b n = do {
     (if b = Freed then fault UseAfterFree else State_Monad.return ());
     r \<leftarrow> sys (SysRealloc n);
     State_Monad.return (if sr_ret r < 0 then NULL else Mem (take n (contents b)))
   }"

text \<open>\<open>memcpy\<close> into a buffer at an offset.\<close>

definition poke :: "nat \<Rightarrow> u8 list \<Rightarrow> u8 list \<Rightarrow> u8 list" where
  "poke k xs bs = take k bs @ xs @ drop (k + length xs) bs"

lemma poke_append: "length bs = k \<Longrightarrow> poke k xs bs = bs @ xs"
  by (simp add: poke_def)

lemma take_poke: "k \<le> length bs \<Longrightarrow> take (k + length xs) (poke k xs bs) = take k bs @ xs"
  by (simp add: poke_def)

lemma length_poke: "k \<le> length bs \<Longrightarrow> k + length xs \<le> length (poke k xs bs)"
  by (simp add: poke_def)

section \<open>What went out on a descriptor\<close>

definition accepted :: "u8 list \<Rightarrow> sysret \<Rightarrow> u8 list" where
  "accepted data r = (if sr_ret r < 0 then [] else take (nat (sr_ret r)) data)"

fun wire_of :: "int \<Rightarrow> event \<Rightarrow> u8 list" where
  "wire_of fd (SysWrite fd' data, r) = (if fd' = fd then accepted data r else [])"
| "wire_of fd (SysSend fd' data, r) = (if fd' = fd then accepted data r else [])"
| "wire_of fd (SysSendmsg fd' iov, r) = (if fd' = fd then accepted (concat iov) r else [])"
| "wire_of fd _ = []"

definition wire :: "int \<Rightarrow> event list \<Rightarrow> u8 list" where
  "wire fd tr = concat (map (wire_of fd) tr)"

lemma wire_Nil [simp]: "wire fd [] = []"
  by (simp add: wire_def)

lemma wire_append [simp]: "wire fd (xs @ ys) = wire fd xs @ wire fd ys"
  by (simp add: wire_def)

lemma wire_Cons [simp]: "wire fd (e # tr) = wire_of fd e @ wire fd tr"
  by (simp add: wire_def)

lemma accepted_count:
  "accepted data r = (case count_result (length data) r of Inl _ \<Rightarrow> [] | Inr n \<Rightarrow> take n data)"
  by (simp add: accepted_def count_result_def min_def)

lemma count_result_le: "count_result len r = Inr n \<Longrightarrow> n \<le> len"
  by (auto simp: count_result_def split: if_splits)

lemma bytes_result_le: "bytes_result len r = Inr bs \<Longrightarrow> length bs \<le> len"
  by (auto simp: bytes_result_def split: if_splits)

text \<open>The descriptors a trace has closed.\<close>

fun closed_of :: "event \<Rightarrow> int list" where
  "closed_of (SysClose fd, r) = [fd]"
| "closed_of _ = []"

definition closed :: "event list \<Rightarrow> int list" where
  "closed tr = concat (map closed_of tr)"

lemma closed_Nil [simp]: "closed [] = []"
  by (simp add: closed_def)

lemma closed_append [simp]: "closed (xs @ ys) = closed xs @ closed ys"
  by (simp add: closed_def)

lemma closed_Cons [simp]: "closed (e # tr) = closed_of e @ closed tr"
  by (simp add: closed_def)

section \<open>Evaluating the calls\<close>

lemma run_os_write [monad_simps]:
  "run_state (os_write fd data) w =
     (count_result (length data) (answer w), called (SysWrite fd data) w)"
  by (simp add: os_write_def)

lemma run_os_send [monad_simps]:
  "run_state (os_send fd data) w =
     (count_result (length data) (answer w), called (SysSend fd data) w)"
  by (simp add: os_send_def)

lemma run_os_sendmsg [monad_simps]:
  "run_state (os_sendmsg fd iov) w =
     (count_result (length (concat iov)) (answer w), called (SysSendmsg fd iov) w)"
  by (simp add: os_sendmsg_def)

lemma run_os_read [monad_simps]:
  "run_state (os_read fd n) w = (bytes_result n (answer w), called (SysRead fd n) w)"
  by (simp add: os_read_def)

lemma run_os_recv [monad_simps]:
  "run_state (os_recv fd n) w = (bytes_result n (answer w), called (SysRecv fd n) w)"
  by (simp add: os_recv_def)

lemma run_os_unit [monad_simps]:
  "run_state (os_unit c) w =
     (if sr_ret (answer w) < 0 then Inl (sr_errno (answer w)) else Inr (), called c w)"
  by (simp add: os_unit_def)

lemma run_os_close [monad_simps]: "run_state (os_close fd) w = ((), called (SysClose fd) w)"
  by (simp add: os_close_def)

lemma run_os_alloc [monad_simps]:
  "run_state (os_alloc n) w = (0 \<le> sr_ret (answer w), called (SysAlloc n) w)"
  by (simp add: os_alloc_def)

lemma run_os_realloc [monad_simps]:
  "b \<noteq> Freed \<Longrightarrow> run_state (os_realloc b n) w =
     (if sr_ret (answer w) < 0 then NULL else Mem (take n (contents b)), called (SysRealloc n) w)"
  by (simp add: os_realloc_def)

lemma run_os_free [monad_simps]:
  "run_state (os_free NULL) w = ((), w)"
  "run_state (os_free (Mem bs)) w = ((), called SysFree w)"
  "run_state (os_free Freed) w = ((), w\<lparr> faults := faults w @ [DoubleFree] \<rparr>)"
  by (simp_all add: os_free_def)

text \<open>Invariants: a call keeps \<open>P\<close> when taking it does.\<close>

lemma preserves_sys: "(\<And>w. P w \<Longrightarrow> P (called c w)) \<Longrightarrow> preserves P (sys c)"
  by (simp add: preserves_def)

lemma preserves_os:
  "(\<And>w. P w \<Longrightarrow> P (called (SysWrite fd d) w)) \<Longrightarrow> preserves P (os_write fd d)"
  "(\<And>w. P w \<Longrightarrow> P (called (SysSend fd d) w)) \<Longrightarrow> preserves P (os_send fd d)"
  "(\<And>w. P w \<Longrightarrow> P (called (SysRead fd n) w)) \<Longrightarrow> preserves P (os_read fd n)"
  "(\<And>w. P w \<Longrightarrow> P (called (SysRecv fd n) w)) \<Longrightarrow> preserves P (os_recv fd n)"
  "(\<And>w. P w \<Longrightarrow> P (called (SysClose fd) w)) \<Longrightarrow> preserves P (os_close fd)"
  "(\<And>w. P w \<Longrightarrow> P (called (SysAlloc n) w)) \<Longrightarrow> preserves P (os_alloc n)"
  "(\<And>w. P w \<Longrightarrow> P (called c w)) \<Longrightarrow> preserves P (os_unit c)"
  by (simp_all add: preserves_def monad_simps)

lemma preserves_fault:
  "(\<And>w. P w \<Longrightarrow> P (w\<lparr> faults := faults w @ [f] \<rparr>)) \<Longrightarrow> preserves P (fault f)"
  by (simp add: preserves_def)

lemma preserves_case_cbuf [preserves_intros]:
  "(b = NULL \<Longrightarrow> preserves P m) \<Longrightarrow> (\<And>bs. b = Mem bs \<Longrightarrow> preserves P (f bs)) \<Longrightarrow>
     (b = Freed \<Longrightarrow> preserves P n) \<Longrightarrow>
     preserves P (case b of NULL \<Rightarrow> m | Mem bs \<Rightarrow> f bs | Freed \<Rightarrow> n)"
  by (cases b) simp_all

lemma preserves_case_kfilter [preserves_intros]:
  "(x = EVFILT_READ \<Longrightarrow> preserves P a) \<Longrightarrow> (x = EVFILT_WRITE \<Longrightarrow> preserves P b) \<Longrightarrow>
     (x = EVFILT_OTHER \<Longrightarrow> preserves P c) \<Longrightarrow>
     preserves P (case x of EVFILT_READ \<Rightarrow> a | EVFILT_WRITE \<Rightarrow> b | EVFILT_OTHER \<Rightarrow> c)"
  by (cases x) simp_all

lemma preserves_os_free:
  "(\<And>w. P w \<Longrightarrow> P (called SysFree w)) \<Longrightarrow> (\<And>w f. P w \<Longrightarrow> P (w\<lparr> faults := faults w @ [f] \<rparr>)) \<Longrightarrow>
     preserves P (os_free b)"
  unfolding os_free_def by (intro preserves_intros preserves_sys preserves_fault)

lemma preserves_os_realloc:
  "(\<And>w. P w \<Longrightarrow> P (called (SysRealloc n) w)) \<Longrightarrow>
     (\<And>w f. P w \<Longrightarrow> P (w\<lparr> faults := faults w @ [f] \<rparr>)) \<Longrightarrow> preserves P (os_realloc b n)"
  unfolding os_realloc_def by (intro preserves_intros preserves_sys preserves_fault)

lemmas preserves_calls = preserves_sys preserves_os preserves_fault preserves_os_free preserves_os_realloc

section \<open>A concrete world for examples\<close>

text \<open>\<open>world_of rs\<close> answers its calls from the list \<open>rs\<close>, then with success.\<close>

definition ret_ok :: sysret where
  "ret_ok = \<lparr> sr_ret = 0, sr_errno = 0, sr_bytes = [], sr_words = [], sr_size = 0, sr_kevents = [],
     sr_addrs = [] \<rparr>"

definition ret_int :: "int \<Rightarrow> sysret" where
  "ret_int n = ret_ok\<lparr> sr_ret := n \<rparr>"

definition ret_err :: "errno_t \<Rightarrow> sysret" where
  "ret_err e = ret_ok\<lparr> sr_ret := - 1, sr_errno := e \<rparr>"

definition ret_bytes :: "u8 list \<Rightarrow> sysret" where
  "ret_bytes bs = ret_ok\<lparr> sr_ret := int (length bs), sr_bytes := bs \<rparr>"

definition script :: "sysret list \<Rightarrow> nat \<Rightarrow> sysret" where
  "script rs n = (if n < length rs then rs ! n else ret_ok)"

lemmas script_simps = script_def ret_ok_def ret_int_def ret_err_def ret_bytes_def

end
