(* ===== verification/TcpEngine.thy ===== *)
theory TcpEngine
  imports World
begin

text \<open>
  The TCP engine: \<open>Source/User/iscsid/iSCSITCPEngine.c\<close>.

  Connection contexts live in a heap, since the daemon, the relay and the HBA interface share them
  by pointer. One definition per function of the file follows, with the system calls in the order
  the code makes them (logging is left out). Then the properties: bytes leave in the order they
  were given, what a full or a failing buffer does, and what the event loop tells its callback.
\<close>

section \<open>Connection contexts\<close>

abbreviation (input) kTCPEngineMaxConnections :: nat where "kTCPEngineMaxConnections \<equiv> 32"
abbreviation (input) kTCPEngineMaxDataSegment :: nat where "kTCPEngineMaxDataSegment \<equiv> 262144"

text \<open>\<open>peerAddr\<close> and \<open>userData\<close> are never read by the daemon and are left out.\<close>

record TCPConnectionContext =
  ctx_fd :: int
  ctx_connected :: bool
  ctx_connecting :: bool
  ctx_sessionId :: u8
  ctx_connectionId :: u32
  ctx_sendBuf :: cbuf
  ctx_sendLen :: nat
  ctx_sendOffset :: nat
  ctx_recvBuf :: cbuf
  ctx_recvLen :: nat
  ctx_recvAlloc :: nat

text \<open>\<open>memset\<close> to zero.\<close>

definition zero_ctx :: TCPConnectionContext where
  "zero_ctx = \<lparr> ctx_fd = 0, ctx_connected = False, ctx_connecting = False, ctx_sessionId = 0,
     ctx_connectionId = 0, ctx_sendBuf = NULL, ctx_sendLen = 0, ctx_sendOffset = 0,
     ctx_recvBuf = NULL, ctx_recvLen = 0, ctx_recvAlloc = 0 \<rparr>"

record tcp_world = world +
  ctxs :: "nat \<Rightarrow> TCPConnectionContext option"
  next_ctx :: nat

definition load_ctx :: "nat \<Rightarrow> ('z tcp_world_scheme, TCPConnectionContext) state" where
  "load_ctx p = do {
     c \<leftarrow> gets (\<lambda>w. ctxs w p);
     (case c of
        Some ctx \<Rightarrow> State_Monad.return ctx
      | None \<Rightarrow> do { fault UseAfterFree; State_Monad.return zero_ctx })
   }"

definition store_ctx :: "nat \<Rightarrow> TCPConnectionContext \<Rightarrow> ('z tcp_world_scheme, unit) state" where
  "store_ctx p c = modify (\<lambda>w. w\<lparr> ctxs := (ctxs w)(p \<mapsto> c) \<rparr>)"

text \<open>\<open>calloc\<close> and \<open>free\<close> of a context.\<close>

definition calloc_ctx :: "('z tcp_world_scheme, nat option) state" where
  "calloc_ctx = do {
     ok \<leftarrow> os_alloc 1;
     if ok then do {
       p \<leftarrow> gets next_ctx;
       modify (\<lambda>w. w\<lparr> ctxs := (ctxs w)(p \<mapsto> zero_ctx), next_ctx := Suc p \<rparr>);
       State_Monad.return (Some p)
     } else State_Monad.return None
   }"

definition free_ctx :: "nat \<Rightarrow> ('z tcp_world_scheme, unit) state" where
  "free_ctx p = do {
     c \<leftarrow> gets (\<lambda>w. ctxs w p);
     (case c of
        Some _ \<Rightarrow> modify (\<lambda>w. w\<lparr> ctxs := (ctxs w)(p := None) \<rparr>)
      | None \<Rightarrow> fault DoubleFree)
   }"

section \<open>Events\<close>

abbreviation (input) kTCPEventNone :: u32 where "kTCPEventNone \<equiv> 0"
abbreviation (input) kTCPEventConnected :: u32 where "kTCPEventConnected \<equiv> 1"
abbreviation (input) kTCPEventConnectFailed :: u32 where "kTCPEventConnectFailed \<equiv> 2"
abbreviation (input) kTCPEventDataAvailable :: u32 where "kTCPEventDataAvailable \<equiv> 4"
abbreviation (input) kTCPEventDisconnected :: u32 where "kTCPEventDisconnected \<equiv> 8"
abbreviation (input) kTCPEventCanSend :: u32 where "kTCPEventCanSend \<equiv> 16"

section \<open>Sockets\<close>

definition set_nonblocking :: "int \<Rightarrow> ('z world_scheme, errno_t) state" where
  "set_nonblocking fd = do {
     flags \<leftarrow> sys (SysGetFlags fd);
     if sr_ret flags = - 1 then State_Monad.return (sr_errno flags)
     else do {
       r \<leftarrow> sys (SysSetFlags fd (word_of_int (sr_ret flags) OR 4));
       State_Monad.return (if sr_ret r = - 1 then sr_errno r else 0)
     }
   }"

definition set_nodelay :: "int \<Rightarrow> ('z world_scheme, errno_t) state" where
  "set_nodelay fd = do {
     r \<leftarrow> sys (SysSetsockopt fd TCP_NODELAY);
     State_Monad.return (if sr_ret r = - 1 then sr_errno r else 0)
   }"

definition TCPEngineCreate :: "('z world_scheme, int) state" where
  "TCPEngineCreate = do { r \<leftarrow> sys SysKqueue; State_Monad.return (sr_ret r) }"

definition TCPEngineDestroy :: "int \<Rightarrow> ('z world_scheme, unit) state" where
  "TCPEngineDestroy kq = (if 0 \<le> kq then os_close kq else State_Monad.return ())"

text \<open>The result is the error and, on success, the value stored in \<open>*outFd\<close>. \<open>has_out\<close> is
  whether \<open>outFd\<close> is a non-null pointer.\<close>

definition TCPEngineCreateSocket :: "bool \<Rightarrow> ('z world_scheme, errno_t \<times> int option) state" where
  "TCPEngineCreateSocket has_out =
     (if \<not> has_out then State_Monad.return (EINVAL, None)
      else do {
        r6 \<leftarrow> sys (SysSocket AF_INET6);
        r \<leftarrow> (if sr_ret r6 < 0 then sys (SysSocket AF_INET) else State_Monad.return r6);
        if sr_ret r < 0 then State_Monad.return (sr_errno r, None)
        else do {
          let fd = sr_ret r;
          err \<leftarrow> set_nonblocking fd;
          if err \<noteq> 0 then do { os_close fd; State_Monad.return (err, None) }
          else do {
            err \<leftarrow> set_nodelay fd;
            if err \<noteq> 0 then do { os_close fd; State_Monad.return (err, None) }
            else do {
              sys (SysSetCloexec fd);
              State_Monad.return (0, Some fd)
            }
          }
        }
      })"

text \<open>The build for macOS, where both \<open>IP_BOUND_IF\<close> options exist. \<open>sr_size\<close> of \<open>getsockname\<close>
  is the address family.\<close>

definition TCPEngineBindToInterface :: "int \<Rightarrow> string option \<Rightarrow> ('z world_scheme, errno_t) state" where
  "TCPEngineBindToInterface fd ifName =
     (case ifName of
        None \<Rightarrow> State_Monad.return 0
      | Some name \<Rightarrow> do {
          r \<leftarrow> sys (SysIfNameToIndex name);
          let ifIndex = (of_int (sr_ret r) :: u32);
          if ifIndex = 0 then State_Monad.return ENXIO
          else do {
            a \<leftarrow> sys (SysGetsockname fd);
            (if sr_ret a = 0 then
               if sr_size a = AF_INET6 then do { sys (SysSetsockopt fd (IPV6_BOUND_IF ifIndex)); State_Monad.return () }
               else if sr_size a = AF_INET then do { sys (SysSetsockopt fd (IP_BOUND_IF ifIndex)); State_Monad.return () }
               else State_Monad.return ()
             else State_Monad.return ());
            State_Monad.return 0
          }
        })"

text \<open>\<open>htons\<close> on a little-endian host.\<close>

definition htons :: "u16 \<Rightarrow> u16" where
  "htons p = push_bit 8 p OR drop_bit 8 p"

text \<open>The port is written into the caller's address, which the result returns.\<close>

definition TCPEngineConnect ::
  "int \<Rightarrow> sockaddr_storage option \<Rightarrow> u16 \<Rightarrow> ('z world_scheme, errno_t \<times> sockaddr_storage option) state" where
  "TCPEngineConnect fd addr port =
     (case addr of
        None \<Rightarrow> State_Monad.return (EINVAL, None)
      | Some a \<Rightarrow>
          if ss_family a = AF_INET \<or> ss_family a = AF_INET6 then do {
            let a = a\<lparr> ss_port := htons port \<rparr>;
            r \<leftarrow> sys (SysConnect fd a);
            State_Monad.return
              (if sr_ret r = 0 then (0, Some a)
               else if sr_errno r = EINPROGRESS then (EINPROGRESS, Some a)
               else (sr_errno r, Some a))
          }
          else State_Monad.return (EAFNOSUPPORT, Some a))"

section \<open>The kqueue\<close>

definition TCPEngineAddSocket ::
  "int \<Rightarrow> int \<Rightarrow> u8 \<Rightarrow> u32 \<Rightarrow> nat option \<Rightarrow> ('z tcp_world_scheme, errno_t) state" where
  "TCPEngineAddSocket kq fd sessionId connectionId ctx =
     (case ctx of
        None \<Rightarrow> State_Monad.return EINVAL
      | Some p \<Rightarrow> do {
          store_ctx p (zero_ctx\<lparr> ctx_fd := fd, ctx_sessionId := sessionId,
                                 ctx_connectionId := connectionId \<rparr>);
          r \<leftarrow> sys (SysKevent kq
                 [EV_SET fd EVFILT_READ [EV_ADD, EV_CLEAR] (Some p),
                  EV_SET fd EVFILT_WRITE [EV_ADD, EV_CLEAR, EV_DISABLE] (Some p)]);
          State_Monad.return (if sr_ret r = - 1 then sr_errno r else 0)
        })"

definition TCPEngineRemoveSocket :: "int \<Rightarrow> int \<Rightarrow> ('z world_scheme, errno_t) state" where
  "TCPEngineRemoveSocket kq fd = do {
     sys (SysKevent kq [EV_SET fd EVFILT_READ [EV_DELETE] None]);
     sys (SysKevent kq [EV_SET fd EVFILT_WRITE [EV_DELETE] None]);
     State_Monad.return 0
   }"

definition TCPEngineUpdateFilters ::
  "int \<Rightarrow> int \<Rightarrow> bool \<Rightarrow> bool \<Rightarrow> ('z world_scheme, errno_t) state" where
  "TCPEngineUpdateFilters kq fd readEnable writeEnable = do {
     r \<leftarrow> sys (SysKevent kq
            [EV_SET fd EVFILT_READ [if readEnable then EV_ENABLE else EV_DISABLE] None,
             EV_SET fd EVFILT_WRITE [if writeEnable then EV_ENABLE else EV_DISABLE] None]);
     State_Monad.return (if sr_ret r = - 1 then sr_errno r else 0)
   }"

section \<open>Sending\<close>

text \<open>The direct write: \<open>Inl err\<close> when the function returns there (0 when everything went out),
  \<open>Inr rest\<close> when \<open>rest\<close> is left for the send buffer.\<close>

definition send_direct ::
  "TCPConnectionContext \<Rightarrow> u8 list \<Rightarrow> ('z world_scheme, errno_t + u8 list) state" where
  "send_direct ctx data =
     (if ctx_sendLen ctx = 0 \<and> ctx_connected ctx then do {
        sent \<leftarrow> os_write (ctx_fd ctx) data;
        State_Monad.return
          (case sent of
             Inr n \<Rightarrow> (if 0 < n then if n = length data then Inl 0 else Inr (drop n data)
                       else Inr data)
           | Inl e \<Rightarrow> (if e \<noteq> EAGAIN then Inl e else Inr data))
      }
      else State_Monad.return (Inr data))"

definition TCPEngineSend ::
  "nat option \<Rightarrow> u8 list option \<Rightarrow> ('z tcp_world_scheme, errno_t) state" where
  "TCPEngineSend ctx data =
     (case (ctx, data) of
        (Some p, Some bytes) \<Rightarrow> do {
          c \<leftarrow> load_ctx p;
          r \<leftarrow> send_direct c bytes;
          (case r of
             Inl err \<Rightarrow> State_Monad.return err
           | Inr rest \<Rightarrow> do {
               let newLen = ctx_sendLen c + length rest;
               if kTCPEngineMaxDataSegment < newLen then State_Monad.return ENOMEM
               else do {
                 newBuf \<leftarrow> os_realloc (ctx_sendBuf c) newLen;
                 (case newBuf of
                    Mem bs \<Rightarrow> do {
                      store_ctx p (c\<lparr> ctx_sendBuf := Mem (poke (ctx_sendLen c) rest bs),
                                      ctx_sendLen := newLen \<rparr>);
                      State_Monad.return 0
                    }
                  | _ \<Rightarrow> State_Monad.return ENOMEM)
               }
             })
        }
      | _ \<Rightarrow> State_Monad.return EINVAL)"

section \<open>The event loop\<close>

text \<open>The read branch. The block \<open>realloc\<close> returns is stored in the context only when \<open>read\<close>
  delivered bytes; until then \<open>ctx->recvBuf\<close> is the pointer \<open>realloc\<close> took.\<close>

definition process_read :: "nat \<Rightarrow> kevent \<Rightarrow> ('z tcp_world_scheme, u32) state" where
  "process_read p ev = do {
     c \<leftarrow> load_ctx p;
     let newAlloc = min (ctx_recvAlloc c + ke_data ev + 4096) (kTCPEngineMaxDataSegment * 4);
     newBuf \<leftarrow> os_realloc (ctx_recvBuf c) newAlloc;
     (case newBuf of
        Mem bs \<Rightarrow> do {
          let old = (if ctx_recvBuf c = NULL then NULL else Freed);
          nRead \<leftarrow> os_read (ctx_fd c) (newAlloc - ctx_recvLen c);
          (case nRead of
             Inr got \<Rightarrow>
               if got \<noteq> [] then do {
                 store_ctx p (c\<lparr> ctx_recvBuf := Mem (poke (ctx_recvLen c) got bs),
                                 ctx_recvLen := ctx_recvLen c + length got,
                                 ctx_recvAlloc := newAlloc \<rparr>);
                 State_Monad.return kTCPEventDataAvailable
               }
               else do {
                 os_free (Mem bs);
                 os_free old;
                 store_ctx p (c\<lparr> ctx_recvBuf := NULL, ctx_recvLen := 0, ctx_recvAlloc := 0 \<rparr>);
                 State_Monad.return (kTCPEventDataAvailable OR kTCPEventDisconnected)
               }
           | Inl e \<Rightarrow> do {
               os_free (Mem bs);
               store_ctx p (c\<lparr> ctx_recvBuf := old \<rparr>);
               State_Monad.return kTCPEventDataAvailable
             })
        }
      | _ \<Rightarrow> State_Monad.return kTCPEventDataAvailable)
   }"

text \<open>The write branch when the connection is up: flush the send buffer.\<close>

definition process_flush :: "int \<Rightarrow> nat \<Rightarrow> ('z tcp_world_scheme, u32) state" where
  "process_flush kq p = do {
     c \<leftarrow> load_ctx p;
     if ctx_sendOffset c < ctx_sendLen c then do {
       nWritten \<leftarrow> os_write (ctx_fd c)
          (take (ctx_sendLen c - ctx_sendOffset c) (drop (ctx_sendOffset c) (contents (ctx_sendBuf c))));
       (case nWritten of
          Inr n \<Rightarrow>
            if 0 < n then
              if ctx_sendLen c \<le> ctx_sendOffset c + n then do {
                os_free (ctx_sendBuf c);
                store_ctx p (c\<lparr> ctx_sendBuf := NULL, ctx_sendLen := 0, ctx_sendOffset := 0 \<rparr>);
                TCPEngineUpdateFilters kq (ctx_fd c) True False;
                State_Monad.return kTCPEventCanSend
              }
              else do {
                store_ctx p (c\<lparr> ctx_sendOffset := ctx_sendOffset c + n \<rparr>);
                State_Monad.return kTCPEventNone
              }
            else State_Monad.return kTCPEventNone
        | Inl e \<Rightarrow> State_Monad.return (if e \<noteq> EAGAIN then kTCPEventDisconnected else kTCPEventNone))
     }
     else State_Monad.return kTCPEventNone
   }"

text \<open>The write branch while the connection is not up: the outcome of \<open>connect\<close>. The code leaves
  the iteration with \<open>continue\<close>, so the mask it has computed is \<open>None\<close> here: nothing is called.\<close>

definition process_connected :: "int \<Rightarrow> nat \<Rightarrow> ('z tcp_world_scheme, unit) state" where
  "process_connected kq p = do {
     c \<leftarrow> load_ctx p;
     r \<leftarrow> sys (SysGetSoError (ctx_fd c));
     if sr_ret r = 0 \<and> sr_errno r = 0 then do {
       store_ctx p (c\<lparr> ctx_connected := True \<rparr>);
       TCPEngineUpdateFilters kq (ctx_fd c) True False;
       State_Monad.return ()
     }
     else store_ctx p (c\<lparr> ctx_connected := False \<rparr>)
   }"

text \<open>The mask one event produces, or \<open>None\<close> where the loop continues without calling back.\<close>

definition event_mask :: "int \<Rightarrow> kevent \<Rightarrow> nat \<Rightarrow> ('z tcp_world_scheme, u32 option) state" where
  "event_mask kq ev p =
     (if ke_eof ev then State_Monad.return (Some kTCPEventDisconnected)
      else case ke_filter ev of
        EVFILT_READ \<Rightarrow> do { m \<leftarrow> process_read p ev; State_Monad.return (Some m) }
      | EVFILT_WRITE \<Rightarrow> do {
          c \<leftarrow> load_ctx p;
          if \<not> ctx_connected c \<and> \<not> ctx_connecting c
          then do { process_connected kq p; State_Monad.return None }
          else do { m \<leftarrow> process_flush kq p; State_Monad.return (Some m) }
        }
      | EVFILT_OTHER \<Rightarrow> State_Monad.return (Some kTCPEventNone))"

definition process_event ::
  "int \<Rightarrow> (nat \<Rightarrow> u32 \<Rightarrow> ('z tcp_world_scheme, unit) state) \<Rightarrow> kevent \<Rightarrow> ('z tcp_world_scheme, unit) state" where
  "process_event kq callback ev =
     (case ke_udata ev of
        None \<Rightarrow> State_Monad.return ()
      | Some p \<Rightarrow> do {
          mask \<leftarrow> event_mask kq ev p;
          (case mask of
             None \<Rightarrow> State_Monad.return ()
           | Some m \<Rightarrow> if m \<noteq> kTCPEventNone then callback p m else State_Monad.return ())
        })"

definition TCPEngineProcessEvents ::
  "int \<Rightarrow> (nat \<Rightarrow> u32 \<Rightarrow> ('z tcp_world_scheme, unit) state) option \<Rightarrow> ('z tcp_world_scheme, errno_t) state" where
  "TCPEngineProcessEvents kq callback =
     (case callback of
        None \<Rightarrow> State_Monad.return EINVAL
      | Some cb \<Rightarrow> do {
          r \<leftarrow> sys (SysKeventPoll kq kTCPEngineMaxConnections);
          if sr_ret r = - 1 then State_Monad.return (if sr_errno r = EINTR then 0 else sr_errno r)
          else do {
            for_each (take kTCPEngineMaxConnections (sr_kevents r)) (process_event kq cb);
            State_Monad.return 0
          }
        })"

section \<open>Closing\<close>

definition TCPEngineCloseConnection :: "nat option \<Rightarrow> ('z tcp_world_scheme, unit) state" where
  "TCPEngineCloseConnection ctx =
     (case ctx of
        None \<Rightarrow> State_Monad.return ()
      | Some p \<Rightarrow> do {
          c \<leftarrow> load_ctx p;
          (if 0 \<le> ctx_fd c then os_close (ctx_fd c) else State_Monad.return ());
          os_free (ctx_sendBuf c);
          os_free (ctx_recvBuf c);
          store_ctx p (c\<lparr> ctx_fd := (if 0 \<le> ctx_fd c then - 1 else ctx_fd c),
                          ctx_sendBuf := NULL, ctx_sendLen := 0, ctx_sendOffset := 0,
                          ctx_recvBuf := NULL, ctx_recvLen := 0, ctx_recvAlloc := 0,
                          ctx_connected := False, ctx_connecting := False \<rparr>)
        })"

section \<open>Evaluation\<close>

lemma run_load_ctx: "ctxs w p = Some c \<Longrightarrow> run_state (load_ctx p) w = (c, w)"
  by (simp add: load_ctx_def)

lemma run_store_ctx [monad_simps]:
  "run_state (store_ctx p c) w = ((), w\<lparr> ctxs := (ctxs w)(p \<mapsto> c) \<rparr>)"
  by (simp add: store_ctx_def)

lemma called_ctxs [simp]: "ctxs (called c w) = ctxs w" "next_ctx (called c w) = next_ctx w"
  by (simp_all add: called_def)

lemma answer_ctxs [simp]: "answer (w\<lparr> ctxs := h \<rparr>) = answer w"
  by (simp add: answer_def)

lemmas engine_defs = TCPEngineSend_def send_direct_def TCPEngineUpdateFilters_def process_flush_def
  process_read_def process_connected_def

section \<open>A sender of bytes in order\<close>

text \<open>What the relay needs of the engine: an accepted send appends its bytes to the stream, a refused
  one appends at most a prefix of them, and draining moves bytes without changing the stream.\<close>

locale byte_stream =
  fixes send :: "'s \<Rightarrow> u8 list \<Rightarrow> errno_t \<times> 's"
    and drain :: "'s \<Rightarrow> 's"
    and stream :: "'s \<Rightarrow> u8 list"
    and ok :: "'s \<Rightarrow> bool"
  assumes send_keeps: "ok s \<Longrightarrow> ok (snd (send s d))"
    and send_accepts: "ok s \<Longrightarrow> fst (send s d) = 0 \<Longrightarrow> stream (snd (send s d)) = stream s @ d"
    and send_refuses: "ok s \<Longrightarrow> fst (send s d) \<noteq> 0 \<Longrightarrow>
      \<exists>k \<le> length d. stream (snd (send s d)) = stream s @ take k d"
    and drain_keeps: "ok s \<Longrightarrow> ok (drain s)"
    and drain_stream: "ok s \<Longrightarrow> stream (drain s) = stream s"
begin

text \<open>The pattern of every sender in the daemon: send piece after piece, return the first error.\<close>

primrec send_all :: "'s \<Rightarrow> u8 list list \<Rightarrow> errno_t \<times> 's" where
  "send_all s [] = (0, s)"
| "send_all s (d # ds) =
     (let (err, s') = send s d in if err \<noteq> 0 then (err, s') else send_all s' ds)"

lemma send_all_keeps: "ok s \<Longrightarrow> ok (snd (send_all s ds))"
proof (induction ds arbitrary: s)
  case (Cons d ds)
  then show ?case using send_keeps [of s d] by (auto simp: split_beta)
qed simp

lemma send_all_accepts:
  "ok s \<Longrightarrow> fst (send_all s ds) = 0 \<Longrightarrow> stream (snd (send_all s ds)) = stream s @ concat ds"
proof (induction ds arbitrary: s)
  case (Cons d ds)
  then show ?case
    using send_keeps [of s d] send_accepts [of s d] by (auto simp: split_beta split: if_splits)
qed simp

lemma send_all_prefix:
  "ok s \<Longrightarrow> \<exists>k. stream (snd (send_all s ds)) = stream s @ take k (concat ds)"
proof (induction ds arbitrary: s)
  case Nil
  then show ?case by simp
next
  case (Cons d ds)
  show ?case
  proof (cases "fst (send s d) = 0")
    case True
    then obtain k where "stream (snd (send_all s (d # ds))) = (stream s @ d) @ take k (concat ds)"
      using Cons.IH [of "snd (send s d)"] Cons.prems send_keeps [of s d] send_accepts [of s d]
      by (auto simp: split_beta)
    then show ?thesis by (intro exI [of _ "length d + k"]) simp
  next
    case False
    then obtain k where "k \<le> length d" "stream (snd (send s d)) = stream s @ take k d"
      using send_refuses Cons.prems by blast
    then show ?thesis using False by (intro exI [of _ k]) (simp add: split_beta)
  qed
qed

text \<open>Sends and drains in any order: if every send was accepted, the stream is the payloads in order.\<close>

primrec run_ops :: "'s \<Rightarrow> u8 list option list \<Rightarrow> errno_t list \<times> 's" where
  "run_ops s [] = ([], s)"
| "run_ops s (a # ops) =
     (case a of
        None \<Rightarrow> run_ops (drain s) ops
      | Some d \<Rightarrow> (let (err, s') = send s d; (errs, s'') = run_ops s' ops in (err # errs, s'')))"

primrec payloads :: "u8 list option list \<Rightarrow> u8 list" where
  "payloads [] = []"
| "payloads (a # ops) = (case a of None \<Rightarrow> [] | Some d \<Rightarrow> d) @ payloads ops"

lemma run_ops_stream:
  "ok s \<Longrightarrow> set (fst (run_ops s ops)) \<subseteq> {0} \<Longrightarrow>
     ok (snd (run_ops s ops)) \<and> stream (snd (run_ops s ops)) = stream s @ payloads ops"
proof (induction ops arbitrary: s)
  case (Cons a ops)
  show ?case
  proof (cases a)
    case None
    then show ?thesis
      using Cons.IH [of "drain s"] Cons.prems drain_keeps [of s] drain_stream [of s] by simp
  next
    case (Some d)
    then show ?thesis
      using Cons.IH [of "snd (send s d)"] Cons.prems send_keeps [of s d] send_accepts [of s d]
      by (simp add: split_beta)
  qed
qed simp

end

section \<open>The engine as a byte stream\<close>

text \<open>The invariant of the send buffer, the bytes not yet written, and the stream of a connection:
  what its socket has accepted, then what is buffered.\<close>

definition send_ok :: "TCPConnectionContext \<Rightarrow> bool" where
  "send_ok c \<longleftrightarrow> ctx_sendBuf c \<noteq> Freed \<and> length (contents (ctx_sendBuf c)) = ctx_sendLen c \<and>
     ctx_sendOffset c \<le> ctx_sendLen c \<and> ctx_sendLen c \<le> kTCPEngineMaxDataSegment"

definition pending :: "TCPConnectionContext \<Rightarrow> u8 list" where
  "pending c = drop (ctx_sendOffset c) (contents (ctx_sendBuf c))"

definition tcp_stream :: "nat \<Rightarrow> 'z tcp_world_scheme \<Rightarrow> u8 list" where
  "tcp_stream p w =
     (case ctxs w p of None \<Rightarrow> [] | Some c \<Rightarrow> wire (ctx_fd c) (trace w) @ pending c)"

text \<open>A failing call of the system sets a nonzero \<open>errno\<close>.\<close>

definition errno_set :: "'z world_scheme \<Rightarrow> bool" where
  "errno_set w \<longleftrightarrow> (\<forall>n. sr_ret (respond w n) < 0 \<longrightarrow> sr_errno (respond w n) \<noteq> 0)"

definition tcp_ok :: "nat \<Rightarrow> 'z tcp_world_scheme \<Rightarrow> bool" where
  "tcp_ok p w \<longleftrightarrow> errno_set w \<and> (case ctxs w p of None \<Rightarrow> False | Some c \<Rightarrow> send_ok c)"

definition tcp_send :: "nat \<Rightarrow> 'z tcp_world_scheme \<Rightarrow> u8 list \<Rightarrow> errno_t \<times> 'z tcp_world_scheme" where
  "tcp_send p w d = run_state (TCPEngineSend (Some p) (Some d)) w"

definition tcp_drain :: "int \<Rightarrow> nat \<Rightarrow> 'z tcp_world_scheme \<Rightarrow> 'z tcp_world_scheme" where
  "tcp_drain kq p w = snd (run_state (process_flush kq p) w)"

lemma errno_setD: "errno_set w \<Longrightarrow> sr_ret (answer w) < 0 \<Longrightarrow> sr_errno (answer w) \<noteq> 0"
  by (simp add: errno_set_def answer_def)

lemma errno_set_upd [simp]:
  "errno_set (called c w) = errno_set w"
  "errno_set (w\<lparr> ctxs := h \<rparr>) = errno_set w"
  by (simp_all add: errno_set_def)

lemma wire_write [simp]: "wire_of fd (SysWrite fd d, r) = accepted d r"
  by simp

text \<open>What the direct write does to the wire, on each of its outcomes.\<close>

lemma send_direct_spec:
  assumes run: "run_state (send_direct c d) w = (r, w')" and "errno_set w"
  shows "ctxs w' = ctxs w \<and> errno_set w' \<and>
    (case r of
       Inl e \<Rightarrow> wire (ctx_fd c) (trace w') = wire (ctx_fd c) (trace w) @ (if e = 0 then d else [])
         \<and> (ctx_sendLen c = 0)
     | Inr rest \<Rightarrow> wire (ctx_fd c) (trace w') @ rest = wire (ctx_fd c) (trace w) @ d
         \<and> (ctx_sendLen c = 0 \<or> w' = w \<and> rest = d) \<and>
         (\<exists>k. rest = drop k d \<and> wire (ctx_fd c) (trace w') = wire (ctx_fd c) (trace w) @ take k d))"
proof (cases "ctx_sendLen c = 0 \<and> ctx_connected c")
  case False
  then show ?thesis
    using assms by (auto simp: send_direct_def intro!: exI [of _ 0])
next
  case True
  have acc: "accepted d (answer w) =
      (case count_result (length d) (answer w) of Inl _ \<Rightarrow> [] | Inr n \<Rightarrow> take n d)"
    by (rule accepted_count)
  show ?thesis
  proof (cases "count_result (length d) (answer w)")
    case (Inl e)
    then have "e \<noteq> 0"
      using errno_setD [of w] \<open>errno_set w\<close> by (auto simp: count_result_def split: if_splits)
    with Inl True assms acc show ?thesis
      by (auto simp: send_direct_def run_os_write split: if_splits intro!: exI [of _ 0])
  next
    case (Inr n)
    then have "n \<le> length d" by (rule count_result_le)
    with Inr True assms acc show ?thesis
      by (auto simp: send_direct_def run_os_write split: if_splits intro!: exI [of _ n])
  qed
qed

lemma send_ok_bufferD:
  assumes "send_ok c"
  shows "ctx_sendBuf c \<noteq> Freed" "length (contents (ctx_sendBuf c)) = ctx_sendLen c"
    "ctx_sendOffset c \<le> ctx_sendLen c" "ctx_sendLen c \<le> 262144"
  using assms by (auto simp: send_ok_def)

text \<open>Appending to the send buffer.\<close>

lemma send_ok_buffered:
  assumes "send_ok c" and "ctx_sendLen c + length rest \<le> 262144"
  defines "c' \<equiv> c\<lparr> ctx_sendBuf := Mem (poke (ctx_sendLen c) rest
      (take (ctx_sendLen c + length rest) (contents (ctx_sendBuf c)))),
      ctx_sendLen := ctx_sendLen c + length rest \<rparr>"
  shows "send_ok c'" and "pending c' = pending c @ rest" and "ctx_fd c' = ctx_fd c"
  using assms by (auto simp: send_ok_def pending_def poke_append)

lemma tcp_send_result:
  assumes c: "ctxs w p = Some c" and ok: "send_ok c" and errno: "errno_set w"
    and run: "run_state (TCPEngineSend (Some p) (Some d)) w = (err, w')"
  shows "\<exists>c' k. ctxs w' = (ctxs w)(p \<mapsto> c') \<and> send_ok c' \<and> ctx_fd c' = ctx_fd c \<and> errno_set w' \<and>
    (if err = 0 then wire (ctx_fd c) (trace w') @ pending c' = wire (ctx_fd c) (trace w) @ pending c @ d
     else wire (ctx_fd c) (trace w') @ pending c' = wire (ctx_fd c) (trace w) @ pending c @ take k d)"
proof -
  obtain r w1 where d: "run_state (send_direct c d) w = (r, w1)" by fastforce
  note spec = send_direct_spec [OF d errno]
  note buf = send_ok_bufferD [OF ok]
  have empty: "pending c = []" if "ctx_sendLen c = 0" using that buf by (simp add: pending_def)
  have id: "(ctxs w)(p \<mapsto> c) = ctxs w" using c by auto
  show ?thesis
  proof (cases r)
    case (Inl e)
    then have "err = e" "w' = w1"
      using run c d by (simp_all add: TCPEngineSend_def run_load_ctx)
    then show ?thesis
      using Inl spec empty ok id by (intro exI [of _ c] exI [of _ 0]) auto
  next
    case (Inr rest)
    from Inr spec obtain k where k: "rest = drop k d"
      "wire (ctx_fd c) (trace w1) = wire (ctx_fd c) (trace w) @ take k d"
      by auto
    have refused: ?thesis if "err = ENOMEM" "ctxs w' = ctxs w" "trace w' = trace w1 \<or>
        (\<exists>n a. trace w' = trace w1 @ [(SysRealloc n, a)])" "errno_set w'"
      using that Inr spec k empty ok id by (intro exI [of _ c] exI [of _ "k"]) auto
    show ?thesis
    proof (cases "262144 < ctx_sendLen c + length rest")
      case True
      then have "err = ENOMEM" "w' = w1"
        using run c d Inr by (simp_all add: TCPEngineSend_def run_load_ctx)
      with spec show ?thesis by (intro refused) simp_all
    next
      case False
      show ?thesis
      proof (cases "sr_ret (answer w1) < 0")
        case True
        then have "err = ENOMEM" "w' = called (SysRealloc (ctx_sendLen c + length rest)) w1"
          using run c d Inr False buf
          by (simp_all add: TCPEngineSend_def run_load_ctx run_os_realloc Let_def)
        with spec show ?thesis by (intro refused) simp_all
      next
        case fine: False
        let ?c = "c\<lparr> ctx_sendBuf := Mem (poke (ctx_sendLen c) rest
          (take (ctx_sendLen c + length rest) (contents (ctx_sendBuf c)))),
          ctx_sendLen := ctx_sendLen c + length rest \<rparr>"
        have res: "err = 0" "w' = (called (SysRealloc (ctx_sendLen c + length rest)) w1)
            \<lparr> ctxs := (ctxs w1)(p \<mapsto> ?c) \<rparr>"
          using run c d Inr False buf fine
          by (simp_all add: TCPEngineSend_def run_load_ctx run_os_realloc Let_def monad_simps)
        note new = send_ok_buffered [OF ok, of rest]
        show ?thesis
          using Inr spec k empty False new res
          by (intro exI [of _ ?c] exI [of _ 0]) auto
      qed
    qed
  qed
qed

lemma flush_result:
  assumes c: "ctxs w p = Some c" and ok: "send_ok c"
    and run: "run_state (process_flush kq p) w = (m, w')"
  shows "\<exists>c'. ctxs w' = (ctxs w)(p \<mapsto> c') \<and> send_ok c' \<and> ctx_fd c' = ctx_fd c \<and>
    (errno_set w' = errno_set w) \<and>
    wire (ctx_fd c) (trace w') @ pending c' = wire (ctx_fd c) (trace w) @ pending c \<and>
    (m = kTCPEventCanSend \<longrightarrow> pending c' = [])"
proof (cases "ctx_sendOffset c < ctx_sendLen c")
  case False
  then show ?thesis
    using run c ok by (intro exI [of _ c]) (auto simp: process_flush_def run_load_ctx)
next
  case True
  note buf = send_ok_bufferD [OF ok]
  let ?d = "take (ctx_sendLen c - ctx_sendOffset c) (drop (ctx_sendOffset c) (contents (ctx_sendBuf c)))"
  have d: "?d = pending c" and len: "length (pending c) = ctx_sendLen c - ctx_sendOffset c"
    using buf by (simp_all add: pending_def)
  obtain bs where "ctx_sendBuf c = Mem bs"
    using buf True by (cases "ctx_sendBuf c") auto
  then have free: "run_state (os_free (ctx_sendBuf c)) v = ((), called SysFree v)"
    for v :: "'a tcp_world_scheme"
    by (simp add: run_os_free)
  have acc: "accepted (pending c) (answer w) =
      (case count_result (length (pending c)) (answer w) of Inl _ \<Rightarrow> [] | Inr n \<Rightarrow> take n (pending c))"
    by (rule accepted_count)
  show ?thesis
  proof (cases "count_result (length (pending c)) (answer w)")
    case (Inl e)
    then show ?thesis
      using run c ok True acc
      by (intro exI [of _ c]) (auto simp: process_flush_def run_load_ctx d run_os_write Let_def
        split: if_splits)
  next
    case (Inr n)
    then have n: "n \<le> ctx_sendLen c - ctx_sendOffset c" using count_result_le len by metis
    consider "n = 0" | "0 < n" "n = ctx_sendLen c - ctx_sendOffset c"
      | "0 < n" "n < ctx_sendLen c - ctx_sendOffset c"
      using n by linarith
    then show ?thesis
    proof cases
      case 1
      then show ?thesis
        using run c ok True acc Inr
        by (intro exI [of _ c]) (auto simp: process_flush_def run_load_ctx d run_os_write Let_def)
    next
      case 2
      let ?c = "c\<lparr> ctx_sendBuf := NULL, ctx_sendLen := 0, ctx_sendOffset := 0 \<rparr>"
      have "ctx_sendLen c \<le> ctx_sendOffset c + n" using 2 by linarith
      moreover have "send_ok ?c" "pending ?c = []" by (simp_all add: send_ok_def pending_def)
      ultimately show ?thesis
        using run c ok True acc Inr 2 free len
        by (intro exI [of _ ?c])
          (auto simp: process_flush_def run_load_ctx d Let_def monad_simps TCPEngineUpdateFilters_def)
    next
      case 3
      let ?c = "c\<lparr> ctx_sendOffset := ctx_sendOffset c + n \<rparr>"
      have "\<not> ctx_sendLen c \<le> ctx_sendOffset c + n" using 3 by linarith
      moreover have "send_ok ?c" using ok 3 by (auto simp: send_ok_def)
      moreover have "pending ?c = drop n (pending c)" by (simp add: pending_def add.commute)
      ultimately show ?thesis
        using run c ok True acc Inr 3
        by (intro exI [of _ ?c]) (auto simp: process_flush_def run_load_ctx d Let_def monad_simps)
    qed
  qed
qed

interpretation tcp: byte_stream "tcp_send p" "tcp_drain kq p" "tcp_stream p" "tcp_ok p"
  for p kq
proof
  fix s :: "'z tcp_world_scheme" and d :: "u8 list"
  assume ok: "tcp_ok p s"
  then obtain c where c: "ctxs s p = Some c" "send_ok c" and e: "errno_set s"
    by (auto simp: tcp_ok_def split: option.splits)
  obtain err w' where run: "run_state (TCPEngineSend (Some p) (Some d)) s = (err, w')" by fastforce
  from tcp_send_result [OF c e run] obtain c' k where r:
    "ctxs w' = (ctxs s)(p \<mapsto> c')" "send_ok c'" "ctx_fd c' = ctx_fd c" "errno_set w'"
    "if err = 0 then wire (ctx_fd c) (trace w') @ pending c' = wire (ctx_fd c) (trace s) @ pending c @ d
     else wire (ctx_fd c) (trace w') @ pending c' = wire (ctx_fd c) (trace s) @ pending c @ take k d"
    by blast
  show "tcp_ok p (snd (tcp_send p s d))"
    using r by (simp add: tcp_ok_def tcp_send_def run)
  show "fst (tcp_send p s d) = 0 \<Longrightarrow> tcp_stream p (snd (tcp_send p s d)) = tcp_stream p s @ d"
    using r c by (simp add: tcp_stream_def tcp_send_def run)
  show "fst (tcp_send p s d) \<noteq> 0 \<Longrightarrow>
      \<exists>k\<le>length d. tcp_stream p (snd (tcp_send p s d)) = tcp_stream p s @ take k d"
    using r c by (intro exI [of _ "min k (length d)"]) (simp add: tcp_stream_def tcp_send_def run min_def)
next
  fix s :: "'z tcp_world_scheme"
  assume ok: "tcp_ok p s"
  then obtain c where c: "ctxs s p = Some c" "send_ok c" and e: "errno_set s"
    by (auto simp: tcp_ok_def split: option.splits)
  obtain m w' where run: "run_state (process_flush kq p) s = (m, w')" by fastforce
  from flush_result [OF c run] obtain c' where r: "ctxs w' = (ctxs s)(p \<mapsto> c')" "send_ok c'"
    "ctx_fd c' = ctx_fd c" "errno_set w' = errno_set s"
    "wire (ctx_fd c) (trace w') @ pending c' = wire (ctx_fd c) (trace s) @ pending c"
    by blast
  show "tcp_ok p (tcp_drain kq p s)"
    using r e by (simp add: tcp_ok_def tcp_drain_def run)
  show "tcp_stream p (tcp_drain kq p s) = tcp_stream p s"
    using r c by (simp add: tcp_stream_def tcp_drain_def run)
qed

section \<open>A world with one connection, for the examples\<close>

definition demo_world :: "TCPConnectionContext \<Rightarrow> sysret list \<Rightarrow> tcp_world" where
  "demo_world c rs = \<lparr> respond = script rs, clock = 0, trace = [], faults = [],
     ctxs = (\<lambda>p. if p = 0 then Some c else None), next_ctx = 1 \<rparr>"

definition demo_ctx :: TCPConnectionContext where
  "demo_ctx = zero_ctx\<lparr> ctx_fd := 5, ctx_connected := True \<rparr>"

lemmas demo_simps = demo_world_def demo_ctx_def zero_ctx_def script_simps answer_def called_def
  count_result_def bytes_result_def

lemma script_errno: 
  "list_all (\<lambda>r. sr_ret r < 0 \<longrightarrow> sr_errno r \<noteq> 0) rs \<Longrightarrow> errno_set (demo_world c rs)"
  by (auto simp: errno_set_def demo_world_def script_def ret_ok_def list_all_length)

section \<open>Properties\<close>

text \<open>C1: bytes are neither lost, duplicated nor reordered. Take any sequence of sends and of
  writable events on one connection; if every send returned 0, then what the socket has accepted
  followed by what is still buffered is the earlier stream followed by the payloads in order, even
  though each write may be partial or refused with EAGAIN.\<close>

theorem tcp_stream_in_order:
  assumes "tcp_ok p w" and "set (fst (tcp.run_ops p kq w ops)) \<subseteq> {0}"
  shows "tcp_stream p (snd (tcp.run_ops p kq w ops)) = tcp_stream p w @ tcp.payloads ops"
  using tcp.run_ops_stream [OF assms] by blast

theorem tcp_stream_in_order_witness:
  "tcp_stream 0 (snd (tcp.run_ops 0 9 (demo_world demo_ctx [ret_int 2]) [Some [1, 2, 3], None])) = [1, 2, 3]"
proof -
  have "tcp_ok 0 (demo_world demo_ctx [ret_int 2])"
    by (simp add: tcp_ok_def script_errno ret_int_def ret_ok_def)
      (simp add: demo_world_def send_ok_def demo_ctx_def zero_ctx_def)
  moreover have "set (fst (tcp.run_ops 0 9 (demo_world demo_ctx [ret_int 2]) [Some [1, 2, 3], None])) \<subseteq> {0}"
    by (simp add: tcp_send_def TCPEngineSend_def run_load_ctx demo_simps send_direct_def monad_simps run_os_realloc)
  ultimately show ?thesis using tcp_stream_in_order [of 0 "demo_world demo_ctx [ret_int 2]" 9 "[Some [1,2,3], None]"]
    by (simp add: tcp_stream_def pending_def demo_world_def demo_ctx_def zero_ctx_def)
qed


section \<open>The write filter\<close>

text \<open>A change list that enables \<open>EVFILT_WRITE\<close>, and a trace with no such change.\<close>

fun enables_write :: "event \<Rightarrow> bool" where
  "enables_write (SysKevent kq cs, r) =
     list_ex (\<lambda>k. kc_filter k = EVFILT_WRITE \<and> EV_ENABLE \<in> set (kc_flags k)) cs"
| "enables_write _ = False"

definition write_stays_off :: "'z world_scheme \<Rightarrow> bool" where
  "write_stays_off w \<longleftrightarrow> list_all (\<lambda>e. \<not> enables_write e) (trace w)"

text \<open>What the daemon does with the engine: register and remove sockets, send, close, and run the event
  loop with a callback that does any of these.\<close>

inductive engine_run :: "tcp_world \<Rightarrow> tcp_world \<Rightarrow> bool" where
  idle: "engine_run w w"
| add: "engine_run w (snd (run_state (TCPEngineAddSocket kq fd sid cid p) v))" if "engine_run w v"
| remove: "engine_run w (snd (run_state (TCPEngineRemoveSocket kq fd) v))" if "engine_run w v"
| send: "engine_run w (snd (run_state (TCPEngineSend p d) v))" if "engine_run w v"
| close: "engine_run w (snd (run_state (TCPEngineCloseConnection p) v))" if "engine_run w v"
| events: "engine_run w (snd (run_state (TCPEngineProcessEvents kq (Some cb)) v))"
    if "engine_run w v" and "\<forall>p m u. engine_run u (snd (run_state (cb p m) u))"

lemma write_off_called [simp]:
  "write_stays_off (called c w) \<longleftrightarrow> write_stays_off w \<and> \<not> enables_write (c, answer w)"
  "write_stays_off (w\<lparr> faults := fs \<rparr>) = write_stays_off w"
  by (auto simp: write_stays_off_def)

lemma write_off_ctxs [simp]: "write_stays_off (w\<lparr> ctxs := h \<rparr>) = write_stays_off w"
  by (simp add: write_stays_off_def)

lemma write_off_basic:
  "preserves write_stays_off (load_ctx p)"
  "preserves write_stays_off (store_ctx p c :: ('z tcp_world_scheme, unit) state)"
  "preserves write_stays_off (os_realloc b n)"
  "preserves write_stays_off (os_free b)"
  "preserves write_stays_off (os_write fd d)"
  "preserves write_stays_off (os_read fd k)"
  "preserves write_stays_off (os_close fd)"
  unfolding load_ctx_def store_ctx_def
  by (intro preserves_intros preserves_calls preserves_modify; simp)+

lemma write_off_update: "preserves write_stays_off (TCPEngineUpdateFilters kq fd b False)"
  unfolding TCPEngineUpdateFilters_def
  by (intro preserves_intros preserves_calls; simp add: EV_SET_def)

lemmas write_off_intros = preserves_intros write_off_basic write_off_update

lemma write_off_add: "preserves write_stays_off (TCPEngineAddSocket kq fd sid cid p)"
  unfolding TCPEngineAddSocket_def
  by (intro write_off_intros preserves_sys; simp add: EV_SET_def)

lemma write_off_remove: "preserves write_stays_off (TCPEngineRemoveSocket kq fd)"
  unfolding TCPEngineRemoveSocket_def
  by (intro write_off_intros preserves_sys; simp add: EV_SET_def)

lemma write_off_send: "preserves write_stays_off (TCPEngineSend p d)"
  unfolding TCPEngineSend_def send_direct_def
  by (intro write_off_intros)

lemma write_off_close: "preserves write_stays_off (TCPEngineCloseConnection p)"
  unfolding TCPEngineCloseConnection_def
  by (intro write_off_intros)

lemma write_off_mask: "preserves write_stays_off (event_mask kq ev p)"
  unfolding event_mask_def process_read_def process_flush_def process_connected_def
  by (intro write_off_intros preserves_sys; simp)

lemma write_off_events:
  assumes "\<And>p m. preserves write_stays_off (cb p m)"
  shows "preserves write_stays_off (TCPEngineProcessEvents kq (Some cb))"
  unfolding TCPEngineProcessEvents_def process_event_def option.case
  by (intro write_off_intros preserves_sys write_off_mask assms; simp)



section \<open>What the event loop reports\<close>

text \<open>C38: the outcome of a connection attempt is never reported. When the socket of a context that is
  neither connected nor connecting becomes writable, the loop reads \<open>SO_ERROR\<close> and records it in
  the context, but leaves with \<open>continue\<close>: whatever callback is installed, it is not called, so
  \<open>kTCPEventConnected\<close> and \<open>kTCPEventConnectFailed\<close> are never delivered.\<close>

theorem tcp_connect_outcome_unreported:
  assumes "ctxs w p = Some c" and "\<not> ctx_connected c" and "\<not> ctx_connecting c"
    and "ke_udata ev = Some p" and "\<not> ke_eof ev" and "ke_filter ev = EVFILT_WRITE"
  shows "run_state (process_event kq cb ev) w = run_state (process_connected kq p) w \<and>
    ctxs (snd (run_state (process_event kq cb ev) w)) p =
      Some (c\<lparr> ctx_connected := (sr_ret (answer w) = 0 \<and> sr_errno (answer w) = 0) \<rparr>)"
proof -
  have run: "run_state (process_event kq cb ev) w = run_state (process_connected kq p) w"
    using assms by (simp add: process_event_def event_mask_def run_load_ctx split: prod.split)
  moreover have "ctxs (snd (run_state (process_event kq cb ev) w)) p =
      Some (c\<lparr> ctx_connected := (sr_ret (answer w) = 0 \<and> sr_errno (answer w) = 0) \<rparr>)"
    using assms
    by (simp add: run process_connected_def run_load_ctx TCPEngineUpdateFilters_def monad_simps)
  ultimately show ?thesis ..
qed

definition demo_event :: "kfilter \<Rightarrow> nat \<Rightarrow> kevent" where
  "demo_event f n = \<lparr> ke_filter = f, ke_eof = False, ke_data = n, ke_udata = Some 0 \<rparr>"

theorem tcp_connect_outcome_unreported_witness:
  "ctxs (snd (run_state (process_event 9 (\<lambda>p m. fault NullDeref) (demo_event EVFILT_WRITE 0))
     (demo_world zero_ctx [ret_int 0]))) 0 = Some (zero_ctx\<lparr> ctx_connected := True \<rparr>)"
proof -
  have "ctxs (snd (run_state (process_event 9 (\<lambda>p m. fault NullDeref) (demo_event EVFILT_WRITE 0))
      (demo_world zero_ctx [ret_int 0]))) 0 =
    Some (zero_ctx\<lparr> ctx_connected := (sr_ret (answer (demo_world zero_ctx [ret_int 0])) = 0 \<and>
      sr_errno (answer (demo_world zero_ctx [ret_int 0])) = 0) \<rparr>)"
    by (rule tcp_connect_outcome_unreported [THEN conjunct2])
      (simp_all add: demo_world_def demo_event_def, simp_all add: zero_ctx_def)
  then show ?thesis by (simp add: demo_world_def script_simps answer_def)
qed

section \<open>Receiving\<close>

text \<open>The invariant of the receive buffer and the bytes it holds.\<close>

definition recv_ok :: "TCPConnectionContext \<Rightarrow> bool" where
  "recv_ok c \<longleftrightarrow> ctx_recvBuf c \<noteq> Freed \<and> ctx_recvLen c \<le> length (contents (ctx_recvBuf c)) \<and>
     length (contents (ctx_recvBuf c)) \<le> ctx_recvAlloc c \<and>
     ctx_recvAlloc c \<le> kTCPEngineMaxDataSegment * 4"

definition received :: "TCPConnectionContext \<Rightarrow> u8 list" where
  "received c = take (ctx_recvLen c) (contents (ctx_recvBuf c))"

text \<open>The two answers a readable event consumes: those of \<open>realloc\<close> and of \<open>read\<close>.\<close>

definition second_answer :: "'z world_scheme \<Rightarrow> sysret" where
  "second_answer w = respond w (Suc (clock w))"

lemma answer_called [simp]: "answer (called c w) = second_answer w"
  by (simp add: answer_def second_answer_def)

text \<open>The size the read branch asks \<open>realloc\<close> for, and how much it then asks \<open>read\<close> for.\<close>

definition recv_room :: "TCPConnectionContext \<Rightarrow> kevent \<Rightarrow> nat" where
  "recv_room c ev = min (ctx_recvAlloc c + ke_data ev + 4096) (kTCPEngineMaxDataSegment * 4)"

lemma recv_room_ge: "recv_ok c \<Longrightarrow> ctx_recvAlloc c \<le> recv_room c ev"
  by (auto simp: recv_ok_def recv_room_def)

lemma take_recv_room: "recv_ok c \<Longrightarrow> take (recv_room c ev) (contents (ctx_recvBuf c)) = contents (ctx_recvBuf c)"
  using recv_room_ge [of c ev] by (simp add: recv_ok_def)

lemma run_process_read:
  assumes "ctxs w p = Some c" and "recv_ok c" and "0 \<le> sr_ret (answer w)"
  shows "run_state (process_read p ev) w =
    (let w1 = called (SysRealloc (recv_room c ev)) w;
         old = (if ctx_recvBuf c = NULL then NULL else Freed);
         w2 = called (SysRead (ctx_fd c) (recv_room c ev - ctx_recvLen c)) w1
     in case bytes_result (recv_room c ev - ctx_recvLen c) (second_answer w) of
          Inr got \<Rightarrow>
            if got \<noteq> [] then
              (kTCPEventDataAvailable, w2\<lparr> ctxs := (ctxs w)(p \<mapsto>
                 c\<lparr> ctx_recvBuf := Mem (poke (ctx_recvLen c) got (contents (ctx_recvBuf c))),
                    ctx_recvLen := ctx_recvLen c + length got, ctx_recvAlloc := recv_room c ev \<rparr>) \<rparr>)
            else (kTCPEventDataAvailable OR kTCPEventDisconnected,
              (snd (run_state (os_free old) (called SysFree w2)))\<lparr> ctxs := (ctxs w)(p \<mapsto>
                 c\<lparr> ctx_recvBuf := NULL, ctx_recvLen := 0, ctx_recvAlloc := 0 \<rparr>) \<rparr>)
        | Inl e \<Rightarrow> (kTCPEventDataAvailable,
            (called SysFree w2)\<lparr> ctxs := (ctxs w)(p \<mapsto> c\<lparr> ctx_recvBuf := old \<rparr>) \<rparr>))"
proof -
  have "ctx_recvBuf c \<noteq> Freed" using assms(2) by (simp add: recv_ok_def)
  moreover note take_recv_room [OF assms(2), of ev, unfolded recv_room_def]
  ultimately show ?thesis
    using assms(1,3)
    by (cases "ctx_recvBuf c")
      (auto simp: process_read_def run_load_ctx run_os_realloc recv_room_def Let_def monad_simps
        split: sum.split)
qed

text \<open>C28: received bytes accumulate in order. When a readable event delivers bytes, the context holds
  the earlier bytes followed by the new ones, and its buffer stays within the 1 MiB cap.\<close>

theorem tcp_receive_in_order:
  assumes "ctxs w p = Some c" and "recv_ok c" and "0 \<le> sr_ret (answer w)"
    and "bytes_result (recv_room c ev - ctx_recvLen c) (second_answer w) = Inr got" and "got \<noteq> []"
  shows "\<exists>c'. ctxs (snd (run_state (process_read p ev) w)) p = Some c' \<and> recv_ok c' \<and>
    received c' = received c @ got"
proof -
  let ?b = "poke (ctx_recvLen c) got (contents (ctx_recvBuf c))"
  let ?c = "c\<lparr> ctx_recvBuf := Mem ?b, ctx_recvLen := ctx_recvLen c + length got,
      ctx_recvAlloc := recv_room c ev \<rparr>"
  have "length got \<le> recv_room c ev - ctx_recvLen c"
    using assms(4) by (rule bytes_result_le)
  then have "recv_ok ?c"
    using assms(2) recv_room_ge [OF assms(2), of ev] \<open>got \<noteq> []\<close>
    by (auto simp: recv_ok_def poke_def recv_room_def)
  moreover have "received ?c = received c @ got"
    using assms(2) by (auto simp: received_def recv_ok_def take_poke)
  moreover have "ctxs (snd (run_state (process_read p ev) w)) p = Some ?c"
    using assms by (simp add: run_process_read Let_def)
  ultimately show ?thesis by blast
qed

theorem tcp_receive_in_order_witness:
  "\<exists>c'. ctxs (snd (run_state (process_read 0 (demo_event EVFILT_READ 2))
      (demo_world demo_ctx [ret_int 0, ret_bytes [1, 2]]))) 0 = Some c' \<and> recv_ok c' \<and>
    received c' = received demo_ctx @ [1, 2]"
  by (rule tcp_receive_in_order)
    (simp_all add: demo_world_def demo_ctx_def zero_ctx_def recv_ok_def script_simps answer_def
      second_answer_def bytes_result_def recv_room_def demo_event_def)

text \<open>C39: an end of file on a connection that has a receive buffer frees the buffer twice: the block
  \<open>realloc\<close> returned, and then the stale pointer that \<open>realloc\<close> had consumed.\<close>

theorem tcp_eof_double_free:
  assumes "ctxs w p = Some c" and "recv_ok c" and "ctx_recvBuf c = Mem bs"
    and "0 \<le> sr_ret (answer w)"
    and "bytes_result (recv_room c ev - ctx_recvLen c) (second_answer w) = Inr []"
  shows "faults (snd (run_state (process_read p ev) w)) = faults w @ [DoubleFree]"
  using assms by (simp add: run_process_read Let_def run_os_free)

theorem tcp_eof_double_free_witness:
  "faults (snd (run_state (process_read 0 (demo_event EVFILT_READ 0))
      (demo_world (demo_ctx\<lparr> ctx_recvBuf := Mem [7], ctx_recvLen := 1, ctx_recvAlloc := 1 \<rparr>)
        [ret_int 0, ret_bytes []]))) = faults (demo_world demo_ctx []) @ [DoubleFree]"
  using tcp_eof_double_free
    [of "demo_world (demo_ctx\<lparr> ctx_recvBuf := Mem [7], ctx_recvLen := 1, ctx_recvAlloc := 1 \<rparr>)
        [ret_int 0, ret_bytes []]" 0
      "demo_ctx\<lparr> ctx_recvBuf := Mem [7], ctx_recvLen := 1, ctx_recvAlloc := 1 \<rparr>" "[7]"
      "demo_event EVFILT_READ 0"]
  by (simp add: demo_world_def recv_ok_def script_simps answer_def second_answer_def bytes_result_def
      recv_room_def demo_event_def demo_ctx_def zero_ctx_def)

lemma read_dangling_faults:
  assumes "ctxs w p = Some c" and "ctx_recvBuf c = Freed"
  shows "UseAfterFree \<in> set (faults (snd (run_state (process_read p ev) w)))"
  using assms
  by (simp add: process_read_def run_load_ctx os_realloc_def Let_def monad_simps split: sum.split)

text \<open>A readable event whose \<open>read\<close> fails (EAGAIN is the expected case of edge-triggered mode)
  leaves the context with a dangling receive buffer, and the next readable event passes it to
  \<open>realloc\<close>: a use after free.\<close>

theorem tcp_failed_read_dangles:
  assumes "ctxs w p = Some c" and "recv_ok c" and "ctx_recvBuf c = Mem bs"
    and "0 \<le> sr_ret (answer w)" and "sr_ret (second_answer w) < 0"
  shows "UseAfterFree \<in> set (faults (snd (run_state
    (do { process_read p ev; process_read p ev' }) w)))"
proof -
  let ?w = "snd (run_state (process_read p ev) w)"
  have c': "ctxs ?w p = Some (c\<lparr> ctx_recvBuf := Freed \<rparr>)"
    using assms by (simp add: run_process_read Let_def bytes_result_def)
  have "UseAfterFree \<in> set (faults (snd (run_state (process_read p ev') ?w)))"
    using c' by (rule read_dangling_faults) simp
  then show ?thesis by (simp add: split_beta)
qed

theorem tcp_failed_read_dangles_witness:
  "UseAfterFree \<in> set (faults (snd (run_state
    (do { process_read 0 (demo_event EVFILT_READ 0); process_read 0 (demo_event EVFILT_READ 4) })
    (demo_world (demo_ctx\<lparr> ctx_recvBuf := Mem [7], ctx_recvLen := 1, ctx_recvAlloc := 1 \<rparr>)
        [ret_int 0, ret_err EAGAIN]))))"
  by (rule tcp_failed_read_dangles [where bs = "[7]"
      and c = "demo_ctx\<lparr> ctx_recvBuf := Mem [7], ctx_recvLen := 1, ctx_recvAlloc := 1 \<rparr>"])
    (simp_all add: demo_world_def recv_ok_def script_simps answer_def second_answer_def
      demo_ctx_def zero_ctx_def)

section \<open>Closing a connection\<close>



end
