(* ===== verification/IpcShared.thy ===== *)
theory IpcShared
  imports World
begin

text \<open>
  The messages between the daemon and the driver extension:
  \<open>Source/Shared/DextDaemonIPC/iSCSIDextDaemonIPCShared.h\<close>.

  Each packed structure is a record with the source's fields, and a function that lays it out in
  the byte order of the (little-endian) host, which is what crosses the user/kernel boundary.
\<close>

abbreviation (input) kIPC_ISCSI_BHS_SIZE :: nat where "kIPC_ISCSI_BHS_SIZE \<equiv> 48"
abbreviation (input) kIPC_MAX_DATA_SEGMENT_SIZE :: nat where "kIPC_MAX_DATA_SEGMENT_SIZE \<equiv> 65536"
abbreviation (input) kIPC_MAX_SESSIONS :: nat where "kIPC_MAX_SESSIONS \<equiv> 16"

section \<open>Selectors\<close>

datatype DaemonCommandType =
  kDextCmdOpen | kDextCmdClose | kDextCmdRegisterSession | kDextCmdUnregisterSession
| kDextCmdActivateConnection | kDextCmdDeactivateConnection | kDextCmdSetSessionParam
| kDextCmdSetConnectionParam | kDextCmdIncomingPDU | kDextCmdConnectionStatus
| kDextCmdAsyncMessage | kDextCmdNOPInResponse | kDextCmdGetNextPDU

primrec selector :: "DaemonCommandType \<Rightarrow> nat" where
  "selector kDextCmdOpen = 0"
| "selector kDextCmdClose = 1"
| "selector kDextCmdRegisterSession = 2"
| "selector kDextCmdUnregisterSession = 3"
| "selector kDextCmdActivateConnection = 4"
| "selector kDextCmdDeactivateConnection = 5"
| "selector kDextCmdSetSessionParam = 6"
| "selector kDextCmdSetConnectionParam = 7"
| "selector kDextCmdIncomingPDU = 8"
| "selector kDextCmdConnectionStatus = 9"
| "selector kDextCmdAsyncMessage = 10"
| "selector kDextCmdNOPInResponse = 11"
| "selector kDextCmdGetNextPDU = 12"

lemma selector_inj: "selector c = selector d \<Longrightarrow> c = d"
  by (cases c; cases d) simp_all

section \<open>Host byte order\<close>

definition le32_bytes :: "u32 \<Rightarrow> u8 list" where
  "le32_bytes w = rev (be32_bytes w)"

definition le64_bytes :: "u64 \<Rightarrow> u8 list" where
  "le64_bytes w = le32_bytes (ucast w) @ le32_bytes (ucast (drop_bit 32 w))"

definition bool_byte :: "bool \<Rightarrow> u8" where
  "bool_byte b = (if b then 1 else 0)"

text \<open>The field of four bytes at an offset.\<close>

definition le32_at :: "nat \<Rightarrow> u8 list \<Rightarrow> u32" where
  "le32_at k bs = be32_value (bs ! (k + 3)) (bs ! (k + 2)) (bs ! (k + 1)) (bs ! k)"

lemma length_le32_bytes [simp]: "length (le32_bytes w) = 4"
  by (simp add: le32_bytes_def)

lemma length_le64_bytes [simp]: "length (le64_bytes w) = 8"
  by (simp add: le64_bytes_def)

lemma le32_at_bytes: "le32_at (length xs) (xs @ le32_bytes w @ ys) = w"
  by (simp add: le32_at_def le32_bytes_def be32_bytes_def nth_append be32_value_bytes)

text \<open>A C array of fixed size: cut or filled with zeros.\<close>

definition fixed :: "nat \<Rightarrow> u8 list \<Rightarrow> u8 list" where
  "fixed n bs = take n (bs @ replicate n 0)"

lemma length_fixed [simp]: "length (fixed n bs) = n"
  by (simp add: fixed_def)

lemma fixed_id [simp]: "length bs = n \<Longrightarrow> fixed n bs = bs"
  by (simp add: fixed_def)

section \<open>Structures\<close>

record DextSessionConfig =
  sc_sessionId :: u8
  sc_targetId :: u8
  sc_targetName :: "u8 list"
  sc_initialCmdSN :: u32
  sc_maxBurstLength :: u32
  sc_firstBurstLength :: u32
  sc_maxRecvDataSegmentLength :: u32
  sc_maxSendDataSegmentLength :: u32
  sc_immediateData :: bool
  sc_initialR2T :: bool
  sc_dataPDUInOrder :: bool
  sc_dataSequenceInOrder :: bool
  sc_maxOutstandingR2T :: u8
  sc_errorRecoveryLevel :: u8

definition zero_session_config :: DextSessionConfig where
  "zero_session_config = \<lparr> sc_sessionId = 0, sc_targetId = 0, sc_targetName = replicate 256 0,
     sc_initialCmdSN = 0, sc_maxBurstLength = 0, sc_firstBurstLength = 0,
     sc_maxRecvDataSegmentLength = 0, sc_maxSendDataSegmentLength = 0, sc_immediateData = False,
     sc_initialR2T = False, sc_dataPDUInOrder = False, sc_dataSequenceInOrder = False,
     sc_maxOutstandingR2T = 0, sc_errorRecoveryLevel = 0 \<rparr>"

definition pack_session_config :: "DextSessionConfig \<Rightarrow> u8 list" where
  "pack_session_config c =
     [sc_sessionId c, sc_targetId c] @ fixed 256 (sc_targetName c) @
     le32_bytes (sc_initialCmdSN c) @ le32_bytes (sc_maxBurstLength c) @
     le32_bytes (sc_firstBurstLength c) @ le32_bytes (sc_maxRecvDataSegmentLength c) @
     le32_bytes (sc_maxSendDataSegmentLength c) @
     [bool_byte (sc_immediateData c), bool_byte (sc_initialR2T c), bool_byte (sc_dataPDUInOrder c),
      bool_byte (sc_dataSequenceInOrder c), sc_maxOutstandingR2T c, sc_errorRecoveryLevel c]"

record DextConnectionConfig =
  cc_connectionId :: u32
  cc_sessionId :: u8
  cc_initialExpStatSN :: u32
  cc_useHeaderDigest :: bool
  cc_useDataDigest :: bool

definition zero_connection_config :: DextConnectionConfig where
  "zero_connection_config = \<lparr> cc_connectionId = 0, cc_sessionId = 0, cc_initialExpStatSN = 0,
     cc_useHeaderDigest = False, cc_useDataDigest = False \<rparr>"

definition pack_connection_config :: "DextConnectionConfig \<Rightarrow> u8 list" where
  "pack_connection_config c =
     le32_bytes (cc_connectionId c) @ [cc_sessionId c] @ le32_bytes (cc_initialExpStatSN c) @
     [bool_byte (cc_useHeaderDigest c), bool_byte (cc_useDataDigest c)]"

record DextIncomingPDU =
  in_sessionId :: u8
  in_connectionId :: u32
  in_bhs :: "u8 list"
  in_dataLength :: u32
  in_dataBufferOffset :: u64

definition pack_incoming :: "DextIncomingPDU \<Rightarrow> u8 list" where
  "pack_incoming p =
     [in_sessionId p] @ le32_bytes (in_connectionId p) @ fixed 48 (in_bhs p) @
     le32_bytes (in_dataLength p) @ le64_bytes (in_dataBufferOffset p)"

record DextOutgoingPDU =
  out_sessionId :: u8
  out_connectionId :: u32
  out_bhs :: "u8 list"
  out_dataLength :: u32
  out_dataBufferOffset :: u64
  out_initiatorTaskTag :: u32

record DextOutgoingPDUFull =
  full_sessionId :: u8
  full_connectionId :: u32
  full_initiatorTaskTag :: u32
  full_bhs :: "u8 list"
  full_dataLength :: u32
  full_dataSegment :: "u8 list"

abbreviation (input) sizeof_DextOutgoingPDUFull :: nat where
  "sizeof_DextOutgoingPDUFull \<equiv> 65597"

definition pack_full :: "DextOutgoingPDUFull \<Rightarrow> u8 list" where
  "pack_full p =
     [full_sessionId p] @ le32_bytes (full_connectionId p) @ le32_bytes (full_initiatorTaskTag p) @
     fixed 48 (full_bhs p) @ le32_bytes (full_dataLength p) @
     fixed kIPC_MAX_DATA_SEGMENT_SIZE (full_dataSegment p)"

text \<open>Reading the fields of a structure the kernel filled in.\<close>

definition unpack_full :: "u8 list \<Rightarrow> DextOutgoingPDUFull" where
  "unpack_full bs = \<lparr> full_sessionId = bs ! 0, full_connectionId = le32_at 1 bs,
     full_initiatorTaskTag = le32_at 5 bs, full_bhs = take 48 (drop 9 bs),
     full_dataLength = le32_at 57 bs,
     full_dataSegment = take kIPC_MAX_DATA_SEGMENT_SIZE (drop 61 bs) \<rparr>"

definition full_ok :: "DextOutgoingPDUFull \<Rightarrow> bool" where
  "full_ok p \<longleftrightarrow> length (full_bhs p) = 48 \<and> length (full_dataSegment p) = kIPC_MAX_DATA_SEGMENT_SIZE"

record DextConnectionStatus =
  st_sessionId :: u8
  st_connectionId :: u32
  st_isConnected :: bool
  st_errorCode :: u32
  st_description :: "u8 list"

definition pack_status :: "DextConnectionStatus \<Rightarrow> u8 list" where
  "pack_status s =
     [st_sessionId s] @ le32_bytes (st_connectionId s) @ [bool_byte (st_isConnected s)] @
     le32_bytes (st_errorCode s) @ fixed 64 (st_description s)"

section \<open>Sizes and round trips\<close>

text \<open>The sizes \<open>sizeof\<close> gives for the packed structures.\<close>

lemma length_packed:
  "length (pack_session_config c) = 284"
  "length (pack_connection_config d) = 11"
  "length (pack_incoming p) = 65"
  "length (pack_full f) = 65597"
  "length (pack_status s) = 74"
  by (simp_all add: pack_session_config_def pack_connection_config_def pack_incoming_def
      pack_full_def pack_status_def del: length_replicate)

lemma unpack_pack_full:
  assumes "full_ok p"
  shows "unpack_full (pack_full p) = p"
proof -
  let ?b = "pack_full p"
  note sizes = assms [unfolded full_ok_def]
  have id: "fixed 48 (full_bhs p) = full_bhs p" "fixed 65536 (full_dataSegment p) = full_dataSegment p"
    using sizes by simp_all
  have b: "?b = full_sessionId p # le32_bytes (full_connectionId p) @
      le32_bytes (full_initiatorTaskTag p) @ full_bhs p @ le32_bytes (full_dataLength p) @
      full_dataSegment p"
    by (simp only: pack_full_def id append.simps)
  have "le32_at 1 ?b = full_connectionId p"
    using le32_at_bytes [of "[full_sessionId p]"] by (simp add: b)
  moreover have "le32_at 5 ?b = full_initiatorTaskTag p"
    using le32_at_bytes [of "full_sessionId p # le32_bytes (full_connectionId p)"]
    by (simp add: b)
  moreover have "le32_at 57 ?b = full_dataLength p"
    using le32_at_bytes [of "full_sessionId p # le32_bytes (full_connectionId p) @
      le32_bytes (full_initiatorTaskTag p) @ full_bhs p"] sizes
    by (simp add: b)
  moreover have "take 48 (drop 9 ?b) = full_bhs p" using sizes by (simp add: b)
  moreover have "take 65536 (drop 61 ?b) = full_dataSegment p" using sizes by (simp add: b)
  ultimately show ?thesis by (simp add: unpack_full_def) (simp add: b)
qed

end
