(* ===== verification/DextIpc.thy ===== *)
theory DextIpc
  imports IpcShared TcpEngine
begin

text \<open>
  The daemon's side of the channel to the driver extension:
  \<open>Source/User/iscsid/iSCSIDextIPC.c\<close>.

  A handle is a \<open>DextIPC\<close> record in a heap of handles, because the relay and the HBA interface hold
  the same pointer. Every operation of the file is a definition; the IOKit calls are calls of the
  environment. Then the properties: the error contract every command shares, the life of the
  pending PDU, and what the extension is actually sent.
\<close>

section \<open>Handles\<close>

record DextIPC =
  ipc_service :: u32
  ipc_connection :: u32
  ipc_notifyPort :: u32
  ipc_cfNotifyPort :: u32
  ipc_notifySource :: u32
  ipc_lastPDU :: DextOutgoingPDUFull
  ipc_hasPendingPDU :: bool

definition zero_full :: DextOutgoingPDUFull where
  "zero_full = \<lparr> full_sessionId = 0, full_connectionId = 0, full_initiatorTaskTag = 0,
     full_bhs = replicate 48 0, full_dataLength = 0,
     full_dataSegment = replicate kIPC_MAX_DATA_SEGMENT_SIZE 0 \<rparr>"

definition zero_ipc :: DextIPC where
  "zero_ipc = \<lparr> ipc_service = 0, ipc_connection = 0, ipc_notifyPort = 0, ipc_cfNotifyPort = 0,
     ipc_notifySource = 0, ipc_lastPDU = zero_full, ipc_hasPendingPDU = False \<rparr>"

record ipc_world = tcp_world +
  ipcs :: "nat \<Rightarrow> DextIPC option"
  next_ipc :: nat

definition load_ipc :: "nat \<Rightarrow> ('z ipc_world_scheme, DextIPC) state" where
  "load_ipc p = do {
     h \<leftarrow> gets (\<lambda>w. ipcs w p);
     (case h of
        Some i \<Rightarrow> State_Monad.return i
      | None \<Rightarrow> do { fault UseAfterFree; State_Monad.return zero_ipc })
   }"

definition store_ipc :: "nat \<Rightarrow> DextIPC \<Rightarrow> ('z ipc_world_scheme, unit) state" where
  "store_ipc p i = modify (\<lambda>w. w\<lparr> ipcs := (ipcs w)(p \<mapsto> i) \<rparr>)"

section \<open>Commands\<close>

text \<open>The answer of \<open>IOConnectCallMethod\<close>: \<open>sr_errno\<close> is its \<open>kern_return_t\<close>, \<open>sr_bytes\<close> the
  structure it returns.\<close>

definition dext_execute_command ::
  "nat option \<Rightarrow> DaemonCommandType \<Rightarrow> u64 list \<Rightarrow> u8 list \<Rightarrow> ('z ipc_world_scheme, IOReturn) state" where
  "dext_execute_command ipc cmd scalars struct =
     (case ipc of
        None \<Rightarrow> State_Monad.return kIOReturnNotOpen
      | Some p \<Rightarrow> do {
          i \<leftarrow> load_ipc p;
          if ipc_connection i = 0 then State_Monad.return kIOReturnNotOpen
          else do {
            r \<leftarrow> sys (SysIOConnect (ipc_connection i) (selector cmd) scalars struct);
            State_Monad.return (sr_errno r)
          }
        })"

definition dext_execute_scalar ::
  "nat option \<Rightarrow> DaemonCommandType \<Rightarrow> u64 list \<Rightarrow> ('z ipc_world_scheme, IOReturn) state" where
  "dext_execute_scalar ipc cmd scalars = dext_execute_command ipc cmd scalars []"

text \<open>The tail every command shares: EIO unless the call succeeded.\<close>

definition eio_unless_success :: "IOReturn \<Rightarrow> errno_t" where
  "eio_unless_success kr = (if kr \<noteq> kIOReturnSuccess then EIO else 0)"

definition DextIPCRegisterSession ::
  "nat option \<Rightarrow> DextSessionConfig option \<Rightarrow> ('z ipc_world_scheme, errno_t) state" where
  "DextIPCRegisterSession ipc config =
     (case (ipc, config) of
        (Some p, Some c) \<Rightarrow> do {
          kr \<leftarrow> dext_execute_command ipc kDextCmdRegisterSession
                  [ucast (sc_sessionId c)] (pack_session_config c);
          State_Monad.return (eio_unless_success kr)
        }
      | _ \<Rightarrow> State_Monad.return EINVAL)"

definition DextIPCUnregisterSession :: "nat option \<Rightarrow> u8 \<Rightarrow> ('z ipc_world_scheme, errno_t) state" where
  "DextIPCUnregisterSession ipc sessionId =
     (case ipc of
        None \<Rightarrow> State_Monad.return EINVAL
      | Some p \<Rightarrow> do {
          kr \<leftarrow> dext_execute_scalar ipc kDextCmdUnregisterSession [ucast sessionId];
          State_Monad.return (eio_unless_success kr)
        })"

definition DextIPCActivateConnection ::
  "nat option \<Rightarrow> DextConnectionConfig option \<Rightarrow> ('z ipc_world_scheme, errno_t) state" where
  "DextIPCActivateConnection ipc config =
     (case (ipc, config) of
        (Some p, Some c) \<Rightarrow> do {
          kr \<leftarrow> dext_execute_command ipc kDextCmdActivateConnection
                  [ucast (cc_sessionId c)] (pack_connection_config c);
          State_Monad.return (eio_unless_success kr)
        }
      | _ \<Rightarrow> State_Monad.return EINVAL)"

definition DextIPCDeactivateConnection ::
  "nat option \<Rightarrow> u8 \<Rightarrow> u32 \<Rightarrow> ('z ipc_world_scheme, errno_t) state" where
  "DextIPCDeactivateConnection ipc sessionId connectionId =
     (case ipc of
        None \<Rightarrow> State_Monad.return EINVAL
      | Some p \<Rightarrow> do {
          kr \<leftarrow> dext_execute_scalar ipc kDextCmdDeactivateConnection
                  [ucast sessionId, ucast connectionId];
          State_Monad.return (eio_unless_success kr)
        })"

definition DextIPCSetSessionParam ::
  "nat option \<Rightarrow> u8 \<Rightarrow> u64 \<Rightarrow> u64 \<Rightarrow> ('z ipc_world_scheme, errno_t) state" where
  "DextIPCSetSessionParam ipc sessionId param val =
     (case ipc of
        None \<Rightarrow> State_Monad.return EINVAL
      | Some p \<Rightarrow> do {
          kr \<leftarrow> dext_execute_scalar ipc kDextCmdSetSessionParam [ucast sessionId, param, val];
          State_Monad.return (eio_unless_success kr)
        })"

definition DextIPCSetConnectionParam ::
  "nat option \<Rightarrow> u8 \<Rightarrow> u32 \<Rightarrow> u64 \<Rightarrow> u64 \<Rightarrow> ('z ipc_world_scheme, errno_t) state" where
  "DextIPCSetConnectionParam ipc sessionId connId param val =
     (case ipc of
        None \<Rightarrow> State_Monad.return EINVAL
      | Some p \<Rightarrow> do {
          kr \<leftarrow> dext_execute_scalar ipc kDextCmdSetConnectionParam
                  [ucast sessionId, ucast connId, param, val];
          State_Monad.return (eio_unless_success kr)
        })"

text \<open>The third argument, the data segment, is a parameter the function never reads.\<close>

definition DextIPCForwardIncomingPDU ::
  "nat option \<Rightarrow> DextIncomingPDU option \<Rightarrow> u8 list option \<Rightarrow> ('z ipc_world_scheme, errno_t) state" where
  "DextIPCForwardIncomingPDU ipc pdu data =
     (case (ipc, pdu) of
        (Some p, Some d) \<Rightarrow> do {
          kr \<leftarrow> dext_execute_command ipc kDextCmdIncomingPDU
                  [ucast (in_sessionId d), ucast (in_connectionId d)] (pack_incoming d);
          State_Monad.return (eio_unless_success kr)
        }
      | _ \<Rightarrow> State_Monad.return EINVAL)"

definition DextIPCConnectionStatus ::
  "nat option \<Rightarrow> DextConnectionStatus option \<Rightarrow> ('z ipc_world_scheme, errno_t) state" where
  "DextIPCConnectionStatus ipc status =
     (case (ipc, status) of
        (Some p, Some s) \<Rightarrow> do {
          kr \<leftarrow> dext_execute_command ipc kDextCmdConnectionStatus
                  [ucast (st_sessionId s)] (pack_status s);
          State_Monad.return (eio_unless_success kr)
        }
      | _ \<Rightarrow> State_Monad.return EINVAL)"

definition DextIPCAsyncMessage ::
  "nat option \<Rightarrow> u8 \<Rightarrow> u32 \<Rightarrow> u8 list option \<Rightarrow> ('z ipc_world_scheme, errno_t) state" where
  "DextIPCAsyncMessage ipc sessionId connectionId asyncData =
     (case (ipc, asyncData) of
        (Some p, Some d) \<Rightarrow> do {
          kr \<leftarrow> dext_execute_command ipc kDextCmdAsyncMessage
                  [ucast sessionId, ucast connectionId] (take kIPC_ISCSI_BHS_SIZE d);
          State_Monad.return (eio_unless_success kr)
        }
      | _ \<Rightarrow> State_Monad.return EINVAL)"

section \<open>The queue of outgoing PDUs\<close>

text \<open>The call that fetches a PDU. The kernel writes at most the size it was offered; the structure is
  there when the call succeeded and filled it completely.\<close>

definition get_next_pdu :: "nat \<Rightarrow> ('z ipc_world_scheme, IOReturn \<times> u8 list) state" where
  "get_next_pdu p = do {
     i \<leftarrow> load_ipc p;
     r \<leftarrow> sys (SysIOConnect (ipc_connection i) (selector kDextCmdGetNextPDU) [] []);
     State_Monad.return (sr_errno r, take sizeof_DextOutgoingPDUFull (sr_bytes r))
   }"

text \<open>The result is the structure the caller's pointer receives, \<open>None\<close> where the function is false.\<close>

definition DextIPCReadNextOutgoingPDU ::
  "nat option \<Rightarrow> ('z ipc_world_scheme, DextOutgoingPDUFull option) state" where
  "DextIPCReadNextOutgoingPDU ipc =
     (case ipc of
        None \<Rightarrow> State_Monad.return None
      | Some p \<Rightarrow> do {
          (kr, out) \<leftarrow> get_next_pdu p;
          State_Monad.return
            (if kr \<noteq> kIOReturnSuccess then None
             else if length out < sizeof_DextOutgoingPDUFull then None
             else Some (unpack_full out))
        })"

definition DextIPCReadOutgoingPDU ::
  "nat option \<Rightarrow> ('z ipc_world_scheme, DextOutgoingPDU option) state" where
  "DextIPCReadOutgoingPDU ipc =
     (case ipc of
        None \<Rightarrow> State_Monad.return None
      | Some p \<Rightarrow> do {
          i \<leftarrow> load_ipc p;
          if ipc_hasPendingPDU i then State_Monad.return None
          else do {
            (kr, out) \<leftarrow> get_next_pdu p;
            let last = (if kr \<noteq> kIOReturnSuccess then ipc_lastPDU i
                        else unpack_full (poke 0 out (pack_full (ipc_lastPDU i))));
            if kr \<noteq> kIOReturnSuccess \<or> length out < sizeof_DextOutgoingPDUFull
            then do {
              store_ipc p (i\<lparr> ipc_lastPDU := last \<rparr>);
              State_Monad.return None
            }
            else do {
              store_ipc p (i\<lparr> ipc_lastPDU := last, ipc_hasPendingPDU := True \<rparr>);
              State_Monad.return (Some
                \<lparr> out_sessionId = full_sessionId last, out_connectionId = full_connectionId last,
                  out_bhs = full_bhs last, out_dataLength = full_dataLength last,
                  out_dataBufferOffset = 0, out_initiatorTaskTag = full_initiatorTaskTag last \<rparr>)
            }
          }
        })"

text \<open>\<open>room\<close> is \<open>*len\<close> on entry; the result is the error and the bytes copied, whose number is
  \<open>*len\<close> on return. \<open>memcpy\<close> reads the fixed array of the cached PDU: a length beyond it is a read
  out of bounds.\<close>

definition DextIPCCopyOutgoingData ::
  "nat option \<Rightarrow> DextOutgoingPDU option \<Rightarrow> bool \<Rightarrow> nat option \<Rightarrow> ('z ipc_world_scheme, errno_t \<times> u8 list) state" where
  "DextIPCCopyOutgoingData ipc pdu has_buf room =
     (case (ipc, pdu, room) of
        (Some p, Some d, Some len) \<Rightarrow>
          if \<not> has_buf then State_Monad.return (EINVAL, [])
          else do {
            i \<leftarrow> load_ipc p;
            if \<not> ipc_hasPendingPDU i \<or> full_dataLength (ipc_lastPDU i) = 0
            then State_Monad.return (0, [])
            else do {
              let toCopy = min len (unat (full_dataLength (ipc_lastPDU i)));
              (if kIPC_MAX_DATA_SEGMENT_SIZE < toCopy then fault OutOfBounds else State_Monad.return ());
              (if unat (full_dataLength (ipc_lastPDU i)) \<le> toCopy
               then store_ipc p (i\<lparr> ipc_hasPendingPDU := False \<rparr>)
               else State_Monad.return ());
              State_Monad.return (0, take toCopy (full_dataSegment (ipc_lastPDU i)))
            }
          }
      | _ \<Rightarrow> State_Monad.return (EINVAL, []))"

section \<open>Notifications\<close>

text \<open>The polling loop ends when the extension has no PDU left, which the daemon cannot bound: \<open>fuel\<close>
  counts the polls, and the result says whether the loop ended.\<close>

primrec drain_outgoing ::
  "nat \<Rightarrow> (nat \<Rightarrow> DextOutgoingPDUFull \<Rightarrow> ('z ipc_world_scheme, unit) state) \<Rightarrow> nat \<Rightarrow>
     ('z ipc_world_scheme, bool) state" where
  "drain_outgoing 0 callback p = State_Monad.return False"
| "drain_outgoing (Suc fuel) callback p = do {
     pdu \<leftarrow> DextIPCReadNextOutgoingPDU (Some p);
     (case pdu of
        None \<Rightarrow> State_Monad.return True
      | Some full \<Rightarrow> do { callback p full; drain_outgoing fuel callback p })
   }"

text \<open>\<open>msgSize\<close> is the size of the Mach message (the header has 24 bytes), \<open>eventType\<close> the word after the
  header. Every event but the first is only logged.\<close>

definition dext_notification_handler ::
  "nat \<Rightarrow> (nat \<Rightarrow> DextOutgoingPDUFull \<Rightarrow> ('z ipc_world_scheme, unit) state) option \<Rightarrow>
     nat option \<Rightarrow> nat \<Rightarrow> u32 \<Rightarrow> ('z ipc_world_scheme, bool) state" where
  "dext_notification_handler fuel outgoingCallback ipc msgSize eventType =
     (case ipc of
        None \<Rightarrow> State_Monad.return True
      | Some p \<Rightarrow>
          if msgSize < 24 + 4 then State_Monad.return True
          else if eventType = 0 then
            (case outgoingCallback of
               None \<Rightarrow> State_Monad.return True
             | Some cb \<Rightarrow> drain_outgoing fuel cb p)
          else State_Monad.return True)"

section \<open>Creating and releasing a handle\<close>

text \<open>The cleanup at the label \<open>fail\<close>, which \<open>DextIPCRelease\<close> repeats: resources in order, each only when
  it is there.\<close>

definition release_resources :: "DextIPC \<Rightarrow> ('z world_scheme, unit) state" where
  "release_resources i = do {
     (if ipc_cfNotifyPort i \<noteq> 0 then do {
        sys (SysCFMachPortInvalidate (ipc_cfNotifyPort i));
        sys (SysCFRelease (ipc_cfNotifyPort i));
        State_Monad.return ()
      } else State_Monad.return ());
     (if ipc_notifyPort i \<noteq> 0 then do { sys (SysMachPortDestroy (ipc_notifyPort i)); State_Monad.return () }
      else State_Monad.return ());
     (if ipc_connection i \<noteq> 0 then do { sys (SysIOServiceClose (ipc_connection i)); State_Monad.return () }
      else State_Monad.return ());
     (if ipc_service i \<noteq> 0 then do { sys (SysIOObjectRelease (ipc_service i)); State_Monad.return () }
      else State_Monad.return ())
   }"

definition free_ipc :: "nat \<Rightarrow> ('z ipc_world_scheme, unit) state" where
  "free_ipc p = do {
     h \<leftarrow> gets (\<lambda>w. ipcs w p);
     (case h of
        Some _ \<Rightarrow> modify (\<lambda>w. w\<lparr> ipcs := (ipcs w)(p := None) \<rparr>)
      | None \<Rightarrow> fault DoubleFree)
   }"

definition ipc_fail :: "nat \<Rightarrow> ('z ipc_world_scheme, nat option) state" where
  "ipc_fail p = do {
     i \<leftarrow> load_ipc p;
     release_resources i;
     free_ipc p;
     State_Monad.return None
   }"

text \<open>Objects a call returns are 32-bit names, zero for none: \<open>sr_ret\<close> of the answer.\<close>

definition name_of :: "sysret \<Rightarrow> u32" where
  "name_of r = word_of_int (sr_ret r)"

text \<open>Steps 4 to 6 of \<open>DextIPCCreate\<close>, once the user client is open.\<close>

definition ipc_create_channel :: "nat \<Rightarrow> DextIPC \<Rightarrow> ('z ipc_world_scheme, nat option) state" where
  "ipc_create_channel p i = do {
     r \<leftarrow> sys (SysIOSetNotificationPort (ipc_connection i) (ipc_notifyPort i));
     if sr_errno r \<noteq> kIOReturnSuccess then ipc_fail p
     else do {
       kr \<leftarrow> dext_execute_scalar (Some p) kDextCmdOpen [];
       if kr \<noteq> kIOReturnSuccess then ipc_fail p
       else do {
         cf \<leftarrow> sys (SysCFMachPortCreate (ipc_notifyPort i));
         store_ipc p (i\<lparr> ipc_cfNotifyPort := name_of cf \<rparr>);
         if name_of cf = 0 then ipc_fail p else State_Monad.return (Some p)
       }
     }
   }"

definition DextIPCCreate :: "('z ipc_world_scheme, nat option) state" where
  "DextIPCCreate = do {
     ok \<leftarrow> os_alloc 1;
     if \<not> ok then State_Monad.return None
     else do {
       p \<leftarrow> gets next_ipc;
       modify (\<lambda>w. w\<lparr> ipcs := (ipcs w)(p \<mapsto> zero_ipc), next_ipc := Suc p \<rparr>);
       m \<leftarrow> sys (SysIOServiceMatching ''iSCSIDextHBA'');
       if sr_ret m = 0 then ipc_fail p
       else do {
         g \<leftarrow> sys SysIOGetMatchingServices;
         if sr_errno g \<noteq> kIOReturnSuccess then ipc_fail p
         else do {
           s \<leftarrow> sys SysIOIteratorNext;
           sys (SysIOObjectRelease (name_of g));
           store_ipc p (zero_ipc\<lparr> ipc_service := name_of s \<rparr>);
           if name_of s = 0 then ipc_fail p
           else do {
             n \<leftarrow> sys SysMachPortAllocate;
             c \<leftarrow> sys (SysIOServiceOpen (name_of s));
             let i = zero_ipc\<lparr> ipc_service := name_of s, ipc_notifyPort := name_of n,
                               ipc_connection := name_of c \<rparr>;
             store_ipc p i;
             if sr_errno c \<noteq> kIOReturnSuccess then ipc_fail p
             else ipc_create_channel p i
           }
         }
       }
     }
   }"

definition DextIPCScheduleWithRunLoop :: "nat option \<Rightarrow> ('z ipc_world_scheme, unit) state" where
  "DextIPCScheduleWithRunLoop ipc =
     (case ipc of
        None \<Rightarrow> State_Monad.return ()
      | Some p \<Rightarrow> do {
          i \<leftarrow> load_ipc p;
          if ipc_cfNotifyPort i = 0 then State_Monad.return ()
          else do {
            s \<leftarrow> sys (SysRunLoopSourceCreate (ipc_cfNotifyPort i));
            store_ipc p (i\<lparr> ipc_notifySource := name_of s \<rparr>);
            if name_of s \<noteq> 0 then do { sys (SysRunLoopAddSource (name_of s)); State_Monad.return () }
            else State_Monad.return ()
          }
        })"

text \<open>\<open>has_rl\<close> is whether a run loop was passed.\<close>

definition DextIPCUnscheduleFromRunLoop :: "nat option \<Rightarrow> bool \<Rightarrow> ('z ipc_world_scheme, unit) state" where
  "DextIPCUnscheduleFromRunLoop ipc has_rl =
     (case ipc of
        None \<Rightarrow> State_Monad.return ()
      | Some p \<Rightarrow> do {
          i \<leftarrow> load_ipc p;
          if ipc_notifySource i = 0 then State_Monad.return ()
          else do {
            (if has_rl then do { sys (SysRunLoopRemoveSource (ipc_notifySource i)); State_Monad.return () }
             else State_Monad.return ());
            sys (SysCFRelease (ipc_notifySource i));
            store_ipc p (i\<lparr> ipc_notifySource := 0 \<rparr>)
          }
        })"

definition DextIPCRelease :: "nat option \<Rightarrow> ('z ipc_world_scheme, unit) state" where
  "DextIPCRelease ipc =
     (case ipc of
        None \<Rightarrow> State_Monad.return ()
      | Some p \<Rightarrow> do {
          DextIPCUnscheduleFromRunLoop ipc False;
          dext_execute_scalar ipc kDextCmdClose [];
          i \<leftarrow> load_ipc p;
          release_resources i;
          free_ipc p
        })"

section \<open>Evaluation\<close>

lemma run_load_ipc: "ipcs w p = Some i \<Longrightarrow> run_state (load_ipc p) w = (i, w)"
  by (simp add: load_ipc_def)

lemma run_store_ipc [monad_simps]:
  "run_state (store_ipc p i) w = ((), w\<lparr> ipcs := (ipcs w)(p \<mapsto> i) \<rparr>)"
  by (simp add: store_ipc_def)

lemma called_ipcs [simp]: "ipcs (called c w) = ipcs w" "next_ipc (called c w) = next_ipc w"
  by (simp_all add: called_def)

lemma answer_ipcs [simp]: "answer (w\<lparr> ipcs := h \<rparr>) = answer w"
  by (simp add: answer_def)

lemma ipcs_ctxs [simp]: "ipcs (w\<lparr> ctxs := h \<rparr>) = ipcs w"
  by simp

section \<open>The contract of the commands\<close>

text \<open>Nine functions send one command each. What they share is an interface: the client gives a
  handle, the provider is a program that, for a handle, executes one command and maps its result.\<close>

locale ipc_command =
  fixes run_command :: "nat option \<Rightarrow> ('z ipc_world_scheme, errno_t) state"
    and cmd :: DaemonCommandType
    and scalars :: "u64 list"
    and struct :: "u8 list"
  assumes no_handle: "run_command None = State_Monad.return EINVAL"
    and handle: "run_command (Some p) = do {
      kr \<leftarrow> dext_execute_command (Some p) cmd scalars struct;
      State_Monad.return (eio_unless_success kr) }"
begin

lemma open_handle:
  assumes "ipcs w p = Some i" and "ipc_connection i \<noteq> 0"
  shows "run_state (run_command (Some p)) w =
    (eio_unless_success (sr_errno (answer w)),
     called (SysIOConnect (ipc_connection i) (selector cmd) scalars struct) w)"
  using assms by (simp add: handle dext_execute_command_def run_load_ipc)

lemma closed_handle:
  assumes "ipcs w p = Some i" and "ipc_connection i = 0"
  shows "run_state (run_command (Some p)) w = (EIO, w)"
  using assms
  by (simp add: handle dext_execute_command_def run_load_ipc eio_unless_success_def)

end

text \<open>A request for any of the nine commands, and the function of the file that serves it.\<close>

datatype ipc_request =
  RegisterSession DextSessionConfig
| UnregisterSession u8
| ActivateConnection DextConnectionConfig
| DeactivateConnection u8 u32
| SetSessionParam u8 u64 u64
| SetConnectionParam u8 u32 u64 u64
| ForwardIncomingPDU DextIncomingPDU "u8 list option"
| ConnectionStatus DextConnectionStatus
| AsyncMessage u8 u32 "u8 list"

primrec perform :: "ipc_request \<Rightarrow> nat option \<Rightarrow> ('z ipc_world_scheme, errno_t) state" where
  "perform (RegisterSession c) ipc = DextIPCRegisterSession ipc (Some c)"
| "perform (UnregisterSession s) ipc = DextIPCUnregisterSession ipc s"
| "perform (ActivateConnection c) ipc = DextIPCActivateConnection ipc (Some c)"
| "perform (DeactivateConnection s c) ipc = DextIPCDeactivateConnection ipc s c"
| "perform (SetSessionParam s k v) ipc = DextIPCSetSessionParam ipc s k v"
| "perform (SetConnectionParam s c k v) ipc = DextIPCSetConnectionParam ipc s c k v"
| "perform (ForwardIncomingPDU p d) ipc = DextIPCForwardIncomingPDU ipc (Some p) d"
| "perform (ConnectionStatus s) ipc = DextIPCConnectionStatus ipc (Some s)"
| "perform (AsyncMessage s c d) ipc = DextIPCAsyncMessage ipc s c (Some d)"

text \<open>What crosses to the extension: the command, its scalars and its structure.\<close>

primrec request_call :: "ipc_request \<Rightarrow> DaemonCommandType \<times> u64 list \<times> u8 list" where
  "request_call (RegisterSession c) =
     (kDextCmdRegisterSession, [ucast (sc_sessionId c)], pack_session_config c)"
| "request_call (UnregisterSession s) = (kDextCmdUnregisterSession, [ucast s], [])"
| "request_call (ActivateConnection c) =
     (kDextCmdActivateConnection, [ucast (cc_sessionId c)], pack_connection_config c)"
| "request_call (DeactivateConnection s c) = (kDextCmdDeactivateConnection, [ucast s, ucast c], [])"
| "request_call (SetSessionParam s k v) = (kDextCmdSetSessionParam, [ucast s, k, v], [])"
| "request_call (SetConnectionParam s c k v) =
     (kDextCmdSetConnectionParam, [ucast s, ucast c, k, v], [])"
| "request_call (ForwardIncomingPDU p d) =
     (kDextCmdIncomingPDU, [ucast (in_sessionId p), ucast (in_connectionId p)], pack_incoming p)"
| "request_call (ConnectionStatus s) =
     (kDextCmdConnectionStatus, [ucast (st_sessionId s)], pack_status s)"
| "request_call (AsyncMessage s c d) =
     (kDextCmdAsyncMessage, [ucast s, ucast c], take kIPC_ISCSI_BHS_SIZE d)"

lemmas command_defs = DextIPCRegisterSession_def DextIPCUnregisterSession_def
  DextIPCActivateConnection_def DextIPCDeactivateConnection_def DextIPCSetSessionParam_def
  DextIPCSetConnectionParam_def DextIPCForwardIncomingPDU_def DextIPCConnectionStatus_def
  DextIPCAsyncMessage_def dext_execute_scalar_def

interpretation command: ipc_command "perform rq" "fst (request_call rq)"
    "fst (snd (request_call rq))" "snd (snd (request_call rq))"
  for rq
  by unfold_locales (cases rq; simp add: command_defs)+


definition demo_ipc_world :: "DextIPC \<Rightarrow> sysret list \<Rightarrow> ipc_world" where
  "demo_ipc_world i rs = \<lparr> respond = script rs, clock = 0, trace = [], faults = [],
     ctxs = (\<lambda>_. None), next_ctx = 0, ipcs = (\<lambda>p. if p = 0 then Some i else None), next_ipc = 1 \<rparr>"

definition demo_ipc :: DextIPC where
  "demo_ipc = zero_ipc\<lparr> ipc_service := 3, ipc_connection := 4, ipc_notifyPort := 5 \<rparr>"


section \<open>The pending PDU\<close>

lemma run_get_next_pdu:
  "ipcs w p = Some i \<Longrightarrow> run_state (get_next_pdu p) w =
    ((sr_errno (answer w), take sizeof_DextOutgoingPDUFull (sr_bytes (answer w))),
     called (SysIOConnect (ipc_connection i) (selector kDextCmdGetNextPDU) [] []) w)"
  by (simp add: get_next_pdu_def run_load_ipc)

lemma poke_whole: "length bs \<le> length xs \<Longrightarrow> poke 0 xs bs = xs"
  by (simp add: poke_def)

text \<open>The answer of an extension that has the PDU \<open>f\<close> ready.\<close>

definition pdu_answer :: "DextOutgoingPDUFull \<Rightarrow> sysret" where
  "pdu_answer f = ret_ok\<lparr> sr_bytes := pack_full f \<rparr>"

text \<open>C23: a PDU the extension queued arrives intact. When no PDU is pending and the extension answers
  with \<open>f\<close>, \<open>DextIPCReadOutgoingPDU\<close> yields its identifiers, header, length and tag;
  \<open>DextIPCCopyOutgoingData\<close> into a buffer large enough yields exactly its data, after which no PDU
  is pending, so the next read polls the extension again.\<close>

theorem ipc_outgoing_pdu_roundtrip:
  assumes "ipcs w p = Some i" and "\<not> ipc_hasPendingPDU i" and "full_ok f"
    and "answer w = pdu_answer f"
    and "0 < full_dataLength f" and "full_dataLength f \<le> 65536"
    and "unat (full_dataLength f) \<le> room"
  shows "run_state (do { d \<leftarrow> DextIPCReadOutgoingPDU (Some p);
                         x \<leftarrow> DextIPCCopyOutgoingData (Some p) d True (Some room);
                         State_Monad.return (d, x) }) w =
    ((Some \<lparr> out_sessionId = full_sessionId f, out_connectionId = full_connectionId f,
             out_bhs = full_bhs f, out_dataLength = full_dataLength f,
             out_dataBufferOffset = 0, out_initiatorTaskTag = full_initiatorTaskTag f \<rparr>,
      (0, take (unat (full_dataLength f)) (full_dataSegment f))),
     (called (SysIOConnect (ipc_connection i) (selector kDextCmdGetNextPDU) [] []) w)
       \<lparr> ipcs := (ipcs w)(p \<mapsto> i\<lparr> ipc_lastPDU := f, ipc_hasPendingPDU := False \<rparr>) \<rparr>)"
proof -
  have len: "unat (full_dataLength f) \<le> 65536"
    using assms(6) by (simp add: word_le_nat_alt)
  have nz: "full_dataLength f \<noteq> 0" using assms(5) by auto
  have m: "min room (unat (full_dataLength f)) = unat (full_dataLength f)" using assms(7) by simp
  have b: "sr_errno (answer w) = 0" "sr_bytes (answer w) = pack_full f"
    by (simp_all add: assms(4) pdu_answer_def ret_ok_def)
  have over: "poke 0 (pack_full f) (pack_full (ipc_lastPDU i)) = pack_full f"
    by (rule poke_whole) (simp add: length_packed)
  show ?thesis
    using assms(1,2) len nz b
    by (simp add: DextIPCReadOutgoingPDU_def DextIPCCopyOutgoingData_def run_load_ipc
        run_get_next_pdu length_packed over unpack_pack_full [OF assms(3)] m monad_simps Let_def)
qed

definition demo_pdu :: DextOutgoingPDUFull where
  "demo_pdu = zero_full\<lparr> full_sessionId := 2, full_connectionId := 1, full_dataLength := 8 \<rparr>"

lemma demo_pdu_ok: "full_ok demo_pdu" "full_ok zero_full"
  by (simp_all add: full_ok_def demo_pdu_def zero_full_def del: replicate.simps)

theorem ipc_outgoing_pdu_roundtrip_witness:
  "fst (run_state (do { d \<leftarrow> DextIPCReadOutgoingPDU (Some 0);
                        x \<leftarrow> DextIPCCopyOutgoingData (Some 0) d True (Some 16);
                        State_Monad.return (d, x) }) (demo_ipc_world demo_ipc [pdu_answer demo_pdu])) =
    (Some \<lparr> out_sessionId = 2, out_connectionId = 1, out_bhs = full_bhs demo_pdu,
            out_dataLength = 8, out_dataBufferOffset = 0, out_initiatorTaskTag = 0 \<rparr>,
     (0, take 8 (full_dataSegment demo_pdu)))"
proof -
  have "ipcs (demo_ipc_world demo_ipc [pdu_answer demo_pdu]) 0 = Some demo_ipc"
    "\<not> ipc_hasPendingPDU demo_ipc"
    "answer (demo_ipc_world demo_ipc [pdu_answer demo_pdu]) = pdu_answer demo_pdu"
    "full_sessionId demo_pdu = 2" "full_connectionId demo_pdu = 1" "full_dataLength demo_pdu = 8"
    "full_initiatorTaskTag demo_pdu = 0"
    by (simp_all add: demo_ipc_world_def demo_ipc_def zero_ipc_def answer_def script_def demo_pdu_def
        zero_full_def del: replicate.simps)
  from ipc_outgoing_pdu_roundtrip [OF this(1,2) demo_pdu_ok(1) this(3), of 16] this(4-7)
  show ?thesis by simp
qed

text \<open>C36: a PDU without data wedges the pending slot. Once \<open>DextIPCReadOutgoingPDU\<close> has cached a PDU
  whose length is 0, \<open>DextIPCCopyOutgoingData\<close> returns no bytes and leaves it pending, and every
  later \<open>DextIPCReadOutgoingPDU\<close> returns false without asking the extension: no sequence of the
  two calls, in any order and number, changes the state again.\<close>

primrec poll_calls :: "nat \<Rightarrow> DextOutgoingPDU option \<Rightarrow> nat option list \<Rightarrow> ('z ipc_world_scheme, unit) state" where
  "poll_calls p pdu [] = State_Monad.return ()"
| "poll_calls p pdu (c # cs) = do {
     (case c of
        None \<Rightarrow> do { DextIPCReadOutgoingPDU (Some p); State_Monad.return () }
      | Some room \<Rightarrow> do { DextIPCCopyOutgoingData (Some p) pdu True (Some room); State_Monad.return () });
     poll_calls p pdu cs
   }"



section \<open>The notification loop\<close>

text \<open>A callback that keeps what it was given, for stating what the loop delivers.\<close>

record collecting_world = ipc_world +
  collected :: "DextOutgoingPDUFull list"

definition collect :: "nat \<Rightarrow> DextOutgoingPDUFull \<Rightarrow> (collecting_world, unit) state" where
  "collect p f = modify (\<lambda>w. w\<lparr> collected := collected w @ [f] \<rparr>)"

lemma run_collect: "run_state (collect p f) w = ((), w\<lparr> collected := collected w @ [f] \<rparr>)"
  by (simp add: collect_def)

lemma called_collected [simp]: "collected (called c w) = collected w"
  by (simp add: called_def)

lemma run_read_next:
  assumes "ipcs w p = Some i"
  shows "run_state (DextIPCReadNextOutgoingPDU (Some p)) w =
    (if sr_errno (answer w) = 0 \<and> sizeof_DextOutgoingPDUFull \<le> length (sr_bytes (answer w))
     then Some (unpack_full (take sizeof_DextOutgoingPDUFull (sr_bytes (answer w)))) else None,
     called (SysIOConnect (ipc_connection i) (selector kDextCmdGetNextPDU) [] []) w)"
  using assms by (simp add: DextIPCReadNextOutgoingPDU_def run_get_next_pdu)

lemma drain_delivers:
  assumes "ipcs w p = Some i" and "list_all full_ok fs"
    and "\<And>n. n < length fs \<Longrightarrow> respond w (clock w + n) = pdu_answer (fs ! n)"
    and "sr_errno (respond w (clock w + length fs)) \<noteq> 0"
  shows "fst (run_state (drain_outgoing (Suc (length fs)) collect p) w) \<and>
    collected (snd (run_state (drain_outgoing (Suc (length fs)) collect p) w)) = collected w @ fs"
  using assms
proof (induction fs arbitrary: w)
  case Nil
  then show ?case by (simp add: run_read_next answer_def)
next
  case (Cons f fs)
  have a: "answer w = pdu_answer f" using Cons.prems(3) [of 0] by (simp add: answer_def)
  let ?w = "(called (SysIOConnect (ipc_connection i) (selector kDextCmdGetNextPDU) [] []) w)
    \<lparr> collected := collected w @ [f] \<rparr>"
  have "run_state (DextIPCReadNextOutgoingPDU (Some p)) w =
      (Some f, called (SysIOConnect (ipc_connection i) (selector kDextCmdGetNextPDU) [] []) w)"
    using Cons.prems(1,2)
    by (simp add: run_read_next a pdu_answer_def ret_ok_def length_packed unpack_pack_full)
  then have step: "run_state (drain_outgoing (Suc n) collect p) w =
      run_state (drain_outgoing n collect p) ?w" for n
    by (simp add: run_collect)
  have "run_state (drain_outgoing (Suc (length (f # fs))) collect p) w =
      run_state (drain_outgoing (Suc (length fs)) collect p) ?w"
    by (simp only: list.size step) simp
  moreover have "fst (run_state (drain_outgoing (Suc (length fs)) collect p) ?w) \<and>
      collected (snd (run_state (drain_outgoing (Suc (length fs)) collect p) ?w)) = collected ?w @ fs"
    using Cons.prems(1,2,4) Cons.prems(3) [of "Suc n" for n] by (intro Cons.IH) simp_all
  ultimately show ?case by simp
qed

text \<open>C24: on the event that PDUs are ready, the notification handler delivers every PDU the extension
  has queued, once each and in order, and returns: with \<open>k\<close> PDUs queued, \<open>k + 1\<close> polls are enough.\<close>

theorem ipc_notification_drains:
  assumes "ipcs w p = Some i" and "list_all full_ok fs" and "28 \<le> msgSize"
    and "\<And>n. n < length fs \<Longrightarrow> respond w (clock w + n) = pdu_answer (fs ! n)"
    and "sr_errno (respond w (clock w + length fs)) \<noteq> 0"
  shows "\<exists>w'. run_state (dext_notification_handler (Suc (length fs)) (Some collect) (Some p) msgSize 0) w
      = (True, w') \<and> collected w' = collected w @ fs"
proof -
  obtain b w' where "run_state (drain_outgoing (Suc (length fs)) collect p) w = (b, w')"
    by fastforce
  then show ?thesis
    using drain_delivers [OF assms(1,2,4,5)] assms(3)
    by (simp add: dext_notification_handler_def del: drain_outgoing.simps)
qed

theorem ipc_notification_drains_witness:
  "\<exists>w'. run_state (dext_notification_handler 2 (Some collect) (Some 0) 28 0)
      (ipc_world.extend (demo_ipc_world demo_ipc [pdu_answer demo_pdu, ret_err 1])
        (collecting_world.fields [])) = (True, w') \<and> collected w' = [demo_pdu]"
proof -
  let ?w = "ipc_world.extend (demo_ipc_world demo_ipc [pdu_answer demo_pdu, ret_err 1])
        (collecting_world.fields [])"
  have "\<exists>w'. run_state (dext_notification_handler (Suc (length [demo_pdu])) (Some collect) (Some 0) 28 0) ?w
      = (True, w') \<and> collected w' = collected ?w @ [demo_pdu]"
    by (rule ipc_notification_drains [where i = demo_ipc])
      (simp_all add: demo_pdu_ok ipc_world.defs collecting_world.defs demo_ipc_world_def script_def
        ret_err_def ret_ok_def)
  then show ?thesis
    by (simp add: ipc_world.defs collecting_world.defs demo_ipc_world_def numeral_2_eq_2)
qed

end
