(* ===== verification/SlotTable.thy ===== *)
theory SlotTable
  imports Prelude
begin

text \<open>
  Tables of slots, each free or holding an entry under a key. The relay's sessions and the HBA
  interface's sessions are such tables: arrays scanned from the front for a used slot with a given
  key, or for a free one. The locale gives them one theory: as long as no key is used twice, the
  array implements a finite map from keys to entries.
\<close>

locale slot_table =
  fixes in_use :: "'e \<Rightarrow> bool"
    and key :: "'e \<Rightarrow> 'k"
begin

definition find_slot :: "'k \<Rightarrow> 'e list \<Rightarrow> nat option" where
  "find_slot k es = find_index (\<lambda>e. in_use e \<and> key e = k) es"

definition lookup :: "'e list \<Rightarrow> 'k \<Rightarrow> 'e option" where
  "lookup es k = map_option (\<lambda>i. es ! i) (find_slot k es)"

definition unique :: "'e list \<Rightarrow> bool" where
  "unique es \<longleftrightarrow> (\<forall>i < length es. \<forall>j < length es.
     in_use (es ! i) \<and> in_use (es ! j) \<and> key (es ! i) = key (es ! j) \<longrightarrow> i = j)"

lemma uniqueD:
  "unique es \<Longrightarrow> i < length es \<Longrightarrow> j < length es \<Longrightarrow> in_use (es ! i) \<Longrightarrow> in_use (es ! j) \<Longrightarrow>
     key (es ! i) = key (es ! j) \<Longrightarrow> i = j"
  by (simp add: unique_def)

lemma find_slot_Some:
  "find_slot k es = Some i \<Longrightarrow> i < length es \<and> in_use (es ! i) \<and> key (es ! i) = k"
  by (auto simp: find_slot_def dest: find_index_Some)

lemma find_slot_None: "find_slot k es = None \<longleftrightarrow> (\<forall>e \<in> set es. in_use e \<longrightarrow> key e \<noteq> k)"
  by (auto simp: find_slot_def find_index_None)

lemma lookup_slot:
  assumes "unique es" and "i < length es" and "in_use (es ! i)" and "key (es ! i) = k"
  shows "lookup es k = Some (es ! i)"
proof -
  have "find_slot k es \<noteq> None" using assms by (auto simp: find_slot_None)
  then obtain j where "find_slot k es = Some j" by blast
  moreover from find_slot_Some [OF this] have "j = i"
    using assms uniqueD [of es j i] by auto
  ultimately show ?thesis by (simp add: lookup_def)
qed

lemma lookup_None: "(\<And>i. i < length es \<Longrightarrow> in_use (es ! i) \<Longrightarrow> key (es ! i) \<noteq> k) \<Longrightarrow> lookup es k = None"
  by (simp add: lookup_def find_slot_None) (metis in_set_conv_nth)

lemma lookup_Some:
  "lookup es k = Some e \<Longrightarrow> \<exists>i < length es. es ! i = e \<and> in_use e \<and> key e = k"
  by (auto simp: lookup_def dest: find_slot_Some)

lemma lookup_eqI:
  assumes "unique es" and "unique fs"
    and "\<And>i. i < length es \<Longrightarrow> in_use (es ! i) \<Longrightarrow> key (es ! i) = k \<Longrightarrow>
      i < length fs \<and> fs ! i = es ! i"
    and "\<And>i. i < length fs \<Longrightarrow> in_use (fs ! i) \<Longrightarrow> key (fs ! i) = k \<Longrightarrow>
      i < length es \<and> es ! i = fs ! i"
  shows "lookup es k = lookup fs k"
proof (cases "lookup es k")
  case None
  then have "\<And>i. i < length es \<Longrightarrow> in_use (es ! i) \<Longrightarrow> key (es ! i) \<noteq> k"
    using lookup_slot [OF assms(1)] by fastforce
  then have "lookup fs k = None" using assms(4) by (intro lookup_None) metis
  with None show ?thesis by simp
next
  case (Some e)
  then obtain i where "i < length es" "es ! i = e" "in_use e" "key e = k" using lookup_Some by blast
  with assms(3) [of i] lookup_slot [OF assms(2), of i] Some show ?thesis by auto
qed

text \<open>Rewriting a used slot in place.\<close>

lemma unique_update:
  assumes "unique es" and "i < length es"
    and "in_use e \<Longrightarrow> in_use (es ! i) \<and> key e = key (es ! i) \<or> find_slot (key e) es = None"
  shows "unique (es[i := e])"
proof -
  have other: "key (es ! j) \<noteq> key e" if "in_use e" "j < length es" "j \<noteq> i" "in_use (es ! j)" for j
    using assms(3) [OF that(1)] uniqueD [OF assms(1), of i j] that assms(2) nth_mem [OF that(2)]
    by (auto simp: find_slot_None)
  show ?thesis
    unfolding unique_def
    using other uniqueD [OF assms(1)] assms(2) by (simp add: nth_list_update) metis
qed

lemma lookup_update:
  assumes "unique es" and "find_slot k es = Some i" and "in_use e" and "key e = k"
  shows "lookup (es[i := e]) = (lookup es)(k \<mapsto> e)"
proof
  fix x
  note i = find_slot_Some [OF assms(2)]
  have u: "unique (es[i := e])" using assms i by (intro unique_update) auto
  show "lookup (es[i := e]) x = ((lookup es)(k \<mapsto> e)) x"
  proof (cases "x = k")
    case True
    then show ?thesis using lookup_slot [OF u, of i k] i assms by simp
  next
    case False
    have "lookup (es[i := e]) x = lookup es x"
      using False i assms
      by (intro lookup_eqI [OF u assms(1)]) (auto simp: nth_list_update split: if_splits)
    with False show ?thesis by simp
  qed
qed

lemma lookup_free:
  assumes "unique es" and "find_slot k es = Some i" and "\<not> in_use e"
  shows "lookup (es[i := e]) = (lookup es)(k := None)"
proof
  fix x
  note i = find_slot_Some [OF assms(2)]
  have u: "unique (es[i := e])" using assms i by (intro unique_update) auto
  show "lookup (es[i := e]) x = ((lookup es)(k := None)) x"
  proof (cases "x = k")
    case True
    have "lookup (es[i := e]) k = None"
      using i assms uniqueD [OF assms(1), of i] by (intro lookup_None) (auto simp: nth_list_update)
    with True show ?thesis by simp
  next
    case False
    have "lookup (es[i := e]) x = lookup es x"
      using False i assms
      by (intro lookup_eqI [OF u assms(1)]) (auto simp: nth_list_update split: if_splits)
    with False show ?thesis by simp
  qed
qed

lemma lookup_alloc:
  assumes "unique es" and "find_slot k es = None" and "i < length es" and "\<not> in_use (es ! i)"
    and "in_use e" and "key e = k"
  shows "unique (es[i := e])" and "lookup (es[i := e]) = (lookup es)(k \<mapsto> e)"
proof -
  show u: "unique (es[i := e])" using assms by (intro unique_update) auto
  show "lookup (es[i := e]) = (lookup es)(k \<mapsto> e)"
  proof
    fix x
    show "lookup (es[i := e]) x = ((lookup es)(k \<mapsto> e)) x"
    proof (cases "x = k")
      case True
      then show ?thesis using lookup_slot [OF u, of i k] assms by simp
    next
      case False
      have "lookup (es[i := e]) x = lookup es x"
        using False assms
        by (intro lookup_eqI [OF u assms(1)]) (auto simp: nth_list_update split: if_splits)
      with False show ?thesis by simp
    qed
  qed
qed

text \<open>The map is full exactly when no slot is free.\<close>

lemma dom_lookup:
  assumes u: "unique es"
  shows "dom (lookup es) = (\<lambda>i. key (es ! i)) ` {i. i < length es \<and> in_use (es ! i)}"
proof (intro equalityI subsetI)
  fix k
  assume "k \<in> dom (lookup es)"
  then obtain e where "lookup es k = Some e" by blast
  from lookup_Some [OF this] show "k \<in> (\<lambda>i. key (es ! i)) ` {i. i < length es \<and> in_use (es ! i)}"
    by blast
next
  fix k
  assume "k \<in> (\<lambda>i. key (es ! i)) ` {i. i < length es \<and> in_use (es ! i)}"
  then obtain i where "i < length es" "in_use (es ! i)" "key (es ! i) = k" by blast
  from lookup_slot [OF u this] show "k \<in> dom (lookup es)" by (rule domI)
qed

lemma card_dom_lookup:
  assumes "unique es"
  shows "card (dom (lookup es)) = card {i. i < length es \<and> in_use (es ! i)}"
  unfolding dom_lookup [OF assms]
  by (rule card_image) (auto intro!: inj_onI dest: uniqueD [OF assms])

lemma full_iff:
  assumes "unique es"
  shows "(\<forall>e \<in> set es. in_use e) \<longleftrightarrow> card (dom (lookup es)) = length es"
proof -
  let ?U = "{i. i < length es \<and> in_use (es ! i)}"
  have "(\<forall>e \<in> set es. in_use e) \<longleftrightarrow> ?U = {..<length es}"
    by (simp add: all_set_conv_all_nth set_eq_iff) blast
  also have "\<dots> \<longleftrightarrow> card ?U = card {..<length es}"
  proof
    have "?U \<subseteq> {..<length es}" by auto
    then show "card ?U = card {..<length es} \<Longrightarrow> ?U = {..<length es}"
      by (rule card_subset_eq [OF finite_lessThan])
  qed (erule arg_cong)
  finally show ?thesis by (simp add: card_dom_lookup [OF assms])
qed

end

end
