(* ===== verification/PduRelay.thy ===== *)
theory PduRelay
  imports DextIpc Crc32c SlotTable
begin

text \<open>
  The PDU relay: \<open>Source/User/iscsid/iSCSIPDURelay.c\<close>.

  The static \<open>gRelay\<close> is a field of the state; a pointer to a session slot is its index. The
  receive loop is one step function iterated with fuel; \<open>relay_fuel\<close> is the amount the code can
  use, which a property proves. Then the properties: the session table, the length field, what is
  sent for a PDU, and what the receiver makes of the bytes that arrive.
\<close>

abbreviation (input) kPDURelayMaxSessions :: nat where "kPDURelayMaxSessions \<equiv> 16"

section \<open>State\<close>

record RelaySessionState =
  rs_inUse :: bool
  rs_active :: bool
  rs_sessionId :: u8
  rs_connectionId :: u32
  rs_awaitingBHS :: bool
  rs_expectedDataLen :: u32
  rs_recvdDataLen :: u32
  rs_tcpCtx :: "nat option"
  rs_useHeaderDigest :: bool
  rs_useDataDigest :: bool

definition zero_rs :: RelaySessionState where
  "zero_rs = \<lparr> rs_inUse = False, rs_active = False, rs_sessionId = 0, rs_connectionId = 0,
     rs_awaitingBHS = False, rs_expectedDataLen = 0, rs_recvdDataLen = 0, rs_tcpCtx = None,
     rs_useHeaderDigest = False, rs_useDataDigest = False \<rparr>"

text \<open>\<open>relay_callback\<close> is whether \<open>responseCallback\<close> is set; a call through it is on the trace.\<close>

record Relay =
  relay_initialized :: bool
  relay_dextIPC :: "nat option"
  relay_ipcHandle :: "nat option"
  relay_sessions :: "RelaySessionState list"
  relay_callback :: bool

definition zero_relay :: Relay where
  "zero_relay = \<lparr> relay_initialized = False, relay_dextIPC = None, relay_ipcHandle = None,
     relay_sessions = replicate kPDURelayMaxSessions zero_rs, relay_callback = False \<rparr>"

record relay_world = ipc_world +
  gRelay :: Relay

definition set_session :: "nat \<Rightarrow> RelaySessionState \<Rightarrow> ('z relay_world_scheme, unit) state" where
  "set_session i s = modify (\<lambda>w. w\<lparr> gRelay := (gRelay w)
     \<lparr> relay_sessions := (relay_sessions (gRelay w))[i := s] \<rparr> \<rparr>)"

definition get_session :: "nat \<Rightarrow> ('z relay_world_scheme, RelaySessionState) state" where
  "get_session i = gets (\<lambda>w. relay_sessions (gRelay w) ! i)"

section \<open>The session table\<close>

definition find_session :: "u8 \<Rightarrow> RelaySessionState list \<Rightarrow> nat option" where
  "find_session sessionId ss = find_index (\<lambda>s. rs_inUse s \<and> rs_sessionId s = sessionId) ss"

definition fresh_rs :: "u8 \<Rightarrow> RelaySessionState" where
  "fresh_rs sessionId = zero_rs\<lparr> rs_inUse := True, rs_sessionId := sessionId, rs_awaitingBHS := True,
     rs_active := False \<rparr>"

definition alloc_session :: "u8 \<Rightarrow> ('z relay_world_scheme, nat option) state" where
  "alloc_session sessionId = do {
     ss \<leftarrow> gets (\<lambda>w. relay_sessions (gRelay w));
     (case find_session sessionId ss of
        Some i \<Rightarrow> State_Monad.return (Some i)
      | None \<Rightarrow>
          (case find_index (\<lambda>s. \<not> rs_inUse s) ss of
             Some i \<Rightarrow> do { set_session i (fresh_rs sessionId); State_Monad.return (Some i) }
           | None \<Rightarrow> State_Monad.return None))
   }"

definition PDURelayInitialize :: "nat option \<Rightarrow> bool \<Rightarrow> ('z relay_world_scheme, unit) state" where
  "PDURelayInitialize dextIPC callback = modify (\<lambda>w. w\<lparr> gRelay := zero_relay
     \<lparr> relay_initialized := True, relay_dextIPC := dextIPC, relay_ipcHandle := dextIPC,
       relay_callback := callback \<rparr> \<rparr>)"

definition PDURelayRegisterSession :: "u8 \<Rightarrow> nat option \<Rightarrow> ('z relay_world_scheme, errno_t) state" where
  "PDURelayRegisterSession sessionId ctx = do {
     g \<leftarrow> gets gRelay;
     if \<not> relay_initialized g then State_Monad.return EINVAL
     else (case ctx of
       None \<Rightarrow> State_Monad.return EINVAL
     | Some p \<Rightarrow> do {
         st \<leftarrow> alloc_session sessionId;
         (case st of
            None \<Rightarrow> State_Monad.return ENOMEM
          | Some i \<Rightarrow> do {
              c \<leftarrow> load_ctx p;
              s \<leftarrow> get_session i;
              set_session i (s\<lparr> rs_connectionId := ctx_connectionId c, rs_tcpCtx := Some p,
                rs_awaitingBHS := True, rs_expectedDataLen := 0, rs_recvdDataLen := 0,
                rs_active := False \<rparr>);
              State_Monad.return 0
            })
       })
   }"

text \<open>The pattern of the functions that update the session they find.\<close>

definition update_session ::
  "u8 \<Rightarrow> (RelaySessionState \<Rightarrow> RelaySessionState) \<Rightarrow> ('z relay_world_scheme, unit) state" where
  "update_session sessionId f = do {
     ss \<leftarrow> gets (\<lambda>w. relay_sessions (gRelay w));
     (case find_session sessionId ss of
        None \<Rightarrow> State_Monad.return ()
      | Some i \<Rightarrow> set_session i (f (ss ! i)))
   }"

definition PDURelayUnregisterSession :: "u8 \<Rightarrow> ('z relay_world_scheme, unit) state" where
  "PDURelayUnregisterSession sessionId =
     update_session sessionId (\<lambda>s. s\<lparr> rs_inUse := False, rs_tcpCtx := None \<rparr>)"

definition PDURelayActivateSession :: "u8 \<Rightarrow> ('z relay_world_scheme, unit) state" where
  "PDURelayActivateSession sessionId =
     update_session sessionId (\<lambda>s. s\<lparr> rs_active := True, rs_awaitingBHS := True,
       rs_expectedDataLen := 0, rs_recvdDataLen := 0 \<rparr>)"

definition PDURelaySetDigestFlags :: "u8 \<Rightarrow> bool \<Rightarrow> bool \<Rightarrow> ('z relay_world_scheme, unit) state" where
  "PDURelaySetDigestFlags sessionId headerDigest dataDigest =
     update_session sessionId (\<lambda>s. s\<lparr> rs_useHeaderDigest := headerDigest,
       rs_useDataDigest := dataDigest \<rparr>)"

definition PDURelayGetTCPContext :: "u8 \<Rightarrow> ('z relay_world_scheme, nat option) state" where
  "PDURelayGetTCPContext sessionId = do {
     ss \<leftarrow> gets (\<lambda>w. relay_sessions (gRelay w));
     State_Monad.return
       (case find_session sessionId ss of None \<Rightarrow> None | Some i \<Rightarrow> rs_tcpCtx (ss ! i))
   }"

section \<open>Lengths and digests\<close>

definition be32_at :: "nat \<Rightarrow> u8 list \<Rightarrow> u32" where
  "be32_at k bs = be32_value (bs ! k) (bs ! (k + 1)) (bs ! (k + 2)) (bs ! (k + 3))"

text \<open>The length of the data segment as the relay reads it from a header, by opcode.\<close>

definition get_data_segment_length :: "u8 list \<Rightarrow> u32" where
  "get_data_segment_length bhs =
     (let opcode = bhs ! 0 AND 0x3F in
      if opcode = 0x01 then be32_at 20 bhs
      else if opcode \<in> {0x21, 0x25, 0x05, 0x31} then be32_at 20 bhs
      else if opcode \<in> {0x03, 0x23, 0x04, 0x24, 0x06, 0x26, 0x10, 0x3F} then
        (let ahsLen = ucast (bhs ! 4) * 4;
             dataSegLen = push_bit 16 (ucast (bhs ! 5)) OR push_bit 8 (ucast (bhs ! 6)) OR ucast (bhs ! 7)
         in ahsLen + dataSegLen)
      else if opcode \<in> {0x00, 0x20, 0x32, 0x02, 0x22} then
        (let ahsLen = ucast (bhs ! 4) * 4;
             dataSegLen = push_bit 16 (ucast (bhs ! 5)) OR push_bit 8 (ucast (bhs ! 6)) OR ucast (bhs ! 7)
         in ahsLen + dataSegLen)
      else 0)"

definition padding_len :: "u32 \<Rightarrow> u32" where
  "padding_len dataLen = (4 - (dataLen AND 3)) AND 3"

text \<open>The digest of the daemon: \<open>main\<close> calls \<open>crc32c_init\<close> before anything else.\<close>

definition digest :: "u8 list \<Rightarrow> u32" where
  "digest bs = crc32c crc32c_init 0 bs"

definition verify_crc32c :: "u32 \<Rightarrow> u8 list \<Rightarrow> bool" where
  "verify_crc32c expectedCRC data \<longleftrightarrow> digest data = expectedCRC"

section \<open>Sending\<close>

definition send_crc_digest :: "nat option \<Rightarrow> u32 \<Rightarrow> ('z tcp_world_scheme, errno_t) state" where
  "send_crc_digest ctx crc = TCPEngineSend ctx (Some (be32_bytes crc))"

text \<open>Run \<open>m\<close>; on an error return it, otherwise go on with \<open>k\<close>.\<close>

definition or_return :: "('s, errno_t) state \<Rightarrow> ('s, errno_t) state \<Rightarrow> ('s, errno_t) state" where
  "or_return m k = do { err \<leftarrow> m; if err \<noteq> 0 then State_Monad.return err else k }"

definition PDURelaySendControlPDU ::
  "u8 \<Rightarrow> u8 list option \<Rightarrow> u8 list option \<Rightarrow> ('z relay_world_scheme, errno_t) state" where
  "PDURelaySendControlPDU sessionId bhs data = do {
     g \<leftarrow> gets gRelay;
     if \<not> relay_initialized g then State_Monad.return EINVAL
     else (case bhs of
       None \<Rightarrow> State_Monad.return EINVAL
     | Some hdr \<Rightarrow>
         (case find_session sessionId (relay_sessions g) of
            None \<Rightarrow> State_Monad.return ENOENT
          | Some i \<Rightarrow>
              let st = relay_sessions g ! i; ctx = rs_tcpCtx st in
              if ctx = None then State_Monad.return ENOENT
              else
                or_return (TCPEngineSend ctx (Some (take kIPC_ISCSI_BHS_SIZE hdr)))
               (or_return (if rs_useHeaderDigest st
                           then send_crc_digest ctx (digest (take kIPC_ISCSI_BHS_SIZE hdr))
                           else State_Monad.return 0)
               (case data of
                  Some (b # bs) \<Rightarrow>
                    or_return (TCPEngineSend ctx (Some (b # bs)))
                   (or_return (let padLen = unat (padding_len (of_nat (length (b # bs)))) in
                               if 0 < padLen then TCPEngineSend ctx (Some (replicate padLen 0))
                               else State_Monad.return 0)
                   (or_return (if rs_useDataDigest st then send_crc_digest ctx (digest (b # bs))
                               else State_Monad.return 0)
                      (State_Monad.return 0)))
                | _ \<Rightarrow>
                    or_return (if rs_useDataDigest st then send_crc_digest ctx (digest [])
                               else State_Monad.return 0)
                      (State_Monad.return 0)))))
   }"

section \<open>Receiving\<close>

text \<open>Where a received PDU goes: to the extension in full-feature phase, else to the callback.\<close>

definition deliver ::
  "RelaySessionState \<Rightarrow> u8 list \<Rightarrow> u8 list option \<Rightarrow> ('z relay_world_scheme, unit) state" where
  "deliver st bhs data = do {
     g \<leftarrow> gets gRelay;
     if rs_active st \<and> relay_ipcHandle g \<noteq> None then do {
       DextIPCForwardIncomingPDU (relay_ipcHandle g)
         (Some \<lparr> in_sessionId = rs_sessionId st, in_connectionId = rs_connectionId st, in_bhs = bhs,
                 in_dataLength = (case data of None \<Rightarrow> 0 | Some d \<Rightarrow> of_nat (length d)),
                 in_dataBufferOffset = 0 \<rparr>) data;
       State_Monad.return ()
     }
     else if relay_callback g then do {
       sys (SysPDUResponse (rs_sessionId st) (rs_connectionId st) bhs data);
       State_Monad.return ()
     }
     else State_Monad.return ()
   }"

text \<open>One iteration leaves the loop to go on with the bytes left (\<open>Continue\<close>), leaves it with a
  \<open>break\<close> (\<open>Break\<close>), or returns after removing bytes from the front of the buffer (\<open>Consumed\<close>).\<close>

datatype relay_ctl = Continue "u8 list" | Break "u8 list" | Consumed nat

text \<open>A PDU without data, \<open>buf\<close> starting at its header.\<close>

definition relay_empty_pdu :: "nat \<Rightarrow> RelaySessionState \<Rightarrow> u8 list \<Rightarrow> ('z relay_world_scheme, relay_ctl) state" where
  "relay_empty_pdu i st buf =
     (let hdrDig = (if rs_useHeaderDigest st then 4 else 0);
          datDig = (if rs_useDataDigest st then 4 else 0);
          wireSize = kIPC_ISCSI_BHS_SIZE + hdrDig + datDig;
          bhs = take kIPC_ISCSI_BHS_SIZE buf
      in if length buf < wireSize then State_Monad.return (Break buf)
         else if rs_useHeaderDigest st \<and> \<not> verify_crc32c (be32_at 48 buf) bhs then do {
           set_session i (st\<lparr> rs_awaitingBHS := True \<rparr>);
           State_Monad.return (Continue (drop wireSize buf))
         }
         else if rs_useDataDigest st \<and>
                 \<not> verify_crc32c (be32_at (kIPC_ISCSI_BHS_SIZE + hdrDig) buf) [] then do {
           set_session i (st\<lparr> rs_awaitingBHS := True \<rparr>);
           State_Monad.return (Continue (drop wireSize buf))
         }
         else do {
           set_session i (st\<lparr> rs_awaitingBHS := True \<rparr>);
           deliver st bhs None;
           State_Monad.return (Continue (drop wireSize buf))
         })"

text \<open>The header of a PDU with data: its digest is checked, then the loop goes on to accumulate, with
  \<open>buf\<close> still at the header.\<close>

definition relay_data_header :: "nat \<Rightarrow> RelaySessionState \<Rightarrow> u8 list \<Rightarrow> ('z relay_world_scheme, relay_ctl) state" where
  "relay_data_header i st buf =
     (let hdrDigOffset = (if rs_useHeaderDigest st then 4 else 0) in
      if length buf < kIPC_ISCSI_BHS_SIZE + hdrDigOffset then State_Monad.return (Break buf)
      else if rs_useHeaderDigest st \<and>
              \<not> verify_crc32c (be32_at 48 buf) (take kIPC_ISCSI_BHS_SIZE buf) then do {
        let skip = min (kIPC_ISCSI_BHS_SIZE + hdrDigOffset + unat (rs_expectedDataLen st)
                        + unat (padding_len (rs_expectedDataLen st))
                        + (if rs_useDataDigest st then 4 else 0)) (length buf);
        set_session i (st\<lparr> rs_awaitingBHS := True \<rparr>);
        State_Monad.return (Continue (drop skip buf))
      }
      else do {
        set_session i (st\<lparr> rs_awaitingBHS := False \<rparr>);
        State_Monad.return (Continue buf)
      })"

text \<open>The cap on the length field.\<close>

definition capped_length :: "u8 list \<Rightarrow> u32" where
  "capped_length buf =
     (let n = get_data_segment_length buf in if 256 * 1024 < n then 256 * 1024 else n)"

definition relay_header :: "nat \<Rightarrow> RelaySessionState \<Rightarrow> u8 list \<Rightarrow> ('z relay_world_scheme, relay_ctl) state" where
  "relay_header i st buf =
     (if length buf < kIPC_ISCSI_BHS_SIZE then State_Monad.return (Break buf)
      else do {
        let n = capped_length buf;
        let st = st\<lparr> rs_expectedDataLen := n, rs_recvdDataLen := 0 \<rparr>;
        set_session i st;
        if n = 0 then relay_empty_pdu i st buf else relay_data_header i st buf
      })"

text \<open>Accumulating: \<open>base\<close> is the whole receive buffer, of \<open>ctx->recvLen\<close> bytes. The header, the data
  and the digest are read from the start of it, wherever \<open>buf\<close> has got to.\<close>

definition relay_accumulate ::
  "nat \<Rightarrow> RelaySessionState \<Rightarrow> u8 list \<Rightarrow> u8 list \<Rightarrow> ('z relay_world_scheme, relay_ctl) state" where
  "relay_accumulate i st base buf =
     (let toCopy = min (length buf) (unat (rs_expectedDataLen st - rs_recvdDataLen st));
          st = st\<lparr> rs_recvdDataLen := rs_recvdDataLen st + of_nat toCopy \<rparr>;
          buf = drop toCopy buf;
          expected = unat (rs_expectedDataLen st);
          dataOff = kIPC_ISCSI_BHS_SIZE + (if rs_useHeaderDigest st then 4 else 0);
          pad = unat (padding_len (rs_expectedDataLen st));
          consumed = dataOff + expected + pad + (if rs_useDataDigest st then 4 else 0);
          dataSeg = take expected (drop dataOff base);
          done = st\<lparr> rs_awaitingBHS := True, rs_expectedDataLen := 0, rs_recvdDataLen := 0 \<rparr>
      in do {
        set_session i st;
        if rs_recvdDataLen st < rs_expectedDataLen st then State_Monad.return (Continue buf)
        else if length base < consumed then State_Monad.return (Break buf)
        else if rs_useDataDigest st \<and>
                \<not> verify_crc32c (be32_at (dataOff + expected + pad) base) dataSeg then do {
          set_session i done;
          State_Monad.return (Consumed consumed)
        }
        else do {
          deliver st (take kIPC_ISCSI_BHS_SIZE base) (Some dataSeg);
          set_session i done;
          State_Monad.return (Consumed consumed)
        }
      })"

primrec relay_loop :: "nat \<Rightarrow> nat \<Rightarrow> u8 list \<Rightarrow> u8 list \<Rightarrow> ('z relay_world_scheme, relay_ctl) state" where
  "relay_loop 0 i base buf = State_Monad.return (Continue buf)"
| "relay_loop (Suc fuel) i base buf =
     (if buf = [] then State_Monad.return (Break [])
      else do {
        st \<leftarrow> get_session i;
        ctl \<leftarrow> (if rs_awaitingBHS st then relay_header i st buf else relay_accumulate i st base buf);
        (case ctl of
           Continue rest \<Rightarrow> relay_loop fuel i base rest
         | _ \<Rightarrow> State_Monad.return ctl)
      })"

definition relay_fuel :: "u8 list \<Rightarrow> nat" where
  "relay_fuel buf = 2 * length buf + 2"

text \<open>The bytes of the receive buffer, and \<open>memmove\<close> of its tail to the front.\<close>

definition recv_bytes :: "TCPConnectionContext \<Rightarrow> u8 list" where
  "recv_bytes c = take (ctx_recvLen c) (contents (ctx_recvBuf c))"

definition compact :: "nat \<Rightarrow> TCPConnectionContext \<Rightarrow> TCPConnectionContext" where
  "compact n c = c\<lparr> ctx_recvLen := ctx_recvLen c - n,
     ctx_recvBuf := (if n < ctx_recvLen c \<and> 0 < n
       then Mem (poke 0 (drop n (recv_bytes c)) (contents (ctx_recvBuf c))) else ctx_recvBuf c) \<rparr>"

definition PDURelayProcessReceivedData :: "nat option \<Rightarrow> ('z relay_world_scheme, errno_t) state" where
  "PDURelayProcessReceivedData ctx = do {
     g \<leftarrow> gets gRelay;
     if \<not> relay_initialized g then State_Monad.return EINVAL
     else (case ctx of
       None \<Rightarrow> State_Monad.return EINVAL
     | Some p \<Rightarrow> do {
         c \<leftarrow> load_ctx p;
         (case find_index (\<lambda>s. rs_inUse s \<and> rs_tcpCtx s = Some p) (relay_sessions g) of
            None \<Rightarrow> do { store_ctx p (c\<lparr> ctx_recvLen := 0 \<rparr>); State_Monad.return ENOENT }
          | Some i \<Rightarrow> do {
              (if ctx_recvBuf c = Freed \<and> 0 < ctx_recvLen c then fault UseAfterFree
               else State_Monad.return ());
              let base = recv_bytes c;
              ctl \<leftarrow> relay_loop (relay_fuel base) i base base;
              c \<leftarrow> load_ctx p;
              (case ctl of
                 Consumed n \<Rightarrow> store_ctx p (compact n c)
               | Break rest \<Rightarrow> store_ctx p (compact (length base - length rest) c)
               | Continue rest \<Rightarrow> State_Monad.return ());
              State_Monad.return 0
            })
       })
   }"

section \<open>Events\<close>

definition lost_status :: "RelaySessionState \<Rightarrow> u8 \<Rightarrow> DextConnectionStatus" where
  "lost_status st sessionId = \<lparr> st_sessionId = sessionId, st_connectionId = rs_connectionId st,
     st_isConnected = False, st_errorCode = ECONNRESET,
     st_description = map (of_nat \<circ> of_char) ''TCP connection lost'' \<rparr>"

definition PDURelayHandleTCPEvent :: "u8 \<Rightarrow> u32 \<Rightarrow> ('z relay_world_scheme, errno_t) state" where
  "PDURelayHandleTCPEvent sessionId events = do {
     g \<leftarrow> gets gRelay;
     if \<not> relay_initialized g then State_Monad.return EINVAL
     else (case find_session sessionId (relay_sessions g) of
       None \<Rightarrow> State_Monad.return ENOENT
     | Some i \<Rightarrow>
         let st = relay_sessions g ! i in
         if rs_tcpCtx st = None then State_Monad.return ENOENT
         else do {
           (if events AND kTCPEventDisconnected \<noteq> 0 then do {
              set_session i (st\<lparr> rs_awaitingBHS := True \<rparr>);
              (if relay_ipcHandle g \<noteq> None \<and> rs_active st
               then do { DextIPCConnectionStatus (relay_ipcHandle g) (Some (lost_status st sessionId));
                         State_Monad.return () }
               else State_Monad.return ())
            } else State_Monad.return ());
           if events AND kTCPEventDataAvailable \<noteq> 0
           then PDURelayProcessReceivedData (rs_tcpCtx st)
           else State_Monad.return 0
         })
   }"

section \<open>The session table implements a map\<close>

interpretation relay_slots: slot_table rs_inUse rs_sessionId .

lemma find_session_slot: "find_session sid ss = relay_slots.find_slot sid ss"
  by (simp add: find_session_def relay_slots.find_slot_def)

definition relay_ok :: "'z relay_world_scheme \<Rightarrow> bool" where
  "relay_ok w \<longleftrightarrow> length (relay_sessions (gRelay w)) = kPDURelayMaxSessions \<and>
     relay_slots.unique (relay_sessions (gRelay w))"

definition session_map :: "'z relay_world_scheme \<Rightarrow> u8 \<Rightarrow> RelaySessionState option" where
  "session_map w = relay_slots.lookup (relay_sessions (gRelay w))"

lemma called_gRelay [simp]: "gRelay (called c w) = gRelay w"
  by (simp add: called_def)

lemma answer_gRelay [simp]: "answer (w\<lparr> gRelay := g \<rparr>) = answer w"
  by (simp add: answer_def)

lemma run_set_session [monad_simps]:
  "run_state (set_session i s) w = ((), w\<lparr> gRelay := (gRelay w)
     \<lparr> relay_sessions := (relay_sessions (gRelay w))[i := s] \<rparr> \<rparr>)"
  by (simp add: set_session_def)

lemma run_get_session [monad_simps]:
  "run_state (get_session i) w = (relay_sessions (gRelay w) ! i, w)"
  by (simp add: get_session_def)

text \<open>The operations on sessions and what each does to the map of sessions.\<close>

datatype relay_op =
  Register u8 nat
| Unregister u8
| Activate u8
| SetDigestFlags u8 bool bool

primrec run_relay_op :: "relay_op \<Rightarrow> ('z relay_world_scheme, errno_t) state" where
  "run_relay_op (Register sid p) = PDURelayRegisterSession sid (Some p)"
| "run_relay_op (Unregister sid) = do { PDURelayUnregisterSession sid; State_Monad.return 0 }"
| "run_relay_op (Activate sid) = do { PDURelayActivateSession sid; State_Monad.return 0 }"
| "run_relay_op (SetDigestFlags sid h d) = do { PDURelaySetDigestFlags sid h d; State_Monad.return 0 }"

text \<open>The specification, on maps of at most 16 sessions.\<close>

definition registered :: "TCPConnectionContext \<Rightarrow> nat \<Rightarrow> RelaySessionState \<Rightarrow> RelaySessionState" where
  "registered c p s = s\<lparr> rs_connectionId := ctx_connectionId c, rs_tcpCtx := Some p,
     rs_awaitingBHS := True, rs_expectedDataLen := 0, rs_recvdDataLen := 0, rs_active := False \<rparr>"

definition spec_register ::
  "u8 \<Rightarrow> nat \<Rightarrow> TCPConnectionContext \<Rightarrow> (u8 \<Rightarrow> RelaySessionState option) \<Rightarrow>
     errno_t \<times> (u8 \<Rightarrow> RelaySessionState option)" where
  "spec_register sid p c m =
     (case m sid of
        Some s \<Rightarrow> (0, m(sid \<mapsto> registered c p s))
      | None \<Rightarrow> if card (dom m) = kPDURelayMaxSessions then (ENOMEM, m)
               else (0, m(sid \<mapsto> registered c p (fresh_rs sid))))"

primrec spec_op :: "(nat \<Rightarrow> TCPConnectionContext option) \<Rightarrow> relay_op \<Rightarrow>
    (u8 \<Rightarrow> RelaySessionState option) \<Rightarrow> errno_t \<times> (u8 \<Rightarrow> RelaySessionState option)" where
  "spec_op h (Register sid p) m = spec_register sid p (the (h p)) m"
| "spec_op h (Unregister sid) m = (0, m(sid := None))"
| "spec_op h (Activate sid) m = (0, m(sid := map_option (\<lambda>s. s\<lparr> rs_active := True,
     rs_awaitingBHS := True, rs_expectedDataLen := 0, rs_recvdDataLen := 0 \<rparr>) (m sid)))"
| "spec_op h (SetDigestFlags sid b d) m = (0, m(sid := map_option (\<lambda>s. s\<lparr> rs_useHeaderDigest := b,
     rs_useDataDigest := d \<rparr>) (m sid)))"

lemma session_map_find:
  "find_session sid (relay_sessions (gRelay w)) = Some i \<Longrightarrow>
     session_map w sid = Some (relay_sessions (gRelay w) ! i)"
  "find_session sid (relay_sessions (gRelay w)) = None \<Longrightarrow> session_map w sid = None"
  by (simp_all add: session_map_def relay_slots.lookup_def find_session_slot)

lemma relay_ok_set:
  assumes "relay_ok w" and "find_session sid (relay_sessions (gRelay w)) = Some i"
    and "rs_inUse s \<Longrightarrow> rs_sessionId s = sid"
  shows "relay_ok (snd (run_state (set_session i s) w))"
    and "session_map (snd (run_state (set_session i s) w)) =
      (session_map w)(sid := (if rs_inUse s then Some s else None))"
  using assms relay_slots.find_slot_Some [of sid "relay_sessions (gRelay w)" i]
    relay_slots.unique_update [of "relay_sessions (gRelay w)" i s]
    relay_slots.lookup_update [of "relay_sessions (gRelay w)" sid i s]
    relay_slots.lookup_free [of "relay_sessions (gRelay w)" sid i s]
  by (auto simp: relay_ok_def session_map_def find_session_slot monad_simps)

lemma update_session_spec:
  assumes "relay_ok w" and "\<And>s. rs_sessionId (f s) = rs_sessionId s"
  shows "relay_ok (snd (run_state (update_session sid f) w)) \<and>
    session_map (snd (run_state (update_session sid f) w)) =
      (session_map w)(sid := (case session_map w sid of None \<Rightarrow> None
         | Some s \<Rightarrow> if rs_inUse (f s) then Some (f s) else None))"
proof (cases "find_session sid (relay_sessions (gRelay w))")
  case None
  then have "(session_map w)(sid := None) = session_map w"
    using session_map_find(2) [of sid w] by (auto simp: fun_eq_iff)
  with None assms(1) show ?thesis
    by (simp add: update_session_def session_map_find)
next
  case (Some i)
  let ?s = "relay_sessions (gRelay w) ! i"
  have "rs_inUse ?s" "rs_sessionId ?s = sid"
    using Some relay_slots.find_slot_Some by (auto simp: find_session_slot)
  then show ?thesis
    using relay_ok_set [OF assms(1) Some, of "f ?s"] assms(2) [of ?s] Some
    by (simp add: update_session_def session_map_find)
qed

lemma register_spec:
  assumes ok: "relay_ok w" and init: "relay_initialized (gRelay w)" and c: "ctxs w p = Some c"
    and run: "run_state (PDURelayRegisterSession sid (Some p)) w = (err, w')"
  shows "relay_ok w' \<and> (err, session_map w') = spec_register sid p c (session_map w)"
proof (cases "find_session sid (relay_sessions (gRelay w))")
  case (Some i)
  let ?s = "relay_sessions (gRelay w) ! i"
  have s: "rs_inUse ?s" "rs_sessionId ?s = sid"
    using Some relay_slots.find_slot_Some by (auto simp: find_session_slot)
  have "err = 0" "w' = snd (run_state (set_session i (registered c p ?s)) w)"
    using run init c Some
    by (simp_all add: PDURelayRegisterSession_def alloc_session_def run_load_ctx monad_simps
        registered_def)
  then show ?thesis
    using relay_ok_set [OF ok Some, of "registered c p ?s"] s session_map_find(1) [OF Some]
    by (simp add: spec_register_def registered_def)
next
  case None
  have unique: "relay_slots.unique (relay_sessions (gRelay w))"
    and len: "length (relay_sessions (gRelay w)) = 16"
    using ok by (simp_all add: relay_ok_def)
  have full: "find_index (\<lambda>s. \<not> rs_inUse s) (relay_sessions (gRelay w)) = None \<longleftrightarrow>
      card (dom (session_map w)) = 16"
    using relay_slots.full_iff [OF unique] len
    by (simp add: find_index_None session_map_def)
  show ?thesis
  proof (cases "find_index (\<lambda>s. \<not> rs_inUse s) (relay_sessions (gRelay w))")
    case none: None
    then have "err = ENOMEM" "w' = w"
      using run init None by (simp_all add: PDURelayRegisterSession_def alloc_session_def)
    then show ?thesis
      using ok full none session_map_find(2) [OF None] by (simp add: spec_register_def)
  next
    case free: (Some i)
    then have i: "i < 16" "\<not> rs_inUse (relay_sessions (gRelay w) ! i)"
      using find_index_Some len by force+
    have "err = 0" "w' = w\<lparr> gRelay := (gRelay w)\<lparr> relay_sessions :=
        (relay_sessions (gRelay w))[i := registered c p (fresh_rs sid)] \<rparr> \<rparr>"
      using run init c None free i len
      by (simp_all add: PDURelayRegisterSession_def alloc_session_def run_load_ctx monad_simps
          registered_def)
    then show ?thesis
      using relay_slots.lookup_alloc [OF unique, of sid i "registered c p (fresh_rs sid)"]
        None i len full free session_map_find(2) [OF None]
      by (simp add: spec_register_def relay_ok_def session_map_def find_session_slot
          registered_def fresh_rs_def)
  qed
qed

text \<open>C17: the relay's session array implements a map from session identifiers to sessions, of at most
  16 entries. Each operation keeps the invariant (16 slots, no identifier used twice) and acts on
  the map as specified: registering adds a reset entry for a new identifier, resets the entry of a
  known one, and fails with ENOMEM exactly when 16 other sessions are there; unregistering removes
  the entry; activation and digest flags change only their own fields of their own entry.\<close>

theorem relay_table_refines_map:
  assumes "relay_ok w" and "relay_initialized (gRelay w)"
    and "case rop of Register sid p \<Rightarrow> ctxs w p \<noteq> None | _ \<Rightarrow> True"
    and "run_state (run_relay_op rop) w = (err, w')"
  shows "relay_ok w' \<and> (err, session_map w') = spec_op (ctxs w) rop (session_map w)"
proof (cases rop)
  case (Register sid p)
  then show ?thesis using assms register_spec [OF assms(1,2)] by auto
next
  case (Unregister sid)
  then show ?thesis
    using assms update_session_spec [OF assms(1), of "\<lambda>s. s\<lparr> rs_inUse := False, rs_tcpCtx := None \<rparr>" sid]
    by (auto simp: PDURelayUnregisterSession_def split_beta split: option.splits)
next
  case (Activate sid)
  let ?f = "\<lambda>s. s\<lparr> rs_active := True, rs_awaitingBHS := True, rs_expectedDataLen := 0,
      rs_recvdDataLen := 0 \<rparr>"
  have "rs_inUse s" if "session_map w sid = Some s" for s
    using that relay_slots.lookup_Some by (fastforce simp: session_map_def)
  with Activate show ?thesis
    using assms update_session_spec [OF assms(1), of ?f sid]
    by (auto simp: PDURelayActivateSession_def split_beta split: option.splits)
next
  case (SetDigestFlags sid h d)
  let ?f = "\<lambda>s. s\<lparr> rs_useHeaderDigest := h, rs_useDataDigest := d \<rparr>"
  have "rs_inUse s" if "session_map w sid = Some s" for s
    using that relay_slots.lookup_Some by (fastforce simp: session_map_def)
  with SetDigestFlags show ?thesis
    using assms update_session_spec [OF assms(1), of ?f sid]
    by (auto simp: PDURelaySetDigestFlags_def split_beta split: option.splits)
qed

definition demo_relay :: "TCPConnectionContext \<Rightarrow> bool \<Rightarrow> bool \<Rightarrow> sysret list \<Rightarrow> relay_world" where
  "demo_relay c h d rs = \<lparr> respond = script rs, clock = 0, trace = [], faults = [],
     ctxs = (\<lambda>p. if p = 0 then Some c else None), next_ctx = 1, ipcs = (\<lambda>_. None), next_ipc = 0,
     gRelay = zero_relay\<lparr> relay_initialized := True, relay_callback := True,
       relay_sessions := (replicate 16 zero_rs)[0 := (fresh_rs 7)\<lparr> rs_tcpCtx := Some 0,
         rs_useHeaderDigest := h, rs_useDataDigest := d \<rparr>] \<rparr> \<rparr>"

lemma demo_relay_sel [simp]:
  "ctxs (demo_relay c h d rs) 0 = Some c" "relay_initialized (gRelay (demo_relay c h d rs))"
  "relay_sessions (gRelay (demo_relay c h d rs)) ! 0 = (fresh_rs 7)\<lparr> rs_tcpCtx := Some 0,
     rs_useHeaderDigest := h, rs_useDataDigest := d \<rparr>"
  "length (relay_sessions (gRelay (demo_relay c h d rs))) = 16"
  "relay_ipcHandle (gRelay (demo_relay c h d rs)) = None" "relay_callback (gRelay (demo_relay c h d rs))"
  "trace (demo_relay c h d rs) = []" "faults (demo_relay c h d rs) = []"
  "find_session 7 (relay_sessions (gRelay (demo_relay c h d rs))) = Some 0"
  "find_index (\<lambda>s. rs_inUse s \<and> rs_tcpCtx s = Some 0) (relay_sessions (gRelay (demo_relay c h d rs))) = Some 0"
  by (simp_all add: demo_relay_def zero_relay_def zero_rs_def fresh_rs_def find_session_def
      numeral_eq_Suc)

lemma demo_relay_ok: "relay_ok (demo_relay c h d rs)"
proof -
  have free: "i = 0" if "rs_inUse (relay_sessions (gRelay (demo_relay c h d rs)) ! i)" "i < 16" for i
    using that
    by (cases "i = 0") (simp_all add: demo_relay_def zero_relay_def nth_list_update zero_rs_def)
  show ?thesis
    unfolding relay_ok_def relay_slots.unique_def demo_relay_sel
    by (intro conjI refl allI impI) (elim conjE, drule (1) free, drule (1) free, simp)
qed

theorem relay_table_refines_map_witness:
  "\<exists>w'. run_state (run_relay_op (Register 9 0)) (demo_relay demo_ctx False False []) = (0, w') \<and>
     session_map w' 9 = Some (registered demo_ctx 0 (fresh_rs 9))"
proof -
  let ?w = "demo_relay demo_ctx False False []"
  have m: "session_map ?w 9 = None"
    by (simp add: session_map_def relay_slots.lookup_def relay_slots.find_slot_def demo_relay_def
        zero_relay_def zero_rs_def fresh_rs_def numeral_eq_Suc)
  have "dom (session_map ?w) \<subseteq> {7}"
    by (auto simp: session_map_def demo_relay_def zero_relay_def zero_rs_def fresh_rs_def
        in_set_conv_nth nth_list_update dest!: relay_slots.lookup_Some split: if_splits)
  then have c: "card (dom (session_map ?w)) \<noteq> 16"
    using card_mono [of "{7 :: u8}" "dom (session_map ?w)"] by auto
  obtain err w' where run: "run_state (run_relay_op (Register 9 0)) ?w = (err, w')" by fastforce
  from relay_table_refines_map [OF demo_relay_ok _ _ this] m c
  show ?thesis
    by (intro exI [of _ w']) (simp add: run spec_register_def del: run_relay_op.simps)
qed

section \<open>The receive loop ends\<close>

lemma deliver_frame:
  "gRelay (snd (run_state (deliver st bhs data) w)) = gRelay w"
  "ctxs (snd (run_state (deliver st bhs data) w)) = ctxs w"
proof -
  have "preserves (\<lambda>v. gRelay v = g \<and> ctxs v = h) (deliver st bhs data)" for g and h
    unfolding deliver_def DextIPCForwardIncomingPDU_def dext_execute_command_def load_ipc_def
    by (intro preserves_intros preserves_calls; simp add: called_def)
  from preservesD [OF this [of "gRelay w" "ctxs w"], of w]
  show "gRelay (snd (run_state (deliver st bhs data) w)) = gRelay w"
    "ctxs (snd (run_state (deliver st bhs data) w)) = ctxs w"
    by simp_all
qed

text \<open>What is left to do: two units for each byte, one more while a header is awaited.\<close>

definition relay_measure :: "'z relay_world_scheme \<Rightarrow> nat \<Rightarrow> u8 list \<Rightarrow> nat" where
  "relay_measure w i buf =
     2 * length buf + (if rs_awaitingBHS (relay_sessions (gRelay w) ! i) then 1 else 0)"

definition sessions_kept :: "'z relay_world_scheme \<Rightarrow> 'z relay_world_scheme \<Rightarrow> bool" where
  "sessions_kept w w' \<longleftrightarrow>
     length (relay_sessions (gRelay w')) = length (relay_sessions (gRelay w))"

lemma relay_header_step:
  assumes "i < length (relay_sessions (gRelay w))" and "rs_awaitingBHS (relay_sessions (gRelay w) ! i)"
    and "run_state (relay_header i (relay_sessions (gRelay w) ! i) buf) w = (ctl, w')"
  shows "sessions_kept w w' \<and>
    (\<forall>rest. ctl = Continue rest \<longrightarrow> relay_measure w' i rest < relay_measure w i buf)"
  using assms
  by (auto simp: relay_header_def relay_empty_pdu_def relay_data_header_def Let_def monad_simps
      sessions_kept_def relay_measure_def deliver_frame split_beta split: if_splits)

lemma relay_accumulate_step:
  assumes "i < length (relay_sessions (gRelay w))" and "\<not> rs_awaitingBHS (relay_sessions (gRelay w) ! i)"
    and "buf \<noteq> []"
    and "run_state (relay_accumulate i (relay_sessions (gRelay w) ! i) base buf) w = (ctl, w')"
  shows "sessions_kept w w' \<and>
    (\<forall>rest. ctl = Continue rest \<longrightarrow> relay_measure w' i rest < relay_measure w i buf)"
proof -
  let ?st = "relay_sessions (gRelay w) ! i"
  let ?n = "unat (rs_expectedDataLen ?st - rs_recvdDataLen ?st)"
  have pos: "0 < min (length buf) ?n" if "rs_recvdDataLen ?st + of_nat (min (length buf) ?n) < rs_expectedDataLen ?st"
  proof (rule ccontr)
    assume "\<not> 0 < min (length buf) ?n"
    with \<open>buf \<noteq> []\<close> have "?n = 0" by auto
    then have "rs_expectedDataLen ?st = rs_recvdDataLen ?st" by (simp add: unat_eq_0)
    with that \<open>?n = 0\<close> show False by simp
  qed
  show ?thesis
    using assms pos
    by (auto simp: relay_accumulate_def Let_def monad_simps sessions_kept_def relay_measure_def
        deliver_frame split_beta split: if_splits)
qed

lemma relay_loop_ends:
  "relay_measure w i buf < fuel \<Longrightarrow> i < length (relay_sessions (gRelay w)) \<Longrightarrow>
     sessions_kept w (snd (run_state (relay_loop fuel i base buf) w)) \<and>
     (\<forall>rest. fst (run_state (relay_loop fuel i base buf) w) \<noteq> Continue rest) \<and>
     run_state (relay_loop (fuel + k) i base buf) w = run_state (relay_loop fuel i base buf) w"
proof (induction fuel arbitrary: buf w)
  case 0
  then show ?case by simp
next
  case (Suc fuel)
  show ?case
  proof (cases "buf = []")
    case True
    then show ?thesis by (simp add: sessions_kept_def)
  next
    case False
    let ?st = "relay_sessions (gRelay w) ! i"
    let ?m = "if rs_awaitingBHS ?st then relay_header i ?st buf else relay_accumulate i ?st base buf"
    obtain ctl w' where step: "run_state ?m w = (ctl, w')" by fastforce
    have props: "sessions_kept w w' \<and>
        (\<forall>rest. ctl = Continue rest \<longrightarrow> relay_measure w' i rest < relay_measure w i buf)"
    proof (cases "rs_awaitingBHS ?st")
      case True
      then show ?thesis using relay_header_step [OF Suc.prems(2) True] step by simp
    next
      case f: False
      then show ?thesis using relay_accumulate_step [OF Suc.prems(2) f False] step by simp
    qed
    have unfold: "run_state (relay_loop (Suc n) i base buf) w =
        (case ctl of Continue rest \<Rightarrow> run_state (relay_loop n i base rest) w' | _ \<Rightarrow> (ctl, w'))" for n
      using False step by (simp add: run_get_session split: relay_ctl.split)
    show ?thesis
    proof (cases ctl)
      case (Continue rest)
      then have "relay_measure w' i rest < fuel" "i < length (relay_sessions (gRelay w'))"
        using props Suc.prems by (auto simp: sessions_kept_def)
      from Suc.IH [OF this] show ?thesis
        using Continue props by (simp add: unfold sessions_kept_def del: relay_loop.simps)
    qed (use props in \<open>simp_all add: unfold sessions_kept_def del: relay_loop.simps\<close>)
  qed
qed

text \<open>C21: the receive loop terminates on every input: for any buffer, any session state and any answers
  of the system, at most \<open>2 n + 2\<close> iterations on a buffer of \<open>n\<close> bytes reach a \<open>break\<close> or a return,
  and more fuel does not change the outcome, so the fuel of the model is never what stops it.\<close>

theorem relay_loop_terminates:
  assumes "i < length (relay_sessions (gRelay w))"
  shows "(\<nexists>rest. fst (run_state (relay_loop (relay_fuel buf) i base buf) w) = Continue rest) \<and>
    run_state (relay_loop (relay_fuel buf + k) i base buf) w =
      run_state (relay_loop (relay_fuel buf) i base buf) w"
  using relay_loop_ends [of w i buf "relay_fuel buf" base k] assms
  by (auto simp: relay_measure_def relay_fuel_def)

theorem relay_loop_terminates_witness:
  "\<nexists>rest. fst (run_state (relay_loop (relay_fuel [1, 2, 3]) 0 [1, 2, 3] [1, 2, 3])
     (demo_relay demo_ctx True True [])) = Continue rest"
  using relay_loop_terminates [of 0 "demo_relay demo_ctx True True []" "[1, 2, 3]" "[1, 2, 3]" 0]
  by simp

section \<open>The wire image of a PDU\<close>

definition pad_count :: "nat \<Rightarrow> nat" where
  "pad_count n = (4 - n mod 4) mod 4"

definition pdu_wire :: "bool \<Rightarrow> bool \<Rightarrow> u8 list \<Rightarrow> u8 list \<Rightarrow> u8 list" where
  "pdu_wire hdig ddig hdr data =
     hdr @ (if hdig then be32_bytes (digest hdr) else []) @ data @ replicate (pad_count (length data)) 0 @
     (if ddig then be32_bytes (digest data) else [])"

lemma unat_and_3: "unat (x AND 3) = unat (x :: u32) mod 4"
proof -
  have "x AND 3 = take_bit 2 x" by (simp add: take_bit_eq_mask mask_eq_exp_minus_1)
  then show ?thesis by (simp add: unsigned_take_bit_eq take_bit_eq_mod unat_mod)
qed

lemma unat_padding_len: "unat (padding_len x) = pad_count (unat x)"
proof -
  have "x AND 3 \<le> 4" by (simp add: word_le_nat_alt unat_and_3)
  then have "unat (4 - (x AND 3)) = 4 - unat x mod 4" by (simp add: unat_sub unat_and_3)
  then show ?thesis by (simp add: padding_len_def unat_and_3 pad_count_def)
qed

lemma unat_of_nat_u32: "n < 4294967296 \<Longrightarrow> unat (of_nat n :: u32) = n"
  by (simp add: unat_of_nat)

lemma length_pdu_wire:
  "length (pdu_wire hdig ddig hdr data) = length hdr + (if hdig then 4 else 0) + length data +
     pad_count (length data) + (if ddig then 4 else 0)"
  by (simp add: pdu_wire_def)

lemma pad_count_aligns: "(n + pad_count n) mod 4 = 0"
proof -
  have "n mod 4 < 4" by simp
  then consider "n mod 4 = 0" | "n mod 4 = 1" | "n mod 4 = 2" | "n mod 4 = 3" by linarith
  then have "(n mod 4 + pad_count n) mod 4 = 0" by cases (simp_all add: pad_count_def)
  then show ?thesis by (simp add: mod_add_left_eq)
qed

text \<open>The pieces \<open>PDURelaySendControlPDU\<close> hands to the engine.\<close>

definition pdu_chunks :: "bool \<Rightarrow> bool \<Rightarrow> u8 list \<Rightarrow> u8 list \<Rightarrow> u8 list list" where
  "pdu_chunks hdig ddig hdr data =
     [hdr] @ (if hdig then [be32_bytes (digest hdr)] else []) @
     (if data = [] then []
      else [data] @ (if 0 < pad_count (length data) then [replicate (pad_count (length data)) 0] else [])) @
     (if ddig then [be32_bytes (digest data)] else [])"

lemma concat_chunks: "concat (pdu_chunks hdig ddig hdr data) = pdu_wire hdig ddig hdr data"
  by (auto simp: pdu_chunks_def pdu_wire_def pad_count_def)

text \<open>Sending pieces one after the other, as a program and as the fold of the byte stream.\<close>

definition send_pieces :: "nat \<Rightarrow> u8 list list \<Rightarrow> ('z tcp_world_scheme, errno_t) state" where
  "send_pieces p ds =
     foldr (\<lambda>d. or_return (TCPEngineSend (Some p) (Some d))) ds (State_Monad.return 0)"

lemma or_return_0: "or_return (State_Monad.return 0) k = k"
  by (simp add: or_return_def)

lemma run_send_pieces: "run_state (send_pieces p ds) w = tcp.send_all p w ds"
proof (induction ds arbitrary: w)
  case Nil
  then show ?case by (simp add: send_pieces_def)
next
  case (Cons d ds)
  have "run_state (send_pieces p (d # ds)) w =
      (let (err, w') = tcp_send p w d in
       if err \<noteq> 0 then (err, w') else run_state (send_pieces p ds) w')"
    by (simp add: send_pieces_def or_return_def tcp_send_def split_beta)
  moreover obtain err w' where "tcp_send p w d = (err, w')" by fastforce
  ultimately show ?case by (cases "err = 0") (simp_all add: Cons.IH)
qed

lemma send_control_chunks:
  assumes "relay_initialized (gRelay w)"
    and "find_session sid (relay_sessions (gRelay w)) = Some i"
    and "st = relay_sessions (gRelay w) ! i" and "rs_tcpCtx st = Some p"
    and "length hdr = 48" and "length data < 4294967296"
  shows "run_state (PDURelaySendControlPDU sid (Some hdr) (Some data)) w =
    tcp.send_all p w (pdu_chunks (rs_useHeaderDigest st) (rs_useDataDigest st) hdr data)"
proof -
  have pad: "unat (padding_len (of_nat (length data))) = pad_count (length data)"
    using assms(6) by (simp only: unat_padding_len unat_of_nat_u32)
  have hdr: "take 48 hdr = hdr" using assms(5) by simp
  have "run_state (PDURelaySendControlPDU sid (Some hdr) (Some data)) w =
      run_state (send_pieces p (pdu_chunks (rs_useHeaderDigest st) (rs_useDataDigest st) hdr data)) w"
  proof (cases data)
    case Nil
    then show ?thesis
      using assms(1-4) hdr
      by (cases "rs_useHeaderDigest st"; cases "rs_useDataDigest st")
        (simp_all add: PDURelaySendControlPDU_def Let_def or_return_0 send_crc_digest_def
          pdu_chunks_def send_pieces_def)
  next
    case (Cons b bs)
    then show ?thesis
      using assms(1-4) hdr pad
      by (cases "rs_useHeaderDigest st"; cases "rs_useDataDigest st"; cases "0 < pad_count (length data)")
        (simp_all add: PDURelaySendControlPDU_def Let_def or_return_0 send_crc_digest_def
          pdu_chunks_def send_pieces_def del: of_nat_Suc)
  qed
  then show ?thesis by (simp only: run_send_pieces)
qed

text \<open>C3: what the relay sends for a control PDU. On success the stream of the connection grows by
  exactly the header, its digest if negotiated, the data padded with zeros to four bytes, and the
  data digest if negotiated, a multiple of four bytes in all; on an error it has grown by a prefix
  of that image.\<close>

theorem relay_send_wire_image:
  assumes "relay_initialized (gRelay w)"
    and "find_session sid (relay_sessions (gRelay w)) = Some i"
    and "st = relay_sessions (gRelay w) ! i" and "rs_tcpCtx st = Some p"
    and "length hdr = 48" and "length data < 4294967296" and "tcp_ok p w"
    and "run_state (PDURelaySendControlPDU sid (Some hdr) (Some data)) w = (err, w')"
  shows "let image = pdu_wire (rs_useHeaderDigest st) (rs_useDataDigest st) hdr data in
    length image mod 4 = 0 \<and>
    (if err = 0 then tcp_stream p w' = tcp_stream p w @ image
     else \<exists>k. tcp_stream p w' = tcp_stream p w @ take k image)"
proof -
  let ?chunks = "pdu_chunks (rs_useHeaderDigest st) (rs_useDataDigest st) hdr data"
  have run: "tcp.send_all p w ?chunks = (err, w')"
    using send_control_chunks [OF assms(1-6)] assms(8) by simp
  have "length (pdu_wire (rs_useHeaderDigest st) (rs_useDataDigest st) hdr data) mod 4 = 0"
    using pad_count_aligns [of "length data"] assms(5) unfolding length_pdu_wire
    by (cases "rs_useHeaderDigest st"; cases "rs_useDataDigest st") (simp_all, presburger+)
  moreover have "err = 0 \<Longrightarrow> tcp_stream p w' = tcp_stream p w @ concat ?chunks"
    using tcp.send_all_accepts [OF assms(7), of ?chunks] run by simp
  moreover have "\<exists>k. tcp_stream p w' = tcp_stream p w @ take k (concat ?chunks)"
    using tcp.send_all_prefix [OF assms(7), of ?chunks] run by simp
  ultimately show ?thesis by (simp add: concat_chunks)
qed

lemma tcp_send_written:
  assumes "ctxs w p = Some c" and "ctx_sendLen c = 0" and "ctx_connected c" and "d \<noteq> []"
    and "sr_ret (answer w) = int (length d)"
  shows "tcp_send p w d = (0, called (SysWrite (ctx_fd c) d) w)"
  using assms
  by (simp add: tcp_send_def TCPEngineSend_def send_direct_def run_load_ctx run_os_write count_result_def)

theorem relay_send_wire_image_witness:
  "tcp_stream 0 (snd (run_state (PDURelaySendControlPDU 7 (Some (replicate 48 1)) (Some [5, 6]))
     (demo_relay demo_ctx False False [ret_int 48, ret_int 2, ret_int 2]))) =
   replicate 48 1 @ [5, 6, 0, 0]"
proof -
  let ?w = "demo_relay demo_ctx False False [ret_int 48, ret_int 2, ret_int 2]"
  obtain err w' where run: "run_state (PDURelaySendControlPDU 7 (Some (replicate 48 1)) (Some [5, 6])) ?w
      = (err, w')" by fastforce
  have c: "ctx_sendLen demo_ctx = 0" "ctx_connected demo_ctx" "ctx_fd demo_ctx = 5"
    "ctx_sendBuf demo_ctx = NULL" "ctx_sendOffset demo_ctx = 0"
    by (simp_all add: demo_ctx_def zero_ctx_def)
  have [simp]: "sr_ret (ret_int n) = n" for n by (simp add: ret_int_def ret_ok_def)
  have ans: "respond ?w 0 = ret_int 48" "respond ?w (Suc 0) = ret_int 2"
    "respond ?w (Suc (Suc 0)) = ret_int 2" "clock ?w = 0"
    by (simp_all add: demo_relay_def script_def)
  have ok: "tcp_ok 0 ?w"
    by (simp add: tcp_ok_def errno_set_def send_ok_def c)
      (simp add: demo_relay_def script_def ret_int_def ret_ok_def less_Suc_eq nth_Cons')
  have "tcp.send_all 0 ?w (pdu_chunks False False (replicate 48 1) [5, 6]) =
      (0, called (SysWrite 5 [0, 0]) (called (SysWrite 5 [5, 6]) (called (SysWrite 5 (replicate 48 1)) ?w)))"
    by (simp add: pdu_chunks_def pad_count_def numeral_2_eq_2 tcp_send_written [where c = demo_ctx] c
        answer_def ans del: answer_called)
  then have "err = 0"
    using run send_control_chunks [of ?w 7 0 _ 0 "replicate 48 1" "[5, 6]"]
    by (simp add: fresh_rs_def zero_rs_def)
  with relay_send_wire_image [OF _ _ refl _ _ _ ok run]
  show ?thesis
    by (simp add: run fresh_rs_def zero_rs_def pdu_wire_def pad_count_def tcp_stream_def pending_def c
        numeral_2_eq_2)
qed

section \<open>What the receiver makes of a PDU\<close>

lemma be32_at_bytes: "k = length xs \<Longrightarrow> be32_at k (xs @ be32_bytes w @ ys) = w"
  by (simp add: be32_at_def be32_bytes_def nth_append be32_value_bytes)

lemma data_length_header:
  assumes "length hdr = 48"
  shows "get_data_segment_length (hdr @ xs) = get_data_segment_length hdr"
proof -
  have "(hdr @ xs) ! k = hdr ! k" if "k < 48" for k using assms that by (simp add: nth_append)
  then have "(hdr @ xs) ! 0 = hdr ! 0" "(hdr @ xs) ! 4 = hdr ! 4" "(hdr @ xs) ! 5 = hdr ! 5"
    "(hdr @ xs) ! 6 = hdr ! 6" "(hdr @ xs) ! 7 = hdr ! 7" "be32_at 20 (hdr @ xs) = be32_at 20 hdr"
    by (simp_all add: be32_at_def)
  then show ?thesis by (simp only: get_data_segment_length_def)
qed

lemma capped_length_header:
  assumes "length hdr = 48" and "get_data_segment_length hdr = of_nat n" and "n \<le> 262144"
  shows "capped_length (hdr @ xs) = of_nat n"
proof -
  have "\<not> (262144 :: u32) < of_nat n"
    using assms(3) by (simp add: word_less_nat_alt unat_of_nat_u32)
  then show ?thesis
    using assms(1,2) by (simp add: capped_length_def data_length_header Let_def)
qed

lemma verify_digest [simp]: "verify_crc32c (digest xs) xs"
  by (simp add: verify_crc32c_def)

text \<open>The session while the header of a PDU of \<open>n\<close> bytes has been read, and after its data.\<close>

definition st_header :: "RelaySessionState \<Rightarrow> nat \<Rightarrow> RelaySessionState" where
  "st_header st n = st\<lparr> rs_expectedDataLen := of_nat n, rs_recvdDataLen := 0 \<rparr>"

definition st_reset :: "RelaySessionState \<Rightarrow> RelaySessionState" where
  "st_reset st = st\<lparr> rs_awaitingBHS := True, rs_expectedDataLen := 0, rs_recvdDataLen := 0 \<rparr>"

text \<open>A complete header: the loop goes on at the same place, accumulating.\<close>

lemma relay_header_data:
  assumes "length hdr = 48" and "get_data_segment_length hdr = of_nat (length data)"
    and "length data \<le> 262144" and "data \<noteq> []"
    and "hdig = rs_useHeaderDigest st"
    and buf: "buf = hdr @ (if hdig then be32_bytes (digest hdr) else []) @ tail"
  shows "relay_header i st buf = do {
    set_session i (st_header st (length data));
    set_session i ((st_header st (length data))\<lparr> rs_awaitingBHS := False \<rparr>);
    State_Monad.return (Continue buf) }"
proof -
  have n: "of_nat (length data) \<noteq> (0 :: u32)"
    using assms(3,4) unat_of_nat_u32 [of "length data"] by auto
  have cap: "capped_length buf = of_nat (length data)"
    unfolding buf by (rule capped_length_header [OF assms(1-3)])
  have h: "be32_at 48 buf = digest hdr" if hdig
    using that assms(1) be32_at_bytes [of 48 hdr] by (simp add: buf)
  have t: "take 48 buf = hdr" using assms(1) by (simp add: buf)
  show ?thesis
    using assms(1,5) n cap h t
    by (cases hdig) (simp_all add: relay_header_def relay_data_header_def Let_def st_header_def buf)
qed

text \<open>The data of a complete PDU at the start of the buffer.\<close>

lemma relay_accumulate_wire:
  assumes "length hdr = 48" and "length data \<le> 262144" and "length data' = length data"
    and "hdig = rs_useHeaderDigest st" and "ddig = rs_useDataDigest st"
    and base: "base = hdr @ (if hdig then be32_bytes crc else []) @ data' @
      replicate (pad_count (length data)) 0 @ (if ddig then be32_bytes (digest data) else []) @ rest"
  shows "relay_accumulate i ((st_header st (length data))\<lparr> rs_awaitingBHS := False \<rparr>) base base = do {
    set_session i ((st_header st (length data))\<lparr> rs_awaitingBHS := False,
      rs_recvdDataLen := of_nat (length data) \<rparr>);
    if ddig \<and> digest data' \<noteq> digest data then do {
      set_session i (st_reset st);
      State_Monad.return (Consumed (length base - length rest)) }
    else do {
      deliver ((st_header st (length data))\<lparr> rs_awaitingBHS := False,
        rs_recvdDataLen := of_nat (length data) \<rparr>) hdr (Some data');
      set_session i (st_reset st);
      State_Monad.return (Consumed (length base - length rest)) } }"
proof -
  let ?st = "(st_header st (length data))\<lparr> rs_awaitingBHS := False \<rparr>"
  let ?off = "48 + (if hdig then 4 else 0)"
  have n: "unat (of_nat (length data) :: u32) = length data"
    using assms(2) by (simp add: unat_of_nat_u32)
  have pad: "unat (padding_len (of_nat (length data))) = pad_count (length data)"
    by (simp only: unat_padding_len n)
  have seg: "take (length data) (drop ?off base) = data'"
    using assms(1,3) by (cases hdig) (simp_all add: base)
  have hdr: "take 48 base = hdr" using assms(1) by (simp add: base)
  have crc: "be32_at (?off + length data + pad_count (length data)) base = digest data" if ddig
    using that assms(1,3)
      be32_at_bytes [of "?off + length data + pad_count (length data)"
        "hdr @ (if hdig then be32_bytes crc else []) @ data' @ replicate (pad_count (length data)) 0"
        "digest data" rest]
    by (cases hdig) (simp_all add: base)
  have len: "length base =
      ?off + length data + pad_count (length data) + (if ddig then 4 else 0) + length rest"
    using assms(1,3) by (auto simp: base)
  show ?thesis
  proof (cases hdig)
    case True
    then show ?thesis
      using assms(4,5) n pad seg hdr crc len
      by (cases ddig) (simp_all add: relay_accumulate_def Let_def verify_crc32c_def st_header_def
          st_reset_def min_absorb2)
  next
    case False
    then show ?thesis
      using assms(4,5) n pad seg hdr crc len
      by (cases ddig) (simp_all add: relay_accumulate_def Let_def verify_crc32c_def st_header_def
          st_reset_def min_absorb2)
  qed
qed

lemma run_deliver_callback:
  assumes "\<not> rs_active st" and "relay_callback (gRelay w)"
  shows "run_state (deliver st bhs data) w =
    ((), called (SysPDUResponse (rs_sessionId st) (rs_connectionId st) bhs data) w)"
  using assms by (simp add: deliver_def)

definition put_session :: "nat \<Rightarrow> RelaySessionState \<Rightarrow> 'z relay_world_scheme \<Rightarrow> 'z relay_world_scheme" where
  "put_session i s w = w\<lparr> gRelay := (gRelay w)\<lparr> relay_sessions := (relay_sessions (gRelay w))[i := s] \<rparr> \<rparr>"

lemma run_put_session: "run_state (set_session i s) w = ((), put_session i s w)"
  by (simp add: run_set_session put_session_def)

lemma put_session_simps [simp]:
  "put_session i s (put_session i t w) = put_session i s w"
  "ctxs (put_session i s w) = ctxs w" "trace (put_session i s w) = trace w"
  "faults (put_session i s w) = faults w" "answer (put_session i s w) = answer w"
  "ipcs (put_session i s w) = ipcs w"
  "relay_callback (gRelay (put_session i s w)) = relay_callback (gRelay w)"
  "relay_ipcHandle (gRelay (put_session i s w)) = relay_ipcHandle (gRelay w)"
  "relay_initialized (gRelay (put_session i s w)) = relay_initialized (gRelay w)"
  "relay_sessions (gRelay (put_session i s w)) = (relay_sessions (gRelay w))[i := s]"
  "put_session i s (called c w) = called c (put_session i s w)"
  by (simp_all add: put_session_def called_def answer_def)

definition continue_loop :: "nat \<Rightarrow> nat \<Rightarrow> u8 list \<Rightarrow> relay_ctl \<times> 'z relay_world_scheme \<Rightarrow>
    relay_ctl \<times> 'z relay_world_scheme" where
  "continue_loop n i base r =
     (case fst r of Continue rest \<Rightarrow> run_state (relay_loop n i base rest) (snd r) | _ \<Rightarrow> r)"

lemma continue_loop_simps [simp]:
  "continue_loop n i base (Continue rest, w) = run_state (relay_loop n i base rest) w"
  "continue_loop n i base (Break rest, w) = (Break rest, w)"
  "continue_loop n i base (Consumed m, w) = (Consumed m, w)"
  by (simp_all add: continue_loop_def)

lemma relay_loop_header:
  assumes "buf \<noteq> []" and "relay_sessions (gRelay w) ! i = st" and "rs_awaitingBHS st"
  shows "run_state (relay_loop (Suc n) i base buf) w =
    continue_loop n i base (run_state (relay_header i st buf) w)"
proof -
  obtain ctl w' where "run_state (relay_header i st buf) w = (ctl, w')" by fastforce
  with assms show ?thesis by (cases ctl) (simp_all add: run_get_session)
qed

lemma relay_loop_accumulate:
  assumes "buf \<noteq> []" and "relay_sessions (gRelay w) ! i = st" and "\<not> rs_awaitingBHS st"
  shows "run_state (relay_loop (Suc n) i base buf) w =
    continue_loop n i base (run_state (relay_accumulate i st base buf) w)"
proof -
  obtain ctl w' where "run_state (relay_accumulate i st base buf) w = (ctl, w')" by fastforce
  with assms show ?thesis by (cases ctl) (simp_all add: run_get_session)
qed

text \<open>Two iterations on a buffer that starts with a whole PDU whose data may have been corrupted: the
  header leads to the accumulation, which finds everything there.\<close>

lemma relay_loop_wire:
  assumes "i < length (relay_sessions (gRelay w))" and st: "st = relay_sessions (gRelay w) ! i"
    and "rs_awaitingBHS st" and "\<not> rs_active st" and "relay_callback (gRelay w)"
    and pdu: "length hdr = 48" "get_data_segment_length hdr = of_nat (length data)"
      "length data \<le> 262144" "data \<noteq> []" "length data' = length data"
    and digests: "hdig = rs_useHeaderDigest st" "ddig = rs_useDataDigest st"
    and base: "base = hdr @ (if hdig then be32_bytes (digest hdr) else []) @ data' @
      replicate (pad_count (length data)) 0 @ (if ddig then be32_bytes (digest data) else []) @ rest"
  shows "run_state (relay_loop (Suc (Suc f)) i base base) w =
    (Consumed (length base - length rest),
     put_session i (st_reset st)
       (if ddig \<and> digest data' \<noteq> digest data then w
        else called (SysPDUResponse (rs_sessionId st) (rs_connectionId st) hdr (Some data')) w))"
proof -
  let ?a = "(st_header st (length data))\<lparr> rs_awaitingBHS := False \<rparr>"
  have ne: "base \<noteq> []" using pdu(1) by (auto simp: base)
  have sel: "rs_active (?a\<lparr> rs_recvdDataLen := n \<rparr>) = rs_active st"
    "rs_sessionId (?a\<lparr> rs_recvdDataLen := n \<rparr>) = rs_sessionId st"
    "rs_connectionId (?a\<lparr> rs_recvdDataLen := n \<rparr>) = rs_connectionId st" for n
    by (simp_all add: st_header_def)
  have 1: "run_state (relay_loop (Suc (Suc f)) i base base) w =
      run_state (relay_loop (Suc f) i base base) (put_session i ?a w)"
    unfolding relay_loop_header [OF ne st [symmetric] assms(3)]
      relay_header_data [OF pdu(1-4) digests(1) base]
    by (simp add: run_put_session del: relay_loop.simps)
  have 2: "relay_sessions (gRelay (put_session i ?a w)) ! i = ?a" "\<not> rs_awaitingBHS ?a"
    using assms(1) by simp_all
  show ?thesis
    unfolding 1 relay_loop_accumulate [OF ne 2] relay_accumulate_wire [OF pdu(1,3,5) digests base]
    using assms(4,5)
    by (simp add: run_put_session run_deliver_callback sel del: relay_loop.simps)
qed

lemma recv_bytes_compact:
  assumes "ctx_recvLen c \<le> length (contents (ctx_recvBuf c))" and "n \<le> ctx_recvLen c"
  shows "recv_bytes (compact n c) = drop n (recv_bytes c)"
  using assms by (auto simp: recv_bytes_def compact_def poke_def)

lemma relay_fuel_Suc: "relay_fuel xs = Suc (Suc (2 * length xs))"
  by (simp add: relay_fuel_def)

text \<open>The whole handler on such a buffer.\<close>

lemma process_wire:
  assumes init: "relay_initialized (gRelay w)"
    and i: "find_index (\<lambda>s. rs_inUse s \<and> rs_tcpCtx s = Some p) (relay_sessions (gRelay w)) = Some i"
    and st: "st = relay_sessions (gRelay w) ! i"
    and "rs_awaitingBHS st" and "\<not> rs_active st" and "relay_callback (gRelay w)"
    and c: "ctxs w p = Some c" "recv_ok c"
    and pdu: "length hdr = 48" "get_data_segment_length hdr = of_nat (length data)"
      "length data \<le> 262144" "data \<noteq> []" "length data' = length data"
    and digests: "hdig = rs_useHeaderDigest st" "ddig = rs_useDataDigest st"
    and base: "recv_bytes c = hdr @ (if hdig then be32_bytes (digest hdr) else []) @ data' @
      replicate (pad_count (length data)) 0 @ (if ddig then be32_bytes (digest data) else []) @ rest"
  shows "\<exists>c'. recv_bytes c' = rest \<and>
    run_state (PDURelayProcessReceivedData (Some p)) w =
    (0, (put_session i (st_reset st)
       (if ddig \<and> digest data' \<noteq> digest data then w
        else called (SysPDUResponse (rs_sessionId st) (rs_connectionId st) hdr (Some data')) w))
       \<lparr> ctxs := (ctxs w)(p \<mapsto> c') \<rparr>)"
proof -
  let ?b = "recv_bytes c"
  let ?n = "length ?b - length rest"
  have len: "i < length (relay_sessions (gRelay w))" using find_index_Some [OF i] by simp
  note loop = relay_loop_wire [OF len st assms(4-6) pdu digests base]
  have nf: "\<not> (ctx_recvBuf c = Freed \<and> 0 < ctx_recvLen c)" using c by (simp add: recv_ok_def)
  have blen: "length ?b = ctx_recvLen c" using c by (simp add: recv_bytes_def recv_ok_def)
  have "recv_bytes (compact ?n c) = drop ?n ?b"
    using c blen by (intro recv_bytes_compact) (simp_all add: recv_ok_def)
  also have "\<dots> = rest" using arg_cong [OF base, of length] by (subst base) simp
  finally show ?thesis
    using init i c nf loop [of "2 * length ?b"]
    by (intro exI [of _ "compact ?n c"])
      (auto simp: PDURelayProcessReceivedData_def run_load_ctx Let_def relay_fuel_Suc run_store_ctx
        simp del: relay_loop.simps)
qed

section \<open>Properties of the receive path\<close>

text \<open>C2: a PDU that is complete in the receive buffer is delivered exactly. In the control phase, when
  the buffer starts with the wire image of a header and its (nonempty) data, with the negotiated
  digests, processing hands exactly that header and that data to the response callback, once, keeps
  exactly the bytes that follow the image, and returns the session to waiting for a header.\<close>

theorem relay_delivers_pdu:
  assumes "relay_initialized (gRelay w)"
    and "find_index (\<lambda>s. rs_inUse s \<and> rs_tcpCtx s = Some p) (relay_sessions (gRelay w)) = Some i"
    and "st = relay_sessions (gRelay w) ! i"
    and "rs_awaitingBHS st" and "\<not> rs_active st" and "relay_callback (gRelay w)"
    and "ctxs w p = Some c" and "recv_ok c"
    and "length hdr = 48" and "get_data_segment_length hdr = of_nat (length data)"
    and "length data \<le> 262144" and "data \<noteq> []"
    and "recv_bytes c = pdu_wire (rs_useHeaderDigest st) (rs_useDataDigest st) hdr data @ rest"
  shows "\<exists>w' c'. run_state (PDURelayProcessReceivedData (Some p)) w = (0, w') \<and>
    trace w' = trace w @
      [(SysPDUResponse (rs_sessionId st) (rs_connectionId st) hdr (Some data), answer w)] \<and>
    ctxs w' p = Some c' \<and> recv_bytes c' = rest \<and>
    relay_sessions (gRelay w') = (relay_sessions (gRelay w))[i := st_reset st]"
proof -
  have "recv_bytes c = hdr @ (if rs_useHeaderDigest st then be32_bytes (digest hdr) else []) @ data @
      replicate (pad_count (length data)) 0 @
      (if rs_useDataDigest st then be32_bytes (digest data) else []) @ rest"
    using assms(13) by (simp add: pdu_wire_def)
  from process_wire [OF assms(1-12) refl refl refl this]
  obtain c' where "recv_bytes c' = rest"
    "run_state (PDURelayProcessReceivedData (Some p)) w =
      (0, (put_session i (st_reset st)
        (called (SysPDUResponse (rs_sessionId st) (rs_connectionId st) hdr (Some data)) w))
        \<lparr> ctxs := (ctxs w)(p \<mapsto> c') \<rparr>)"
    by auto
  then show ?thesis by simp
qed

definition demo_hdr :: "u8 list" where
  "demo_hdr = [0x24, 0, 0, 0, 0, 0, 0, 4] @ replicate 40 0"

definition demo_rx :: "u8 list \<Rightarrow> TCPConnectionContext" where
  "demo_rx bs = zero_ctx\<lparr> ctx_recvBuf := Mem bs, ctx_recvLen := length bs, ctx_recvAlloc := length bs \<rparr>"

lemma demo_hdr_simps [simp]:
  "length demo_hdr = 48" "get_data_segment_length demo_hdr = 4"
  by (simp_all add: demo_hdr_def get_data_segment_length_def)

lemma demo_rx_simps: "recv_bytes (demo_rx bs) = bs" "length bs \<le> 1048576 \<Longrightarrow> recv_ok (demo_rx bs)"
  by (simp_all add: demo_rx_def recv_bytes_def recv_ok_def)

lemma fresh_rs_simps [simp]:
  "rs_awaitingBHS (fresh_rs s)" "\<not> rs_active (fresh_rs s)" "rs_sessionId (fresh_rs s) = s"
  "rs_connectionId (fresh_rs s) = 0"
  by (simp_all add: fresh_rs_def zero_rs_def)

theorem relay_delivers_pdu_witness:
  "\<exists>w' c'. run_state (PDURelayProcessReceivedData (Some 0))
      (demo_relay (demo_rx (pdu_wire True True demo_hdr [1, 2, 3, 4] @ [9])) True True []) = (0, w') \<and>
    trace w' = [(SysPDUResponse 7 0 demo_hdr (Some [1, 2, 3, 4]), ret_ok)] \<and>
    ctxs w' 0 = Some c' \<and> recv_bytes c' = [9]"
proof -
  let ?c = "demo_rx (pdu_wire True True demo_hdr [1, 2, 3, 4] @ [9])"
  have "answer (demo_relay ?c True True []) = ret_ok"
    by (simp add: answer_def demo_relay_def script_def)
  then show ?thesis
    using relay_delivers_pdu [of "demo_relay ?c True True []" 0 0 _ ?c demo_hdr "[1, 2, 3, 4]" "[9]",
        OF _ _ refl]
    by (auto simp: demo_rx_simps length_pdu_wire pad_count_def)
qed



section \<open>Fragmented PDUs\<close>

lemma relay_loop_empty: "run_state (relay_loop (Suc f) i base []) w = (Break [], w)"
  by simp

text \<open>A buffer that holds a whole header but not the whole PDU: the bytes from the header on are counted
  as data, and the loop stops with them consumed.\<close>

lemma relay_loop_fragment:
  assumes "i < length (relay_sessions (gRelay w))" and st: "st = relay_sessions (gRelay w) ! i"
    and "rs_awaitingBHS st"
    and pdu: "length hdr = 48" "get_data_segment_length hdr = of_nat (length data)"
      "length data \<le> 262144" "data \<noteq> []"
    and digests: "hdig = rs_useHeaderDigest st" "ddig = rs_useDataDigest st"
    and base: "base = hdr @ (if hdig then be32_bytes (digest hdr) else []) @ tail"
    and short: "length base < length (pdu_wire hdig ddig hdr data)"
  shows "\<exists>s. run_state (relay_loop (Suc (Suc (Suc f))) i base base) w =
    (Break (drop (length data) base), put_session i s w)"
proof -
  let ?a = "(st_header st (length data))\<lparr> rs_awaitingBHS := False \<rparr>"
  let ?n = "length data"
  have ne: "base \<noteq> []" using pdu(1) by (auto simp: base)
  have n: "unat (of_nat ?n :: u32) = ?n" using pdu(3) by (simp add: unat_of_nat_u32)
  have pad: "unat (padding_len (of_nat ?n)) = pad_count ?n" by (simp only: unat_padding_len n)
  have 1: "run_state (relay_loop (Suc (Suc (Suc f))) i base base) w =
      run_state (relay_loop (Suc (Suc f)) i base base) (put_session i ?a w)"
    unfolding relay_loop_header [OF ne st [symmetric] assms(3)]
      relay_header_data [OF pdu(1-4) digests(1) base]
    by (simp add: run_put_session del: relay_loop.simps)
  have 2: "relay_sessions (gRelay (put_session i ?a w)) ! i = ?a" "\<not> rs_awaitingBHS ?a"
    using assms(1) by simp_all
  show ?thesis
  proof (cases "length base < ?n")
    case True
    have "(of_nat (length base) :: u32) < of_nat ?n"
      using True pdu(3) by (simp add: word_less_nat_alt unat_of_nat_u32)
    then have "run_state (relay_accumulate i ?a base base) (put_session i ?a w) =
        (Continue [], put_session i (?a\<lparr> rs_recvdDataLen := of_nat (length base) \<rparr>) w)"
      using True n by (simp add: relay_accumulate_def Let_def st_header_def run_put_session)
    then show ?thesis
      unfolding 1 relay_loop_accumulate [OF ne 2] using True by auto
  next
    case False
    have sh: "length base < 48 + (if hdig then 4 else 0) + ?n + pad_count ?n + (if ddig then 4 else 0)"
      using short pdu(1) by (simp add: length_pdu_wire)
    have "run_state (relay_accumulate i ?a base base) (put_session i ?a w) =
        (Break (drop ?n base), put_session i (?a\<lparr> rs_recvdDataLen := of_nat ?n \<rparr>) w)"
      using False n pad sh digests
      by (cases hdig; cases ddig)
        (simp_all add: relay_accumulate_def Let_def st_header_def min_absorb2 run_put_session)
    then show ?thesis
      unfolding 1 relay_loop_accumulate [OF ne 2] by auto
  qed
qed

text \<open>C34: a PDU with data that is not complete when the relay first sees its header is lost. When the
  buffer holds the header (and its digest) and any part of the rest short of the whole image,
  processing delivers nothing and removes from the front of the buffer as many bytes as the data is
  long, the header among them (everything, if fewer are there): the header can no longer be found.\<close>

theorem relay_loses_fragmented_pdu:
  assumes "relay_initialized (gRelay w)"
    and "find_index (\<lambda>s. rs_inUse s \<and> rs_tcpCtx s = Some p) (relay_sessions (gRelay w)) = Some i"
    and "st = relay_sessions (gRelay w) ! i" and "rs_awaitingBHS st"
    and "ctxs w p = Some c" and "recv_ok c"
    and "length hdr = 48" and "get_data_segment_length hdr = of_nat (length data)"
    and "length data \<le> 262144" and "data \<noteq> []"
    and "recv_bytes c = hdr @ (if rs_useHeaderDigest st then be32_bytes (digest hdr) else []) @ part"
    and "length (recv_bytes c) < length (pdu_wire (rs_useHeaderDigest st) (rs_useDataDigest st) hdr data)"
  shows "\<exists>w' c'. run_state (PDURelayProcessReceivedData (Some p)) w = (0, w') \<and> trace w' = trace w \<and>
    ctxs w' p = Some c' \<and> recv_bytes c' = drop (length data) (recv_bytes c)"
proof -
  let ?b = "recv_bytes c"
  have len: "i < length (relay_sessions (gRelay w))" using find_index_Some [OF assms(2)] by simp
  have fuel: "relay_fuel ?b = Suc (Suc (Suc (2 * length ?b - 1)))"
    using assms(7,11) by (cases ?b) (auto simp: relay_fuel_def)
  obtain s where loop: "run_state (relay_loop (relay_fuel ?b) i ?b ?b) w =
      (Break (drop (length data) ?b), put_session i s w)"
    using relay_loop_fragment [OF len assms(3,4,7-10) refl refl assms(11,12), of "2 * length ?b - 1"]
    by (auto simp only: fuel)
  have nf: "ctx_recvBuf c \<noteq> Freed" using assms(6) by (simp add: recv_ok_def)
  have blen: "length ?b = ctx_recvLen c" using assms(6) by (simp add: recv_bytes_def recv_ok_def)
  let ?n = "min (length data) (length ?b)"
  have "recv_bytes (compact ?n c) = drop ?n ?b"
    using assms(6) blen by (intro recv_bytes_compact) (simp_all add: recv_ok_def)
  also have "\<dots> = drop (length data) ?b" by (simp add: min_def)
  finally have b: "recv_bytes (compact ?n c) = drop (length data) ?b" .
  have n: "length ?b - length (drop (length data) ?b) = ?n" by (simp add: min_def)
  show ?thesis
    using assms(1,2,5) nf loop b
    by (simp add: PDURelayProcessReceivedData_def run_load_ctx Let_def run_store_ctx n
        del: length_drop relay_loop.simps)
qed

theorem relay_loses_fragmented_pdu_witness:
  "\<exists>w' c'. run_state (PDURelayProcessReceivedData (Some 0))
      (demo_relay (demo_rx (demo_hdr @ [1, 2])) False False []) = (0, w') \<and> trace w' = [] \<and>
    ctxs w' 0 = Some c' \<and> recv_bytes c' = [0, 0, 0, 4] @ replicate 40 0 @ [1, 2]"
proof -
  have d: "drop (length [1, 2, 3, 4 :: u8]) (recv_bytes (demo_rx (demo_hdr @ [1, 2]))) =
      [0, 0, 0, 4] @ replicate 40 0 @ [1, 2]"
    by (simp add: demo_rx_simps) (simp add: demo_hdr_def)
  show ?thesis
    using relay_loses_fragmented_pdu
      [of "demo_relay (demo_rx (demo_hdr @ [1, 2])) False False []" 0 0 _ "demo_rx (demo_hdr @ [1, 2])"
        demo_hdr "[1, 2, 3, 4]" "[1, 2]", OF _ _ refl, unfolded d]
    by (simp add: demo_rx_simps length_pdu_wire pad_count_def fresh_rs_def zero_rs_def
        del: append.simps)
qed

section \<open>Several PDUs in one buffer\<close>

lemma relay_header_empty:
  assumes "length hdr = 48" and "get_data_segment_length hdr = 0"
    and "\<not> rs_useHeaderDigest st" and "\<not> rs_useDataDigest st"
  shows "relay_header i st (hdr @ tail) = do {
    set_session i (st_header st 0);
    set_session i ((st_header st 0)\<lparr> rs_awaitingBHS := True \<rparr>);
    deliver (st_header st 0) hdr None;
    State_Monad.return (Continue tail) }"
proof -
  have "capped_length (hdr @ tail) = 0"
    using capped_length_header [of hdr 0 tail] assms by simp
  then show ?thesis
    using assms by (simp add: relay_header_def relay_empty_pdu_def Let_def st_header_def)
qed


definition demo_empty_hdr :: "u8 list" where
  "demo_empty_hdr = 0x20 # replicate 47 0"

lemma demo_empty_hdr_simps [simp]:
  "length demo_empty_hdr = 48" "get_data_segment_length demo_empty_hdr = 0"
  by (simp_all add: demo_empty_hdr_def get_data_segment_length_def)


section \<open>The length field\<close>

text \<open>The data segment length of RFC 3720 and of the header structures of the daemon: three bytes at
  offset 5.\<close>

definition header_data_length :: "u8 list \<Rightarrow> u32" where
  "header_data_length bhs =
     push_bit 16 (ucast (bhs ! 5)) OR push_bit 8 (ucast (bhs ! 6)) OR ucast (bhs ! 7)"



section \<open>Full-feature phase\<close>

text \<open>C33: in full-feature phase the data of a received PDU never reaches the extension. Delivering a
  PDU on an open handle makes exactly one call, whose structure carries the identifiers, the header,
  the length of the data and offset 0 into a buffer nothing is written to: the same call, to the
  byte, for any two data segments of one length.\<close>

theorem relay_full_feature_drops_data:
  assumes "rs_active st" and "relay_ipcHandle (gRelay w) = Some h" and "ipcs w h = Some ipc"
    and "ipc_connection ipc \<noteq> 0"
  shows "run_state (deliver st hdr (Some data)) w =
    ((), called (SysIOConnect (ipc_connection ipc) 8 [ucast (rs_sessionId st), ucast (rs_connectionId st)]
      ([rs_sessionId st] @ le32_bytes (rs_connectionId st) @ fixed 48 hdr @
       le32_bytes (of_nat (length data)) @ replicate 8 0)) w)"
proof -
  have z: "le64_bytes 0 = replicate 8 0"
    by (simp add: le64_bytes_def le32_bytes_def be32_bytes_def numeral_eq_Suc)
  show ?thesis
    using assms
    by (simp add: deliver_def DextIPCForwardIncomingPDU_def dext_execute_command_def run_load_ipc
        pack_incoming_def z)
qed

theorem relay_full_feature_drops_data_witness:
  "snd (run_state (deliver ((fresh_rs 3)\<lparr> rs_active := True \<rparr>) demo_hdr (Some [1, 2, 3, 4]))
     ((demo_relay demo_ctx False False [])\<lparr> ipcs := (\<lambda>p. Some demo_ipc),
       gRelay := zero_relay\<lparr> relay_ipcHandle := Some 0 \<rparr> \<rparr>)) =
   snd (run_state (deliver ((fresh_rs 3)\<lparr> rs_active := True \<rparr>) demo_hdr (Some [5, 6, 7, 8]))
     ((demo_relay demo_ctx False False [])\<lparr> ipcs := (\<lambda>p. Some demo_ipc),
       gRelay := zero_relay\<lparr> relay_ipcHandle := Some 0 \<rparr> \<rparr>))"
proof -
  have "ipc_connection demo_ipc \<noteq> 0" by (simp add: demo_ipc_def)
  then show ?thesis
    by (simp add: relay_full_feature_drops_data [where h = 0 and ipc = demo_ipc])
qed

end
