(* ===== verification/PduText.thy ===== *)
theory PduText
  imports IpcShared
begin

text \<open>
  Text segments of login and text PDUs: \<open>Source/User/iscsid/iSCSIPDUUser.c\<close> and the inline function
  of \<open>iSCSIPDUUser.h\<close>.

  A \<open>CFString\<close> is modelled by its UTF-8 bytes. What Core Foundation does with text is a parameter,
  collected in a record: which byte sequences \<open>CFStringCreateWithBytes\<close> accepts as UTF-8, how many
  UTF-16 units \<open>CFStringGetLength\<close> counts, what \<open>CFStringGetCString\<close> leaves in a buffer when it fails,
  what \<open>CFStringCreateWithCString\<close> makes of bytes that are not ASCII, comparison and search without
  regard to case, and \<open>CFStringGetIntValue\<close>. A \<open>CFDictionary\<close> is the list of its entries in the order
  \<open>CFDictionaryApplyFunction\<close> visits them.
\<close>

section \<open>Strings and dictionaries of Core Foundation\<close>

type_synonym cfstring = "u8 list"
type_synonym cfdict = "(cfstring \<times> cfstring) list"

record corefoundation =
  cf_valid :: "u8 list \<Rightarrow> bool"
  cf_length :: "cfstring \<Rightarrow> nat"
  cf_partial :: "cfstring \<Rightarrow> nat \<Rightarrow> u8 list"
  cf_from_ascii :: "u8 list \<Rightarrow> cfstring option"
  cf_equal_nocase :: "cfstring \<Rightarrow> cfstring \<Rightarrow> bool"
  cf_find_nocase :: "cfstring \<Rightarrow> cfstring \<Rightarrow> bool"
  cf_int :: "cfstring \<Rightarrow> int"

definition ascii_text :: "u8 list \<Rightarrow> bool" where
  "ascii_text s \<longleftrightarrow> (\<forall>b \<in> set s. b < 0x80)"

text \<open>What the theorems rely on: ASCII text is UTF-8 and has one unit per byte, and no string has
  more UTF-16 units than UTF-8 bytes.\<close>

definition cf_laws :: "corefoundation \<Rightarrow> bool" where
  "cf_laws cf \<longleftrightarrow>
     (\<forall>s. ascii_text s \<longrightarrow>
        cf_valid cf s \<and> cf_length cf s = length s \<and> cf_from_ascii cf s = Some s) \<and>
     (\<forall>s. cf_valid cf s \<longrightarrow> cf_length cf s \<le> length s)"

text \<open>Decimal numerals, as \<open>%u\<close> and \<open>%d\<close> print a number that is not negative, and their value.\<close>

fun decimal :: "nat \<Rightarrow> cfstring" where
  "decimal n = (if n < 10 then [of_nat (48 + n)] else decimal (n div 10) @ [of_nat (48 + n mod 10)])"

declare decimal.simps [simp del]

declare decimal.simps [simp del]

definition numeral_value :: "cfstring \<Rightarrow> nat" where
  "numeral_value s = foldl (\<lambda>v b. 10 * v + (unat b - 48)) 0 s"

definition numeral_text :: "cfstring \<Rightarrow> bool" where
  "numeral_text s \<longleftrightarrow> s \<noteq> [] \<and> (\<forall>b \<in> set s. 48 \<le> b \<and> b \<le> 57)"

definition ascii_lower :: "u8 \<Rightarrow> u8" where
  "ascii_lower b = (if 65 \<le> b \<and> b \<le> 90 then b + 32 else b)"

fun starts_with :: "cfstring \<Rightarrow> cfstring \<Rightarrow> bool" where
  "starts_with [] ys \<longleftrightarrow> True"
| "starts_with (x # xs) [] \<longleftrightarrow> False"
| "starts_with (x # xs) (y # ys) \<longleftrightarrow> x = y \<and> starts_with xs ys"

fun occurs_in :: "cfstring \<Rightarrow> cfstring \<Rightarrow> bool" where
  "occurs_in xs [] \<longleftrightarrow> xs = []"
| "occurs_in xs (y # ys) \<longleftrightarrow> starts_with xs (y # ys) \<or> occurs_in xs ys"

text \<open>The documented behaviour on ASCII text: the empty string is never found, and a numeral that
  fits into 31 bits has its value.\<close>

definition cf_text_laws :: "corefoundation \<Rightarrow> bool" where
  "cf_text_laws cf \<longleftrightarrow>
     (\<forall>s t. ascii_text s \<longrightarrow> ascii_text t \<longrightarrow>
        cf_equal_nocase cf s t = (map ascii_lower s = map ascii_lower t) \<and>
        cf_find_nocase cf s t = (t \<noteq> [] \<and> occurs_in (map ascii_lower t) (map ascii_lower s))) \<and>
     (\<forall>s. numeral_text s \<longrightarrow> numeral_value s < 2 ^ 31 \<longrightarrow> cf_int cf s = int (numeral_value s))"

definition ascii_cf :: corefoundation where
  "ascii_cf = \<lparr> cf_valid = ascii_text, cf_length = length, cf_partial = (\<lambda>s n. []),
     cf_from_ascii = (\<lambda>s. if ascii_text s then Some s else None),
     cf_equal_nocase = (\<lambda>s t. map ascii_lower s = map ascii_lower t),
     cf_find_nocase = (\<lambda>s t. t \<noteq> [] \<and> occurs_in (map ascii_lower t) (map ascii_lower s)),
     cf_int = (\<lambda>s. if numeral_text s \<and> numeral_value s < 2 ^ 31 then int (numeral_value s) else 0) \<rparr>"

lemma ascii_cf_text_laws: "cf_text_laws ascii_cf"
  by (simp add: cf_text_laws_def ascii_cf_def)

lemma ascii_cf_laws: "cf_laws ascii_cf"
  by (simp add: cf_laws_def ascii_cf_def)

definition CFStringCreateWithBytes :: "corefoundation \<Rightarrow> u8 list \<Rightarrow> cfstring option" where
  "CFStringCreateWithBytes cf bs = (if cf_valid cf bs then Some bs else None)"

definition CFStringGetCString :: "cfstring \<Rightarrow> nat \<Rightarrow> bool" where
  "CFStringGetCString s bufferSize \<longleftrightarrow> length s < bufferSize"

text \<open>\<open>CFDictionaryAddValue\<close> does nothing when the key is there. \<open>CFRelease\<close> and the dictionary
  functions crash on a null pointer.\<close>

definition cf_add :: "cfstring \<Rightarrow> cfstring \<Rightarrow> cfdict \<Rightarrow> cfdict" where
  "cf_add k v d = (if k \<in> fst ` set d then d else d @ [(k, v)])"

definition CFRelease :: "'a option \<Rightarrow> ('z world_scheme, unit) state" where
  "CFRelease p = (if p = None then fault NullDeref else State_Monad.return ())"

section \<open>Parsing\<close>

abbreviation (input) equals_sign :: u8 where "equals_sign \<equiv> 0x3D"

text \<open>The loop over the bytes: \<open>token\<close> are the bytes from \<open>tokenStartByte\<close> up to \<open>currentByte\<close>.
  A second \<open>=\<close> before the end of a pair replaces the key.\<close>

fun parse_loop ::
  "corefoundation \<Rightarrow> ('c \<Rightarrow> cfstring option \<Rightarrow> cfstring option \<Rightarrow> ('z world_scheme, 'c) state) \<Rightarrow>
   u8 list \<Rightarrow> u8 list \<Rightarrow> cfstring option \<Rightarrow> bool \<Rightarrow> 'c \<Rightarrow> ('z world_scheme, 'c) state" where
  "parse_loop cf callback [] token key equalFound c = State_Monad.return c"
| "parse_loop cf callback (b # bs) token key equalFound c =
     (if b = equals_sign then
        parse_loop cf callback bs [] (CFStringCreateWithBytes cf token) True c
      else if b = 0 \<and> equalFound then do {
        let val = CFStringCreateWithBytes cf token;
        c \<leftarrow> callback c key val;
        CFRelease key;
        CFRelease val;
        parse_loop cf callback bs [] None False c
      }
      else parse_loop cf callback bs (token @ [b]) key equalFound c)"

text \<open>\<open>data\<close> is the block the pointer refers to. The loop runs while \<open>currentByte <= lastByte\<close>, so
  it reads the byte after the \<open>len\<close> bytes of the segment as well.\<close>

definition iSCSIPDUDataParseCommon ::
  "corefoundation \<Rightarrow> u8 list option \<Rightarrow> nat \<Rightarrow> 'c \<Rightarrow>
   ('c \<Rightarrow> cfstring option \<Rightarrow> cfstring option \<Rightarrow> ('z world_scheme, 'c) state) \<Rightarrow>
   ('z world_scheme, 'c) state" where
  "iSCSIPDUDataParseCommon cf data len c callback =
     (case data of
        None \<Rightarrow> State_Monad.return c
      | Some block \<Rightarrow>
          if len = 0 then State_Monad.return c
          else do {
            (if length block \<le> len then fault OutOfBounds else State_Monad.return ());
            parse_loop cf callback (take (Suc len) block) [] None False c
          })"

definition iSCSIPDUDataParseToDictCallback ::
  "cfdict \<Rightarrow> cfstring option \<Rightarrow> cfstring option \<Rightarrow> ('z world_scheme, cfdict) state" where
  "iSCSIPDUDataParseToDictCallback d key val =
     (case (key, val) of
        (Some k, Some v) \<Rightarrow> State_Monad.return (cf_add k v d)
      | _ \<Rightarrow> do { fault NullDeref; State_Monad.return d })"

text \<open>The result is the dictionary afterwards; \<open>None\<close> is a null dictionary.\<close>

definition iSCSIPDUDataParseToDict ::
  "corefoundation \<Rightarrow> u8 list option \<Rightarrow> nat \<Rightarrow> cfdict option \<Rightarrow> ('z world_scheme, cfdict option) state" where
  "iSCSIPDUDataParseToDict cf data len textDict =
     (case textDict of
        None \<Rightarrow> State_Monad.return None
      | Some d \<Rightarrow>
          if data = None \<or> len = 0 then State_Monad.return (Some d)
          else do {
            d \<leftarrow> iSCSIPDUDataParseCommon cf data len d iSCSIPDUDataParseToDictCallback;
            State_Monad.return (Some d)
          })"

definition iSCSIPDUDataParseToArraysCallback ::
  "cfstring list \<times> cfstring list \<Rightarrow> cfstring option \<Rightarrow> cfstring option \<Rightarrow>
   ('z world_scheme, cfstring list \<times> cfstring list) state" where
  "iSCSIPDUDataParseToArraysCallback arrays key val =
     (case (key, val) of
        (Some k, Some v) \<Rightarrow> State_Monad.return (fst arrays @ [k], snd arrays @ [v])
      | _ \<Rightarrow> do { fault NullDeref; State_Monad.return arrays })"

text \<open>\<open>iSCSIPDUDataParseToArrays\<close> hands its arrays to the callback of dictionaries, so the first pair
  calls \<open>CFDictionaryAddValue\<close> on an array.\<close>

definition add_to_array_as_dict ::
  "cfstring list \<times> cfstring list \<Rightarrow> cfstring option \<Rightarrow> cfstring option \<Rightarrow>
   ('z world_scheme, cfstring list \<times> cfstring list) state" where
  "add_to_array_as_dict arrays key val = do { fault BadObject; State_Monad.return arrays }"

definition iSCSIPDUDataParseToArrays ::
  "corefoundation \<Rightarrow> u8 list option \<Rightarrow> nat \<Rightarrow> (cfstring list \<times> cfstring list) option \<Rightarrow>
   ('z world_scheme, (cfstring list \<times> cfstring list) option) state" where
  "iSCSIPDUDataParseToArrays cf data len arrays =
     (case arrays of
        None \<Rightarrow> State_Monad.return None
      | Some a \<Rightarrow>
          if data = None \<or> len = 0 then State_Monad.return (Some a)
          else do {
            a \<leftarrow> iSCSIPDUDataParseCommon cf data len a add_to_array_as_dict;
            State_Monad.return (Some a)
          })"

section \<open>Building\<close>

text \<open>\<open>malloc\<close> of a block that is read before all of it is written: the initial contents are what
  the heap held.\<close>

definition os_malloc :: "nat \<Rightarrow> ('z world_scheme, u8 list option) state" where
  "os_malloc n = do {
     r \<leftarrow> sys (SysAlloc n);
     State_Monad.return (if sr_ret r < 0 then None else Some (fixed n (sr_bytes r)))
   }"

definition iSCSIPDUCalculateTextCommandByteSize ::
  "corefoundation \<Rightarrow> cfstring \<times> cfstring \<Rightarrow> nat \<Rightarrow> nat" where
  "iSCSIPDUCalculateTextCommandByteSize cf kv stringByteSize =
     stringByteSize + cf_length cf (fst kv) + cf_length cf (snd kv) + 2"

text \<open>One pair, written at \<open>dataSegmentPosition\<close>: the strings pass through buffers of 100 bytes, and
  a pair that does not fit is skipped.\<close>

definition iSCSIPDUPopulateWithTextCommand ::
  "corefoundation \<Rightarrow> cfstring \<times> cfstring \<Rightarrow> u8 list \<times> nat \<Rightarrow> u8 list \<times> nat" where
  "iSCSIPDUPopulateWithTextCommand cf kv st =
     (let (key, val) = kv;
          (block, pos) = st;
          keyByteSize = cf_length cf key;
          valueByteSize = cf_length cf val
      in if CFStringGetCString key 100 \<and> CFStringGetCString val 100 then
           let block = poke pos (take keyByteSize key) block;
               pos = pos + keyByteSize;
               block = poke pos [equals_sign] block;
               pos = pos + 1;
               block = poke pos (take valueByteSize val) block;
               pos = pos + valueByteSize;
               block = poke pos [0] block;
               pos = pos + 1
           in (block, pos)
         else (block, pos))"

abbreviation (input) kiSCSIPDUByteAlignment :: nat where "kiSCSIPDUByteAlignment \<equiv> 4"

text \<open>The results are \<open>*data\<close> and \<open>*length\<close>; no result when a pointer argument is null.\<close>

definition iSCSIPDUDataCreateFromDict ::
  "corefoundation \<Rightarrow> cfdict option \<Rightarrow> ('z world_scheme, (u8 list option \<times> nat) option) state" where
  "iSCSIPDUDataCreateFromDict cf textDict =
     (case textDict of
        None \<Rightarrow> State_Monad.return None
      | Some d \<Rightarrow> do {
          let cmdByteSize = fold (iSCSIPDUCalculateTextCommandByteSize cf) d 0;
          let paddedSize = cmdByteSize +
                (kiSCSIPDUByteAlignment - cmdByteSize mod kiSCSIPDUByteAlignment) mod kiSCSIPDUByteAlignment;
          m \<leftarrow> os_malloc paddedSize;
          (case m of
             None \<Rightarrow> State_Monad.return (Some (None, 0))
           | Some block \<Rightarrow> do {
               let block = (if cmdByteSize < paddedSize
                            then poke cmdByteSize (replicate (paddedSize - cmdByteSize) 0) block
                            else block);
               let (block, _) = fold (iSCSIPDUPopulateWithTextCommand cf) d (block, 0);
               State_Monad.return (Some (Some block, cmdByteSize))
             })
        })"

definition iSCSIPDUDataCreate :: "nat \<Rightarrow> ('z world_scheme, u8 list option) state" where
  "iSCSIPDUDataCreate len =
     os_malloc (len + (kiSCSIPDUByteAlignment - len mod kiSCSIPDUByteAlignment))"

definition iSCSIPDUDataRelease :: "'a option \<Rightarrow> ('z world_scheme, 'a option) state" where
  "iSCSIPDUDataRelease data =
     (if data = None then State_Monad.return None
      else do { sys SysFree; State_Monad.return None })"

text \<open>The three bytes of the length field, read big-endian: \<open>memcpy\<close> into the low bytes of a
  little-endian word, shift, swap.\<close>

definition CFSwapInt32BigToHost :: "u32 \<Rightarrow> u32" where
  "CFSwapInt32BigToHost w =
     (let bs = le32_bytes w in be32_value (bs ! 0) (bs ! 1) (bs ! 2) (bs ! 3))"

definition iSCSIPDUGetDataSegmentLength :: "u8 list \<Rightarrow> nat" where
  "iSCSIPDUGetDataSegmentLength bhs =
     unat (CFSwapInt32BigToHost (push_bit 8 (le32_at 0 [bhs ! 5, bhs ! 6, bhs ! 7, 0])))"

section \<open>Lemmas\<close>

subsection \<open>The parser on one line\<close>

text \<open>\<open>value_part\<close> is what follows the last equals sign of a line, \<open>key_part\<close> what stands between
  the last two (or before the only one).\<close>

definition value_part :: "u8 list \<Rightarrow> u8 list" where
  "value_part c = rev (takeWhile (\<lambda>b. b \<noteq> equals_sign) (rev c))"

definition key_part :: "u8 list \<Rightarrow> u8 list" where
  "key_part c = value_part (rev (tl (dropWhile (\<lambda>b. b \<noteq> equals_sign) (rev c))))"

lemma value_part_snoc: "value_part (c @ [b]) = (if b = equals_sign then [] else value_part c @ [b])"
  by (simp add: value_part_def)

lemma key_part_snoc: "key_part (c @ [b]) = (if b = equals_sign then value_part c else key_part c)"
  by (simp add: key_part_def)

lemma value_part_id: "equals_sign \<notin> set c \<Longrightarrow> value_part c = c"
  by (induction c rule: rev_induct) (simp_all add: value_part_snoc, simp add: value_part_def)

lemma set_value_part: "set (value_part c) \<subseteq> set c"
  by (induction c rule: rev_induct) (auto simp: value_part_snoc, simp add: value_part_def)

lemma set_key_part: "set (key_part c) \<subseteq> set c"
proof (induction c rule: rev_induct)
  case Nil
  show ?case by (simp add: key_part_def value_part_def)
next
  case (snoc b c)
  then show ?case using set_value_part [of c] by (auto simp: key_part_snoc)
qed

lemma parts_of_pair:
  assumes "equals_sign \<notin> set k" and "equals_sign \<notin> set v"
  shows "value_part (k @ equals_sign # v) = v" and "key_part (k @ equals_sign # v) = k"
proof -
  have "value_part (k @ equals_sign # v) = v \<and> key_part (k @ equals_sign # v) = k"
    using assms(2)
  proof (induction v rule: rev_induct)
    case Nil
    then show ?case
      using value_part_snoc [of k equals_sign] key_part_snoc [of k equals_sign] assms(1)
      by (simp add: value_part_id)
  next
    case (snoc b v)
    then show ?case
      using value_part_snoc [of "k @ equals_sign # v" b] key_part_snoc [of "k @ equals_sign # v" b]
      by simp
  qed
  then show "value_part (k @ equals_sign # v) = v" and "key_part (k @ equals_sign # v) = k"
    by simp_all
qed

text \<open>Reading a line before its terminator.\<close>

definition parse_char ::
  "corefoundation \<Rightarrow> u8 \<Rightarrow> u8 list \<times> cfstring option \<times> bool \<Rightarrow> u8 list \<times> cfstring option \<times> bool" where
  "parse_char cf b st = (case st of (token, key, eqf) \<Rightarrow>
     if b = equals_sign then ([], CFStringCreateWithBytes cf token, True) else (token @ [b], key, eqf))"

lemma parse_loop_line:
  assumes "0 \<notin> set c"
  shows "parse_loop cf cb (c @ rest) t k e x =
     (case fold (parse_char cf) c (t, k, e) of (t', k', e') \<Rightarrow> parse_loop cf cb rest t' k' e' x)"
  using assms by (induction c arbitrary: t k e) (auto simp: parse_char_def)

lemma fold_parse_char:
  "fold (parse_char cf) c ([], None, False) =
     (value_part c,
      if equals_sign \<in> set c then CFStringCreateWithBytes cf (key_part c) else None,
      equals_sign \<in> set c)"
proof (induction c rule: rev_induct)
  case Nil
  then show ?case by (simp add: value_part_def)
next
  case (snoc b c)
  then show ?case by (simp add: parse_char_def value_part_snoc key_part_snoc)
qed

text \<open>A line \<open>key=value\<close> in ASCII.\<close>

definition text_line :: "u8 list \<Rightarrow> bool" where
  "text_line c \<longleftrightarrow> ascii_text c \<and> 0 \<notin> set c \<and> equals_sign \<in> set c"

lemma ascii_text_subset: "ascii_text c \<Longrightarrow> set d \<subseteq> set c \<Longrightarrow> ascii_text d"
  by (auto simp: ascii_text_def)

lemma ascii_created:
  "cf_laws cf \<Longrightarrow> ascii_text s \<Longrightarrow> CFStringCreateWithBytes cf s = Some s"
  by (simp add: cf_laws_def CFStringCreateWithBytes_def)

lemma parse_one_line:
  assumes cf: "cf_laws cf" and line: "text_line c"
  shows "run_state (parse_loop cf iSCSIPDUDataParseToDictCallback (c @ 0 # rest) [] None False d) w =
    run_state (parse_loop cf iSCSIPDUDataParseToDictCallback rest [] None False
      (cf_add (key_part c) (value_part c) d)) w"
proof -
  have "ascii_text (key_part c)" "ascii_text (value_part c)"
    using line ascii_text_subset set_key_part set_value_part by (auto simp: text_line_def)
  then show ?thesis
    using cf line
    by (simp add: text_line_def parse_loop_line fold_parse_char ascii_created
        iSCSIPDUDataParseToDictCallback_def CFRelease_def monad_simps)
qed

definition lines_text :: "u8 list list \<Rightarrow> u8 list" where
  "lines_text cs = concat (map (\<lambda>c. c @ [0]) cs)"

definition add_line :: "u8 list \<Rightarrow> cfdict \<Rightarrow> cfdict" where
  "add_line c d = cf_add (key_part c) (value_part c) d"

lemma parse_lines:
  assumes cf: "cf_laws cf" and "\<And>c. c \<in> set cs \<Longrightarrow> text_line c"
  shows "run_state (parse_loop cf iSCSIPDUDataParseToDictCallback (lines_text cs @ [x]) [] None False d) w
    = (fold add_line cs d, w)"
  using assms(2)
proof (induction cs arbitrary: d)
  case Nil
  then show ?case by (simp add: lines_text_def)
next
  case (Cons c cs)
  have "lines_text (c # cs) @ [x] = c @ 0 # (lines_text cs @ [x])"
    by (simp add: lines_text_def)
  then show ?case
    using Cons by (simp add: parse_one_line [OF cf] add_line_def)
qed

lemma parse_to_dict_lines:
  assumes "cf_laws cf" and "\<And>c. c \<in> set cs \<Longrightarrow> text_line c"
  shows "run_state (iSCSIPDUDataParseToDict cf (Some (lines_text cs @ x # rest))
      (length (lines_text cs)) (Some d)) w = (Some (fold add_line cs d), w)"
proof (cases "cs = []")
  case True
  then show ?thesis by (simp add: iSCSIPDUDataParseToDict_def lines_text_def)
next
  case False
  then have "lines_text cs \<noteq> []" by (cases cs) (simp_all add: lines_text_def)
  then show ?thesis
    by (simp add: parse_lines [OF assms] iSCSIPDUDataParseToDict_def iSCSIPDUDataParseCommon_def monad_simps)
qed

subsection \<open>The writer\<close>

definition pair_text :: "corefoundation \<Rightarrow> cfstring \<times> cfstring \<Rightarrow> u8 list" where
  "pair_text cf kv =
     take (cf_length cf (fst kv)) (fst kv) @ [equals_sign] @
     take (cf_length cf (snd kv)) (snd kv) @ [0]"

text \<open>A pair the writer does not skip, and the space the size calculation reserves.\<close>

definition pair_fits :: "cfstring \<times> cfstring \<Rightarrow> bool" where
  "pair_fits kv \<longleftrightarrow> length (fst kv) < 100 \<and> length (snd kv) < 100"

definition text_size :: "corefoundation \<Rightarrow> cfdict \<Rightarrow> nat" where
  "text_size cf d = sum_list (map (\<lambda>kv. cf_length cf (fst kv) + cf_length cf (snd kv) + 2) d)"

definition written_text :: "corefoundation \<Rightarrow> cfdict \<Rightarrow> u8 list" where
  "written_text cf d = concat (map (pair_text cf) (filter pair_fits d))"

definition dict_valid :: "corefoundation \<Rightarrow> cfdict \<Rightarrow> bool" where
  "dict_valid cf d \<longleftrightarrow> (\<forall>(k, v) \<in> set d. cf_valid cf k \<and> cf_valid cf v)"

lemma dict_valid_Cons:
  "dict_valid cf (kv # d) \<longleftrightarrow> cf_valid cf (fst kv) \<and> cf_valid cf (snd kv) \<and> dict_valid cf d"
  by (cases kv) (simp add: dict_valid_def)

lemma fold_text_size:
  "fold (iSCSIPDUCalculateTextCommandByteSize cf) d n = n + text_size cf d"
  by (induction d arbitrary: n)
     (simp_all add: text_size_def iSCSIPDUCalculateTextCommandByteSize_def)

lemma poke_poke:
  assumes "p \<le> length bs"
  shows "poke (p + length xs) ys (poke p xs bs) = poke p (xs @ ys) bs"
  using assms by (simp add: poke_def ac_simps)

lemma length_pair_text:
  assumes "cf_laws cf" and "cf_valid cf (fst kv)" and "cf_valid cf (snd kv)"
  shows "length (pair_text cf kv) = cf_length cf (fst kv) + cf_length cf (snd kv) + 2"
proof -
  have "cf_length cf (fst kv) \<le> length (fst kv)" "cf_length cf (snd kv) \<le> length (snd kv)"
    using assms by (simp_all add: cf_laws_def)
  then show ?thesis by (simp add: pair_text_def)
qed

lemma populate_one:
  assumes cf: "cf_laws cf" and kv: "cf_valid cf (fst kv)" "cf_valid cf (snd kv)"
    and "pos \<le> length block"
  shows "iSCSIPDUPopulateWithTextCommand cf kv (block, pos) =
    (if pair_fits kv then (poke pos (pair_text cf kv) block, pos + length (pair_text cf kv))
     else (block, pos))"
proof -
  let ?k = "take (cf_length cf (fst kv)) (fst kv)" and ?v = "take (cf_length cf (snd kv)) (snd kv)"
  have len: "length ?k = cf_length cf (fst kv)" "length ?v = cf_length cf (snd kv)"
    using cf kv by (auto simp: cf_laws_def)
  have 1: "poke (pos + length ?k) [equals_sign] (poke pos ?k block) =
      poke pos (?k @ [equals_sign]) block"
    using assms(4) by (rule poke_poke)
  have 2: "poke (pos + length ?k + 1) ?v (poke pos (?k @ [equals_sign]) block) =
      poke pos ((?k @ [equals_sign]) @ ?v) block"
    using poke_poke [OF assms(4), of "?k @ [equals_sign]" ?v] by (simp add: add.assoc)
  have 3: "poke (pos + length ?k + 1 + length ?v) [0] (poke pos ((?k @ [equals_sign]) @ ?v) block) =
      poke pos (pair_text cf kv) block"
    using poke_poke [OF assms(4), of "(?k @ [equals_sign]) @ ?v" "[0]"]
    by (simp add: pair_text_def add.assoc add.left_commute)
  obtain k v where kv_eq: "kv = (k, v)" by (cases kv)
  show ?thesis
    using 1 2 3 len unfolding length_pair_text [OF cf kv] unfolding kv_eq
    by (simp add: iSCSIPDUPopulateWithTextCommand_def CFStringGetCString_def pair_fits_def Let_def)
qed

lemma populate_all:
  assumes cf: "cf_laws cf" and "dict_valid cf d" and "pos \<le> length block"
  shows "fold (iSCSIPDUPopulateWithTextCommand cf) d (block, pos) =
    (poke pos (written_text cf d) block, pos + length (written_text cf d))"
  using assms(2,3)
proof (induction d arbitrary: block pos)
  case Nil
  then show ?case by (simp add: written_text_def poke_def)
next
  case (Cons kv d)
  then have v: "cf_valid cf (fst kv)" "cf_valid cf (snd kv)" "dict_valid cf d"
    by (simp_all add: dict_valid_Cons)
  show ?case
  proof (cases "pair_fits kv")
    case False
    with Cons.IH [OF v(3) Cons.prems(2)] populate_one [OF cf v(1,2) Cons.prems(2)]
    show ?thesis by (simp add: written_text_def)
  next
    case True
    have "pos + length (pair_text cf kv) \<le> length (poke pos (pair_text cf kv) block)"
      using Cons.prems(2) by (rule length_poke)
    from Cons.IH [OF v(3) this] True populate_one [OF cf v(1,2) Cons.prems(2)]
      poke_poke [OF Cons.prems(2), of "pair_text cf kv" "written_text cf d"]
    show ?thesis by (simp add: written_text_def add.assoc)
  qed
qed

lemma written_text_Cons:
  "written_text cf (kv # d) = (if pair_fits kv then pair_text cf kv else []) @ written_text cf d"
  by (simp add: written_text_def)

lemma text_size_Cons:
  "text_size cf (kv # d) = cf_length cf (fst kv) + cf_length cf (snd kv) + 2 + text_size cf d"
  by (simp add: text_size_def)

lemma written_text_le:
  assumes cf: "cf_laws cf" and "dict_valid cf d"
  shows "length (written_text cf d) \<le> text_size cf d"
  using assms(2)
proof (induction d)
  case Nil
  show ?case by (simp add: written_text_def)
next
  case (Cons kv d)
  then show ?case
    by (simp add: dict_valid_Cons written_text_Cons text_size_Cons length_pair_text [OF cf])
qed

lemma written_text_all:
  assumes cf: "cf_laws cf" and "dict_valid cf d" and "\<And>kv. kv \<in> set d \<Longrightarrow> pair_fits kv"
  shows "length (written_text cf d) = text_size cf d"
  using assms(2,3)
proof (induction d)
  case Nil
  show ?case by (simp add: written_text_def text_size_def)
next
  case (Cons kv d)
  then show ?case
    by (simp add: dict_valid_Cons written_text_Cons text_size_Cons length_pair_text [OF cf])
qed

definition text_padding :: "nat \<Rightarrow> nat" where
  "text_padding n = (4 - n mod 4) mod 4"

lemma text_padding_less: "text_padding n < 4"
  by (simp add: text_padding_def)

lemma text_padding_mod: "(n + text_padding n) mod 4 = 0"
proof -
  have "n mod 4 < 4" by simp
  then consider "n mod 4 = 0" | "n mod 4 = 1" | "n mod 4 = 2" | "n mod 4 = 3" by linarith
  then have "(n mod 4 + text_padding n) mod 4 = 0"
    by cases (simp_all add: text_padding_def)
  then show ?thesis by (simp add: mod_add_left_eq)
qed

lemma run_os_malloc [monad_simps]:
  "run_state (os_malloc n) w =
     (if sr_ret (answer w) < 0 then None else Some (fixed n (sr_bytes (answer w))),
      called (SysAlloc n) w)"
  by (simp add: os_malloc_def)

text \<open>The segment: the pairs that fit, what the heap held in the space reserved for the others, and
  the padding.\<close>

definition segment_text :: "corefoundation \<Rightarrow> cfdict \<Rightarrow> u8 list \<Rightarrow> u8 list" where
  "segment_text cf d heap =
     written_text cf d @
     drop (length (written_text cf d)) (fixed (text_size cf d) heap) @
     replicate (text_padding (text_size cf d)) 0"

lemma take_fixed: "n \<le> m \<Longrightarrow> take n (fixed m bs) = fixed n bs"
  by (simp add: fixed_def min_def)

lemma create_from_dict:
  assumes cf: "cf_laws cf" and d: "dict_valid cf d" and ok: "0 \<le> sr_ret (answer w)"
  shows "run_state (iSCSIPDUDataCreateFromDict cf (Some d)) w =
    (Some (Some (segment_text cf d (sr_bytes (answer w))), text_size cf d),
     called (SysAlloc (text_size cf d + text_padding (text_size cf d))) w)"
proof -
  let ?n = "text_size cf d" and ?p = "text_padding (text_size cf d)"
  let ?W = "written_text cf d" and ?heap = "sr_bytes (answer w)"
  let ?b = "fixed (?n + ?p) ?heap"
  have W: "length ?W \<le> ?n" by (rule written_text_le [OF cf d])
  have padded: "poke ?n (replicate ?p 0) ?b = fixed ?n ?heap @ replicate ?p 0" (is "_ = ?blk")
    by (simp add: poke_def take_fixed)
  have "poke 0 ?W ?blk = segment_text cf d ?heap"
    using W by (simp add: poke_def segment_text_def)
  then have all: "fold (iSCSIPDUPopulateWithTextCommand cf) d (?blk, 0) =
      (segment_text cf d ?heap, length ?W)"
    using populate_all [OF cf d, of 0 ?blk] by simp
  show ?thesis
  proof (cases "?p = 0")
    case True
    with ok all show ?thesis
      by (simp add: iSCSIPDUDataCreateFromDict_def monad_simps fold_text_size Let_def
          text_padding_def [symmetric] not_less)
  next
    case False
    with ok all padded show ?thesis
      by (simp add: iSCSIPDUDataCreateFromDict_def monad_simps fold_text_size Let_def
          text_padding_def [symmetric] not_less)
  qed
qed

subsection \<open>The length field\<close>

lemma shifted_bytes:
  fixes a b c :: u8
  defines "w \<equiv> push_bit 8 (be32_value 0 a b c)"
  shows "ucast w = (0 :: u8)" and "ucast (drop_bit 8 w) = c" and "ucast (drop_bit 16 w) = b"
    and "ucast (drop_bit 24 w) = a"
  unfolding w_def be32_value_def
  by (rule bit_word_eqI; auto simp: bit_simps dest: bit_imp_le_length)+

lemma length_field:
  assumes "n < 2 ^ 24" and "take 3 (drop 5 bhs) = tl (be32_bytes (of_nat n))" and "8 \<le> length bhs"
  shows "iSCSIPDUGetDataSegmentLength bhs = n"
proof -
  let ?w = "of_nat n :: u32"
  have at: "bhs ! (5 + i) = tl (be32_bytes ?w) ! i" if "i < 3" for i
    using that assms(3) arg_cong [OF assms(2), of "\<lambda>l. l ! i"] by simp
  have nth: "bhs ! 5 = be32_bytes ?w ! 1" "bhs ! 6 = be32_bytes ?w ! 2" "bhs ! 7 = be32_bytes ?w ! 3"
    using at [of 0] at [of 1] at [of 2] by (simp_all add: be32_bytes_def)
  have small: "unat ?w = n"
    using assms(1) by (simp add: unat_of_nat)
  have top: "(0 :: u8) = ucast (drop_bit 24 ?w)"
  proof -
    have "unat (drop_bit 24 ?w) = 0"
      using small assms(1) by (simp add: drop_bit_eq_div unat_div_distrib)
    then show ?thesis by (simp add: unat_eq_0)
  qed
  have swap: "CFSwapInt32BigToHost (push_bit 8 (le32_at 0 [a, b, c, 0])) = be32_value 0 a b c"
    for a b c :: u8
    using shifted_bytes [of c b a]
    by (simp add: CFSwapInt32BigToHost_def le32_at_def le32_bytes_def be32_bytes_def)
  show ?thesis
    unfolding iSCSIPDUGetDataSegmentLength_def swap nth
    using be32_value_bytes [of ?w] small unfolding top [symmetric] by (simp add: be32_bytes_def)
qed

section \<open>Properties\<close>

subsection \<open>The layout of a text segment\<close>

lemma segment_layout:
  assumes "cf_laws cf" and "dict_valid cf d" and "0 \<le> sr_ret (answer w)"
    and "run_state (iSCSIPDUDataCreateFromDict cf (Some d)) w = (Some (Some block, n), w')"
  shows "n = text_size cf d"
    and "length block = n + text_padding n" and "length block mod 4 = 0"
    and "take (length (written_text cf d)) block = written_text cf d"
    and "take (n - length (written_text cf d)) (drop (length (written_text cf d)) block) =
         drop (length (written_text cf d)) (fixed n (sr_bytes (answer w)))"
    and "drop n block = replicate (text_padding n) 0"
proof -
  have n: "n = text_size cf d" and block: "block = segment_text cf d (sr_bytes (answer w))"
    using assms(4) create_from_dict [OF assms(1-3)] by simp_all
  have W: "length (written_text cf d) \<le> n"
    unfolding n by (rule written_text_le [OF assms(1,2)])
  show "n = text_size cf d" by (rule n)
  show len: "length block = n + text_padding n"
    using W by (simp add: block segment_text_def n)
  show "length block mod 4 = 0" unfolding len by (rule text_padding_mod)
  show "take (length (written_text cf d)) block = written_text cf d"
    by (simp add: block segment_text_def)
  show "take (n - length (written_text cf d)) (drop (length (written_text cf d)) block) =
         drop (length (written_text cf d)) (fixed n (sr_bytes (answer w)))"
    using W by (simp add: block segment_text_def n)
  show "drop n block = replicate (text_padding n) 0"
    using W by (simp add: block segment_text_def n)
qed


definition demo_text :: "string \<Rightarrow> cfstring" where
  "demo_text s = map of_char s"

definition demo_dict :: cfdict where
  "demo_dict = [(demo_text ''CHAP_N'', demo_text ''user''), (demo_text ''A'', replicate 100 0x41)]"

definition text_world :: "sysret list \<Rightarrow> world" where
  "text_world rs = \<lparr> respond = script rs, clock = 0, trace = [], faults = [] \<rparr>"


subsection \<open>Reading what was written\<close>

text \<open>A pair of ASCII strings without the two delimiters.\<close>

definition plain_pair :: "cfstring \<times> cfstring \<Rightarrow> bool" where
  "plain_pair kv \<longleftrightarrow> pair_fits kv \<and> ascii_text (fst kv @ snd kv) \<and>
     0 \<notin> set (fst kv @ snd kv) \<and> equals_sign \<notin> set (fst kv @ snd kv)"

definition pair_line :: "cfstring \<times> cfstring \<Rightarrow> u8 list" where
  "pair_line kv = fst kv @ equals_sign # snd kv"

lemma plain_pair_line: "plain_pair kv \<Longrightarrow> text_line (pair_line kv)"
  by (auto simp: plain_pair_def text_line_def pair_line_def ascii_text_def)

lemma ascii_text_append: "ascii_text (xs @ ys) \<longleftrightarrow> ascii_text xs \<and> ascii_text ys"
  by (auto simp: ascii_text_def)

lemma plain_dict_valid:
  "cf_laws cf \<Longrightarrow> (\<And>kv. kv \<in> set d \<Longrightarrow> plain_pair kv) \<Longrightarrow> dict_valid cf d"
  by (fastforce simp: dict_valid_def plain_pair_def cf_laws_def ascii_text_append)

lemma plain_pair_text: "cf_laws cf \<Longrightarrow> plain_pair kv \<Longrightarrow> pair_text cf kv = pair_line kv @ [0]"
  by (simp add: plain_pair_def pair_text_def pair_line_def cf_laws_def ascii_text_append)

lemma plain_written_text:
  assumes "cf_laws cf" and "\<And>kv. kv \<in> set d \<Longrightarrow> plain_pair kv"
  shows "written_text cf d = lines_text (map pair_line d)"
  using assms(2)
proof (induction d)
  case Nil
  show ?case by (simp add: written_text_def lines_text_def)
next
  case (Cons kv d)
  then have "plain_pair kv" by simp
  with Cons show ?case
    by (simp add: written_text_Cons plain_pair_text [OF assms(1)] lines_text_def)
       (simp add: plain_pair_def)
qed

lemma add_plain_lines:
  assumes "\<And>kv. kv \<in> set d \<Longrightarrow> plain_pair kv" and "distinct (map fst (d0 @ d))"
  shows "fold add_line (map pair_line d) d0 = d0 @ d"
  using assms
proof (induction d arbitrary: d0)
  case Nil
  then show ?case by simp
next
  case (Cons kv d)
  obtain k v where kv: "kv = (k, v)" by (cases kv)
  have "equals_sign \<notin> set k" "equals_sign \<notin> set v"
    using Cons.prems(1) [of kv] by (simp_all add: kv plain_pair_def)
  then have "add_line (pair_line kv) d0 = d0 @ [kv]"
    using Cons.prems(2) by (simp add: add_line_def kv pair_line_def parts_of_pair cf_add_def)
  moreover have "fold add_line (map pair_line d) (d0 @ [kv]) = (d0 @ [kv]) @ d"
    using Cons.prems by (intro Cons.IH) auto
  ultimately show ?case by simp
qed

text \<open>C10: the text format round-trips. A dictionary of plain ASCII pairs with strings below 100 bytes,
  written by \<open>iSCSIPDUDataCreateFromDict\<close> and received into any buffer with at least one byte after
  the segment, is parsed back into the same dictionary, without any fault, whatever that byte is.\<close>

theorem text_roundtrip:
  assumes "cf_laws cf" and "\<And>kv. kv \<in> set d \<Longrightarrow> plain_pair kv" and "distinct (map fst d)"
    and "0 \<le> sr_ret (answer w)"
    and "run_state (iSCSIPDUDataCreateFromDict cf (Some d)) w = (Some (Some block, n), w')"
  shows "run_state (iSCSIPDUDataParseToDict cf (Some (take n block @ x # rest)) n (Some [])) v =
    (Some d, v)"
proof -
  note valid = plain_dict_valid [OF assms(1,2)]
  have W: "written_text cf d = lines_text (map pair_line d)"
    by (rule plain_written_text [OF assms(1,2)])
  have size: "length (written_text cf d) = text_size cf d"
    by (rule written_text_all [OF assms(1) valid]) (use assms(2) in \<open>auto simp: plain_pair_def\<close>)
  have n: "n = length (lines_text (map pair_line d))"
    and block: "block = segment_text cf d (sr_bytes (answer w))"
    using assms(5) create_from_dict [OF assms(1) valid assms(4)] size W by simp_all
  have seg: "take n block = lines_text (map pair_line d)"
    unfolding block segment_text_def W n by simp
  have lines: "text_line c" if "c \<in> set (map pair_line d)" for c
    using that assms(2) plain_pair_line by auto
  have result: "fold add_line (map pair_line d) [] = d"
    using add_plain_lines [OF assms(2), where d = d and d0 = "[]"] assms(3) by simp
  have "run_state (iSCSIPDUDataParseToDict cf (Some (lines_text (map pair_line d) @ x # rest))
      (length (lines_text (map pair_line d))) (Some [])) v =
    (Some (fold add_line (map pair_line d) []), v)"
    by (rule parse_to_dict_lines [OF assms(1) lines])
  then show ?thesis unfolding n seg [unfolded n] result .
qed

definition login_dict :: cfdict where
  "login_dict = [(demo_text ''HeaderDigest'', demo_text ''CRC32C,None''), (demo_text ''X'', [])]"

theorem text_roundtrip_witness:
  "\<exists>block n w'.
     run_state (iSCSIPDUDataCreateFromDict ascii_cf (Some login_dict)) (text_world []) = (Some (Some block, n), w') \<and>
     run_state (iSCSIPDUDataParseToDict ascii_cf (Some (take n block @ [0x3D])) n (Some [])) (text_world []) =
       (Some login_dict, text_world [])"
proof -
  have plain: "plain_pair kv" if "kv \<in> set login_dict" for kv
    using that
    by (auto simp: login_dict_def demo_text_def plain_pair_def pair_fits_def ascii_text_def)
  have ok: "0 \<le> sr_ret (answer (text_world []))"
    by (simp add: answer_def text_world_def script_simps)
  note run = create_from_dict [OF ascii_cf_laws plain_dict_valid [OF ascii_cf_laws plain] ok]
  have distinct: "distinct (map fst login_dict)" by (simp add: login_dict_def demo_text_def)
  show ?thesis
    using text_roundtrip [OF ascii_cf_laws plain distinct ok run] run by blast
qed

subsection \<open>Any text\<close>

text \<open>C15: what the parser makes of any text. Given lines of ASCII text, each with an equals sign and
  ended by a null, it adds one pair per line, the first value of a key winning; the value is what
  follows the \<^emph>\<open>last\<close> equals sign of the line and the key what stands before it, back to the equals
  sign before that. It touches no memory beyond the byte after the text and has no fault.\<close>

theorem text_parse_lines:
  assumes "cf_laws cf" and "\<And>c. c \<in> set cs \<Longrightarrow> text_line c"
  shows "run_state (iSCSIPDUDataParseToDict cf (Some (lines_text cs @ x # rest))
      (length (lines_text cs)) (Some d)) w =
    (Some (fold (\<lambda>c. cf_add (key_part c) (value_part c)) cs d), w)"
  using assms unfolding add_line_def [abs_def, symmetric] by (rule parse_to_dict_lines)

theorem text_parse_lines_witness:
  "run_state (iSCSIPDUDataParseToDict ascii_cf (Some (demo_text ''TargetAlias=a=b'' @ [0, 0])) 16 (Some []))
      (text_world []) = (Some [(demo_text ''a'', demo_text ''b'')], text_world [])"
proof -
  have line: "text_line c" if "c \<in> set [demo_text ''TargetAlias=a=b'']" for c
    using that by (simp add: text_line_def demo_text_def ascii_text_def)
  have "run_state (iSCSIPDUDataParseToDict ascii_cf
      (Some (lines_text [demo_text ''TargetAlias=a=b''] @ 0 # []))
      (length (lines_text [demo_text ''TargetAlias=a=b''])) (Some [])) (text_world []) =
    (Some (fold (\<lambda>c. cf_add (key_part c) (value_part c)) [demo_text ''TargetAlias=a=b''] []), text_world [])"
    by (rule text_parse_lines [OF ascii_cf_laws line])
  moreover have "length (lines_text [demo_text ''TargetAlias=a=b'']) = 16"
    by (simp add: lines_text_def demo_text_def)
  ultimately have "run_state (iSCSIPDUDataParseToDict ascii_cf
      (Some (lines_text [demo_text ''TargetAlias=a=b''] @ 0 # [])) 16 (Some [])) (text_world []) =
    (Some (fold (\<lambda>c. cf_add (key_part c) (value_part c)) [demo_text ''TargetAlias=a=b''] []), text_world [])"
    by (simp only:)
  then show ?thesis
    by (simp add: lines_text_def demo_text_def key_part_def value_part_def cf_add_def)
qed

end
