(* ===== verification/HbaTable.thy ===== *)
theory HbaTable
  imports PduRelay PduText
begin

text \<open>
  The HBA interface, first part: \<open>Source/User/iscsid/iSCSIHBAInterface.c\<close>, its data, the session table
  of the driver-extension mode, and the life cycle of an interface.

  An interface works either through the kernel extension (calls on \<open>connect\<close>) or, in DEXT mode,
  with TCP sockets of its own and the driver extension's IPC. Interfaces live in a heap, as the
  connection contexts and IPC channels do.
\<close>

section \<open>Identifiers\<close>

text \<open>\<open>iSCSITypesShared.h\<close>.\<close>

type_synonym SessionIdentifier = u16
type_synonym ConnectionIdentifier = u32

abbreviation (input) kiSCSIInvalidSessionId :: SessionIdentifier where
  "kiSCSIInvalidSessionId \<equiv> 0xFFFF"
abbreviation (input) kiSCSIInvalidConnectionId :: ConnectionIdentifier where
  "kiSCSIInvalidConnectionId \<equiv> 0xFFFFFFFF"
abbreviation (input) kDEXTMaxSessions :: nat where "kDEXTMaxSessions \<equiv> 16"
abbreviation (input) kDEXTMaxConnectionsPerSession :: nat where "kDEXTMaxConnectionsPerSession \<equiv> 8"
abbreviation (input) kDEXTMaxCachedParams :: nat where "kDEXTMaxCachedParams \<equiv> 32"
abbreviation (input) NI_MAXHOST :: nat where "NI_MAXHOST \<equiv> 1025"
abbreviation (input) NI_MAXSERV :: nat where "NI_MAXSERV \<equiv> 32"

text \<open>A cast to the 16-bit identifier type, which leaves nothing of the constant.\<close>

definition kDEXTSessionIdBase :: SessionIdentifier where
  "kDEXTSessionIdBase = ucast (0x1000000000000000 :: u64)"

definition dextMakeSessionId :: "u8 \<Rightarrow> SessionIdentifier" where
  "dextMakeSessionId dextSessionId = kDEXTSessionIdBase OR ucast dextSessionId"

definition dextSessionIdFromId :: "SessionIdentifier \<Rightarrow> u8" where
  "dextSessionIdFromId sid = ucast (sid AND 0xFF)"

section \<open>Data\<close>

text \<open>The character arrays hold C strings: the bytes before the terminator.\<close>

record DextSessionEntry =
  de_inUse :: bool
  de_dextSessionId :: u8
  de_tcpSocket :: int
  de_tcpCtx :: "nat option"
  de_connectionCount :: nat
  de_connectionIds :: "ConnectionIdentifier list"
  de_connectionSockets :: "int list"
  de_targetIQN :: "u8 list"
  de_portalAddress :: "u8 list"
  de_portalPort :: "u8 list"
  de_hostInterface :: "u8 list"
  de_cachedSessionParams :: "u64 list"
  de_cachedConnectionParams :: "u64 list list"

definition zero_de :: DextSessionEntry where
  "zero_de = \<lparr> de_inUse = False, de_dextSessionId = 0, de_tcpSocket = 0, de_tcpCtx = None,
     de_connectionCount = 0, de_connectionIds = replicate kDEXTMaxConnectionsPerSession 0,
     de_connectionSockets = replicate kDEXTMaxConnectionsPerSession 0,
     de_targetIQN = [], de_portalAddress = [], de_portalPort = [], de_hostInterface = [],
     de_cachedSessionParams = replicate kDEXTMaxCachedParams 0,
     de_cachedConnectionParams =
       replicate kDEXTMaxConnectionsPerSession (replicate kDEXTMaxCachedParams 0) \<rparr>"

text \<open>Of the client's notification context only its two functions matter: whether they are set.\<close>

record HBANotificationContext =
  nc_retain :: bool
  nc_release :: bool

record HBAInterface =
  hb_service :: u32
  hb_connect :: u32
  hb_source :: u32
  hb_notificationPort :: u32
  hb_callback :: bool
  hb_notifyContext :: HBANotificationContext
  hb_dextMode :: bool
  hb_dextIPC :: "nat option"
  hb_tcpEngineKq :: int
  hb_numDextSessions :: int
  hb_dextSessions :: "DextSessionEntry list"

definition zero_hba :: HBAInterface where
  "zero_hba = \<lparr> hb_service = 0, hb_connect = 0, hb_source = 0, hb_notificationPort = 0,
     hb_callback = False, hb_notifyContext = \<lparr> nc_retain = False, nc_release = False \<rparr>,
     hb_dextMode = False, hb_dextIPC = None, hb_tcpEngineKq = 0, hb_numDextSessions = 0,
     hb_dextSessions = replicate kDEXTMaxSessions zero_de \<rparr>"

record hba_world = relay_world +
  hbas :: "nat \<Rightarrow> HBAInterface option"
  next_hba :: nat

definition load_hba :: "nat \<Rightarrow> ('z hba_world_scheme, HBAInterface) state" where
  "load_hba p = do {
     h \<leftarrow> gets (\<lambda>w. hbas w p);
     (case h of
        Some i \<Rightarrow> State_Monad.return i
      | None \<Rightarrow> do { fault UseAfterFree; State_Monad.return zero_hba })
   }"

definition store_hba :: "nat \<Rightarrow> HBAInterface \<Rightarrow> ('z hba_world_scheme, unit) state" where
  "store_hba p h = modify (\<lambda>w. w\<lparr> hbas := (hbas w)(p \<mapsto> h) \<rparr>)"

definition set_entry :: "nat \<Rightarrow> nat \<Rightarrow> DextSessionEntry \<Rightarrow> ('z hba_world_scheme, unit) state" where
  "set_entry p i e = do {
     h \<leftarrow> load_hba p;
     store_hba p (h\<lparr> hb_dextSessions := (hb_dextSessions h)[i := e] \<rparr>)
   }"

definition alloc_hba :: "HBAInterface \<Rightarrow> ('z hba_world_scheme, nat option) state" where
  "alloc_hba h = do {
     ok \<leftarrow> os_alloc 1;
     if \<not> ok then State_Monad.return None
     else do {
       p \<leftarrow> gets next_hba;
       modify (\<lambda>w. w\<lparr> hbas := (hbas w)(p \<mapsto> h), next_hba := Suc p \<rparr>);
       State_Monad.return (Some p)
     }
   }"

definition free_hba :: "nat \<Rightarrow> ('z hba_world_scheme, unit) state" where
  "free_hba p = modify (\<lambda>w. w\<lparr> hbas := (hbas w)(p := None) \<rparr>)"

section \<open>The session table\<close>

definition dextConnectionSocket :: "DextSessionEntry \<Rightarrow> ConnectionIdentifier \<Rightarrow> int" where
  "dextConnectionSocket entry connId =
     (case find_index (\<lambda>c. c = connId)
             (take (min (de_connectionCount entry) kDEXTMaxConnectionsPerSession) (de_connectionIds entry)) of
        Some i \<Rightarrow> de_connectionSockets entry ! i
      | None \<Rightarrow> - 1)"

definition dextFindSession :: "DextSessionEntry list \<Rightarrow> u8 \<Rightarrow> nat option" where
  "dextFindSession es dextId = find_index (\<lambda>e. de_inUse e \<and> de_dextSessionId e = dextId) es"

definition fresh_de :: "nat \<Rightarrow> DextSessionEntry" where
  "fresh_de i = zero_de\<lparr> de_inUse := True, de_dextSessionId := of_nat i, de_tcpSocket := - 1,
     de_connectionSockets := replicate kDEXTMaxConnectionsPerSession (- 1) \<rparr>"

definition dextAllocSession :: "nat \<Rightarrow> ('z hba_world_scheme, nat option) state" where
  "dextAllocSession p = do {
     h \<leftarrow> load_hba p;
     (case find_index (\<lambda>e. \<not> de_inUse e) (hb_dextSessions h) of
        None \<Rightarrow> State_Monad.return None
      | Some i \<Rightarrow> do {
          store_hba p (h\<lparr> hb_dextSessions := (hb_dextSessions h)[i := fresh_de i],
            hb_numDextSessions := hb_numDextSessions h + 1 \<rparr>);
          State_Monad.return (Some i)
        })
   }"

definition close_if_open :: "int \<Rightarrow> ('z world_scheme, unit) state" where
  "close_if_open fd = (if 0 \<le> fd then os_close fd else State_Monad.return ())"

definition dextFreeSession :: "nat \<Rightarrow> u8 \<Rightarrow> ('z hba_world_scheme, unit) state" where
  "dextFreeSession p dextId = do {
     h \<leftarrow> load_hba p;
     (case dextFindSession (hb_dextSessions h) dextId of
        None \<Rightarrow> State_Monad.return ()
      | Some i \<Rightarrow> do {
          let e = hb_dextSessions h ! i;
          close_if_open (de_tcpSocket e);
          for_each (de_connectionSockets e) close_if_open;
          store_hba p (h\<lparr> hb_dextSessions := (hb_dextSessions h)[i := e\<lparr> de_inUse := False \<rparr>],
            hb_numDextSessions := hb_numDextSessions h - 1 \<rparr>)
        })
   }"

text \<open>What the DEXT branch of most operations starts with: the entry of the session, or a default
  result when there is none.\<close>

definition with_session ::
  "nat \<Rightarrow> SessionIdentifier \<Rightarrow> 'a \<Rightarrow>
   (nat \<Rightarrow> DextSessionEntry \<Rightarrow> ('z hba_world_scheme, 'a) state) \<Rightarrow> ('z hba_world_scheme, 'a) state" where
  "with_session p sessionId none f = do {
     h \<leftarrow> load_hba p;
     (case dextFindSession (hb_dextSessions h) (dextSessionIdFromId sessionId) of
        None \<Rightarrow> State_Monad.return none
      | Some i \<Rightarrow> f i (hb_dextSessions h ! i))
   }"

section \<open>Calls to the kernel extension\<close>

text \<open>\<open>enum functionNames\<close> of \<open>iSCSIHBATypes.h\<close>: the constructor's position is the selector.\<close>

datatype functionNames =
  kiSCSIOpenInitiator | kiSCSICloseInitiator | kiSCSICreateSession | kiSCSIReleaseSession
| kiSCSISetSessionParameter | kiSCSIGetSessionParameter | kiSCSICreateConnection
| kiSCSIReleaseConnection | kiSCSIActivateConnection | kiSCSIActivateAllConnections
| kiSCSIDeactivateConnection | kiSCSIDeactivateAllConnections | kiSCSISendBHS | kiSCSISendData
| kiSCSIRecvBHS | kiSCSIRecvData | kiSCSISetConnectionParameter | kiSCSIGetConnectionParameter
| kiSCSIGetConnection | kiSCSIGetNumConnections | kiSCSIGetSessionIdForTargetIQN
| kiSCSIGetConnectionIdForPortalAddress | kiSCSIGetSessionIds | kiSCSIGetConnectionIds
| kiSCSICreateTargetIQNForSessionId | kiSCSIGetPortalAddressForConnectionId
| kiSCSIGetPortalPortForConnectionId | kiSCSIGetHostInterfaceForConnectionId

primrec function_index :: "functionNames \<Rightarrow> nat" where
  "function_index kiSCSIOpenInitiator = 0"
| "function_index kiSCSICloseInitiator = 1"
| "function_index kiSCSICreateSession = 2"
| "function_index kiSCSIReleaseSession = 3"
| "function_index kiSCSISetSessionParameter = 4"
| "function_index kiSCSIGetSessionParameter = 5"
| "function_index kiSCSICreateConnection = 6"
| "function_index kiSCSIReleaseConnection = 7"
| "function_index kiSCSIActivateConnection = 8"
| "function_index kiSCSIActivateAllConnections = 9"
| "function_index kiSCSIDeactivateConnection = 10"
| "function_index kiSCSIDeactivateAllConnections = 11"
| "function_index kiSCSISendBHS = 12"
| "function_index kiSCSISendData = 13"
| "function_index kiSCSIRecvBHS = 14"
| "function_index kiSCSIRecvData = 15"
| "function_index kiSCSISetConnectionParameter = 16"
| "function_index kiSCSIGetConnectionParameter = 17"
| "function_index kiSCSIGetConnection = 18"
| "function_index kiSCSIGetNumConnections = 19"
| "function_index kiSCSIGetSessionIdForTargetIQN = 20"
| "function_index kiSCSIGetConnectionIdForPortalAddress = 21"
| "function_index kiSCSIGetSessionIds = 22"
| "function_index kiSCSIGetConnectionIds = 23"
| "function_index kiSCSICreateTargetIQNForSessionId = 24"
| "function_index kiSCSIGetPortalAddressForConnectionId = 25"
| "function_index kiSCSIGetPortalPortForConnectionId = 26"
| "function_index kiSCSIGetHostInterfaceForConnectionId = 27"

text \<open>The answer of a call carries its \<open>kern_return_t\<close> (\<open>sr_errno\<close>), its scalar results
  (\<open>sr_words\<close>, as many as the kernel stored in \<open>outputCnt\<close>) and its structure (\<open>sr_bytes\<close>).\<close>

definition IOConnectCallMethod ::
  "HBAInterface \<Rightarrow> functionNames \<Rightarrow> u64 list \<Rightarrow> u8 list \<Rightarrow> ('z world_scheme, sysret) state" where
  "IOConnectCallMethod h f inputs inputStruct =
     sys (SysIOConnect (hb_connect h) (function_index f) inputs inputStruct)"

definition kext_call :: "HBAInterface \<Rightarrow> functionNames \<Rightarrow> u64 list \<Rightarrow> ('z world_scheme, IOReturn) state" where
  "kext_call h f inputs = do {
     r \<leftarrow> IOConnectCallMethod h f inputs [];
     State_Monad.return (sr_errno r)
   }"

section \<open>Strings\<close>

text \<open>\<open>CFStringGetCString\<close> with the ASCII encoding into a buffer of a given size: whether it
  succeeded, and the bytes stored before the terminator.\<close>

definition get_ascii :: "corefoundation \<Rightarrow> cfstring option \<Rightarrow> nat \<Rightarrow> ('z world_scheme, bool \<times> u8 list) state" where
  "get_ascii cf s n =
     (case s of
        None \<Rightarrow> do { fault NullDeref; State_Monad.return (False, []) }
      | Some bs \<Rightarrow>
          State_Monad.return
            (if ascii_text bs \<and> length bs < n then (True, takeWhile (\<lambda>b. b \<noteq> 0) bs)
             else (False, takeWhile (\<lambda>b. b \<noteq> 0) (cf_partial cf bs n))))"

text \<open>A string for the kernel: a block of \<open>CFStringGetLength + 1\<close> bytes. A null string or a failed
  \<open>malloc\<close> crashes the daemon.\<close>

definition ascii_buffer :: "corefoundation \<Rightarrow> cfstring option \<Rightarrow> ('z world_scheme, bool \<times> u8 list) state" where
  "ascii_buffer cf s =
     (case s of
        None \<Rightarrow> do { fault NullDeref; State_Monad.return (False, []) }
      | Some bs \<Rightarrow> do {
          let n = cf_length cf bs + 1;
          block \<leftarrow> os_malloc n;
          (case block of
             None \<Rightarrow> do { fault NullDeref; State_Monad.return (False, []) }
           | Some heap \<Rightarrow>
               State_Monad.return
                 (if ascii_text bs \<and> length bs < n then (True, poke 0 (bs @ [0]) heap)
                  else (False, fixed n (cf_partial cf bs n))))
        })"

section \<open>Life cycle\<close>

abbreviation (input) kiSCSIHBANotificationInvalid :: u8 where "kiSCSIHBANotificationInvalid \<equiv> 3"

text \<open>A notification message: its type and all its bytes.\<close>

record HBANotificationMessage =
  nm_notificationType :: u8
  nm_bytes :: "u8 list"

definition iSCSIHBANotificationHandler ::
  "nat \<Rightarrow> HBANotificationMessage option \<Rightarrow> ('z hba_world_scheme, unit) state" where
  "iSCSIHBANotificationHandler info msg =
     (case msg of
        None \<Rightarrow> State_Monad.return ()
      | Some m \<Rightarrow>
          if nm_notificationType m = kiSCSIHBANotificationInvalid then State_Monad.return ()
          else do {
            h \<leftarrow> load_hba info;
            if hb_callback h
            then do { sys (SysHBACallback (nm_notificationType m) (nm_bytes m)); State_Monad.return () }
            else State_Monad.return ()
          })"

definition iSCSIHBAInterfaceScheduleWithRunloop :: "nat \<Rightarrow> ('z hba_world_scheme, unit) state" where
  "iSCSIHBAInterfaceScheduleWithRunloop p = do {
     h \<leftarrow> load_hba p;
     if hb_dextMode h then State_Monad.return ()
     else if hb_notificationPort h \<noteq> 0 \<and> hb_source h = 0 then do {
       r \<leftarrow> sys (SysRunLoopSourceCreate (hb_notificationPort h));
       sys (SysRunLoopAddSource (name_of r));
       store_hba p (h\<lparr> hb_source := name_of r \<rparr>)
     }
     else State_Monad.return ()
   }"

definition iSCSIHBAInterfaceUnscheduleWithRunloop :: "nat \<Rightarrow> ('z hba_world_scheme, unit) state" where
  "iSCSIHBAInterfaceUnscheduleWithRunloop p = do {
     h \<leftarrow> load_hba p;
     if hb_dextMode h then State_Monad.return ()
     else if hb_notificationPort h \<noteq> 0 then do {
       r \<leftarrow> sys (SysRunLoopSourceCreate (hb_notificationPort h));
       sys (SysRunLoopRemoveSource (name_of r));
       State_Monad.return ()
     }
     else State_Monad.return ()
   }"

text \<open>The steps between the allocation and the cleanup of \<open>iSCSIHBAInterfaceCreate\<close>: the result, the
  connection and the notification port. Each step is taken when the one before succeeded.\<close>

definition open_connection :: "u32 \<Rightarrow> ('z world_scheme, IOReturn \<times> u32) state" where
  "open_connection service =
     (if service \<noteq> 0 then do {
        r \<leftarrow> sys (SysIOServiceOpen service);
        State_Monad.return (sr_errno r, name_of r)
      }
      else State_Monad.return (kIOReturnSuccess, 0))"

definition open_notifications :: "u32 \<Rightarrow> ('z world_scheme, IOReturn \<times> u32) state" where
  "open_notifications connect = do {
     c \<leftarrow> sys (SysCFMachPortCreate 0);
     (if name_of c = 0 then fault NullDeref else State_Monad.return ());
     r \<leftarrow> sys (SysIOSetNotificationPort connect (name_of c));
     State_Monad.return (sr_errno r, name_of c)
   }"

definition release_if_set :: "u32 \<Rightarrow> (u32 \<Rightarrow> syscall) \<Rightarrow> ('z world_scheme, unit) state" where
  "release_if_set x release =
     (if x \<noteq> 0 then do { sys (release x); State_Monad.return () } else State_Monad.return ())"

definition iSCSIHBAInterfaceCreate ::
  "bool \<Rightarrow> HBANotificationContext \<Rightarrow> ('z hba_world_scheme, nat option) state" where
  "iSCSIHBAInterfaceCreate callback context = do {
     interface \<leftarrow> alloc_hba zero_hba;
     (case interface of
        None \<Rightarrow> State_Monad.return None
      | Some p \<Rightarrow> do {
          sys (SysIOServiceMatching ''com_github_iscsi_osx_iSCSIVirtualHBA'');
          s \<leftarrow> sys SysIOGetMatchingService;
          let service = name_of s;
          (result, connect) \<leftarrow> open_connection service;
          result \<leftarrow> (if result = kIOReturnSuccess
                    then kext_call (zero_hba\<lparr> hb_connect := connect \<rparr>) kiSCSIOpenInitiator []
                    else State_Monad.return result);
          (result, notificationPort) \<leftarrow>
            (if result = kIOReturnSuccess then open_notifications connect
             else State_Monad.return (result, 0));
          if result = kIOReturnSuccess then do {
            store_hba p (zero_hba\<lparr> hb_service := service, hb_connect := connect,
              hb_notificationPort := notificationPort, hb_callback := callback, hb_source := 0,
              hb_notifyContext := context \<rparr>);
            (if nc_retain context then do { sys SysContextRetain; State_Monad.return () }
             else State_Monad.return ());
            State_Monad.return (Some p)
          }
          else do {
            release_if_set notificationPort SysCFRelease;
            release_if_set connect SysIOObjectRelease;
            release_if_set service SysIOObjectRelease;
            free_hba p;
            State_Monad.return None
          }
        })
   }"

definition iSCSIHBAInterfaceCreateDext :: "('z hba_world_scheme, nat option) state" where
  "iSCSIHBAInterfaceCreateDext =
     alloc_hba (zero_hba\<lparr> hb_service := 0, hb_connect := 0, hb_source := 0, hb_notificationPort := 0,
       hb_callback := False, hb_dextMode := True, hb_dextIPC := None, hb_tcpEngineKq := - 1,
       hb_numDextSessions := 0 \<rparr>)"

definition iSCSIHBAInterfaceSetDextMode ::
  "nat option \<Rightarrow> nat option \<Rightarrow> int \<Rightarrow> ('z hba_world_scheme, unit) state" where
  "iSCSIHBAInterfaceSetDextMode interface dextIPC tcpEngineKq =
     (case interface of
        None \<Rightarrow> State_Monad.return ()
      | Some p \<Rightarrow> do {
          h \<leftarrow> load_hba p;
          store_hba p (h\<lparr> hb_dextMode := True, hb_dextIPC := dextIPC, hb_tcpEngineKq := tcpEngineKq \<rparr>)
        })"

definition iSCSIHBAInterfaceIsDextMode :: "nat option \<Rightarrow> ('z hba_world_scheme, bool) state" where
  "iSCSIHBAInterfaceIsDextMode interface =
     (case interface of
        None \<Rightarrow> State_Monad.return False
      | Some p \<Rightarrow> do { h \<leftarrow> load_hba p; State_Monad.return (hb_dextMode h) })"

text \<open>One slot of the table when the interface goes away.\<close>

definition release_entry :: "DextSessionEntry \<Rightarrow> ('z tcp_world_scheme, unit) state" where
  "release_entry e =
     (if de_inUse e then do {
        (case de_tcpCtx e of
           None \<Rightarrow> State_Monad.return ()
         | Some c \<Rightarrow> do { TCPEngineCloseConnection (Some c); free_ctx c });
        close_if_open (de_tcpSocket e);
        for_each (de_connectionSockets e) close_if_open
      }
      else State_Monad.return ())"

definition iSCSIHBAInterfaceRelease :: "nat option \<Rightarrow> ('z hba_world_scheme, unit) state" where
  "iSCSIHBAInterfaceRelease interface =
     (case interface of
        None \<Rightarrow> State_Monad.return ()
      | Some p \<Rightarrow> do {
          h \<leftarrow> load_hba p;
          if hb_dextMode h then do {
            for_each (hb_dextSessions h) release_entry;
            DextIPCRelease (hb_dextIPC h);
            free_hba p
          }
          else do {
            release_if_set (hb_source h) SysCFRelease;
            kext_call h kiSCSICloseInitiator [];
            sys (SysIOServiceClose (hb_connect h));
            release_if_set (hb_notificationPort h) SysCFRelease;
            (if nc_release (hb_notifyContext h)
             then do { sys SysContextRelease; State_Monad.return () } else State_Monad.return ());
            free_hba p
          }
        })"

end
