(* ===== verification/HbaSession.thy ===== *)
theory HbaSession
  imports HbaTable
begin

text \<open>
  The HBA interface, second part: sessions and connections (\<open>iSCSIHBAInterface.c\<close>). Creating and
  releasing them, activating and deactivating them, and the packing of parameters for the kernel
  extension.
\<close>

section \<open>Packed parameters\<close>

text \<open>A \<open>struct sockaddr_storage\<close> as it lies in memory.\<close>

definition pack_sockaddr :: "sockaddr_storage \<Rightarrow> u8 list" where
  "pack_sockaddr a =
     [ss_len a, of_nat (ss_family a)] @ [ucast (ss_port a), ucast (drop_bit 8 (ss_port a))] @
     fixed 124 (ss_rest a)"

definition string_param :: "corefoundation \<Rightarrow> cfstring option \<Rightarrow> ('z world_scheme, u8 list) state" where
  "string_param cf s = do { (_, block) \<leftarrow> ascii_buffer cf s; State_Monad.return block }"

text \<open>The buffer: the sizes as 64-bit words, then the parameters.\<close>

definition pack_params :: "u8 list list \<Rightarrow> u8 list" where
  "pack_params params = concat (map (\<lambda>p. le64_bytes (of_nat (length p))) params) @ concat params"

section \<open>Creating a session\<close>

text \<open>The blocking TCP connection both creating functions open in DEXT mode.\<close>

definition open_tcp_connection ::
  "sockaddr_storage \<Rightarrow> sockaddr_storage option \<Rightarrow> ('z world_scheme, int option) state" where
  "open_tcp_connection remoteAddress localAddress = do {
     s \<leftarrow> sys (SysSocket (ss_family remoteAddress));
     let sock = sr_ret s;
     if sock < 0 then State_Monad.return None
     else do {
       sys (SysSetsockopt sock TCP_NODELAY);
       (case localAddress of
          Some a \<Rightarrow>
            if ss_family a \<noteq> AF_UNSPEC then do { sys (SysBind sock a); State_Monad.return () }
            else State_Monad.return ()
        | None \<Rightarrow> State_Monad.return ());
       c \<leftarrow> sys (SysConnect sock remoteAddress);
       if sr_ret c < 0 then do { os_close sock; State_Monad.return None }
       else State_Monad.return (Some sock)
     }
   }"

definition create_session_dext ::
  "corefoundation \<Rightarrow> nat \<Rightarrow> cfstring option \<Rightarrow> cfstring \<Rightarrow> cfstring \<Rightarrow> cfstring \<Rightarrow>
   sockaddr_storage \<Rightarrow> sockaddr_storage \<Rightarrow>
   ('z hba_world_scheme, IOReturn \<times> (SessionIdentifier \<times> ConnectionIdentifier) option) state" where
  "create_session_dext cf p targetIQN portalAddress portalPort hostInterface remoteAddress localAddress = do {
     s \<leftarrow> open_tcp_connection remoteAddress (Some localAddress);
     (case s of
        None \<Rightarrow> State_Monad.return (kIOReturnIOError, None)
      | Some sock \<Rightarrow> do {
          slot \<leftarrow> dextAllocSession p;
          (case slot of
             None \<Rightarrow> do { os_close sock; State_Monad.return (kIOReturnNoMemory, None) }
           | Some i \<Rightarrow> do {
               (_, iqn) \<leftarrow> get_ascii cf targetIQN 256;
               (_, addr) \<leftarrow> get_ascii cf (Some portalAddress) NI_MAXHOST;
               (_, port) \<leftarrow> get_ascii cf (Some portalPort) NI_MAXSERV;
               (_, ifname) \<leftarrow> get_ascii cf (Some hostInterface) NI_MAXHOST;
               let e = (fresh_de i)\<lparr> de_targetIQN := iqn, de_portalAddress := addr,
                 de_portalPort := port, de_hostInterface := ifname, de_tcpSocket := sock,
                 de_connectionCount := 1,
                 de_connectionIds := (de_connectionIds (fresh_de i))[0 := 1],
                 de_connectionSockets := (de_connectionSockets (fresh_de i))[0 := sock] \<rparr>;
               set_entry p i e;
               State_Monad.return
                 (kIOReturnSuccess, Some (dextMakeSessionId (de_dextSessionId e), 1))
             })
        })
   }"

text \<open>\<open>has_out\<close> is whether both result pointers are non-null.\<close>

definition iSCSIHBAInterfaceCreateSession ::
  "corefoundation \<Rightarrow> nat option \<Rightarrow> cfstring option \<Rightarrow> cfstring option \<Rightarrow> cfstring option \<Rightarrow> cfstring option \<Rightarrow>
   sockaddr_storage option \<Rightarrow> sockaddr_storage option \<Rightarrow> bool \<Rightarrow>
   ('z hba_world_scheme, IOReturn \<times> (SessionIdentifier \<times> ConnectionIdentifier) option) state" where
  "iSCSIHBAInterfaceCreateSession cf interface targetIQN portalAddress portalPort hostInterface
     remoteAddress localAddress has_out =
     (case (interface, portalAddress, portalPort, hostInterface, remoteAddress, localAddress) of
        (Some p, Some addr, Some port, Some host, Some remote, Some local) \<Rightarrow>
          if \<not> has_out then State_Monad.return (kIOReturnBadArgument, None)
          else do {
            h \<leftarrow> load_hba p;
            if hb_dextMode h
            then create_session_dext cf p targetIQN addr port host remote local
            else do {
              p0 \<leftarrow> string_param cf targetIQN;
              p1 \<leftarrow> string_param cf portalAddress;
              p2 \<leftarrow> string_param cf portalPort;
              p3 \<leftarrow> string_param cf hostInterface;
              let params = [p0, p1, p2, p3, pack_sockaddr remote, pack_sockaddr local];
              ok \<leftarrow> os_alloc (length (pack_params params));
              (if ok then State_Monad.return () else fault NullDeref);
              r \<leftarrow> IOConnectCallMethod h kiSCSICreateSession [of_nat (length params)] (pack_params params);
              for_each [0..<5] (\<lambda>_. do { sys SysFree; State_Monad.return () });
              if sr_errno r = kIOReturnSuccess \<and> length (sr_words r) = 3
              then State_Monad.return
                     (ucast (sr_words r ! 2),
                      Some (ucast (sr_words r ! 0), ucast (sr_words r ! 1)))
              else State_Monad.return (sr_errno r, None)
            }
          }
      | _ \<Rightarrow> State_Monad.return (kIOReturnBadArgument, None))"

section \<open>Creating a connection\<close>

definition create_connection_dext ::
  "nat \<Rightarrow> SessionIdentifier \<Rightarrow> sockaddr_storage \<Rightarrow> sockaddr_storage option \<Rightarrow>
   ('z hba_world_scheme, IOReturn \<times> ConnectionIdentifier option) state" where
  "create_connection_dext p sessionId remoteAddress localAddress =
     with_session p sessionId (kIOReturnBadArgument, None) (\<lambda>i e. do {
       s \<leftarrow> open_tcp_connection remoteAddress localAddress;
       (case s of
          None \<Rightarrow> State_Monad.return (kIOReturnIOError, None)
        | Some sock \<Rightarrow>
            if kDEXTMaxConnectionsPerSession \<le> de_connectionCount e then do {
              os_close sock;
              State_Monad.return (kIOReturnNoSpace, None)
            }
            else do {
              let idx = de_connectionCount e;
              let newConnId = of_nat (idx + 1);
              set_entry p i (e\<lparr> de_connectionIds := (de_connectionIds e)[idx := newConnId],
                de_connectionSockets := (de_connectionSockets e)[idx := sock],
                de_connectionCount := idx + 1 \<rparr>);
              State_Monad.return (kIOReturnSuccess, Some newConnId)
            })
     })"

text \<open>In the kernel branch \<open>localAddress\<close> may be null, and is copied from all the same; the input
  buffer is not freed.\<close>

definition iSCSIHBAInterfaceCreateConnection ::
  "corefoundation \<Rightarrow> nat option \<Rightarrow> SessionIdentifier \<Rightarrow> cfstring option \<Rightarrow> cfstring option \<Rightarrow> cfstring option \<Rightarrow>
   sockaddr_storage option \<Rightarrow> sockaddr_storage option \<Rightarrow> bool \<Rightarrow>
   ('z hba_world_scheme, IOReturn \<times> ConnectionIdentifier option) state" where
  "iSCSIHBAInterfaceCreateConnection cf interface sessionId portalAddress portalPort hostInterface
     remoteAddress localAddress has_out =
     (case (interface, portalAddress, portalPort, hostInterface, remoteAddress) of
        (Some p, Some addr, Some port, Some host, Some remote) \<Rightarrow>
          if sessionId = kiSCSIInvalidSessionId \<or> \<not> has_out
          then State_Monad.return (kIOReturnBadArgument, None)
          else do {
            h \<leftarrow> load_hba p;
            if hb_dextMode h then create_connection_dext p sessionId remote localAddress
            else do {
              p0 \<leftarrow> string_param cf portalAddress;
              p1 \<leftarrow> string_param cf portalPort;
              p2 \<leftarrow> string_param cf hostInterface;
              (if localAddress = None then fault NullDeref else State_Monad.return ());
              let params = [p0, p1, p2, pack_sockaddr remote,
                            (case localAddress of Some a \<Rightarrow> pack_sockaddr a | None \<Rightarrow> replicate 128 0)];
              ok \<leftarrow> os_alloc (length (pack_params params));
              (if ok then State_Monad.return () else fault NullDeref);
              r \<leftarrow> IOConnectCallMethod h kiSCSICreateConnection
                     [ucast sessionId, of_nat (length params)] (pack_params params);
              for_each [0..<3] (\<lambda>_. do { sys SysFree; State_Monad.return () });
              if sr_errno r = kIOReturnSuccess \<and> length (sr_words r) = 2
              then State_Monad.return (ucast (sr_words r ! 1), Some (ucast (sr_words r ! 0)))
              else State_Monad.return (sr_errno r, None)
            }
          }
      | _ \<Rightarrow> State_Monad.return (kIOReturnBadArgument, None))"

section \<open>Releasing\<close>

definition iSCSIHBAInterfaceReleaseSession ::
  "nat option \<Rightarrow> SessionIdentifier \<Rightarrow> ('z hba_world_scheme, IOReturn) state" where
  "iSCSIHBAInterfaceReleaseSession interface sessionId =
     (case interface of
        None \<Rightarrow> State_Monad.return kIOReturnBadArgument
      | Some p \<Rightarrow>
          if sessionId = kiSCSIInvalidSessionId then State_Monad.return kIOReturnBadArgument
          else do {
            h \<leftarrow> load_hba p;
            if hb_dextMode h then
              with_session p sessionId kIOReturnBadArgument (\<lambda>i e. do {
                let dextId = dextSessionIdFromId sessionId;
                (if hb_dextIPC h \<noteq> None
                 then do { DextIPCUnregisterSession (hb_dextIPC h) dextId; State_Monad.return () }
                 else State_Monad.return ());
                (case de_tcpCtx e of
                   Some c \<Rightarrow> do {
                     PDURelayUnregisterSession dextId;
                     ctx \<leftarrow> load_ctx c;
                     TCPEngineRemoveSocket (hb_tcpEngineKq h) (ctx_fd ctx);
                     TCPEngineCloseConnection (Some c);
                     free_ctx c;
                     set_entry p i (e\<lparr> de_tcpCtx := None, de_tcpSocket := - 1,
                       de_connectionSockets := replicate kDEXTMaxConnectionsPerSession (- 1) \<rparr>)
                   }
                 | None \<Rightarrow> do {
                     close_if_open (de_tcpSocket e);
                     for_each (de_connectionSockets e) close_if_open;
                     set_entry p i (e\<lparr> de_tcpSocket := - 1,
                       de_connectionSockets :=
                         map (\<lambda>s. if 0 \<le> s then - 1 else s) (de_connectionSockets e) \<rparr>)
                   });
                dextFreeSession p dextId;
                State_Monad.return kIOReturnSuccess
              })
            else kext_call h kiSCSIReleaseSession [ucast sessionId]
          })"

text \<open>The first slot with the identifier is cleared.\<close>

definition clear_connection :: "ConnectionIdentifier \<Rightarrow> DextSessionEntry \<Rightarrow> DextSessionEntry" where
  "clear_connection connectionId e =
     (case find_index (\<lambda>c. c = connectionId) (take (de_connectionCount e) (de_connectionIds e)) of
        None \<Rightarrow> e
      | Some j \<Rightarrow> e\<lparr> de_connectionIds := (de_connectionIds e)[j := 0],
                    de_connectionSockets := (de_connectionSockets e)[j := - 1] \<rparr>)"

definition iSCSIHBAInterfaceReleaseConnection ::
  "nat option \<Rightarrow> SessionIdentifier \<Rightarrow> ConnectionIdentifier \<Rightarrow> ('z hba_world_scheme, IOReturn) state" where
  "iSCSIHBAInterfaceReleaseConnection interface sessionId connectionId =
     (case interface of
        None \<Rightarrow> State_Monad.return kIOReturnBadArgument
      | Some p \<Rightarrow>
          if sessionId = kiSCSIInvalidSessionId \<or> connectionId = kiSCSIInvalidConnectionId
          then State_Monad.return kIOReturnBadArgument
          else do {
            h \<leftarrow> load_hba p;
            if hb_dextMode h then
              with_session p sessionId kIOReturnBadArgument (\<lambda>i e. do {
                let sock = dextConnectionSocket e connectionId;
                (if 0 \<le> sock then do {
                   os_close sock;
                   set_entry p i (clear_connection connectionId e)
                 }
                 else State_Monad.return ());
                State_Monad.return kIOReturnSuccess
              })
            else kext_call h kiSCSIReleaseConnection [ucast sessionId, ucast connectionId]
          })"

end
