(* ===== verification/HbaTransfer.thy ===== *)
theory HbaTransfer
  imports HbaTable
begin

text \<open>
  The HBA interface, third part (\<open>iSCSIHBAInterface.c\<close>): the parameter caches, sending and receiving
  PDUs during login, and the queries.
\<close>

section \<open>Parameters\<close>

text \<open>The position of a parameter in \<open>enum iSCSIHBASessionParameters\<close> and
  \<open>enum iSCSIHBAConnectionParameters\<close>.\<close>

abbreviation (input) kiSCSIHBASOInitialCmdSN :: nat where "kiSCSIHBASOInitialCmdSN \<equiv> 13"
abbreviation (input) kiSCSIHBACOUseHeaderDigest :: nat where "kiSCSIHBACOUseHeaderDigest \<equiv> 0"
abbreviation (input) kiSCSIHBACOUseDataDigest :: nat where "kiSCSIHBACOUseDataDigest \<equiv> 1"

fun le_value :: "u8 list \<Rightarrow> u64" where
  "le_value [] = 0"
| "le_value (b # bs) = ucast b OR push_bit 8 (le_value bs)"

text \<open>\<open>memcpy\<close> of a parameter into a zeroed 64-bit variable, and out of one. More than eight bytes
  do not fit.\<close>

definition param_in :: "u8 list \<Rightarrow> ('z world_scheme, u64) state" where
  "param_in bytes = do {
     (if 8 < length bytes then fault OutOfBounds else State_Monad.return ());
     State_Monad.return (le_value (take 8 bytes))
   }"

definition param_out :: "u64 \<Rightarrow> nat \<Rightarrow> ('z world_scheme, u8 list) state" where
  "param_out v paramSize = do {
     (if 8 < paramSize then fault OutOfBounds else State_Monad.return ());
     State_Monad.return (fixed paramSize (le64_bytes v))
   }"

text \<open>\<open>paramVal\<close> are the \<open>paramSize\<close> bytes the pointer refers to.\<close>

definition iSCSIHBAInterfaceSetSessionParameter ::
  "nat option \<Rightarrow> SessionIdentifier \<Rightarrow> nat \<Rightarrow> u8 list option \<Rightarrow> ('z hba_world_scheme, IOReturn) state" where
  "iSCSIHBAInterfaceSetSessionParameter interface sessionId parameter paramVal =
     (case (interface, paramVal) of
        (Some p, Some bytes) \<Rightarrow>
          if sessionId = kiSCSIInvalidSessionId \<or> bytes = [] then State_Monad.return kIOReturnBadArgument
          else do {
            h \<leftarrow> load_hba p;
            if hb_dextMode h then
              with_session p sessionId kIOReturnBadArgument (\<lambda>i e. do {
                v \<leftarrow> param_in bytes;
                (if parameter < kDEXTMaxCachedParams
                 then set_entry p i
                        (e\<lparr> de_cachedSessionParams := (de_cachedSessionParams e)[parameter := v] \<rparr>)
                 else State_Monad.return ());
                (if hb_dextIPC h \<noteq> None then do {
                   DextIPCSetSessionParam (hb_dextIPC h) (dextSessionIdFromId sessionId) (of_nat parameter) v;
                   State_Monad.return ()
                 }
                 else State_Monad.return ());
                State_Monad.return kIOReturnSuccess
              })
            else do {
              v \<leftarrow> param_in bytes;
              kext_call h kiSCSISetSessionParameter [ucast sessionId, of_nat parameter, v]
            }
          }
      | _ \<Rightarrow> State_Monad.return kIOReturnBadArgument)"

text \<open>The result carries the bytes stored at \<open>paramVal\<close>, when any are; \<open>has_val\<close> is whether the
  pointer is non-null.\<close>

definition iSCSIHBAInterfaceGetSessionParameter ::
  "nat option \<Rightarrow> SessionIdentifier \<Rightarrow> nat \<Rightarrow> bool \<Rightarrow> nat \<Rightarrow>
   ('z hba_world_scheme, IOReturn \<times> u8 list option) state" where
  "iSCSIHBAInterfaceGetSessionParameter interface sessionId parameter has_val paramSize =
     (case interface of
        None \<Rightarrow> State_Monad.return (kIOReturnBadArgument, None)
      | Some p \<Rightarrow>
          if sessionId = kiSCSIInvalidSessionId \<or> \<not> has_val \<or> paramSize = 0
          then State_Monad.return (kIOReturnBadArgument, None)
          else do {
            h \<leftarrow> load_hba p;
            if hb_dextMode h then
              with_session p sessionId (kIOReturnBadArgument, None) (\<lambda>i e.
                if parameter < kDEXTMaxCachedParams then do {
                  out \<leftarrow> param_out (de_cachedSessionParams e ! parameter) paramSize;
                  State_Monad.return (kIOReturnSuccess, Some out)
                }
                else State_Monad.return (kIOReturnBadArgument, None))
            else do {
              r \<leftarrow> IOConnectCallMethod h kiSCSIGetSessionParameter [ucast sessionId, of_nat parameter] [];
              if sr_errno r = kIOReturnSuccess then do {
                out \<leftarrow> param_out (sr_words r ! 0) paramSize;
                State_Monad.return (sr_errno r, Some out)
              }
              else State_Monad.return (sr_errno r, None)
            }
          })"

text \<open>The slot of a connection in the cache: \<open>connectionId - 1\<close>, wrapping around.\<close>

definition conn_index :: "ConnectionIdentifier \<Rightarrow> nat" where
  "conn_index connectionId = unat (connectionId - 1)"

definition iSCSIHBAInterfaceSetConnectionParameter ::
  "nat option \<Rightarrow> SessionIdentifier \<Rightarrow> ConnectionIdentifier \<Rightarrow> nat \<Rightarrow> u8 list option \<Rightarrow>
   ('z hba_world_scheme, IOReturn) state" where
  "iSCSIHBAInterfaceSetConnectionParameter interface sessionId connectionId parameter paramVal =
     (case (interface, paramVal) of
        (Some p, Some bytes) \<Rightarrow>
          if sessionId = kiSCSIInvalidSessionId \<or> connectionId = kiSCSIInvalidConnectionId \<or> bytes = []
          then State_Monad.return kIOReturnBadArgument
          else do {
            h \<leftarrow> load_hba p;
            if hb_dextMode h then
              with_session p sessionId kIOReturnBadArgument (\<lambda>i e. do {
                v \<leftarrow> param_in bytes;
                let connIdx = conn_index connectionId;
                (if parameter < kDEXTMaxCachedParams \<and> connIdx < kDEXTMaxConnectionsPerSession
                 then set_entry p i
                        (e\<lparr> de_cachedConnectionParams := (de_cachedConnectionParams e)
                             [connIdx := (de_cachedConnectionParams e ! connIdx)[parameter := v]] \<rparr>)
                 else State_Monad.return ());
                (if hb_dextIPC h \<noteq> None then do {
                   DextIPCSetConnectionParam (hb_dextIPC h) (dextSessionIdFromId sessionId) connectionId
                     (of_nat parameter) v;
                   State_Monad.return ()
                 }
                 else State_Monad.return ());
                State_Monad.return kIOReturnSuccess
              })
            else do {
              v \<leftarrow> param_in bytes;
              kext_call h kiSCSISetConnectionParameter
                [ucast sessionId, ucast connectionId, of_nat parameter, v]
            }
          }
      | _ \<Rightarrow> State_Monad.return kIOReturnBadArgument)"

definition iSCSIHBAInterfaceGetConnectionParameter ::
  "nat option \<Rightarrow> SessionIdentifier \<Rightarrow> ConnectionIdentifier \<Rightarrow> nat \<Rightarrow> bool \<Rightarrow> nat \<Rightarrow>
   ('z hba_world_scheme, IOReturn \<times> u8 list option) state" where
  "iSCSIHBAInterfaceGetConnectionParameter interface sessionId connectionId parameter has_val paramSize =
     (case interface of
        None \<Rightarrow> State_Monad.return (kIOReturnBadArgument, None)
      | Some p \<Rightarrow>
          if sessionId = kiSCSIInvalidSessionId \<or> connectionId = kiSCSIInvalidConnectionId \<or>
             \<not> has_val \<or> paramSize = 0
          then State_Monad.return (kIOReturnBadArgument, None)
          else do {
            h \<leftarrow> load_hba p;
            if hb_dextMode h then
              with_session p sessionId (kIOReturnBadArgument, None) (\<lambda>i e.
                let connIdx = conn_index connectionId in
                if parameter < kDEXTMaxCachedParams \<and> connIdx < kDEXTMaxConnectionsPerSession then do {
                  out \<leftarrow> param_out (de_cachedConnectionParams e ! connIdx ! parameter) paramSize;
                  State_Monad.return (kIOReturnSuccess, Some out)
                }
                else State_Monad.return (kIOReturnBadArgument, None))
            else do {
              r \<leftarrow> IOConnectCallMethod h kiSCSIGetConnectionParameter
                     [ucast sessionId, ucast connectionId, of_nat parameter] [];
              if sr_errno r = kIOReturnSuccess then do {
                out \<leftarrow> param_out (sr_words r ! 0) paramSize;
                State_Monad.return (sr_errno r, Some out)
              }
              else State_Monad.return (sr_errno r, None)
            }
          })"

section \<open>Sending and receiving\<close>

text \<open>The length field, written into the caller's header.\<close>

definition set_data_segment_length :: "nat \<Rightarrow> u8 list \<Rightarrow> u8 list" where
  "set_data_segment_length n bhs = poke 5 [of_nat (n div 2 ^ 16), of_nat (n div 2 ^ 8), of_nat n] bhs"

definition padded_length :: "nat \<Rightarrow> nat" where
  "padded_length n = ((n + 3) div 4) * 4"

text \<open>The DEXT branch, from the socket on. A short count is an error, as is -1.\<close>

definition send_dext :: "int \<Rightarrow> u8 list \<Rightarrow> u8 list \<Rightarrow> ('z world_scheme, IOReturn) state" where
  "send_dext sock bhs data = do {
     sent \<leftarrow> os_send sock bhs;
     if sent \<noteq> Inr (length bhs) then State_Monad.return kIOReturnIOError
     else if data = [] then State_Monad.return kIOReturnSuccess
     else if length data < padded_length (length data) then do {
       sent \<leftarrow> os_sendmsg sock [data, replicate (padded_length (length data) - length data) 0];
       State_Monad.return
         (if sent \<noteq> Inr (padded_length (length data)) then kIOReturnIOError else kIOReturnSuccess)
     }
     else do {
       sent \<leftarrow> os_send sock data;
       State_Monad.return (if sent \<noteq> Inr (length data) then kIOReturnIOError else kIOReturnSuccess)
     }
   }"

text \<open>\<open>data\<close> is the block the pointer refers to, of which \<open>len\<close> bytes are sent.\<close>

definition iSCSIHBAInterfaceSend ::
  "nat option \<Rightarrow> SessionIdentifier \<Rightarrow> ConnectionIdentifier \<Rightarrow> u8 list option \<Rightarrow> u8 list option \<Rightarrow> nat \<Rightarrow>
   ('z hba_world_scheme, IOReturn) state" where
  "iSCSIHBAInterfaceSend interface sessionId connectionId bhs data len =
     (case (interface, bhs) of
        (Some p, Some header) \<Rightarrow>
          if sessionId = kiSCSIInvalidSessionId \<or> connectionId = kiSCSIInvalidConnectionId \<or>
             (data = None \<and> 0 < len)
          then State_Monad.return kIOReturnBadArgument
          else do {
            let bhs = set_data_segment_length len header;
            let bytes = (case data of None \<Rightarrow> [] | Some block \<Rightarrow> take len block);
            (if length bytes < len then fault OutOfBounds else State_Monad.return ());
            h \<leftarrow> load_hba p;
            if hb_dextMode h then
              with_session p sessionId kIOReturnBadArgument (\<lambda>i e.
                let sock = dextConnectionSocket e connectionId in
                if sock < 0 then State_Monad.return kIOReturnNotFound
                else send_dext sock bhs bytes)
            else do {
              r \<leftarrow> IOConnectCallMethod h kiSCSISendBHS [] bhs;
              if sr_errno r \<noteq> kIOReturnSuccess then State_Monad.return (sr_errno r)
              else do {
                r \<leftarrow> IOConnectCallMethod h kiSCSISendData [ucast sessionId, ucast connectionId] bytes;
                State_Monad.return (sr_errno r)
              }
            }
          }
      | _ \<Rightarrow> State_Monad.return kIOReturnBadArgument)"

text \<open>What \<open>Receive\<close> leaves in its three output arguments: the header, the data pointer (the block
  it refers to) and the length.\<close>

type_synonym recv_out = "u8 list \<times> u8 list option \<times> nat"

text \<open>Bytes stored over the front of a buffer.\<close>

definition overwrite :: "u8 list \<Rightarrow> u8 list \<Rightarrow> u8 list" where
  "overwrite bs old = bs @ drop (length bs) old"

definition receive_dext ::
  "int \<Rightarrow> u8 list \<Rightarrow> u8 list option \<Rightarrow> nat \<Rightarrow> ('z world_scheme, IOReturn \<times> recv_out) state" where
  "receive_dext sock bhs0 data0 len0 = do {
     sys (SysSetsockopt sock (SO_RCVTIMEO 30));
     received \<leftarrow> os_recv sock kIPC_ISCSI_BHS_SIZE;
     (case received of
        Inl _ \<Rightarrow> State_Monad.return (kIOReturnIOError, (bhs0, data0, len0))
      | Inr bs \<Rightarrow>
          let bhs = overwrite bs bhs0 in
          if length bs \<noteq> kIPC_ISCSI_BHS_SIZE
          then State_Monad.return (kIOReturnIOError, (bhs, data0, len0))
          else
            let n = iSCSIPDUGetDataSegmentLength bhs in
            if n = 0 then State_Monad.return (kIOReturnSuccess, (bhs, None, 0))
            else do {
              block \<leftarrow> iSCSIPDUDataCreate n;
              (case block of
                 None \<Rightarrow> State_Monad.return (kIOReturnIOError, (bhs, None, n))
               | Some heap \<Rightarrow> do {
                   received \<leftarrow> os_recv sock (padded_length n);
                   let bs = (case received of Inl _ \<Rightarrow> [] | Inr bs \<Rightarrow> bs);
                   if length bs \<noteq> padded_length n then do {
                     d \<leftarrow> iSCSIPDUDataRelease (Some heap);
                     State_Monad.return (kIOReturnIOError, (bhs, d, n))
                   }
                   else State_Monad.return (kIOReturnSuccess, (bhs, Some (overwrite bs heap), n))
                 })
            })
   }"

definition receive_kext ::
  "HBAInterface \<Rightarrow> u64 list \<Rightarrow> u8 list \<Rightarrow> u8 list option \<Rightarrow> nat \<Rightarrow>
   ('z world_scheme, IOReturn \<times> recv_out) state" where
  "receive_kext h inputs bhs0 data0 len0 = do {
     r \<leftarrow> IOConnectCallMethod h kiSCSIRecvBHS inputs [];
     let bhs = overwrite (take kIPC_ISCSI_BHS_SIZE (sr_bytes r)) bhs0;
     if sr_errno r \<noteq> kIOReturnSuccess then State_Monad.return (sr_errno r, (bhs, data0, len0))
     else
       let n = iSCSIPDUGetDataSegmentLength bhs in
       if n = 0 then State_Monad.return (0, (bhs, data0, 0))
       else do {
         block \<leftarrow> iSCSIPDUDataCreate n;
         (case block of
            None \<Rightarrow> State_Monad.return (kIOReturnIOError, (bhs, None, n))
          | Some heap \<Rightarrow> do {
              r \<leftarrow> IOConnectCallMethod h kiSCSIRecvData inputs [];
              let bs = take n (sr_bytes r);
              if sr_errno r \<noteq> kIOReturnSuccess then do {
                d \<leftarrow> iSCSIPDUDataRelease (Some heap);
                State_Monad.return (sr_errno r, (bhs, d, length bs))
              }
              else State_Monad.return (sr_errno r, (bhs, Some (overwrite bs heap), length bs))
            })
       }
   }"

definition iSCSIHBAInterfaceReceive ::
  "nat option \<Rightarrow> SessionIdentifier \<Rightarrow> ConnectionIdentifier \<Rightarrow> u8 list option \<Rightarrow> u8 list option \<Rightarrow> nat \<Rightarrow>
   ('z hba_world_scheme, IOReturn \<times> recv_out) state" where
  "iSCSIHBAInterfaceReceive interface sessionId connectionId bhs data0 len0 =
     (case (interface, bhs) of
        (Some p, Some bhs0) \<Rightarrow>
          if sessionId = kiSCSIInvalidSessionId \<or> connectionId = kiSCSIInvalidConnectionId
          then State_Monad.return (kIOReturnBadArgument, (bhs0, data0, len0))
          else do {
            h \<leftarrow> load_hba p;
            if hb_dextMode h then
              with_session p sessionId (kIOReturnBadArgument, (bhs0, data0, len0)) (\<lambda>i e.
                let sock = dextConnectionSocket e connectionId in
                if sock < 0 then State_Monad.return (kIOReturnNotFound, (bhs0, data0, len0))
                else receive_dext sock bhs0 data0 len0)
            else receive_kext h [ucast sessionId, ucast connectionId] bhs0 data0 len0
          }
      | _ \<Rightarrow> State_Monad.return
               (kIOReturnBadArgument, ((case bhs of Some b \<Rightarrow> b | None \<Rightarrow> []), data0, len0)))"

section \<open>Queries\<close>

definition iSCSIHBAInterfaceGetConnection ::
  "nat option \<Rightarrow> SessionIdentifier \<Rightarrow> bool \<Rightarrow>
   ('z hba_world_scheme, IOReturn \<times> ConnectionIdentifier option) state" where
  "iSCSIHBAInterfaceGetConnection interface sessionId has_out =
     (case interface of
        None \<Rightarrow> State_Monad.return (kIOReturnBadArgument, None)
      | Some p \<Rightarrow>
          if sessionId = kiSCSIInvalidSessionId \<or> \<not> has_out
          then State_Monad.return (kIOReturnBadArgument, None)
          else do {
            h \<leftarrow> load_hba p;
            if hb_dextMode h then
              with_session p sessionId (kIOReturnBadArgument, None) (\<lambda>i e.
                if de_connectionCount e = 0 then State_Monad.return (kIOReturnBadArgument, None)
                else State_Monad.return (kIOReturnSuccess, Some (de_connectionIds e ! 0)))
            else do {
              r \<leftarrow> IOConnectCallMethod h kiSCSIGetConnection [ucast sessionId] [];
              State_Monad.return (sr_errno r,
                if sr_errno r = kIOReturnSuccess \<and> length (sr_words r) = 1
                then Some (ucast (sr_words r ! 0)) else None)
            }
          })"

definition iSCSIHBAInterfaceGetNumConnections ::
  "nat option \<Rightarrow> SessionIdentifier \<Rightarrow> bool \<Rightarrow> ('z hba_world_scheme, IOReturn \<times> u32 option) state" where
  "iSCSIHBAInterfaceGetNumConnections interface sessionId has_out =
     (case interface of
        None \<Rightarrow> State_Monad.return (kIOReturnBadArgument, None)
      | Some p \<Rightarrow>
          if sessionId = kiSCSIInvalidSessionId \<or> \<not> has_out
          then State_Monad.return (kIOReturnBadArgument, None)
          else do {
            h \<leftarrow> load_hba p;
            if hb_dextMode h then
              with_session p sessionId (kIOReturnBadArgument, None) (\<lambda>i e.
                State_Monad.return (kIOReturnSuccess, Some (of_nat (de_connectionCount e))))
            else do {
              r \<leftarrow> IOConnectCallMethod h kiSCSIGetNumConnections [ucast sessionId] [];
              State_Monad.return (sr_errno r,
                if sr_errno r = kIOReturnSuccess \<and> length (sr_words r) = 1
                then Some (ucast (sr_words r ! 0)) else None)
            }
          })"

definition iSCSIHBAInterfaceGetSessionIdForTargetIQN ::
  "corefoundation \<Rightarrow> nat option \<Rightarrow> cfstring option \<Rightarrow> ('z hba_world_scheme, SessionIdentifier) state" where
  "iSCSIHBAInterfaceGetSessionIdForTargetIQN cf interface targetIQN =
     (case (interface, targetIQN) of
        (Some p, Some iqn) \<Rightarrow> do {
          h \<leftarrow> load_hba p;
          if hb_dextMode h then do {
            (ok, name) \<leftarrow> get_ascii cf targetIQN 256;
            if \<not> ok then State_Monad.return kiSCSIInvalidSessionId
            else State_Monad.return
              (case find_index (\<lambda>e. de_inUse e \<and> de_targetIQN e = name) (hb_dextSessions h) of
                 Some i \<Rightarrow> dextMakeSessionId (de_dextSessionId (hb_dextSessions h ! i))
               | None \<Rightarrow> kiSCSIInvalidSessionId)
          }
          else do {
            (ok, block) \<leftarrow> ascii_buffer cf targetIQN;
            if \<not> ok then do { sys SysFree; State_Monad.return kiSCSIInvalidSessionId }
            else do {
              r \<leftarrow> IOConnectCallMethod h kiSCSIGetSessionIdForTargetIQN [] block;
              sys SysFree;
              State_Monad.return
                (if sr_errno r = kIOReturnSuccess \<and> length (sr_words r) = 1
                 then ucast (sr_words r ! 0) else kiSCSIInvalidSessionId)
            }
          }
        }
      | _ \<Rightarrow> State_Monad.return kiSCSIInvalidSessionId)"

text \<open>The argument checks return \<open>kIOReturnBadArgument\<close>, an error code, as a connection identifier.\<close>

definition iSCSIHBAInterfaceGetConnectionIdForPortalAddress ::
  "corefoundation \<Rightarrow> nat option \<Rightarrow> SessionIdentifier \<Rightarrow> cfstring option \<Rightarrow>
   ('z hba_world_scheme, ConnectionIdentifier) state" where
  "iSCSIHBAInterfaceGetConnectionIdForPortalAddress cf interface sessionId portalAddress =
     (case (interface, portalAddress) of
        (Some p, Some addr) \<Rightarrow>
          if sessionId = kiSCSIInvalidSessionId then State_Monad.return kIOReturnBadArgument
          else do {
            h \<leftarrow> load_hba p;
            if hb_dextMode h then
              with_session p sessionId kiSCSIInvalidConnectionId (\<lambda>i e. do {
                (ok, name) \<leftarrow> get_ascii cf portalAddress NI_MAXHOST;
                State_Monad.return
                  (if ok \<and> de_portalAddress e = name \<and> 0 < de_connectionCount e
                   then de_connectionIds e ! 0 else kiSCSIInvalidConnectionId)
              })
            else do {
              (ok, block) \<leftarrow> ascii_buffer cf portalAddress;
              if \<not> ok then do { sys SysFree; State_Monad.return kIOReturnBadArgument }
              else do {
                r \<leftarrow> IOConnectCallMethod h kiSCSIGetConnectionIdForPortalAddress [ucast sessionId] block;
                sys SysFree;
                State_Monad.return
                  (if sr_errno r \<noteq> kIOReturnSuccess \<or> length (sr_words r) \<noteq> 1
                   then kiSCSIInvalidConnectionId else ucast (sr_words r ! 0))
              }
            }
          }
      | _ \<Rightarrow> State_Monad.return kIOReturnBadArgument)"

text \<open>The identifiers as little-endian words in the kernel's answer.\<close>

definition le16_words :: "u8 list \<Rightarrow> u16 list" where
  "le16_words bs = map (\<lambda>i. ucast (bs ! (2 * i)) OR push_bit 8 (ucast (bs ! (2 * i + 1))))
     [0..<length bs div 2]"

definition le32_words :: "u8 list \<Rightarrow> u32 list" where
  "le32_words bs = map (\<lambda>i. le32_at (4 * i) bs) [0..<length bs div 4]"

text \<open>The result lists what is stored in the array; the count is stored in \<open>*sessionCount\<close>.\<close>

definition iSCSIHBAInterfaceGetSessionIds ::
  "nat option \<Rightarrow> bool \<Rightarrow>
   ('z hba_world_scheme, IOReturn \<times> (SessionIdentifier list \<times> u16) option) state" where
  "iSCSIHBAInterfaceGetSessionIds interface has_out =
     (case interface of
        None \<Rightarrow> State_Monad.return (kIOReturnBadArgument, None)
      | Some p \<Rightarrow>
          if \<not> has_out then State_Monad.return (kIOReturnBadArgument, None)
          else do {
            h \<leftarrow> load_hba p;
            if hb_dextMode h then
              let ids = map (\<lambda>e. dextMakeSessionId (de_dextSessionId e)) (filter de_inUse (hb_dextSessions h))
              in State_Monad.return (kIOReturnSuccess, Some (ids, of_nat (length ids)))
            else do {
              r \<leftarrow> IOConnectCallMethod h kiSCSIGetSessionIds [] [];
              State_Monad.return (sr_errno r, Some (le16_words (take (2 * 16) (sr_bytes r)),
                if sr_errno r = kIOReturnSuccess \<and> length (sr_words r) = 1
                then ucast (sr_words r ! 0) else 0))
            }
          })"

definition iSCSIHBAInterfaceGetConnectionIds ::
  "nat option \<Rightarrow> SessionIdentifier \<Rightarrow> bool \<Rightarrow>
   ('z hba_world_scheme, IOReturn \<times> (ConnectionIdentifier list \<times> u32) option) state" where
  "iSCSIHBAInterfaceGetConnectionIds interface sessionId has_out =
     (case interface of
        None \<Rightarrow> State_Monad.return (kIOReturnBadArgument, None)
      | Some p \<Rightarrow>
          if sessionId = kiSCSIInvalidSessionId \<or> \<not> has_out
          then State_Monad.return (kIOReturnBadArgument, None)
          else do {
            h \<leftarrow> load_hba p;
            if hb_dextMode h then
              with_session p sessionId (kIOReturnBadArgument, None) (\<lambda>i e.
                let ids = take (min (de_connectionCount e) kDEXTMaxConnectionsPerSession) (de_connectionIds e)
                in State_Monad.return (kIOReturnSuccess, Some (ids, of_nat (length ids))))
            else do {
              r \<leftarrow> IOConnectCallMethod h kiSCSIGetConnectionIds [ucast sessionId] [];
              State_Monad.return (sr_errno r, Some (le32_words (take (4 * 2) (sr_bytes r)),
                if sr_errno r = kIOReturnSuccess \<and> length (sr_words r) = 1
                then ucast (sr_words r ! 0) else 0))
            }
          })"

text \<open>The four functions that return a cached string: the cached field and, for the kernel, the
  selector, the scalars and the size of the buffer. The kernel's string is what precedes the
  terminator.\<close>

definition cached_string ::
  "corefoundation \<Rightarrow> nat \<Rightarrow> SessionIdentifier \<Rightarrow> (DextSessionEntry \<Rightarrow> u8 list) \<Rightarrow>
   functionNames \<Rightarrow> u64 list \<Rightarrow> nat \<Rightarrow> ('z hba_world_scheme, cfstring option) state" where
  "cached_string cf p sessionId field f inputs n = do {
     h \<leftarrow> load_hba p;
     if hb_dextMode h then
       with_session p sessionId None (\<lambda>i e.
         State_Monad.return (if field e = [] then None else cf_from_ascii cf (field e)))
     else do {
       r \<leftarrow> IOConnectCallMethod h f inputs [];
       State_Monad.return
         (if sr_errno r \<noteq> kIOReturnSuccess then None
          else cf_from_ascii cf (takeWhile (\<lambda>b. b \<noteq> 0) (take n (sr_bytes r))))
     }
   }"

definition iSCSIHBAInterfaceCreateTargetIQNForSessionId ::
  "corefoundation \<Rightarrow> nat option \<Rightarrow> SessionIdentifier \<Rightarrow> ('z hba_world_scheme, cfstring option) state" where
  "iSCSIHBAInterfaceCreateTargetIQNForSessionId cf interface sessionId =
     (case interface of
        None \<Rightarrow> State_Monad.return None
      | Some p \<Rightarrow>
          if sessionId = kiSCSIInvalidSessionId then State_Monad.return None
          else cached_string cf p sessionId de_targetIQN
                 kiSCSICreateTargetIQNForSessionId [ucast sessionId] NI_MAXHOST)"

definition iSCSIHBAInterfaceCreatePortalAddressForConnectionId ::
  "corefoundation \<Rightarrow> nat option \<Rightarrow> SessionIdentifier \<Rightarrow> ConnectionIdentifier \<Rightarrow>
   ('z hba_world_scheme, cfstring option) state" where
  "iSCSIHBAInterfaceCreatePortalAddressForConnectionId cf interface sessionId connectionId =
     (case interface of
        None \<Rightarrow> State_Monad.return None
      | Some p \<Rightarrow>
          if sessionId = kiSCSIInvalidSessionId \<or> connectionId = kiSCSIInvalidConnectionId
          then State_Monad.return None
          else cached_string cf p sessionId de_portalAddress
                 kiSCSIGetPortalAddressForConnectionId [ucast sessionId, ucast connectionId] NI_MAXHOST)"

definition iSCSIHBAInterfaceCreatePortalPortForConnectionId ::
  "corefoundation \<Rightarrow> nat option \<Rightarrow> SessionIdentifier \<Rightarrow> ConnectionIdentifier \<Rightarrow>
   ('z hba_world_scheme, cfstring option) state" where
  "iSCSIHBAInterfaceCreatePortalPortForConnectionId cf interface sessionId connectionId =
     (case interface of
        None \<Rightarrow> State_Monad.return None
      | Some p \<Rightarrow>
          if sessionId = kiSCSIInvalidSessionId \<or> connectionId = kiSCSIInvalidConnectionId
          then State_Monad.return None
          else cached_string cf p sessionId de_portalPort
                 kiSCSIGetPortalPortForConnectionId [ucast sessionId, ucast connectionId] NI_MAXSERV)"

definition iSCSIHBAInterfaceCreateHostInterfaceForConnectionId ::
  "corefoundation \<Rightarrow> nat option \<Rightarrow> SessionIdentifier \<Rightarrow> ConnectionIdentifier \<Rightarrow>
   ('z hba_world_scheme, cfstring option) state" where
  "iSCSIHBAInterfaceCreateHostInterfaceForConnectionId cf interface sessionId connectionId =
     (case interface of
        None \<Rightarrow> State_Monad.return None
      | Some p \<Rightarrow>
          if sessionId = kiSCSIInvalidSessionId \<or> connectionId = kiSCSIInvalidConnectionId
          then State_Monad.return None
          else cached_string cf p sessionId de_hostInterface
                 kiSCSIGetHostInterfaceForConnectionId [ucast sessionId, ucast connectionId] NI_MAXHOST)"

end
