(* ===== verification/HbaActivate.thy ===== *)
theory HbaActivate
  imports HbaSession HbaTransfer
begin

text \<open>
  The HBA interface, fourth part (\<open>iSCSIHBAInterface.c\<close>): handing a logged-in connection over to the
  data path. Activation registers the session with the driver extension, makes the socket
  non-blocking, adds it to the TCP engine and registers it with the PDU relay.
\<close>

section \<open>Activation\<close>

text \<open>The session configuration, with the command sequence number cached during login.\<close>

definition session_config :: "u8 \<Rightarrow> u8 list \<Rightarrow> u32 \<Rightarrow> DextSessionConfig" where
  "session_config dextId targetIQN initialCmdSN =
     zero_session_config\<lparr> sc_sessionId := dextId, sc_targetId := 0, sc_initialCmdSN := initialCmdSN,
       sc_targetName := fixed 256 (take 255 targetIQN) \<rparr>"

definition register_session ::
  "nat \<Rightarrow> SessionIdentifier \<Rightarrow> DextSessionEntry \<Rightarrow> nat option \<Rightarrow> ('z hba_world_scheme, unit) state" where
  "register_session p sessionId entry ipc = do {
     (_, cmdSN) \<leftarrow> iSCSIHBAInterfaceGetSessionParameter (Some p) sessionId kiSCSIHBASOInitialCmdSN True 4;
     let initialCmdSN = (case cmdSN of Some bytes \<Rightarrow> le32_at 0 bytes | None \<Rightarrow> 0);
     DextIPCRegisterSession ipc
       (Some (session_config (dextSessionIdFromId sessionId) (de_targetIQN entry) initialCmdSN));
     State_Monad.return ()
   }"

definition connection_config :: "u8 \<Rightarrow> ConnectionIdentifier \<Rightarrow> DextConnectionConfig" where
  "connection_config dextId connectionId =
     zero_connection_config\<lparr> cc_sessionId := dextId, cc_connectionId := connectionId \<rparr>"

text \<open>The digest flags of a connection, from the cache of negotiated parameters.\<close>

definition cached_flag :: "DextSessionEntry \<Rightarrow> nat \<Rightarrow> nat \<Rightarrow> bool" where
  "cached_flag e connIdx parameter \<longleftrightarrow> de_cachedConnectionParams e ! connIdx ! parameter \<noteq> 0"

text \<open>The steps from \<open>fcntl\<close> on, for a socket that is open.\<close>

definition attach_socket ::
  "nat \<Rightarrow> nat \<Rightarrow> int \<Rightarrow> int \<Rightarrow> u8 \<Rightarrow> ConnectionIdentifier \<Rightarrow> nat \<Rightarrow> ('z hba_world_scheme, unit) state" where
  "attach_socket p i kq connSock dextId connectionId connIdx = do {
     flags \<leftarrow> sys (SysGetFlags connSock);
     (if sr_ret flags \<noteq> - 1
      then do { sys (SysSetFlags connSock (word_of_int (sr_ret flags) OR 4)); State_Monad.return () }
      else State_Monad.return ());
     ctx \<leftarrow> calloc_ctx;
     (case ctx of
        None \<Rightarrow> State_Monad.return ()
      | Some c \<Rightarrow> do {
          err \<leftarrow> TCPEngineAddSocket kq connSock dextId connectionId (Some c);
          if err = 0 then do {
            context \<leftarrow> load_ctx c;
            store_ctx c (context\<lparr> ctx_connected := True \<rparr>);
            PDURelayRegisterSession dextId (Some c);
            h \<leftarrow> load_hba p;
            let e = hb_dextSessions h ! i;
            PDURelaySetDigestFlags dextId (cached_flag e connIdx kiSCSIHBACOUseHeaderDigest)
              (cached_flag e connIdx kiSCSIHBACOUseDataDigest);
            PDURelayActivateSession dextId;
            set_entry p i (e\<lparr> de_tcpCtx := Some c \<rparr>)
          }
          else free_ctx c
        })
   }"

text \<open>The socket of the connection, or the session's first one.\<close>

definition socket_to_activate :: "DextSessionEntry \<Rightarrow> ConnectionIdentifier \<Rightarrow> int" where
  "socket_to_activate e connectionId =
     (let s = dextConnectionSocket e connectionId in if s < 0 then de_tcpSocket e else s)"

definition connection_slot :: "DextSessionEntry \<Rightarrow> ConnectionIdentifier \<Rightarrow> nat" where
  "connection_slot e connectionId =
     (case find_index (\<lambda>c. c = connectionId) (take (de_connectionCount e) (de_connectionIds e)) of
        Some i \<Rightarrow> i | None \<Rightarrow> 0)"

definition iSCSIHBAInterfaceActivateConnection ::
  "nat option \<Rightarrow> SessionIdentifier \<Rightarrow> ConnectionIdentifier \<Rightarrow> ('z hba_world_scheme, IOReturn) state" where
  "iSCSIHBAInterfaceActivateConnection interface sessionId connectionId =
     (case interface of
        None \<Rightarrow> State_Monad.return kIOReturnBadArgument
      | Some p \<Rightarrow>
          if sessionId = kiSCSIInvalidSessionId \<or> connectionId = kiSCSIInvalidConnectionId
          then State_Monad.return kIOReturnBadArgument
          else do {
            h \<leftarrow> load_hba p;
            if hb_dextMode h then
              with_session p sessionId kIOReturnBadArgument (\<lambda>i e.
                if hb_dextIPC h = None then State_Monad.return kIOReturnNotReady
                else do {
                  let dextId = dextSessionIdFromId sessionId;
                  register_session p sessionId e (hb_dextIPC h);
                  DextIPCActivateConnection (hb_dextIPC h) (Some (connection_config dextId connectionId));
                  let connSock = socket_to_activate e connectionId;
                  (if 0 \<le> connSock
                   then attach_socket p i (hb_tcpEngineKq h) connSock dextId connectionId
                          (connection_slot e connectionId)
                   else State_Monad.return ());
                  State_Monad.return kIOReturnSuccess
                })
            else kext_call h kiSCSIActivateConnection [ucast sessionId, ucast connectionId]
          })"

text \<open>One round of the loop of \<open>iSCSIHBAInterfaceActivateAllConnections\<close>.\<close>

definition activate_slot ::
  "nat \<Rightarrow> nat \<Rightarrow> u8 \<Rightarrow> nat \<Rightarrow> ('z hba_world_scheme, unit) state" where
  "activate_slot p i dextId j = do {
     h \<leftarrow> load_hba p;
     let e = hb_dextSessions h ! i;
     let connId = de_connectionIds e ! j;
     DextIPCActivateConnection (hb_dextIPC h) (Some (connection_config dextId connId));
     let connSock = socket_to_activate e connId;
     (if 0 \<le> connSock \<and> 0 \<le> hb_tcpEngineKq h
      then attach_socket p i (hb_tcpEngineKq h) connSock dextId connId j
      else State_Monad.return ())
   }"

definition iSCSIHBAInterfaceActivateAllConnections ::
  "nat option \<Rightarrow> SessionIdentifier \<Rightarrow> ('z hba_world_scheme, IOReturn) state" where
  "iSCSIHBAInterfaceActivateAllConnections interface sessionId =
     (case interface of
        None \<Rightarrow> State_Monad.return kIOReturnBadArgument
      | Some p \<Rightarrow>
          if sessionId = kiSCSIInvalidSessionId then State_Monad.return kIOReturnBadArgument
          else do {
            h \<leftarrow> load_hba p;
            if hb_dextMode h then
              with_session p sessionId kIOReturnBadArgument (\<lambda>i e.
                if hb_dextIPC h = None then State_Monad.return kIOReturnNotReady
                else do {
                  register_session p sessionId e (hb_dextIPC h);
                  for_each [0..<de_connectionCount e] (activate_slot p i (dextSessionIdFromId sessionId));
                  State_Monad.return kIOReturnSuccess
                })
            else kext_call h kiSCSIActivateAllConnections [ucast sessionId]
          })"

section \<open>Deactivation\<close>

definition iSCSIHBAInterfaceDeactivateConnection ::
  "nat option \<Rightarrow> SessionIdentifier \<Rightarrow> ConnectionIdentifier \<Rightarrow> ('z hba_world_scheme, IOReturn) state" where
  "iSCSIHBAInterfaceDeactivateConnection interface sessionId connectionId =
     (case interface of
        None \<Rightarrow> State_Monad.return kIOReturnBadArgument
      | Some p \<Rightarrow>
          if sessionId = kiSCSIInvalidSessionId \<or> connectionId = kiSCSIInvalidConnectionId
          then State_Monad.return kIOReturnBadArgument
          else do {
            h \<leftarrow> load_hba p;
            if hb_dextMode h then
              if hb_dextIPC h = None then State_Monad.return kIOReturnNotReady
              else do {
                DextIPCDeactivateConnection (hb_dextIPC h) (dextSessionIdFromId sessionId) connectionId;
                State_Monad.return kIOReturnSuccess
              }
            else kext_call h kiSCSIDeactivateConnection [ucast sessionId, ucast connectionId]
          })"

definition iSCSIHBAInterfaceDeactivateAllConnections ::
  "nat option \<Rightarrow> SessionIdentifier \<Rightarrow> ('z hba_world_scheme, IOReturn) state" where
  "iSCSIHBAInterfaceDeactivateAllConnections interface sessionId =
     (case interface of
        None \<Rightarrow> State_Monad.return kIOReturnBadArgument
      | Some p \<Rightarrow>
          if sessionId = kiSCSIInvalidSessionId then State_Monad.return kIOReturnBadArgument
          else do {
            h \<leftarrow> load_hba p;
            if hb_dextMode h then
              with_session p sessionId kIOReturnBadArgument (\<lambda>i e.
                if hb_dextIPC h = None then State_Monad.return kIOReturnNotReady
                else do {
                  for_each (take (de_connectionCount e) (de_connectionIds e)) (\<lambda>connId. do {
                    DextIPCDeactivateConnection (hb_dextIPC h) (dextSessionIdFromId sessionId) connId;
                    State_Monad.return ()
                  });
                  State_Monad.return kIOReturnSuccess
                })
            else kext_call h kiSCSIDeactivateAllConnections [ucast sessionId]
          })"

end
