(* ===== verification/HbaInvariant.thy ===== *)
theory HbaInvariant
  imports HbaActivate
begin

text \<open>
  The invariant of the HBA interface's session table, and that every operation keeps it.
\<close>

section \<open>The invariant\<close>

text \<open>A table entry has arrays of the declared sizes, at most eight connections, and carries its own
  index as identifier while it is in use. The session counter counts the entries in use.\<close>

definition entry_ok :: "nat \<Rightarrow> DextSessionEntry \<Rightarrow> bool" where
  "entry_ok i e \<longleftrightarrow>
     length (de_connectionIds e) = 8 \<and> length (de_connectionSockets e) = 8 \<and>
     length (de_cachedSessionParams e) = 32 \<and> length (de_cachedConnectionParams e) = 8 \<and>
     (\<forall>ps \<in> set (de_cachedConnectionParams e). length ps = 32) \<and>
     de_connectionCount e \<le> 8 \<and> (de_inUse e \<longrightarrow> de_dextSessionId e = of_nat i)"

definition used_count :: "DextSessionEntry list \<Rightarrow> nat" where
  "used_count es = length (filter de_inUse es)"

definition table_ok :: "HBAInterface \<Rightarrow> bool" where
  "table_ok h \<longleftrightarrow> length (hb_dextSessions h) = 16 \<and>
     (\<forall>i < 16. entry_ok i (hb_dextSessions h ! i)) \<and>
     hb_numDextSessions h = int (used_count (hb_dextSessions h))"

definition hba_ok :: "nat \<Rightarrow> 'z hba_world_scheme \<Rightarrow> bool" where
  "hba_ok p w \<longleftrightarrow> (\<exists>h. hbas w p = Some h \<and> table_ok h)"

text \<open>The interface is there and its slot \<open>i\<close> is in use.\<close>

definition slot_used :: "nat \<Rightarrow> nat \<Rightarrow> 'z hba_world_scheme \<Rightarrow> bool" where
  "slot_used p i w \<longleftrightarrow> hba_ok p w \<and> i < 16 \<and> de_inUse (hb_dextSessions (the (hbas w p)) ! i)"

lemma hba_okI: "hbas w p = Some h \<Longrightarrow> table_ok h \<Longrightarrow> hba_ok p w"
  by (simp add: hba_ok_def)

lemma table_okD:
  "table_ok h \<Longrightarrow> i < 16 \<Longrightarrow> entry_ok i (hb_dextSessions h ! i)"
  "table_ok h \<Longrightarrow> length (hb_dextSessions h) = 16"
  by (simp_all add: table_ok_def)

lemma entry_ok_fresh: "i < 16 \<Longrightarrow> entry_ok i (fresh_de i)"
  by (simp add: entry_ok_def fresh_de_def zero_de_def)

lemma zero_hba_ok: "table_ok zero_hba"
  by (simp add: table_ok_def zero_hba_def entry_ok_def zero_de_def used_count_def)

lemma table_ok_cong:
  "hb_dextSessions h' = hb_dextSessions h \<Longrightarrow> hb_numDextSessions h' = hb_numDextSessions h \<Longrightarrow>
     table_ok h' = table_ok h"
  by (simp add: table_ok_def)

section \<open>Counting\<close>

lemma used_count_update:
  assumes "i < length es"
  shows "int (used_count (es[i := e])) =
    int (used_count es) + (if de_inUse e then 1 else 0) - (if de_inUse (es ! i) then 1 else 0)"
proof -
  have split: "used_count (xs @ x # ys) = used_count xs + (if de_inUse x then 1 else 0) + used_count ys"
    for xs ys and x :: DextSessionEntry
    by (simp add: used_count_def)
  have "used_count es =
      used_count (take i es) + (if de_inUse (es ! i) then 1 else 0) + used_count (drop (Suc i) es)"
    using split [of "take i es" "es ! i" "drop (Suc i) es"] assms by (simp add: id_take_nth_drop [symmetric])
  moreover have "used_count (es[i := e]) =
      used_count (take i es) + (if de_inUse e then 1 else 0) + used_count (drop (Suc i) es)"
    using assms by (simp only: upd_conv_take_nth_drop split)
  ultimately show ?thesis by simp
qed

lemma table_ok_update:
  assumes "table_ok h" and "i < 16" and "entry_ok i e" and "de_inUse e = de_inUse (hb_dextSessions h ! i)"
  shows "table_ok (h\<lparr> hb_dextSessions := (hb_dextSessions h)[i := e] \<rparr>)"
  using assms used_count_update [of i "hb_dextSessions h" e]
  by (auto simp: table_ok_def nth_list_update)

section \<open>Frames\<close>

text \<open>What the operations do to the rest of the state does not touch the interfaces.\<close>

lemma hbas_called [simp]: "hbas (called c w) = hbas w" "next_hba (called c w) = next_hba w"
  by (simp_all add: called_def)

lemma hba_ok_frames [simp]:
  "hba_ok p (called c w) = hba_ok p w"
  "hba_ok p (w\<lparr> faults := fs \<rparr>) = hba_ok p w"
  "hba_ok p (w\<lparr> ctxs := cs \<rparr>) = hba_ok p w"
  "hba_ok p (w\<lparr> next_ctx := n \<rparr>) = hba_ok p w"
  "hba_ok p (w\<lparr> ipcs := is \<rparr>) = hba_ok p w"
  "hba_ok p (w\<lparr> gRelay := g \<rparr>) = hba_ok p w"
  by (simp_all add: hba_ok_def)

lemma slot_used_frames [simp]:
  "slot_used p i (called c w) = slot_used p i w"
  "slot_used p i (w\<lparr> faults := fs \<rparr>) = slot_used p i w"
  "slot_used p i (w\<lparr> ctxs := cs \<rparr>) = slot_used p i w"
  "slot_used p i (w\<lparr> next_ctx := n \<rparr>) = slot_used p i w"
  "slot_used p i (w\<lparr> ipcs := is \<rparr>) = slot_used p i w"
  "slot_used p i (w\<lparr> gRelay := g \<rparr>) = slot_used p i w"
  by (simp_all add: slot_used_def)

text \<open>A predicate that only looks at the interfaces, and the programs of the other modules.\<close>

definition framed :: "('z hba_world_scheme \<Rightarrow> bool) \<Rightarrow> bool" where
  "framed P \<longleftrightarrow> (\<forall>v w. hbas v = hbas w \<longrightarrow> P v = P w)"

lemma framed_ok: "framed (hba_ok p)" "framed (slot_used p i)"
  by (simp_all add: framed_def hba_ok_def slot_used_def)

lemma framedD: "framed P \<Longrightarrow> hbas v = hbas w \<Longrightarrow> P v = P w"
  unfolding framed_def by blast

lemma framed_simps:
  assumes "framed P"
  shows "P (called c w) = P w" and "P (w\<lparr> faults := fs \<rparr>) = P w"
    and "P (w\<lparr> ctxs := cs \<rparr>) = P w" and "P (w\<lparr> ctxs := cs, next_ctx := n \<rparr>) = P w"
    and "P (w\<lparr> ipcs := is \<rparr>) = P w" and "P (w\<lparr> gRelay := g \<rparr>) = P w"
  by (rule framedD [OF assms]; simp)+

named_theorems framed_programs "programs that do not touch the interfaces"

lemma framed_basic [framed_programs]:
  assumes "framed P"
  shows "preserves P (sys c)" and "preserves P (fault f)" and "preserves P (os_close fd)"
    and "preserves P (os_alloc n)" and "preserves P (os_send fd d)" and "preserves P (os_recv fd n)"
    and "preserves P (os_sendmsg fd iov)" and "preserves P (os_malloc n)" and "preserves P (os_free b)"
  by (simp_all add: preserves_def monad_simps framed_simps [OF assms])
    (cases b; simp add: monad_simps framed_simps [OF assms])

lemma framed_heaps [framed_programs]:
  assumes "framed P"
  shows "preserves P (load_ctx c)" and "preserves P (store_ctx c x)" and "preserves P calloc_ctx"
    and "preserves P (free_ctx c)" and "preserves P (load_ipc q)" and "preserves P (set_session i s)"
    and "preserves P (get_session i)"
  unfolding load_ctx_def store_ctx_def calloc_ctx_def free_ctx_def load_ipc_def set_session_def
    get_session_def
  by (intro preserves_intros framed_basic preserves_modify assms | simp add: framed_simps [OF assms])+

lemma framed_strings [framed_programs]:
  assumes "framed P"
  shows "preserves P (get_ascii cf s n)" and "preserves P (ascii_buffer cf s)"
    and "preserves P (string_param cf s)"
  unfolding get_ascii_def ascii_buffer_def string_param_def
  by (intro preserves_intros framed_programs assms)+

lemma framed_calls [framed_programs]:
  assumes "framed P"
  shows "preserves P (IOConnectCallMethod h f xs bs)" and "preserves P (kext_call h f xs)"
    and "preserves P (dext_execute_command q cmd xs bs)" and "preserves P (dext_execute_scalar q cmd xs)"
  unfolding IOConnectCallMethod_def kext_call_def dext_execute_command_def dext_execute_scalar_def
  by (intro preserves_intros framed_programs assms)+

lemma framed_dext [framed_programs]:
  assumes "framed P"
  shows "preserves P (DextIPCRegisterSession q cfg)" and "preserves P (DextIPCUnregisterSession q sid)"
    and "preserves P (DextIPCActivateConnection q ccfg)" and "preserves P (DextIPCDeactivateConnection q sid cid)"
    and "preserves P (DextIPCSetSessionParam q sid pr v)" and "preserves P (DextIPCSetConnectionParam q sid cid pr v)"
  unfolding DextIPCRegisterSession_def DextIPCUnregisterSession_def DextIPCActivateConnection_def
    DextIPCDeactivateConnection_def DextIPCSetSessionParam_def DextIPCSetConnectionParam_def
  by (intro preserves_intros framed_programs assms)+

lemma framed_tcp [framed_programs]:
  assumes "framed P"
  shows "preserves P (TCPEngineAddSocket kq fd sid cid c)" and "preserves P (TCPEngineRemoveSocket kq fd)"
    and "preserves P (TCPEngineCloseConnection c)" and "preserves P (close_if_open fd)"
    and "preserves P (open_tcp_connection a l)"
  unfolding TCPEngineAddSocket_def TCPEngineRemoveSocket_def TCPEngineCloseConnection_def
    close_if_open_def open_tcp_connection_def
  by (intro preserves_intros framed_programs assms)+

lemma framed_relay [framed_programs]:
  assumes "framed P"
  shows "preserves P (PDURelayRegisterSession sid c)" and "preserves P (PDURelayUnregisterSession sid)"
    and "preserves P (PDURelayActivateSession sid)" and "preserves P (PDURelaySetDigestFlags sid b d)"
  unfolding PDURelayRegisterSession_def PDURelayUnregisterSession_def PDURelayActivateSession_def
    PDURelaySetDigestFlags_def update_session_def alloc_session_def
  by (intro preserves_intros framed_programs assms)+

lemma framed_transfer [framed_programs]:
  assumes "framed P"
  shows "preserves P (param_in bs)" and "preserves P (param_out v n)" and "preserves P (send_dext s bs d)"
    and "preserves P (receive_dext s bs od n)" and "preserves P (receive_kext h xs bs od n)"
  unfolding param_in_def param_out_def send_dext_def receive_dext_def receive_kext_def
    iSCSIPDUDataCreate_def iSCSIPDUDataRelease_def
  by (intro preserves_intros framed_programs assms)+

section \<open>Operations on the table\<close>

lemma run_load_hba: "hbas w p = Some h \<Longrightarrow> run_state (load_hba p) w = (h, w)"
  by (simp add: load_hba_def)

lemma run_store_hba [monad_simps]:
  "run_state (store_hba p h) w = ((), w\<lparr> hbas := (hbas w)(p \<mapsto> h) \<rparr>)"
  by (simp add: store_hba_def)

lemma run_set_entry:
  "hbas w p = Some h \<Longrightarrow> run_state (set_entry p i e) w =
     ((), w\<lparr> hbas := (hbas w)(p \<mapsto> h\<lparr> hb_dextSessions := (hb_dextSessions h)[i := e] \<rparr>) \<rparr>)"
  by (simp add: set_entry_def run_load_hba monad_simps)

lemma preserves_load_hba:
  "(\<And>w fs. P w \<Longrightarrow> P (w\<lparr> faults := fs \<rparr>)) \<Longrightarrow> preserves P (load_hba p)"
  unfolding load_hba_def
  by (intro preserves_intros preserves_fault)

lemma dextFindSession_Some:
  "dextFindSession es k = Some i \<Longrightarrow> i < length es \<and> de_inUse (es ! i) \<and> de_dextSessionId (es ! i) = k"
  unfolding dextFindSession_def by (blast dest: find_index_Some)

lemma preserves_with_session:
  fixes f :: "nat \<Rightarrow> DextSessionEntry \<Rightarrow> ('z hba_world_scheme, 'a) state"
  assumes "\<And>i e w. slot_used p i w \<Longrightarrow> entry_ok i e \<Longrightarrow> de_inUse e \<Longrightarrow>
    hba_ok p (snd (run_state (f i e) w))"
  shows "preserves (hba_ok p) (with_session p sid none f)"
proof (rule preservesI)
  fix w :: "'z hba_world_scheme"
  assume ok: "hba_ok p w"
  then obtain h where h: "hbas w p = Some h" "table_ok h" by (auto simp: hba_ok_def)
  show "hba_ok p (snd (run_state (with_session p sid none f) w))"
  proof (cases "dextFindSession (hb_dextSessions h) (dextSessionIdFromId sid)")
    case None
    with h ok show ?thesis by (simp add: with_session_def run_load_hba)
  next
    case (Some i)
    from dextFindSession_Some [OF Some] h have "slot_used p i w" "entry_ok i (hb_dextSessions h ! i)"
        "de_inUse (hb_dextSessions h ! i)"
      by (auto simp: slot_used_def ok table_ok_def)
    from assms [OF this] h Some show ?thesis by (simp add: with_session_def run_load_hba)
  qed
qed

lemma slot_used_ok: "slot_used p i w \<Longrightarrow> hba_ok p w"
  by (simp add: slot_used_def)

lemma preserves_with_session':
  assumes "\<And>i e. entry_ok i e \<Longrightarrow> de_inUse e \<Longrightarrow> i < 16 \<Longrightarrow> preserves (slot_used p i) (f i e)"
  shows "preserves (hba_ok p) (with_session p sid none f)"
  by (rule preserves_with_session)
    (metis assms preservesD slot_used_ok slot_used_def)

lemma set_entry_keeps:
  assumes "entry_ok i e" and "de_inUse e"
  shows "preserves (slot_used p i) (set_entry p i e)"
proof (rule preservesI)
  fix w
  assume used: "slot_used p i w"
  then obtain h where h: "hbas w p = Some h" "table_ok h" "i < 16" "de_inUse (hb_dextSessions h ! i)"
    by (auto simp: slot_used_def hba_ok_def)
  with assms have "table_ok (h\<lparr> hb_dextSessions := (hb_dextSessions h)[i := e] \<rparr>)"
    by (intro table_ok_update) simp_all
  with h assms show "slot_used p i (snd (run_state (set_entry p i e) w))"
    by (simp add: run_set_entry slot_used_def hba_ok_def table_okD(2))
qed

lemma alloc_session_result:
  assumes "hbas w p = Some h" and "table_ok h"
  shows "run_state (dextAllocSession p) w =
    (case find_index (\<lambda>e. \<not> de_inUse e) (hb_dextSessions h) of
       None \<Rightarrow> (None, w)
     | Some i \<Rightarrow> (Some i, w\<lparr> hbas := (hbas w)(p \<mapsto> h\<lparr> hb_dextSessions := (hb_dextSessions h)[i := fresh_de i],
         hb_numDextSessions := hb_numDextSessions h + 1 \<rparr>) \<rparr>))"
  using assms by (simp add: dextAllocSession_def run_load_hba monad_simps split: option.split)

lemma table_ok_alloc:
  assumes "table_ok h" and "find_index (\<lambda>e. \<not> de_inUse e) (hb_dextSessions h) = Some i"
  shows "i < 16" and "\<not> de_inUse (hb_dextSessions h ! i)"
    and "table_ok (h\<lparr> hb_dextSessions := (hb_dextSessions h)[i := fresh_de i],
       hb_numDextSessions := hb_numDextSessions h + 1 \<rparr>)"
proof -
  from find_index_Some [OF assms(2)] assms(1)
  show i: "i < 16" "\<not> de_inUse (hb_dextSessions h ! i)" by (auto simp: table_ok_def)
  have "de_inUse (fresh_de i)" by (simp add: fresh_de_def)
  then show "table_ok (h\<lparr> hb_dextSessions := (hb_dextSessions h)[i := fresh_de i],
       hb_numDextSessions := hb_numDextSessions h + 1 \<rparr>)"
    using assms(1) i used_count_update [of i "hb_dextSessions h" "fresh_de i"] entry_ok_fresh [of i]
    by (auto simp: table_ok_def nth_list_update)
qed

lemma free_session_keeps: "preserves (hba_ok p) (dextFreeSession p dextId)"
proof (rule preservesI)
  fix w
  assume "hba_ok p w"
  then obtain h where h: "hbas w p = Some h" "table_ok h" by (auto simp: hba_ok_def)
  show "hba_ok p (snd (run_state (dextFreeSession p dextId) w))"
  proof (cases "dextFindSession (hb_dextSessions h) dextId")
    case None
    with h show ?thesis by (simp add: dextFreeSession_def run_load_hba hba_ok_def)
  next
    case (Some i)
    let ?e = "hb_dextSessions h ! i"
    let ?h = "h\<lparr> hb_dextSessions := (hb_dextSessions h)[i := ?e\<lparr> de_inUse := False \<rparr>],
            hb_numDextSessions := hb_numDextSessions h - 1 \<rparr>"
    from dextFindSession_Some [OF Some] h have i: "i < 16" "de_inUse ?e"
      by (auto simp: table_ok_def)
    have "entry_ok i (?e\<lparr> de_inUse := False \<rparr>)"
      using table_okD(1) [OF h(2) i(1)] by (simp add: entry_ok_def)
    then have ok: "table_ok ?h"
      using h i used_count_update [of i "hb_dextSessions h" "?e\<lparr> de_inUse := False \<rparr>"]
      by (auto simp: table_ok_def nth_list_update)
    show ?thesis
      using h Some ok
      by (simp add: dextFreeSession_def run_load_hba monad_simps hba_ok_def Let_def split: prod.splits)
  qed
qed

text \<open>Reading the interface under the invariant.\<close>

lemma preserves_load_ok:
  fixes f :: "HBAInterface \<Rightarrow> ('z hba_world_scheme, 'a) state"
  assumes "\<And>h. table_ok h \<Longrightarrow> preserves (hba_ok p) (f h)"
  shows "preserves (hba_ok p) (load_hba p \<bind> f)"
proof (rule preservesI)
  fix w :: "'z hba_world_scheme"
  assume ok: "hba_ok p w"
  then obtain h where h: "hbas w p = Some h" "table_ok h" by (auto simp: hba_ok_def)
  then show "hba_ok p (snd (run_state (load_hba p \<bind> f) w))"
    using preservesD [OF assms ok] by (simp add: run_load_hba)
qed

lemma preserves_load_used:
  fixes f :: "HBAInterface \<Rightarrow> ('z hba_world_scheme, 'a) state"
  assumes "\<And>h. table_ok h \<Longrightarrow> de_inUse (hb_dextSessions h ! i) \<Longrightarrow> i < 16 \<Longrightarrow> preserves (slot_used p i) (f h)"
  shows "preserves (slot_used p i) (load_hba p \<bind> f)"
proof (rule preservesI)
  fix w :: "'z hba_world_scheme"
  assume ok: "slot_used p i w"
  then obtain h where h: "hbas w p = Some h" "table_ok h" "de_inUse (hb_dextSessions h ! i)" "i < 16"
    by (auto simp: hba_ok_def slot_used_def)
  then show "slot_used p i (snd (run_state (load_hba p \<bind> f) w))"
    using preservesD [OF assms ok] by (simp add: run_load_hba)
qed

lemma preserves_store_same:
  assumes "table_ok h" and "hb_dextSessions h' = hb_dextSessions h"
    and "hb_numDextSessions h' = hb_numDextSessions h"
  shows "preserves (hba_ok p) (store_hba p h')"
  using assms by (auto simp: preserves_def monad_simps hba_ok_def table_ok_def)

lemma preserves_alloc:
  fixes f :: "nat \<Rightarrow> ('z hba_world_scheme, 'a) state"
  assumes none: "preserves (hba_ok p) m" and "\<And>i. i < 16 \<Longrightarrow> preserves (slot_used p i) (f i)"
  shows "preserves (hba_ok p) (dextAllocSession p \<bind> case_option m f)"
proof (rule preservesI)
  fix w :: "'z hba_world_scheme"
  assume ok: "hba_ok p w"
  then obtain h where h: "hbas w p = Some h" "table_ok h" by (auto simp: hba_ok_def)
  show "hba_ok p (snd (run_state (dextAllocSession p \<bind> case_option m f) w))"
  proof (cases "find_index (\<lambda>e. \<not> de_inUse e) (hb_dextSessions h)")
    case None
    with preservesD [OF none ok] show ?thesis by (simp add: alloc_session_result [OF h])
  next
    case (Some i)
    let ?h = "h\<lparr> hb_dextSessions := (hb_dextSessions h)[i := fresh_de i],
         hb_numDextSessions := hb_numDextSessions h + 1 \<rparr>"
    note new = table_ok_alloc [OF h(2) Some]
    have "slot_used p i (w\<lparr> hbas := (hbas w)(p \<mapsto> ?h) \<rparr>)"
      using new table_okD(2) [OF h(2)] by (simp add: slot_used_def hba_ok_def fresh_de_def)
    from preservesD [OF assms(2) [OF new(1)] this] show ?thesis
      by (simp add: alloc_session_result [OF h] Some slot_used_ok)
  qed
qed

section \<open>Every operation\<close>

lemma entry_ok_update:
  assumes "entry_ok i e"
  shows "entry_ok i (e\<lparr> de_cachedSessionParams := (de_cachedSessionParams e)[n := v] \<rparr>)"
    and "entry_ok i (e\<lparr> de_tcpCtx := c \<rparr>)"
    and "entry_ok i (e\<lparr> de_tcpSocket := s, de_connectionSockets := map g (de_connectionSockets e) \<rparr>)"
    and "entry_ok i (e\<lparr> de_tcpCtx := c, de_tcpSocket := s, de_connectionSockets := replicate 8 t \<rparr>)"
    and "entry_ok i (clear_connection cid e)"
  using assms by (simp_all add: entry_ok_def clear_connection_def split: option.split)

lemma entry_ok_connection_param:
  assumes "entry_ok i e" and "k < 8"
  shows "entry_ok i (e\<lparr> de_cachedConnectionParams := (de_cachedConnectionParams e)
           [k := (de_cachedConnectionParams e ! k)[n := v]] \<rparr>)"
  using assms by (auto simp: entry_ok_def dest!: set_update_subset_insert [THEN subsetD])

lemma clear_connection_inUse [simp]: "de_inUse (clear_connection cid e) = de_inUse e"
  by (simp add: clear_connection_def split: option.split)

lemmas op_intros = preserves_load_ok preserves_load_used preserves_alloc preserves_with_session'
  preserves_intros framed_programs [OF framed_ok(1)] framed_programs [OF framed_ok(2)]
  set_entry_keeps entry_ok_update

lemma create_session_keeps:
  "preserves (hba_ok p) (iSCSIHBAInterfaceCreateSession cf (Some p) iqn addr port host remote local out)"
proof -
  have new: "preserves (hba_ok p) (create_session_dext cf p iqn a b c r l)" for a b c r l
    unfolding create_session_dext_def
    by (intro op_intros)
      (simp_all add: entry_ok_def fresh_de_def zero_de_def)
  show ?thesis
    unfolding iSCSIHBAInterfaceCreateSession_def
    by (cases addr; cases port; cases host; cases remote; cases local;
        simp only: prod.case option.case; intro op_intros new)
qed

lemma create_connection_keeps:
  "preserves (hba_ok p) (iSCSIHBAInterfaceCreateConnection cf (Some p) sid addr port host remote local out)"
proof -
  have new: "preserves (hba_ok p) (create_connection_dext p sid r l)" for r l
    unfolding create_connection_dext_def
    by (intro op_intros) (simp_all add: entry_ok_def)
  show ?thesis
    unfolding iSCSIHBAInterfaceCreateConnection_def
    by (cases addr; cases port; cases host; cases remote;
        simp only: prod.case option.case; intro op_intros new)
qed

text \<open>A program that ends by giving up its slot.\<close>

lemma release_body:
  fixes m :: "('z hba_world_scheme, unit) state"
  assumes "preserves (slot_used p i) m" and "preserves (slot_used p i) n" and used: "slot_used p i w"
  shows "hba_ok p (snd (run_state (do { m; n; dextFreeSession p k; State_Monad.return x }) w))"
proof -
  obtain u v where v: "run_state m w = (u, v)" by (rule prod.exhaust)
  obtain u' v' where v': "run_state n v = (u', v')" by (rule prod.exhaust)
  have "slot_used p i v" using preservesD [OF assms(1) used] v by simp
  from preservesD [OF assms(2) this] have "slot_used p i v'" using v' by simp
  from preservesD [OF free_session_keeps slot_used_ok [OF this]]
  have "hba_ok p (snd (run_state (dextFreeSession p k) v'))" .
  then show ?thesis
    by (cases "run_state (dextFreeSession p k) v'") (simp add: v v')
qed

lemma release_session_keeps: "preserves (hba_ok p) (iSCSIHBAInterfaceReleaseSession (Some p) sid)"
proof -
  note intros = preserves_load_ok preserves_if framed_calls [OF framed_ok(1)] preserves_return
    preserves_with_session release_body
  show ?thesis
    unfolding iSCSIHBAInterfaceReleaseSession_def option.case Let_def
    by (intro intros; (assumption | (intro op_intros; simp)))
qed

lemma release_connection_keeps:
  "preserves (hba_ok p) (iSCSIHBAInterfaceReleaseConnection (Some p) sid cid)"
  unfolding iSCSIHBAInterfaceReleaseConnection_def option.case
  by (intro op_intros) simp_all

lemma parameters_keep:
  "preserves (hba_ok p) (iSCSIHBAInterfaceSetSessionParameter (Some p) sid n bs)"
  "preserves (hba_ok p) (iSCSIHBAInterfaceGetSessionParameter (Some p) sid n b k)"
  "preserves (hba_ok p) (iSCSIHBAInterfaceSetConnectionParameter (Some p) sid cid n bs)"
  "preserves (hba_ok p) (iSCSIHBAInterfaceGetConnectionParameter (Some p) sid cid n b k)"
  unfolding iSCSIHBAInterfaceSetSessionParameter_def iSCSIHBAInterfaceGetSessionParameter_def
    iSCSIHBAInterfaceSetConnectionParameter_def iSCSIHBAInterfaceGetConnectionParameter_def
  by (cases bs; simp only: prod.case option.case; intro op_intros entry_ok_connection_param; simp)+

lemma transfer_keeps:
  "preserves (hba_ok p) (iSCSIHBAInterfaceSend (Some p) sid cid bhs data n)"
  "preserves (hba_ok p) (iSCSIHBAInterfaceReceive (Some p) sid cid bhs data n)"
  unfolding iSCSIHBAInterfaceSend_def iSCSIHBAInterfaceReceive_def
  by (cases bhs; simp only: prod.case option.case; intro op_intros)+

lemma with_session_used:
  "(\<And>j e. preserves (slot_used p i) (f j e)) \<Longrightarrow> preserves (slot_used p i) (with_session p sid none f)"
  unfolding with_session_def by (intro op_intros)

lemma get_parameter_used:
  "preserves (slot_used p i) (iSCSIHBAInterfaceGetSessionParameter (Some p) sid n b k)"
  unfolding iSCSIHBAInterfaceGetSessionParameter_def option.case
  by (intro with_session_used op_intros)

lemma attach_socket_keeps: "i < 16 \<Longrightarrow> preserves (slot_used p i) (attach_socket p i kq s k cid j)"
  unfolding attach_socket_def
  by (intro op_intros) (simp_all add: table_okD)

lemma register_session_keeps: "preserves (slot_used p i) (register_session p sid e q)"
  unfolding register_session_def by (intro op_intros get_parameter_used)

lemma activate_keeps:
  "preserves (hba_ok p) (iSCSIHBAInterfaceActivateConnection (Some p) sid cid)"
  "preserves (hba_ok p) (iSCSIHBAInterfaceActivateAllConnections (Some p) sid)"
  "preserves (hba_ok p) (iSCSIHBAInterfaceDeactivateConnection (Some p) sid cid)"
  "preserves (hba_ok p) (iSCSIHBAInterfaceDeactivateAllConnections (Some p) sid)"
  unfolding iSCSIHBAInterfaceActivateConnection_def iSCSIHBAInterfaceActivateAllConnections_def
    iSCSIHBAInterfaceDeactivateConnection_def iSCSIHBAInterfaceDeactivateAllConnections_def
    activate_slot_def option.case
  by (intro op_intros attach_socket_keeps register_session_keeps; simp)+

section \<open>Sequences of operations\<close>

text \<open>The operations of the interface on one instance, with their arguments.\<close>

datatype hba_op =
  CreateSession corefoundation "cfstring option" "cfstring option" "cfstring option" "cfstring option"
    "sockaddr_storage option" "sockaddr_storage option" bool
| ReleaseSession SessionIdentifier
| CreateConnection corefoundation SessionIdentifier "cfstring option" "cfstring option" "cfstring option"
    "sockaddr_storage option" "sockaddr_storage option" bool
| ReleaseConnection SessionIdentifier ConnectionIdentifier
| SetSessionParameter SessionIdentifier nat "u8 list option"
| SetConnectionParameter SessionIdentifier ConnectionIdentifier nat "u8 list option"
| Send SessionIdentifier ConnectionIdentifier "u8 list option" "u8 list option" nat
| Receive SessionIdentifier ConnectionIdentifier "u8 list option" "u8 list option" nat
| ActivateConnection SessionIdentifier ConnectionIdentifier
| ActivateAllConnections SessionIdentifier
| DeactivateConnection SessionIdentifier ConnectionIdentifier
| DeactivateAllConnections SessionIdentifier
| SetDextMode "nat option" int

definition ignore :: "('s, 'a) state \<Rightarrow> ('s, unit) state" where
  "ignore m = do { m; State_Monad.return () }"

primrec run_hba_op :: "nat \<Rightarrow> hba_op \<Rightarrow> ('z hba_world_scheme, unit) state" where
  "run_hba_op p (CreateSession cf iqn addr port host remote local out) =
     ignore (iSCSIHBAInterfaceCreateSession cf (Some p) iqn addr port host remote local out)"
| "run_hba_op p (ReleaseSession sid) = ignore (iSCSIHBAInterfaceReleaseSession (Some p) sid)"
| "run_hba_op p (CreateConnection cf sid addr port host remote local out) =
     ignore (iSCSIHBAInterfaceCreateConnection cf (Some p) sid addr port host remote local out)"
| "run_hba_op p (ReleaseConnection sid cid) = ignore (iSCSIHBAInterfaceReleaseConnection (Some p) sid cid)"
| "run_hba_op p (SetSessionParameter sid n v) = ignore (iSCSIHBAInterfaceSetSessionParameter (Some p) sid n v)"
| "run_hba_op p (SetConnectionParameter sid cid n v) =
     ignore (iSCSIHBAInterfaceSetConnectionParameter (Some p) sid cid n v)"
| "run_hba_op p (Send sid cid bhs data n) = ignore (iSCSIHBAInterfaceSend (Some p) sid cid bhs data n)"
| "run_hba_op p (Receive sid cid bhs data n) = ignore (iSCSIHBAInterfaceReceive (Some p) sid cid bhs data n)"
| "run_hba_op p (ActivateConnection sid cid) = ignore (iSCSIHBAInterfaceActivateConnection (Some p) sid cid)"
| "run_hba_op p (ActivateAllConnections sid) = ignore (iSCSIHBAInterfaceActivateAllConnections (Some p) sid)"
| "run_hba_op p (DeactivateConnection sid cid) = ignore (iSCSIHBAInterfaceDeactivateConnection (Some p) sid cid)"
| "run_hba_op p (DeactivateAllConnections sid) =
     ignore (iSCSIHBAInterfaceDeactivateAllConnections (Some p) sid)"
| "run_hba_op p (SetDextMode ipc kq) = iSCSIHBAInterfaceSetDextMode (Some p) ipc kq"

lemma set_dext_mode_keeps: "preserves (hba_ok p) (iSCSIHBAInterfaceSetDextMode (Some p) ipc kq)"
  unfolding iSCSIHBAInterfaceSetDextMode_def option.case
  by (intro op_intros preserves_store_same) simp_all

lemma preserves_ignore [preserves_intros]: "preserves P m \<Longrightarrow> preserves P (ignore m)"
  unfolding ignore_def by (intro preserves_intros)

lemma run_hba_op_keeps: "preserves (hba_ok p) (run_hba_op p op)"
  by (cases op; simp only: run_hba_op.simps;
      intro preserves_ignore create_session_keeps release_session_keeps create_connection_keeps
        release_connection_keeps parameters_keep transfer_keeps activate_keeps set_dext_mode_keeps)

lemma zero_hba_unused: "used_count (hb_dextSessions zero_hba) = 0"
  by (simp add: used_count_def zero_hba_def zero_de_def)

text \<open>C11: the session table stays well-formed. A new DEXT-mode interface has a well-formed table, and
  any sequence of operations on it, whatever the system, the kernel extension and the driver extension
  answer, leaves it so: sixteen slots, arrays of their declared sizes, at most eight connections per
  session, every session under the index of its slot, and the counter equal to the sessions in use.\<close>

theorem hba_table_invariant:
  assumes "run_state iSCSIHBAInterfaceCreateDext w = (Some p, w')"
  shows "hba_ok p w' \<and> (\<forall>v ops. hba_ok p v \<longrightarrow> hba_ok p (exec_state (for_each ops (run_hba_op p)) v))"
proof (intro conjI allI impI)
  show "hba_ok p w'"
    using assms zero_hba_ok zero_hba_unused
    by (auto simp: iSCSIHBAInterfaceCreateDext_def alloc_hba_def monad_simps hba_ok_def table_ok_def
        split: if_splits)
  show "hba_ok p (exec_state (for_each ops (run_hba_op p)) v)" if "hba_ok p v" for v ops
    using preservesD [OF preserves_for_each [OF run_hba_op_keeps] that] by (simp add: exec_state_def)
qed

definition demo_hba_world :: "HBAInterface \<Rightarrow> sysret list \<Rightarrow> hba_world" where
  "demo_hba_world h rs = \<lparr> respond = script rs, clock = 0, trace = [], faults = [],
     ctxs = Map.empty, next_ctx = 0, ipcs = Map.empty, next_ipc = 0, gRelay = zero_relay,
     hbas = [0 \<mapsto> h], next_hba = 1 \<rparr>"

theorem hba_table_invariant_witness:
  "\<exists>p w'. run_state iSCSIHBAInterfaceCreateDext (demo_hba_world zero_hba []) = (Some p, w') \<and>
     hba_ok p (exec_state (for_each [ReleaseSession 3] (run_hba_op p)) w')"
proof -
  have run: "run_state iSCSIHBAInterfaceCreateDext (demo_hba_world zero_hba []) =
      (Some 1, snd (run_state iSCSIHBAInterfaceCreateDext (demo_hba_world zero_hba [])))"
    by (simp add: iSCSIHBAInterfaceCreateDext_def alloc_hba_def monad_simps demo_hba_world_def
        answer_def script_simps)
  show ?thesis
    using run hba_table_invariant [OF run] by blast
qed

end
