(* ===== verification/HbaProps.thy ===== *)
theory HbaProps
  imports HbaInvariant
begin

text \<open>
  What the operations of the HBA interface do, in DEXT mode: the parameter cache, the bytes sent and
  received during login, the sockets opened and closed, and the hand-over to the data path.
\<close>

section \<open>The parameter cache\<close>

lemma bit_le_value:
  "bit (le_value bs) n \<longleftrightarrow> n < 64 \<and> n div 8 < length bs \<and> bit (bs ! (n div 8)) (n mod 8)"
proof (induction bs arbitrary: n)
  case Nil
  show ?case by simp
next
  case (Cons b bs)
  have shift: "bit (le_value (b # bs)) n \<longleftrightarrow>
      n < 64 \<and> (n < 8 \<and> bit b n \<or> 8 \<le> n \<and> bit (le_value bs) (n - 8))"
    by (auto simp: bit_simps dest: bit_imp_le_length)
  show ?case
  proof (cases "n < 8")
    case True
    then show ?thesis by (simp add: shift del: le_value.simps)
  next
    case False
    then have "n div 8 = Suc ((n - 8) div 8)" and "n mod 8 = (n - 8) mod 8"
      by (simp_all add: le_div_geq le_mod_geq)
    with False show ?thesis unfolding shift Cons.IH by auto
  qed
qed

lemma le64_bytes_nth: "le64_bytes v = map (\<lambda>k. ucast (drop_bit (8 * k) v)) [0..<8]"
proof -
  have "[0..<8] = [0, 1, 2, 3, 4, 5, 6, 7 :: nat]" by (simp add: upt_rec)
  then show ?thesis
    by (auto simp: le64_bytes_def le32_bytes_def be32_bytes_def bit_eq_iff bit_simps)
qed

lemma le_bytes_value:
  assumes "length bs \<le> 8"
  shows "fixed (length bs) (le64_bytes (le_value bs)) = bs"
proof (rule nth_equalityI)
  show "length (fixed (length bs) (le64_bytes (le_value bs))) = length bs" by simp
  fix k
  assume "k < length (fixed (length bs) (le64_bytes (le_value bs)))"
  then have k: "k < length bs" "k < 8" using assms by simp_all
  have "fixed (length bs) (le64_bytes (le_value bs)) ! k = ucast (drop_bit (8 * k) (le_value bs))"
    using k assms by (simp add: fixed_def nth_append le64_bytes_nth)
  also have "\<dots> = bs ! k"
  proof (rule bit_word_eqI)
    fix n
    assume "n < LENGTH(8)"
    then have n: "n < 8" by simp
    then have "(8 * k + n) div 8 = k" "(8 * k + n) mod 8 = n" by simp_all
    then show "bit (ucast (drop_bit (8 * k) (le_value bs)) :: u8) n = bit (bs ! k) n"
      using k n by (simp add: bit_simps bit_le_value)
  qed
  finally show "fixed (length bs) (le64_bytes (le_value bs)) ! k = bs ! k" .
qed

text \<open>A session of a DEXT-mode interface.\<close>

definition dext_session ::
  "'z hba_world_scheme \<Rightarrow> nat \<Rightarrow> SessionIdentifier \<Rightarrow> HBAInterface \<Rightarrow> nat \<Rightarrow> bool" where
  "dext_session w p sid h i \<longleftrightarrow>
     hbas w p = Some h \<and> table_ok h \<and> hb_dextMode h \<and> sid \<noteq> kiSCSIInvalidSessionId \<and>
     dextFindSession (hb_dextSessions h) (dextSessionIdFromId sid) = Some i"

lemma dext_sessionD:
  assumes "dext_session w p sid h i"
  shows "hbas w p = Some h" and "table_ok h" and "hb_dextMode h" and "sid \<noteq> kiSCSIInvalidSessionId"
    and "dextFindSession (hb_dextSessions h) (dextSessionIdFromId sid) = Some i"
    and "i < 16" and "entry_ok i (hb_dextSessions h ! i)" and "de_inUse (hb_dextSessions h ! i)"
  using assms dextFindSession_Some [of "hb_dextSessions h" "dextSessionIdFromId sid" i]
  by (auto simp: dext_session_def table_ok_def)

lemma run_with_session:
  assumes "dext_session w p sid h i"
  shows "run_state (with_session p sid none f) w = run_state (f i (hb_dextSessions h ! i)) w"
  using dext_sessionD [OF assms] by (simp add: with_session_def run_load_hba)

text \<open>The forwarded call, when the extension is connected.\<close>

definition dext_forward :: "nat option \<Rightarrow> DaemonCommandType \<Rightarrow> u64 list \<Rightarrow> 'z ipc_world_scheme \<Rightarrow> 'z ipc_world_scheme" where
  "dext_forward ipc cmd args w =
     (case ipc of
        Some q \<Rightarrow>
          (case ipcs w q of
             Some i \<Rightarrow> if ipc_connection i = 0 then w
                       else called (SysIOConnect (ipc_connection i) (selector cmd) args []) w
           | None \<Rightarrow> w\<lparr> faults := faults w @ [UseAfterFree] \<rparr>)
      | None \<Rightarrow> w)"

lemma run_dext_command:
  "snd (run_state (dext_execute_scalar ipc cmd args) w) = dext_forward ipc cmd args w"
  by (auto simp: dext_execute_scalar_def dext_execute_command_def dext_forward_def load_ipc_def
      monad_simps zero_ipc_def split: option.split)

lemma find_index_update:
  "i < length xs \<Longrightarrow> P y = P (xs ! i) \<Longrightarrow> find_index P (xs[i := y]) = find_index P xs"
proof (induction xs arbitrary: i)
  case Nil
  then show ?case by simp
next
  case (Cons x xs)
  then show ?case by (cases i) simp_all
qed

lemma find_session_update:
  assumes "i < length es" and "de_inUse e = de_inUse (es ! i)"
    and "de_dextSessionId e = de_dextSessionId (es ! i)"
  shows "dextFindSession (es[i := e]) k = dextFindSession es k"
  unfolding dextFindSession_def using assms by (intro find_index_update) simp_all

lemma dext_forward_frame [simp]:
  "hbas (dext_forward ipc cmd args w) = hbas w"
  by (simp add: dext_forward_def split: option.split)

lemma set_param_state:
  "snd (run_state (DextIPCSetSessionParam (Some q) sid pr v) w) =
     dext_forward (Some q) kDextCmdSetSessionParam [ucast sid, pr, v] w"
  "snd (run_state (DextIPCSetConnectionParam (Some q) sid cid pr v) w) =
     dext_forward (Some q) kDextCmdSetConnectionParam [ucast sid, ucast cid, pr, v] w"
  by (simp_all add: DextIPCSetSessionParam_def DextIPCSetConnectionParam_def
      run_dext_command [symmetric] split: prod.split)

abbreviation (input) cache_param :: "nat \<Rightarrow> u64 \<Rightarrow> DextSessionEntry \<Rightarrow> DextSessionEntry" where
  "cache_param n v e \<equiv> e\<lparr> de_cachedSessionParams := (de_cachedSessionParams e)[n := v] \<rparr>"

lemma run_set_session_parameter:
  assumes s: "dext_session w p sid h i" and "bs \<noteq> []" and "length bs \<le> 8" and "n < 32"
  shows "run_state (iSCSIHBAInterfaceSetSessionParameter (Some p) sid n (Some bs)) w =
    (kIOReturnSuccess,
     dext_forward (hb_dextIPC h) kDextCmdSetSessionParam
       [ucast (dextSessionIdFromId sid), of_nat n, le_value bs]
       (w\<lparr> hbas := (hbas w)(p \<mapsto> h\<lparr> hb_dextSessions := (hb_dextSessions h)
             [i := cache_param n (le_value bs) (hb_dextSessions h ! i)] \<rparr>) \<rparr>))"
proof -
  note d = dext_sessionD [OF s]
  show ?thesis
    using d assms(2-4)
    by (cases "hb_dextIPC h")
      (simp_all add: iSCSIHBAInterfaceSetSessionParameter_def run_load_hba run_with_session [OF s]
        param_in_def run_set_entry monad_simps split_beta set_param_state dext_forward_def [of None])
qed

lemma run_get_session_parameter:
  assumes s: "dext_session w p sid h i" and "0 < k" and "k \<le> 8" and "n < 32"
  shows "run_state (iSCSIHBAInterfaceGetSessionParameter (Some p) sid n True k) w =
    ((kIOReturnSuccess, Some (fixed k (le64_bytes (de_cachedSessionParams (hb_dextSessions h ! i) ! n)))), w)"
  using dext_sessionD [OF s] assms(2-4)
  by (simp add: iSCSIHBAInterfaceGetSessionParameter_def run_load_hba run_with_session [OF s]
      param_out_def monad_simps)

lemma dext_session_update:
  assumes s: "dext_session w p sid h i" and t: "dext_session w p sid' h j"
    and e: "entry_ok i e" "de_inUse e = de_inUse (hb_dextSessions h ! i)"
      "de_dextSessionId e = de_dextSessionId (hb_dextSessions h ! i)"
    and "hbas w' = (hbas w)(p \<mapsto> h\<lparr> hb_dextSessions := (hb_dextSessions h)[i := e] \<rparr>)"
  shows "dext_session w' p sid' (h\<lparr> hb_dextSessions := (hb_dextSessions h)[i := e] \<rparr>) j"
proof -
  note d = dext_sessionD [OF s]
  have "table_ok (h\<lparr> hb_dextSessions := (hb_dextSessions h)[i := e] \<rparr>)"
    using d e by (intro table_ok_update) simp_all
  then show ?thesis
    using t assms(6) find_session_update [of i "hb_dextSessions h" e] e d table_okD(2) [OF d(2)]
    by (simp add: dext_session_def)
qed

lemma parameter_cache:
  assumes s: "dext_session w p sid h i" and "bs \<noteq> []" and "length bs \<le> 8" and "n < 32"
    and set: "run_state (iSCSIHBAInterfaceSetSessionParameter (Some p) sid n (Some bs)) w = (r, w')"
  shows "r = kIOReturnSuccess"
    and "run_state (iSCSIHBAInterfaceGetSessionParameter (Some p) sid n True (length bs)) w' =
      ((kIOReturnSuccess, Some bs), w')"
    and "dext_session w p sid' h j \<Longrightarrow> 0 < k \<Longrightarrow> k \<le> 8 \<Longrightarrow> m < 32 \<Longrightarrow> j \<noteq> i \<or> m \<noteq> n \<Longrightarrow>
      run_state (iSCSIHBAInterfaceGetSessionParameter (Some p) sid' m True k) w' =
      (fst (run_state (iSCSIHBAInterfaceGetSessionParameter (Some p) sid' m True k) w), w')"
    and "hb_dextIPC h = Some q \<Longrightarrow> ipcs w q = Some ipc \<Longrightarrow> ipc_connection ipc \<noteq> 0 \<Longrightarrow>
      trace w' = trace w @ [(SysIOConnect (ipc_connection ipc) (selector kDextCmdSetSessionParam)
        [ucast (dextSessionIdFromId sid), of_nat n, le_value bs] [], answer w)]"
proof -
  let ?e = "cache_param n (le_value bs) (hb_dextSessions h ! i)"
  let ?h = "h\<lparr> hb_dextSessions := (hb_dextSessions h)[i := ?e] \<rparr>"
  note d = dext_sessionD [OF s]
  note run = run_set_session_parameter [OF s assms(2-4)]
  have w': "w' = dext_forward (hb_dextIPC h) kDextCmdSetSessionParam
       [ucast (dextSessionIdFromId sid), of_nat n, le_value bs] (w\<lparr> hbas := (hbas w)(p \<mapsto> ?h) \<rparr>)"
    and r: "r = kIOReturnSuccess"
    using run set by simp_all
  show "r = kIOReturnSuccess" by (rule r)
  have later: "dext_session w' p t ?h j" if "dext_session w p t h j" for t j
    by (rule dext_session_update [OF s that]) (use d in \<open>simp_all add: w' entry_ok_update\<close>)
  have len: "length (hb_dextSessions h) = 16" "length (de_cachedSessionParams (hb_dextSessions h ! i)) = 32"
    using d by (simp_all add: table_ok_def entry_ok_def)
  show "run_state (iSCSIHBAInterfaceGetSessionParameter (Some p) sid n True (length bs)) w' =
      ((kIOReturnSuccess, Some bs), w')"
    using run_get_session_parameter [OF later [OF s], of "length bs" n] assms(2-4) d(6) len
      le_bytes_value [OF assms(3)]
    by simp
  show "run_state (iSCSIHBAInterfaceGetSessionParameter (Some p) sid' m True k) w' =
      (fst (run_state (iSCSIHBAInterfaceGetSessionParameter (Some p) sid' m True k) w), w')"
    if t: "dext_session w p sid' h j" and k: "0 < k" "k \<le> 8" "m < 32" and other: "j \<noteq> i \<or> m \<noteq> n"
    using run_get_session_parameter [OF later [OF t] k] run_get_session_parameter [OF t k] other d(6) len
    by (auto simp: nth_list_update)
  show "trace w' = trace w @ [(SysIOConnect (ipc_connection ipc) (selector kDextCmdSetSessionParam)
        [ucast (dextSessionIdFromId sid), of_nat n, le_value bs] [], answer w)]"
    if "hb_dextIPC h = Some q" "ipcs w q = Some ipc" "ipc_connection ipc \<noteq> 0"
    using that by (simp add: w' dext_forward_def answer_def)
qed

text \<open>C14: the parameter cache. Setting a parameter of a session stores it: reading it back with the
  same size gives the same bytes, and reading any other parameter, or the same one of another session,
  gives what it gave before. With a connected extension exactly one call is made, with the session, the
  parameter and the value.\<close>

theorem hba_parameter_cache:
  assumes "dext_session w p sid h i" and "bs \<noteq> []" and "length bs \<le> 8" and "n < 32"
    and "run_state (iSCSIHBAInterfaceSetSessionParameter (Some p) sid n (Some bs)) w = (r, w')"
  shows "r = kIOReturnSuccess \<and>
    run_state (iSCSIHBAInterfaceGetSessionParameter (Some p) sid n True (length bs)) w' =
      ((kIOReturnSuccess, Some bs), w') \<and>
    (\<forall>sid' j m k. dext_session w p sid' h j \<longrightarrow> 0 < k \<longrightarrow> k \<le> 8 \<longrightarrow> m < 32 \<longrightarrow> j \<noteq> i \<or> m \<noteq> n \<longrightarrow>
      run_state (iSCSIHBAInterfaceGetSessionParameter (Some p) sid' m True k) w' =
      (fst (run_state (iSCSIHBAInterfaceGetSessionParameter (Some p) sid' m True k) w), w')) \<and>
    (\<forall>q ipc. hb_dextIPC h = Some q \<longrightarrow> ipcs w q = Some ipc \<longrightarrow> ipc_connection ipc \<noteq> 0 \<longrightarrow>
      trace w' = trace w @ [(SysIOConnect (ipc_connection ipc) (selector kDextCmdSetSessionParam)
        [ucast (dextSessionIdFromId sid), of_nat n, le_value bs] [], answer w)])"
  using parameter_cache [OF assms] by (intro conjI allI impI)

definition demo_entry :: DextSessionEntry where
  "demo_entry = (fresh_de 0)\<lparr> de_tcpSocket := 5, de_connectionCount := 1,
     de_connectionIds := [1, 0, 0, 0, 0, 0, 0, 0],
     de_connectionSockets := [5, - 1, - 1, - 1, - 1, - 1, - 1, - 1],
     de_targetIQN := demo_text ''iqn.t'' \<rparr>"

definition demo_hba :: HBAInterface where
  "demo_hba = zero_hba\<lparr> hb_dextMode := True, hb_tcpEngineKq := 3, hb_numDextSessions := 1,
     hb_dextSessions := demo_entry # replicate 15 zero_de \<rparr>"

lemma demo_hba_ok: "table_ok demo_hba"
proof -
  have "entry_ok i (hb_dextSessions demo_hba ! i)" if "i < 16" for i
    using that
    by (cases i) (simp_all add: demo_hba_def entry_ok_def zero_de_def demo_entry_def fresh_de_def)
  then show ?thesis
    by (simp add: table_ok_def used_count_def)
      (simp add: demo_hba_def zero_de_def demo_entry_def fresh_de_def)
qed

lemma demo_session: "dext_session (demo_hba_world demo_hba rs) 0 0 demo_hba 0"
  using demo_hba_ok
  by (simp add: dext_session_def demo_hba_world_def)
    (simp add: demo_hba_def dextFindSession_def demo_entry_def fresh_de_def dextSessionIdFromId_def)

theorem hba_parameter_cache_witness:
  "\<exists>w'. snd (run_state (iSCSIHBAInterfaceSetSessionParameter (Some 0) 0 9 (Some [0x34, 0x12]))
       (demo_hba_world demo_hba [])) = w' \<and>
     run_state (iSCSIHBAInterfaceGetSessionParameter (Some 0) 0 9 True 2) w' =
       ((kIOReturnSuccess, Some [0x34, 0x12]), w')"
proof -
  obtain r w' where run: "run_state (iSCSIHBAInterfaceSetSessionParameter (Some 0) 0 9 (Some [0x34, 0x12]))
      (demo_hba_world demo_hba []) = (r, w')"
    by (rule prod.exhaust)
  from hba_parameter_cache [OF demo_session _ _ _ run, THEN conjunct2, THEN conjunct1] run show ?thesis
    by (simp add: numeral_2_eq_2)
qed

section \<open>Sending and receiving\<close>

definition text_pad :: "nat \<Rightarrow> u8 list" where
  "text_pad n = replicate (padded_length n - n) 0"

lemma padded_length_ge: "n \<le> padded_length n"
  unfolding padded_length_def by linarith

lemma padded_length_0 [simp]: "padded_length 0 = 0"
  by (simp add: padded_length_def)

lemma padded_length_mod: "padded_length n mod 4 = 0"
  by (simp add: padded_length_def)

text \<open>The bytes of a PDU as \<open>Send\<close> puts them on the wire.\<close>

definition send_image :: "u8 list \<Rightarrow> u8 list \<Rightarrow> u8 list" where
  "send_image bhs data = set_data_segment_length (length data) bhs @ data @ text_pad (length data)"

lemma length_set_length [simp]: "8 \<le> length bhs \<Longrightarrow> length (set_data_segment_length n bhs) = length bhs"
  by (simp add: set_data_segment_length_def poke_def)

lemma set_length_fields:
  assumes "8 \<le> length bhs" and "n < 2 ^ 24"
  shows "iSCSIPDUGetDataSegmentLength (set_data_segment_length n bhs) = n"
    and "take 5 (set_data_segment_length n bhs) = take 5 bhs"
    and "drop 8 (set_data_segment_length n bhs) = drop 8 bhs"
proof -
  have "of_nat (n div 65536) = (ucast (drop_bit 16 (of_nat n :: u32)) :: u8)"
    "of_nat (n div 256) = (ucast (drop_bit 8 (of_nat n :: u32)) :: u8)"
    "of_nat n = (ucast (of_nat n :: u32) :: u8)"
    using assms(2)
    by (simp_all add: word_unat_eq_iff unat_of_nat unsigned_ucast_eq take_bit_eq_mod
        drop_bit_eq_div unat_div_distrib)
  note div = this
  show "iSCSIPDUGetDataSegmentLength (set_data_segment_length n bhs) = n"
    by (rule length_field [OF assms(2)])
      (use assms(1) div in
        \<open>simp_all add: set_data_segment_length_def poke_def be32_bytes_def\<close>)
  show "take 5 (set_data_segment_length n bhs) = take 5 bhs"
    "drop 8 (set_data_segment_length n bhs) = drop 8 bhs"
    using assms(1) by (simp_all add: set_data_segment_length_def poke_def)
qed

lemma count_result_full: "count_result n r = Inr n \<Longrightarrow> length d = n \<Longrightarrow> accepted d r = d"
  by (simp add: accepted_count)

lemma send_dext_wire:
  assumes "run_state (send_dext sock bhs data) w = (r, w')"
  shows "r = 0 \<or> r = kIOReturnIOError"
    and "r = 0 \<Longrightarrow> wire sock (trace w') = wire sock (trace w) @ bhs @ data @ text_pad (length data)"
    and "\<exists>sent rest. wire sock (trace w') = wire sock (trace w) @ sent \<and>
           sent @ rest = bhs @ data @ text_pad (length data)"
proof -
  have pre: "\<exists>rest. accepted d s @ rest = d" for d s
    unfolding accepted_def by (metis append_Nil append_take_drop_id)
  have pad: "length data < padded_length (length data) \<or> text_pad (length data) = []"
    using padded_length_ge [of "length data"] by (auto simp: text_pad_def)
  show "r = 0 \<or> r = kIOReturnIOError"
    using assms by (auto simp: send_dext_def monad_simps split: if_splits)
  show "wire sock (trace w') = wire sock (trace w) @ bhs @ data @ text_pad (length data)" if "r = 0"
    using assms that pad count_result_full padded_length_ge [of "length data"]
    by (auto simp: send_dext_def monad_simps text_pad_def split: if_splits)
  show "\<exists>sent rest. wire sock (trace w') = wire sock (trace w) @ sent \<and>
           sent @ rest = bhs @ data @ text_pad (length data)"
  proof (cases "count_result (length bhs) (answer w) = Inr (length bhs)")
    case False
    then have "wire sock (trace w') = wire sock (trace w) @ accepted bhs (answer w)"
      using assms by (auto simp: send_dext_def monad_simps)
    then show ?thesis using pre [of bhs "answer w"] by (metis append_assoc)
  next
    case True
    note all = count_result_full [OF True refl]
    let ?v = "called (SysSend sock bhs) w"
    have "\<exists>s. wire sock (trace w') = wire sock (trace w) @ bhs @ accepted (data @ text_pad (length data)) s"
      using assms True all pad
      by (auto simp: send_dext_def monad_simps text_pad_def accepted_def split: if_splits)
    then show ?thesis using pre [of "data @ text_pad (length data)"] by (metis append_assoc)
  qed
qed

lemma run_data_create:
  "run_state (iSCSIPDUDataCreate n) w =
     (if sr_ret (answer w) < 0 then None else Some (fixed (n + (4 - n mod 4)) (sr_bytes (answer w))),
      called (SysAlloc (n + (4 - n mod 4))) w)"
  by (simp add: iSCSIPDUDataCreate_def run_os_malloc)

lemma padded_length_room: "padded_length n \<le> n + (4 - n mod 4)"
proof -
  define q r where "q = n div 4" and "r = n mod 4"
  then have n: "n = 4 * q + r" and "r < 4" by simp_all
  then consider "r = 0" | "r = 1" | "r = 2" | "r = 3" by linarith
  then have "padded_length (4 * q + r) \<le> 4 * q + r + (4 - r)"
    unfolding padded_length_def by cases simp_all
  from this [folded n, unfolded r_def] show ?thesis .
qed

lemma length_text_pad [simp]: "length (text_pad n) = padded_length n - n"
  by (simp add: text_pad_def)

text \<open>The socket delivers the bytes of an image: the header to the first \<open>recv\<close>, the rest to the
  second, and \<open>malloc\<close> in between succeeds.\<close>

definition delivers :: "u8 list \<Rightarrow> 'z world_scheme \<Rightarrow> bool" where
  "delivers img w \<longleftrightarrow>
     bytes_result 48 (respond w (clock w + 1)) = Inr (take 48 img) \<and>
     (48 < length img \<longrightarrow>
        0 \<le> sr_ret (respond w (clock w + 2)) \<and>
        bytes_result (length img - 48) (respond w (clock w + 3)) = Inr (drop 48 img))"

lemma receive_dext_image:
  assumes bhs: "length bhs = 48" "length bhs0 = 48" and len: "length data < 2 ^ 24"
    and del: "delivers (send_image bhs data) w"
  shows "\<exists>block w'. run_state (receive_dext sock bhs0 data0 len0) w =
      ((0, (set_data_segment_length (length data) bhs, block, length data)), w') \<and>
      (data = [] \<longrightarrow> block = None) \<and>
      (data \<noteq> [] \<longrightarrow> (\<exists>b. block = Some b \<and> take (length data) b = data \<and> length data < length b)) \<and>
      clock w' = clock w + (if data = [] then 2 else 4)"
proof -
  let ?H = "set_data_segment_length (length data) bhs" and ?n = "length data"
  have H: "length ?H = 48" "iSCSIPDUGetDataSegmentLength ?H = ?n"
    using bhs len by (simp_all add: set_length_fields)
  note ge = padded_length_ge [of ?n]
  have img: "take 48 (send_image bhs data) = ?H" "drop 48 (send_image bhs data) = data @ text_pad ?n"
    "length (send_image bhs data) = 48 + padded_length ?n"
    using H(1) ge by (simp_all add: send_image_def)
  have first: "bytes_result 48 (respond w (clock w + 1)) = Inr ?H"
    using del img by (simp add: delivers_def)
  have over: "overwrite ?H bhs0 = ?H"
    using H(1) bhs(2) by (simp add: overwrite_def)
  show ?thesis
  proof (cases "data = []")
    case True
    with first over H show ?thesis
      by (simp add: receive_dext_def monad_simps answer_def)
  next
    case False
    then have pos: "0 < ?n" by simp
    then have "0 < padded_length ?n" using ge by linarith
    then have second: "0 \<le> sr_ret (respond w (clock w + 2))"
      "bytes_result (padded_length ?n) (respond w (clock w + 3)) = Inr (data @ text_pad ?n)"
      using del img by (simp_all add: delivers_def)
    have clock: "clock w + 2 = Suc (Suc (clock w))" "clock w + 3 = Suc (Suc (Suc (clock w)))" by simp_all
    note second = second [unfolded clock]
    let ?heap = "fixed (?n + (4 - ?n mod 4)) (sr_bytes (respond w (Suc (Suc (clock w)))))"
    let ?b = "overwrite (data @ text_pad ?n) ?heap"
    have room: "length ?b = ?n + (4 - ?n mod 4)"
      using padded_length_room [of ?n] ge by (simp add: overwrite_def)
    have run: "run_state (receive_dext sock bhs0 data0 len0) w =
      ((0, (?H, Some ?b, ?n)), snd (run_state (receive_dext sock bhs0 data0 len0) w))"
      using first second over H False ge
      by (simp add: receive_dext_def monad_simps answer_def run_data_create Let_def)
    have time: "clock (snd (run_state (receive_dext sock bhs0 data0 len0) w)) = clock w + 4"
      using first second over H False ge
      by (simp add: receive_dext_def monad_simps answer_def run_data_create Let_def)
    have "take ?n ?b = data" by (simp add: overwrite_def)
    moreover have "?n < length ?b" using room by simp
    ultimately show ?thesis
      using False run time by (intro exI conjI) (assumption | simp)+
  qed
qed

lemma run_send:
  assumes s: "dext_session w p sid h i" and "cid \<noteq> kiSCSIInvalidConnectionId"
    and "dextConnectionSocket (hb_dextSessions h ! i) cid = sock" and "0 \<le> sock" and "n \<le> length block"
  shows "run_state (iSCSIHBAInterfaceSend (Some p) sid cid (Some bhs) (Some block) n) w =
    run_state (send_dext sock (set_data_segment_length n bhs) (take n block)) w"
  using dext_sessionD [OF s] assms(2-5)
  by (simp add: iSCSIHBAInterfaceSend_def run_load_hba run_with_session [OF s] monad_simps Let_def)

lemma run_receive:
  assumes s: "dext_session w p sid h i" and "cid \<noteq> kiSCSIInvalidConnectionId"
    and "dextConnectionSocket (hb_dextSessions h ! i) cid = sock" and "0 \<le> sock"
  shows "run_state (iSCSIHBAInterfaceReceive (Some p) sid cid (Some bhs) data n) w =
    run_state (receive_dext sock bhs data n) w"
  using dext_sessionD [OF s] assms(2-4)
  by (simp add: iSCSIHBAInterfaceReceive_def run_load_hba run_with_session [OF s] monad_simps Let_def)

lemma send_wire_image:
  assumes s: "dext_session w p sid h i" and cid: "cid \<noteq> kiSCSIInvalidConnectionId"
    and sock: "dextConnectionSocket (hb_dextSessions h ! i) cid = sock" "0 \<le> sock"
    and bhs: "length bhs = 48" and n: "n \<le> length block" "n < 2 ^ 24"
    and run: "run_state (iSCSIHBAInterfaceSend (Some p) sid cid (Some bhs) (Some block) n) w = (r, w')"
  shows "r = 0 \<Longrightarrow> wire sock (trace w') = wire sock (trace w) @ send_image bhs (take n block)"
    and "r \<noteq> 0 \<Longrightarrow> r = kIOReturnIOError \<and>
      (\<exists>sent rest. wire sock (trace w') = wire sock (trace w) @ sent \<and>
         sent @ rest = send_image bhs (take n block))"
    and "iSCSIPDUGetDataSegmentLength (take 48 (send_image bhs (take n block))) = n"
    and "length (send_image bhs (take n block)) mod 4 = 0"
proof -
  have len: "length (take n block) = n" using n by simp
  have run': "run_state (send_dext sock (set_data_segment_length n bhs) (take n block)) w = (r, w')"
    using run run_send [OF s cid sock n(1)] by simp
  note wire = send_dext_wire [OF run']
  have img: "send_image bhs (take n block) =
      set_data_segment_length n bhs @ take n block @ text_pad (length (take n block))"
    unfolding send_image_def len ..
  show "wire sock (trace w') = wire sock (trace w) @ send_image bhs (take n block)" if "r = 0"
    using wire(2) that img by simp
  show "r = kIOReturnIOError \<and>
      (\<exists>sent rest. wire sock (trace w') = wire sock (trace w) @ sent \<and>
         sent @ rest = send_image bhs (take n block))" if "r \<noteq> 0"
    using wire(1,3) that unfolding img by blast
  show "iSCSIPDUGetDataSegmentLength (take 48 (send_image bhs (take n block))) = n"
    using bhs n(2) set_length_fields(1) [of bhs n] by (simp add: img)
  have "length (send_image bhs (take n block)) = 48 + padded_length n"
    using bhs len padded_length_ge [of n] by (simp add: img)
  moreover have "(48 + padded_length n) mod 4 = 0"
    using padded_length_mod [of n] by (simp add: mod_add_left_eq [of 48 4, symmetric])
  ultimately show "length (send_image bhs (take n block)) mod 4 = 0" by simp
qed

text \<open>C12: what \<open>Send\<close> puts on the wire during login. When it reports success, the socket has accepted
  exactly the caller's header with the length of the data in its length field, the data, and zeros up to
  a multiple of four bytes; otherwise it reports an I/O error and has sent a prefix of that.\<close>

theorem hba_send_wire_image:
  assumes "dext_session w p sid h i" and "cid \<noteq> kiSCSIInvalidConnectionId"
    and "dextConnectionSocket (hb_dextSessions h ! i) cid = sock" and "0 \<le> sock"
    and "length bhs = 48" and "n \<le> length block" and "n < 2 ^ 24"
    and "run_state (iSCSIHBAInterfaceSend (Some p) sid cid (Some bhs) (Some block) n) w = (r, w')"
  shows "(r = 0 \<longrightarrow> wire sock (trace w') = wire sock (trace w) @ send_image bhs (take n block)) \<and>
    (r \<noteq> 0 \<longrightarrow> r = kIOReturnIOError \<and>
      (\<exists>sent rest. wire sock (trace w') = wire sock (trace w) @ sent \<and>
         sent @ rest = send_image bhs (take n block))) \<and>
    iSCSIPDUGetDataSegmentLength (take 48 (send_image bhs (take n block))) = n \<and>
    length (send_image bhs (take n block)) mod 4 = 0"
  using send_wire_image [OF assms] by blast

definition demo_bhs :: "u8 list" where
  "demo_bhs = 0x43 # replicate 47 0"

lemma demo_socket: "dextConnectionSocket (hb_dextSessions demo_hba ! 0) 1 = 5"
  by (simp add: demo_hba_def dextConnectionSocket_def demo_entry_def)

text \<open>A partial send: the socket takes only 40 of the 48 header bytes.\<close>

theorem hba_send_wire_image_witness:
  "\<exists>r w'. run_state (iSCSIHBAInterfaceSend (Some 0) 0 1 (Some demo_bhs) (Some [1, 2, 3, 4, 5]) 5)
      (demo_hba_world demo_hba [ret_int 48, ret_int 8]) = (r, w') \<and>
     (r \<noteq> 0 \<longrightarrow> r = kIOReturnIOError) \<and>
     (r = 0 \<longrightarrow> wire 5 (trace w') = send_image demo_bhs [1, 2, 3, 4, 5])"
proof -
  let ?w = "demo_hba_world demo_hba [ret_int 48, ret_int 8]"
  obtain r w' where run: "run_state (iSCSIHBAInterfaceSend (Some 0) 0 1 (Some demo_bhs)
      (Some [1, 2, 3, 4, 5]) 5) ?w = (r, w')"
    by (rule prod.exhaust)
  have bhs: "length demo_bhs = 48" and n: "5 \<le> length [1, 2, 3, 4, 5 :: u8]" "(5 :: nat) < 2 ^ 24"
    and cid: "(1 :: u32) \<noteq> kiSCSIInvalidConnectionId" and fd: "(0 :: int) \<le> 5"
    by (simp_all add: demo_bhs_def)
  have "wire 5 (trace ?w) = []" by (simp add: demo_hba_world_def)
  then show ?thesis
    using hba_send_wire_image [OF demo_session cid demo_socket fd bhs n run] run by auto
qed

text \<open>C9: a login PDU arrives as it was sent. When one end's \<open>Send\<close> succeeded, and the bytes it put on
  the wire are delivered to the socket of the other end, \<open>Receive\<close> there returns success, the header
  as sent, the length, and a data block that starts with the data sent and has room behind it (the byte
  the text parser reads past the end); without data the block is null.\<close>

theorem hba_login_pdu_roundtrip:
  assumes s: "dext_session w p sid h i" and cid: "cid \<noteq> kiSCSIInvalidConnectionId"
    and sock: "dextConnectionSocket (hb_dextSessions h ! i) cid = sock" "0 \<le> sock"
    and bhs: "length bhs = 48" and n: "n \<le> length block" "n < 2 ^ 24"
    and run: "run_state (iSCSIHBAInterfaceSend (Some p) sid cid (Some bhs) (Some block) n) w = (0, w')"
    and s': "dext_session v p' sid' h' j" and cid': "cid' \<noteq> kiSCSIInvalidConnectionId"
    and sock': "dextConnectionSocket (hb_dextSessions h' ! j) cid' = sock'" "0 \<le> sock'"
    and bytes: "wire sock (trace w') = wire sock (trace w) @ img" and del: "delivers img v"
    and bhs0: "length bhs0 = 48"
  shows "\<exists>d v'. run_state (iSCSIHBAInterfaceReceive (Some p') sid' cid' (Some bhs0) data0 len0) v =
      ((0, (set_data_segment_length n bhs, d, n)), v') \<and>
      (n = 0 \<longrightarrow> d = None) \<and>
      (0 < n \<longrightarrow> (\<exists>b. d = Some b \<and> take n b = take n block \<and> n < length b))"
proof -
  have len: "length (take n block) = n" using n by simp
  have "run_state (send_dext sock (set_data_segment_length n bhs) (take n block)) w = (0, w')"
    using run run_send [OF s cid sock n(1)] by simp
  from send_dext_wire(2) [OF this refl] bytes have "img = send_image bhs (take n block)"
    unfolding send_image_def len by simp
  with del have "delivers (send_image bhs (take n block)) v" by simp
  then obtain d v' where run_d: "run_state (receive_dext sock' bhs0 data0 len0) v =
      ((0, (set_data_segment_length n bhs, d, n)), v')"
    and null: "take n block = [] \<longrightarrow> d = None"
    and some: "take n block \<noteq> [] \<longrightarrow> (\<exists>b. d = Some b \<and> take n b = take n block \<and> n < length b)"
    using receive_dext_image [OF bhs bhs0, of "take n block" v sock' data0 len0] n(2) unfolding len
    by metis
  have zero: "take n block = [] \<longleftrightarrow> n = 0"
    by (metis len length_0_conv)
  show ?thesis
    unfolding run_receive [OF s' cid' sock']
  proof (intro exI conjI)
    show "run_state (receive_dext sock' bhs0 data0 len0) v = ((0, set_data_segment_length n bhs, d, n), v')"
      by (rule run_d)
    show "n = 0 \<longrightarrow> d = None" using null zero by blast
    show "0 < n \<longrightarrow> (\<exists>b. d = Some b \<and> take n b = take n block \<and> n < length b)"
      using some zero by blast
  qed
qed

theorem hba_login_pdu_roundtrip_witness:
  "\<exists>d v'. run_state (iSCSIHBAInterfaceReceive (Some 0) 0 1 (Some (replicate 48 0)) None 0)
      (demo_hba_world demo_hba [ret_ok, ret_bytes (set_data_segment_length 4 demo_bhs), ret_ok,
         ret_bytes [1, 2, 3, 4]]) =
      ((0, (set_data_segment_length 4 demo_bhs, d, 4)), v')"
proof -
  let ?w = "demo_hba_world demo_hba [ret_int 48, ret_int 4]"
  let ?img = "set_data_segment_length 4 demo_bhs @ [1, 2, 3, 4]"
  let ?v = "demo_hba_world demo_hba [ret_ok, ret_bytes (set_data_segment_length 4 demo_bhs), ret_ok,
         ret_bytes [1, 2, 3, 4]]"
  have bhs: "length demo_bhs = 48" and n: "4 \<le> length [1, 2, 3, 4 :: u8]" "(4 :: nat) < 2 ^ 24"
    and cid: "(1 :: u32) \<noteq> kiSCSIInvalidConnectionId" and fd: "(0 :: int) \<le> 5"
    and z: "length (replicate 48 (0 :: u8)) = 48"
    by (simp_all add: demo_bhs_def)
  have H: "length (set_data_segment_length 4 demo_bhs) = 48" using bhs by simp
  obtain r w' where run: "run_state (iSCSIHBAInterfaceSend (Some 0) 0 1 (Some demo_bhs)
      (Some [1, 2, 3, 4]) 4) ?w = (r, w')"
    by (rule prod.exhaust)
  have ok: "r = 0 \<and> wire 5 (trace w') = wire 5 (trace ?w) @ ?img"
    using run H unfolding run_send [OF demo_session cid demo_socket fd n(1)]
    by (auto simp: send_dext_def monad_simps demo_hba_world_def answer_def script_simps
        count_result_def padded_length_def accepted_def)
  have del: "delivers ?img ?v"
    using H by (simp add: delivers_def demo_hba_world_def script_simps bytes_result_def)
  from ok have "run_state (iSCSIHBAInterfaceSend (Some 0) 0 1 (Some demo_bhs)
      (Some [1, 2, 3, 4]) 4) ?w = (0, w')" and "wire 5 (trace w') = wire 5 (trace ?w) @ ?img"
    using run by simp_all
  from hba_login_pdu_roundtrip [OF demo_session cid demo_socket fd bhs n this(1)
      demo_session cid demo_socket fd this(2) del z]
  show ?thesis by blast
qed

end
