(* ===== verification/QueryTarget.thy ===== *)
theory QueryTarget
  imports HbaTransfer
begin

text \<open>
  Querying a target: \<open>Source/User/iscsid/iSCSIQueryTarget.c\<close>, with the headers of the login and text
  PDUs of \<open>iSCSIPDUUser.h\<close>.

  A query sends one request and collects responses while they carry the continue flag. A target can
  send such responses for ever, so the loop takes a bound on their number; \<open>None\<close> is a loop that has
  not ended within it.

  The structures of the login PDUs are shorter than the 48 bytes of a header that
  \<open>iSCSIHBAInterfaceSend\<close> and \<open>iSCSIHBAInterfaceReceive\<close> access through the cast pointer: the request
  has 32, the response 38. The bytes behind them are what the stack holds there, a value of the
  environment; that they are accessed is recorded when the call has succeeded. What the write behind
  the response destroys on the stack is not modelled.
\<close>

section \<open>Headers\<close>

abbreviation (input) kiSCSIPDUOpCodeLoginReq :: u8 where "kiSCSIPDUOpCodeLoginReq \<equiv> 0x03"
abbreviation (input) kiSCSIPDUOpCodeTextReq :: u8 where "kiSCSIPDUOpCodeTextReq \<equiv> 0x04"
abbreviation (input) kiSCSIPDUOpCodeLoginRsp :: u8 where "kiSCSIPDUOpCodeLoginRsp \<equiv> 0x23"
abbreviation (input) kiSCSIPDUOpCodeTextRsp :: u8 where "kiSCSIPDUOpCodeTextRsp \<equiv> 0x24"
abbreviation (input) kiSCSIPDUOpCodeReject :: u8 where "kiSCSIPDUOpCodeReject \<equiv> 0x3F"
abbreviation (input) kiSCSIPDUImmediateDeliveryFlag :: u8 where "kiSCSIPDUImmediateDeliveryFlag \<equiv> 0x40"
abbreviation (input) kiSCSIPDULoginTransitFlag :: u8 where "kiSCSIPDULoginTransitFlag \<equiv> 0x80"
abbreviation (input) kiSCSIPDUTextReqContinueFlag :: u8 where "kiSCSIPDUTextReqContinueFlag \<equiv> 0x40"
abbreviation (input) kiSCSIPDULoginNSGBitOffset :: nat where "kiSCSIPDULoginNSGBitOffset \<equiv> 0"
abbreviation (input) kiSCSIPDULoginCSGBitOffset :: nat where "kiSCSIPDULoginCSGBitOffset \<equiv> 2"

text \<open>\<open>enum iSCSIPDULoginStages\<close>.\<close>

abbreviation (input) kiSCSIPDUSecurityNegotiation :: u32 where "kiSCSIPDUSecurityNegotiation \<equiv> 0"
abbreviation (input) kiSCSIPDULoginOperationalNegotiation :: u32 where
  "kiSCSIPDULoginOperationalNegotiation \<equiv> 1"
abbreviation (input) kiSCSIPDUFullFeaturePhase :: u32 where "kiSCSIPDUFullFeaturePhase \<equiv> 3"

text \<open>\<open>enum iSCSILoginStatusCode\<close>.\<close>

abbreviation (input) kiSCSILoginSuccess :: u32 where "kiSCSILoginSuccess \<equiv> 0"
abbreviation (input) kiSCSILoginInvalidReqDuringLogin :: u32 where
  "kiSCSILoginInvalidReqDuringLogin \<equiv> 0x020B"

text \<open>Fields of 16 bits in host order, and the swaps between host and network order.\<close>

definition le16_bytes :: "u16 \<Rightarrow> u8 list" where
  "le16_bytes v = [ucast v, ucast (drop_bit 8 v)]"

definition le16_at :: "nat \<Rightarrow> u8 list \<Rightarrow> u16" where
  "le16_at k bs = ucast (bs ! k) OR push_bit 8 (ucast (bs ! (k + 1)))"

definition CFSwapInt16HostToBig :: "u16 \<Rightarrow> u16" where
  "CFSwapInt16HostToBig v = push_bit 8 v OR drop_bit 8 v"

definition CFSwapInt16BigToHost :: "u16 \<Rightarrow> u16" where
  "CFSwapInt16BigToHost v = push_bit 8 v OR drop_bit 8 v"

definition CFSwapInt32HostToBig :: "u32 \<Rightarrow> u32" where
  "CFSwapInt32HostToBig v = CFSwapInt32BigToHost v"

record iSCSIPDULoginReqBHS =
  lq_opCodeAndDeliveryMarker :: u8
  lq_loginStage :: u8
  lq_versionMax :: u8
  lq_versionMin :: u8
  lq_totalAHSLength :: u8
  lq_dataSegmentLength :: "u8 list"
  lq_ISIDa :: u8
  lq_ISIDb :: u16
  lq_ISIDc :: u8
  lq_ISIDd :: u16
  lq_TSIH :: u16
  lq_initiatorTaskTag :: u32
  lq_CID :: u16
  lq_reserved :: u16
  lq_cmdSN :: u32
  lq_expStatSN :: u32

definition iSCSIPDULoginReqBHSInit :: iSCSIPDULoginReqBHS where
  "iSCSIPDULoginReqBHSInit = \<lparr>
     lq_opCodeAndDeliveryMarker = kiSCSIPDUOpCodeLoginReq OR kiSCSIPDUImmediateDeliveryFlag,
     lq_loginStage = 0, lq_versionMax = 0, lq_versionMin = 0, lq_totalAHSLength = 0,
     lq_dataSegmentLength = [0, 0, 0], lq_ISIDa = 0x80, lq_ISIDb = 0, lq_ISIDc = 0, lq_ISIDd = 0,
     lq_TSIH = 0, lq_initiatorTaskTag = 0, lq_CID = 0, lq_reserved = 0, lq_cmdSN = 0,
     lq_expStatSN = 0 \<rparr>"

definition login_req_bytes :: "iSCSIPDULoginReqBHS \<Rightarrow> u8 list" where
  "login_req_bytes q =
     [lq_opCodeAndDeliveryMarker q, lq_loginStage q, lq_versionMax q, lq_versionMin q,
      lq_totalAHSLength q] @ fixed 3 (lq_dataSegmentLength q) @
     [lq_ISIDa q] @ le16_bytes (lq_ISIDb q) @ [lq_ISIDc q] @ le16_bytes (lq_ISIDd q) @
     le16_bytes (lq_TSIH q) @ le32_bytes (lq_initiatorTaskTag q) @ le16_bytes (lq_CID q) @
     le16_bytes (lq_reserved q) @ le32_bytes (lq_cmdSN q) @ le32_bytes (lq_expStatSN q)"

record iSCSIPDULoginRspBHS =
  lp_opCode :: u8
  lp_loginStage :: u8
  lp_versionMax :: u8
  lp_versionActive :: u8
  lp_totalAHSLength :: u8
  lp_dataSegmentLength :: "u8 list"
  lp_ISIDa :: u8
  lp_ISIDb :: u16
  lp_ISIDc :: u8
  lp_ISIDd :: u16
  lp_TSIH :: u16
  lp_initiatorTaskTag :: u32
  lp_reserved :: u32
  lp_statSN :: u32
  lp_expCmdSN :: u32
  lp_maxCmdSN :: u32
  lp_statusClass :: u8
  lp_statusDetail :: u8

definition login_rsp_of :: "u8 list \<Rightarrow> iSCSIPDULoginRspBHS" where
  "login_rsp_of bs = \<lparr> lp_opCode = bs ! 0, lp_loginStage = bs ! 1, lp_versionMax = bs ! 2,
     lp_versionActive = bs ! 3, lp_totalAHSLength = bs ! 4, lp_dataSegmentLength = take 3 (drop 5 bs),
     lp_ISIDa = bs ! 8, lp_ISIDb = le16_at 9 bs, lp_ISIDc = bs ! 11, lp_ISIDd = le16_at 12 bs,
     lp_TSIH = le16_at 14 bs, lp_initiatorTaskTag = le32_at 16 bs, lp_reserved = le32_at 20 bs,
     lp_statSN = le32_at 24 bs, lp_expCmdSN = le32_at 28 bs, lp_maxCmdSN = le32_at 32 bs,
     lp_statusClass = bs ! 36, lp_statusDetail = bs ! 37 \<rparr>"

abbreviation (input) sizeof_LoginReqBHS :: nat where "sizeof_LoginReqBHS \<equiv> 32"
abbreviation (input) sizeof_LoginRspBHS :: nat where "sizeof_LoginRspBHS \<equiv> 38"

record iSCSIPDUTextReqBHS =
  tq_opCodeAndDeliveryMarker :: u8
  tq_textReqStageFlags :: u8
  tq_reserved :: u16
  tq_totalAHSLength :: u8
  tq_dataSegmentLength :: "u8 list"
  tq_LUNorOpCodeFields :: u64
  tq_initiatorTaskTag :: u32
  tq_targetTransferTag :: u32
  tq_cmdSN :: u32
  tq_expStatSN :: u32
  tq_reserved2 :: u64
  tq_reserved3 :: u64

definition iSCSIPDUTextReqBHSInit :: iSCSIPDUTextReqBHS where
  "iSCSIPDUTextReqBHSInit = \<lparr>
     tq_opCodeAndDeliveryMarker = kiSCSIPDUOpCodeTextReq OR kiSCSIPDUImmediateDeliveryFlag,
     tq_textReqStageFlags = 0, tq_reserved = 0, tq_totalAHSLength = 0,
     tq_dataSegmentLength = [0, 0, 0], tq_LUNorOpCodeFields = 0, tq_initiatorTaskTag = 0,
     tq_targetTransferTag = 0, tq_cmdSN = 0, tq_expStatSN = 0, tq_reserved2 = 0, tq_reserved3 = 0 \<rparr>"

definition text_req_bytes :: "iSCSIPDUTextReqBHS \<Rightarrow> u8 list" where
  "text_req_bytes q =
     [tq_opCodeAndDeliveryMarker q, tq_textReqStageFlags q] @ le16_bytes (tq_reserved q) @
     [tq_totalAHSLength q] @ fixed 3 (tq_dataSegmentLength q) @ le64_bytes (tq_LUNorOpCodeFields q) @
     le32_bytes (tq_initiatorTaskTag q) @ le32_bytes (tq_targetTransferTag q) @
     le32_bytes (tq_cmdSN q) @ le32_bytes (tq_expStatSN q) @ le64_bytes (tq_reserved2 q) @
     le64_bytes (tq_reserved3 q)"

section \<open>Pointers to headers\<close>

text \<open>The 48 bytes behind the pointer to a local structure, and the contents of one that is not
  initialised.\<close>

definition cast_header :: "u8 list \<Rightarrow> ('z world_scheme, u8 list) state" where
  "cast_header object = do {
     r \<leftarrow> sys (SysStack (48 - length object));
     State_Monad.return (object @ fixed (48 - length object) (sr_bytes r))
   }"

definition uninitialised_header :: "('z world_scheme, u8 list) state" where
  "uninitialised_header = do {
     r \<leftarrow> sys (SysStack 48);
     State_Monad.return (fixed 48 (sr_bytes r))
   }"

definition header_accessed :: "nat \<Rightarrow> ('z world_scheme, unit) state" where
  "header_accessed objectSize =
     (if objectSize < 48 then fault OutOfBounds else State_Monad.return ())"

section \<open>Login queries\<close>

record iSCSILoginQueryContext =
  lc_interface :: "nat option"
  lc_sessionId :: SessionIdentifier
  lc_connectionId :: ConnectionIdentifier
  lc_currentStage :: u32
  lc_nextStage :: u32
  lc_statSN :: u32
  lc_expCmdSN :: u32
  lc_targetSessionId :: u16
  lc_transitNextStage :: bool

text \<open>What a query reads and writes through its pointers: the context, the status code, the dictionary
  of the response. The reject code is never written.\<close>

type_synonym login_query = "iSCSILoginQueryContext \<times> u32 \<times> cfdict option"

definition login_request :: "iSCSILoginQueryContext \<Rightarrow> iSCSIPDULoginReqBHS" where
  "login_request context =
     (let stage = ucast (push_bit kiSCSIPDULoginNSGBitOffset (lc_nextStage context)) OR
                  ucast (push_bit kiSCSIPDULoginCSGBitOffset (lc_currentStage context))
      in iSCSIPDULoginReqBHSInit\<lparr>
           lq_TSIH := CFSwapInt16HostToBig (lc_targetSessionId context),
           lq_CID := ucast (CFSwapInt32HostToBig (lc_connectionId context)),
           lq_ISIDd := CFSwapInt16HostToBig (lc_sessionId context),
           lq_loginStage := (if lc_currentStage context \<noteq> lc_nextStage context
                             then stage OR kiSCSIPDULoginTransitFlag else stage) \<rparr>)"

text \<open>The request: everything up to the check of the error of \<open>iSCSIHBAInterfaceSend\<close>. The data pointer
  and the length are null and zero when there is no dictionary.\<close>

definition login_send ::
  "corefoundation \<Rightarrow> iSCSILoginQueryContext \<Rightarrow> cfdict option \<Rightarrow>
   ('z hba_world_scheme, errno_t \<times> nat) state" where
  "login_send cf context textCmd = do {
     created \<leftarrow> iSCSIPDUDataCreateFromDict cf textCmd;
     let (data, len) = (case created of None \<Rightarrow> (None, 0) | Some x \<Rightarrow> x);
     cmd \<leftarrow> cast_header (login_req_bytes (login_request context));
     error \<leftarrow> iSCSIHBAInterfaceSend (lc_interface context) (lc_sessionId context)
                (lc_connectionId context) (Some cmd) data len;
     iSCSIPDUDataRelease data;
     (if error = 0 then header_accessed sizeof_LoginReqBHS else State_Monad.return ());
     State_Monad.return (error, len)
   }"

text \<open>The handling of one response: \<open>Some\<close> the error with which the loop is left by \<open>break\<close>, \<open>None\<close>
  when the condition of the loop is reached.\<close>

definition login_response ::
  "corefoundation \<Rightarrow> iSCSIPDULoginRspBHS \<Rightarrow> u8 list option \<Rightarrow> nat \<Rightarrow> login_query \<Rightarrow>
   ('z world_scheme, errno_t option \<times> login_query) state" where
  "login_response cf rsp data len query =
     (let (context, statusCode, textRsp) = query in
      if lp_opCode rsp = kiSCSIPDUOpCodeLoginRsp then do {
        let statusCode = push_bit 8 (ucast (lp_statusClass rsp)) OR ucast (lp_statusDetail rsp);
        if statusCode \<noteq> kiSCSILoginSuccess
        then State_Monad.return (Some 0, (context, statusCode, textRsp))
        else do {
          textRsp \<leftarrow> iSCSIPDUDataParseToDict cf data len textRsp;
          let context =
            (if lc_targetSessionId context = 0 \<and> lc_nextStage context = kiSCSIPDUFullFeaturePhase
             then context\<lparr> lc_targetSessionId := CFSwapInt16BigToHost (lp_TSIH rsp) \<rparr> else context);
          let context = context\<lparr> lc_statSN := lp_statSN rsp, lc_expCmdSN := lp_expCmdSN rsp,
            lc_transitNextStage := (lp_loginStage rsp AND kiSCSIPDULoginTransitFlag \<noteq> 0) \<rparr>;
          State_Monad.return (None, (context, statusCode, textRsp))
        }
      }
      else if lp_opCode rsp = kiSCSIPDUOpCodeReject
      then State_Monad.return (Some EOPNOTSUPP, query)
      else State_Monad.return (None, query))"

fun login_receive ::
  "corefoundation \<Rightarrow> nat \<Rightarrow> u8 list \<Rightarrow> u8 list option \<Rightarrow> nat \<Rightarrow> login_query \<Rightarrow>
   ('z hba_world_scheme, (errno_t \<times> u8 list option \<times> login_query) option) state" where
  "login_receive cf 0 rsp data len query = State_Monad.return None"
| "login_receive cf (Suc bound) rsp data len query = do {
     (error, rsp, data, len) \<leftarrow> iSCSIHBAInterfaceReceive (lc_interface (fst query))
        (lc_sessionId (fst query)) (lc_connectionId (fst query)) (Some rsp) data len;
     if error \<noteq> 0 then State_Monad.return (Some (error, data, query))
     else do {
       header_accessed sizeof_LoginRspBHS;
       (left, query) \<leftarrow> login_response cf (login_rsp_of rsp) data len query;
       (case left of
          Some error \<Rightarrow> State_Monad.return (Some (error, data, query))
        | None \<Rightarrow>
            if lp_loginStage (login_rsp_of rsp) AND kiSCSIPDUTextReqContinueFlag \<noteq> 0
            then login_receive cf bound rsp data len query
            else State_Monad.return (Some (0, data, query)))
     }
   }"

definition iSCSISessionLoginSingleQuery ::
  "corefoundation \<Rightarrow> nat \<Rightarrow> login_query \<Rightarrow> cfdict option \<Rightarrow>
   ('z hba_world_scheme, (errno_t \<times> login_query) option) state" where
  "iSCSISessionLoginSingleQuery cf bound query textCmd = do {
     (error, len) \<leftarrow> login_send cf (fst query) textCmd;
     if error \<noteq> 0 then State_Monad.return (Some (error, query))
     else do {
       rsp \<leftarrow> uninitialised_header;
       received \<leftarrow> login_receive cf bound rsp None len query;
       (case received of
          None \<Rightarrow> State_Monad.return None
        | Some (error, data, query) \<Rightarrow> do {
            iSCSIPDUDataRelease data;
            State_Monad.return (Some (error, query))
          })
     }
   }"

text \<open>The retries of \<open>iSCSISessionLoginQuery\<close>: blank requests, whose responses are not parsed.\<close>

fun login_retry ::
  "corefoundation \<Rightarrow> nat \<Rightarrow> nat \<Rightarrow> errno_t \<Rightarrow> login_query \<Rightarrow>
   ('z hba_world_scheme, (errno_t \<times> login_query) option) state" where
  "login_retry cf bound 0 error (context, statusCode, textRsp) =
     State_Monad.return (Some (error, (context, kiSCSILoginInvalidReqDuringLogin, textRsp)))"
| "login_retry cf bound (Suc retries) error (context, statusCode, textRsp) = do {
     result \<leftarrow> iSCSISessionLoginSingleQuery cf bound (context, statusCode, None) None;
     (case result of
        None \<Rightarrow> State_Monad.return None
      | Some (error, (context, statusCode, _)) \<Rightarrow>
          if lc_transitNextStage context
          then State_Monad.return (Some (error, (context, statusCode, textRsp)))
          else login_retry cf bound retries error (context, statusCode, textRsp))
   }"

definition iSCSISessionLoginQuery ::
  "corefoundation \<Rightarrow> nat \<Rightarrow> login_query \<Rightarrow> cfdict option \<Rightarrow>
   ('z hba_world_scheme, (errno_t \<times> login_query) option) state" where
  "iSCSISessionLoginQuery cf bound query textCmd = do {
     result \<leftarrow> iSCSISessionLoginSingleQuery cf bound query textCmd;
     (case result of
        None \<Rightarrow> State_Monad.return None
      | Some (error, (context, statusCode, textRsp)) \<Rightarrow>
          if error \<noteq> 0 \<or> statusCode \<noteq> kiSCSILoginSuccess
          then State_Monad.return (Some (error, (context, statusCode, textRsp)))
          else if lc_currentStage context = lc_nextStage context \<or> lc_transitNextStage context
          then State_Monad.return (Some (error, (context, statusCode, textRsp)))
          else login_retry cf bound 5 error (context, statusCode, textRsp))
   }"

section \<open>Text queries\<close>

text \<open>The response of a text request, of which the code reads the first two bytes.\<close>

fun text_receive ::
  "corefoundation \<Rightarrow> nat \<Rightarrow> SessionIdentifier \<Rightarrow> ConnectionIdentifier \<Rightarrow> u8 list \<Rightarrow> u8 list option \<Rightarrow>
   nat \<Rightarrow> cfdict option \<Rightarrow>
   ('z hba_world_scheme, (errno_t \<times> u8 list option \<times> cfdict option) option) state" where
  "text_receive cf 0 sessionId connectionId rsp data len textRsp = State_Monad.return None"
| "text_receive cf (Suc bound) sessionId connectionId rsp data len textRsp = do {
     (error, rsp, data, len) \<leftarrow>
        iSCSIHBAInterfaceReceive None sessionId connectionId (Some rsp) data len;
     if error \<noteq> 0 then State_Monad.return (Some (error, data, textRsp))
     else if rsp ! 0 \<noteq> kiSCSIPDUOpCodeTextRsp \<and> rsp ! 0 = kiSCSIPDUOpCodeReject
     then State_Monad.return (Some (EIO, data, textRsp))
     else do {
       textRsp \<leftarrow> (if rsp ! 0 = kiSCSIPDUOpCodeTextRsp
                   then iSCSIPDUDataParseToDict cf data len textRsp
                   else State_Monad.return textRsp);
       if rsp ! 1 AND kiSCSIPDUTextReqContinueFlag \<noteq> 0
       then text_receive cf bound sessionId connectionId rsp data len textRsp
       else State_Monad.return (Some (0, data, textRsp))
     }
   }"

text \<open>The interface argument of the two calls is the constant 0. Without a dictionary the data pointer
  stays uninitialised and is passed to \<open>free\<close>.\<close>

definition iSCSISessionTextQuery ::
  "corefoundation \<Rightarrow> nat \<Rightarrow> SessionIdentifier \<Rightarrow> ConnectionIdentifier \<Rightarrow> cfdict option \<Rightarrow>
   cfdict option \<Rightarrow> ('z hba_world_scheme, (errno_t \<times> cfdict option) option) state" where
  "iSCSISessionTextQuery cf bound sessionId connectionId textCmd textRsp = do {
     let cmd = iSCSIPDUTextReqBHSInit\<lparr> tq_textReqStageFlags := 0 \<rparr>;
     created \<leftarrow> iSCSIPDUDataCreateFromDict cf textCmd;
     (data, len) \<leftarrow> (case created of
        None \<Rightarrow> do { fault BadObject; State_Monad.return (None, 0) }
      | Some x \<Rightarrow> State_Monad.return x);
     error \<leftarrow> iSCSIHBAInterfaceSend None sessionId connectionId (Some (text_req_bytes cmd)) data len;
     iSCSIPDUDataRelease data;
     if error \<noteq> 0 then State_Monad.return (Some (error, textRsp))
     else do {
       rsp \<leftarrow> uninitialised_header;
       received \<leftarrow> text_receive cf bound sessionId connectionId rsp None len textRsp;
       (case received of
          None \<Rightarrow> State_Monad.return None
        | Some (error, data, textRsp) \<Rightarrow> do {
            iSCSIPDUDataRelease data;
            State_Monad.return (Some (error, textRsp))
          })
     }
   }"

end
