(* ===== verification/QueryProps.thy ===== *)
theory QueryProps
  imports QueryTarget HbaProps
begin

text \<open>
  What a login query does: the request it puts on the wire, the responses it collects, and what a
  successful result means.
\<close>

section \<open>Frames\<close>

lemma framed_create [framed_programs]:
  assumes "framed P"
  shows "preserves P (iSCSIPDUDataCreateFromDict cf d)" and "preserves P (iSCSIPDUDataRelease b)"
    and "preserves P (cast_header bs)" and "preserves P uninitialised_header"
    and "preserves P (header_accessed n)"
  unfolding iSCSIPDUDataCreateFromDict_def iSCSIPDUDataRelease_def cast_header_def
    uninitialised_header_def header_accessed_def
  by (intro preserves_intros framed_programs assms)+

lemma framed_send [framed_programs]:
  assumes "framed P"
  shows "preserves P (iSCSIHBAInterfaceSend i sid cid bhs data n)"
    and "preserves P (iSCSIHBAInterfaceReceive i sid cid bhs0 data0 n0)"
proof -
  have load: "preserves P (load_hba p)" for p
    by (rule preserves_load_hba) (simp add: framed_simps [OF assms])
  show "preserves P (iSCSIHBAInterfaceSend i sid cid bhs data n)"
    "preserves P (iSCSIHBAInterfaceReceive i sid cid bhs0 data0 n0)"
    unfolding iSCSIHBAInterfaceSend_def iSCSIHBAInterfaceReceive_def with_session_def
    by (intro preserves_intros framed_programs assms load)+
qed

lemma framed_login_send [framed_programs]:
  assumes "framed P"
  shows "preserves P (login_send cf context textCmd)"
  unfolding login_send_def
  by (intro preserves_intros framed_programs assms)

text \<open>A session stays where it is as long as the interfaces are not changed.\<close>

lemma dext_session_frame: "hbas v = hbas w \<Longrightarrow> dext_session v p sid h i = dext_session w p sid h i"
  by (simp add: dext_session_def)

lemma framed_hbas: "framed (\<lambda>w. hbas w = H)"
  by (simp add: framed_def)

lemma hbas_framed:
  assumes "\<And>H. preserves (\<lambda>w. hbas w = H) m" and "run_state m w = (x, w')"
  shows "hbas w' = hbas w"
  using preservesD [OF assms(1) refl, of w] assms(2) by simp

section \<open>The stream of responses\<close>

text \<open>The images of several PDUs, delivered one after the other: \<open>Receive\<close> makes two calls for a PDU
  that is only a header, and four for one with data.\<close>

fun delivers_all :: "u8 list list \<Rightarrow> 'z world_scheme \<Rightarrow> bool" where
  "delivers_all [] w \<longleftrightarrow> True"
| "delivers_all (img # imgs) w \<longleftrightarrow>
     delivers img w \<and> delivers_all imgs (w\<lparr> clock := clock w + (if length img = 48 then 2 else 4) \<rparr>)"

lemma delivers_frame:
  "respond v = respond w \<Longrightarrow> clock v = clock w \<Longrightarrow> delivers img v = delivers img w"
  by (simp add: delivers_def)

lemma delivers_all_frame:
  "respond v = respond w \<Longrightarrow> clock v = clock w \<Longrightarrow> delivers_all imgs v = delivers_all imgs w"
proof (induction imgs arbitrary: v w)
  case Nil
  then show ?case by simp
next
  case (Cons img imgs)
  from Cons.prems have "delivers img v = delivers img w" by (rule delivers_frame)
  moreover have "delivers_all imgs (v\<lparr> clock := clock v + (if length img = 48 then 2 else 4) \<rparr>) =
      delivers_all imgs (w\<lparr> clock := clock w + (if length img = 48 then 2 else 4) \<rparr>)"
    using Cons.prems by (intro Cons.IH) simp_all
  ultimately show ?case by simp
qed

text \<open>A response: its header and the lines of its text.\<close>

type_synonym login_reply = "u8 list \<times> u8 list list"

definition reply_image :: "login_reply \<Rightarrow> u8 list" where
  "reply_image r = send_image (fst r) (lines_text (snd r))"

definition good_reply :: "bool \<Rightarrow> login_reply \<Rightarrow> bool" where
  "good_reply continued r \<longleftrightarrow>
     length (fst r) = 48 \<and> fst r ! 0 = kiSCSIPDUOpCodeLoginRsp \<and> fst r ! 36 = 0 \<and> fst r ! 37 = 0 \<and>
     (fst r ! 1 AND kiSCSIPDUTextReqContinueFlag \<noteq> 0) = continued \<and>
     (\<forall>c \<in> set (snd r). text_line c) \<and> length (lines_text (snd r)) < 2 ^ 24"

fun good_replies :: "login_reply list \<Rightarrow> bool" where
  "good_replies [] \<longleftrightarrow> False"
| "good_replies [r] \<longleftrightarrow> good_reply False r"
| "good_replies (r # rs) \<longleftrightarrow> good_reply True r \<and> good_replies rs"

text \<open>What the context takes from a response.\<close>

definition take_reply :: "u8 list \<Rightarrow> iSCSILoginQueryContext \<Rightarrow> iSCSILoginQueryContext" where
  "take_reply bhs c = c\<lparr>
     lc_targetSessionId :=
       (if lc_targetSessionId c = 0 \<and> lc_nextStage c = kiSCSIPDUFullFeaturePhase
        then CFSwapInt16BigToHost (le16_at 14 bhs) else lc_targetSessionId c),
     lc_statSN := le32_at 24 bhs, lc_expCmdSN := le32_at 28 bhs,
     lc_transitNextStage := (bhs ! 1 AND kiSCSIPDULoginTransitFlag \<noteq> 0) \<rparr>"

lemma take_reply_simps [simp]:
  "lc_interface (take_reply bhs c) = lc_interface c"
  "lc_sessionId (take_reply bhs c) = lc_sessionId c"
  "lc_connectionId (take_reply bhs c) = lc_connectionId c"
  "lc_currentStage (take_reply bhs c) = lc_currentStage c"
  "lc_nextStage (take_reply bhs c) = lc_nextStage c"
  by (simp_all add: take_reply_def)

text \<open>The length field does not touch what is read of a header.\<close>

lemma set_length_nth:
  assumes "length bhs = 48" and "k < 5 \<or> 8 \<le> k" and "k < 48"
  shows "set_data_segment_length n bhs ! k = bhs ! k"
proof -
  have "set_data_segment_length n bhs =
      take 5 bhs @ [of_nat (n div 2 ^ 16), of_nat (n div 2 ^ 8), of_nat n] @ drop 8 bhs"
    by (simp add: set_data_segment_length_def poke_def)
  then show ?thesis using assms by (auto simp: nth_append nth_Cons' min_def)
qed

lemma take_reply_set_length:
  "length bhs = 48 \<Longrightarrow> take_reply (set_data_segment_length n bhs) c = take_reply bhs c"
  by (simp add: take_reply_def le16_at_def le32_at_def set_length_nth)

section \<open>Handling one response\<close>

lemma run_login_response:
  fixes w :: "'z world_scheme"
  assumes cf: "cf_laws cf" and good: "good_reply continued r"
    and data: "lines_text (snd r) = [] \<longrightarrow> data = None"
      "lines_text (snd r) \<noteq> [] \<longrightarrow> (\<exists>b. data = Some b \<and>
         take (length (lines_text (snd r))) b = lines_text (snd r) \<and> length (lines_text (snd r)) < length b)"
  shows "run_state (login_response cf
      (login_rsp_of (set_data_segment_length n (fst r))) data (length (lines_text (snd r)))
      (c, st, Some d)) w =
    ((None, (take_reply (fst r) c, 0, Some (fold add_line (snd r) d))), w)"
proof -
  let ?txt = "lines_text (snd r)"
  have parse: "run_state (iSCSIPDUDataParseToDict cf data (length ?txt) (Some d)) w =
      (Some (fold add_line (snd r) d), w)"
  proof (cases "?txt = []")
    case True
    then have "snd r = []" by (cases "snd r") (simp_all add: lines_text_def)
    with True data(1) show ?thesis by (simp add: iSCSIPDUDataParseToDict_def)
  next
    case False
    then obtain b where b: "data = Some b" "take (length ?txt) b = ?txt" "length ?txt < length b"
      using data(2) by blast
    then have "b = ?txt @ b ! length ?txt # drop (Suc (length ?txt)) b"
      by (metis id_take_nth_drop)
    then obtain x rest where "b = ?txt @ x # rest" by blast
    with b(1) good show ?thesis
      by (simp add: good_reply_def parse_to_dict_lines [OF cf])
  qed
  have bhs: "length (fst r) = 48" using good by (simp add: good_reply_def)
  have "lp_opCode (login_rsp_of (set_data_segment_length n (fst r))) = kiSCSIPDUOpCodeLoginRsp"
    "lp_statusClass (login_rsp_of (set_data_segment_length n (fst r))) = 0"
    "lp_statusDetail (login_rsp_of (set_data_segment_length n (fst r))) = 0"
    using good bhs by (simp_all add: good_reply_def login_rsp_of_def set_length_nth)
  moreover have "(if lc_targetSessionId c = 0 \<and> lc_nextStage c = kiSCSIPDUFullFeaturePhase
       then c\<lparr> lc_targetSessionId :=
              CFSwapInt16BigToHost (lp_TSIH (login_rsp_of (set_data_segment_length n (fst r)))) \<rparr> else c)
      \<lparr> lc_statSN := lp_statSN (login_rsp_of (set_data_segment_length n (fst r))),
        lc_expCmdSN := lp_expCmdSN (login_rsp_of (set_data_segment_length n (fst r))),
        lc_transitNextStage := (lp_loginStage (login_rsp_of (set_data_segment_length n (fst r)))
          AND kiSCSIPDULoginTransitFlag \<noteq> 0) \<rparr> = take_reply (fst r) c"
    unfolding take_reply_set_length [OF bhs, of n c, symmetric]
    by (simp add: take_reply_def login_rsp_of_def)
  ultimately show ?thesis
    by (simp add: login_response_def monad_simps parse Let_def)
qed

section \<open>Collecting responses\<close>

lemma receive_respond:
  "preserves (\<lambda>w. respond w = R) (receive_dext sock bhs data n)"
  unfolding receive_dext_def iSCSIPDUDataCreate_def iSCSIPDUDataRelease_def os_malloc_def
  by (intro preserves_intros preserves_calls) simp_all

lemma run_receive_reply:
  fixes w :: "'z hba_world_scheme"
  assumes s: "dext_session w p sid h i" and cid: "cid \<noteq> kiSCSIInvalidConnectionId"
    and sock: "dextConnectionSocket (hb_dextSessions h ! i) cid = sock" "0 \<le> sock"
    and good: "good_reply continued r" and hdr48: "length hdr = 48"
    and del: "delivers_all (reply_image r # imgs) w"
  shows "\<exists>data w'. run_state (iSCSIHBAInterfaceReceive (Some p) sid cid (Some hdr) dat m) w =
      ((0, (set_data_segment_length (length (lines_text (snd r))) (fst r), data,
            length (lines_text (snd r)))), w') \<and>
    (lines_text (snd r) = [] \<longrightarrow> data = None) \<and>
    (lines_text (snd r) \<noteq> [] \<longrightarrow> (\<exists>b. data = Some b \<and>
       take (length (lines_text (snd r))) b = lines_text (snd r) \<and> length (lines_text (snd r)) < length b)) \<and>
    dext_session w' p sid h i \<and> delivers_all imgs w'"
proof -
  let ?txt = "lines_text (snd r)"
  have bhs: "length (fst r) = 48" and small: "length ?txt < 2 ^ 24"
    using good by (simp_all add: good_reply_def)
  have first: "delivers (send_image (fst r) ?txt) w"
    using del by (simp add: reply_image_def)
  from receive_dext_image [OF bhs hdr48 small first, of sock dat m]
  show ?thesis
  proof (elim exE conjE)
    fix data w'
    assume run: "run_state (receive_dext sock hdr dat m) w =
        ((0, (set_data_segment_length (length ?txt) (fst r), data, length ?txt)), w')"
      and data: "?txt = [] \<longrightarrow> data = None" "?txt \<noteq> [] \<longrightarrow> (\<exists>b. data = Some b \<and>
         take (length ?txt) b = ?txt \<and> length ?txt < length b)"
      and time: "clock w' = clock w + (if ?txt = [] then 2 else 4)"
    have "hbas w' = hbas w"
      by (rule hbas_framed [OF framed_transfer(4) [OF framed_hbas] run])
    from dext_session_frame [OF this] s have sess: "dext_session w' p sid h i" by simp
    have "respond w' = respond w"
      using preservesD [OF receive_respond [of "respond w" sock hdr dat m] refl] run by simp
    moreover have "(length (reply_image r) = 48) = (?txt = [])"
      using bhs padded_length_ge [of "length ?txt"]
      by (auto simp: reply_image_def send_image_def text_pad_def)
    ultimately have rest: "delivers_all imgs w'"
      using del time
        delivers_all_frame [of w' "w\<lparr> clock := clock w + (if ?txt = [] then 2 else 4) \<rparr>" imgs]
      by simp
    show ?thesis
      unfolding run_receive [OF s cid sock] using run data sess rest by (intro exI conjI)
  qed
qed

lemma take_replies_simps [simp]:
  "lc_interface (fold (\<lambda>r. take_reply (fst r)) rs c) = lc_interface c"
  "lc_sessionId (fold (\<lambda>r. take_reply (fst r)) rs c) = lc_sessionId c"
  "lc_connectionId (fold (\<lambda>r. take_reply (fst r)) rs c) = lc_connectionId c"
  by (induction rs arbitrary: c) simp_all

lemma dext_session_faults [simp]:
  "dext_session (w\<lparr> faults := fs \<rparr>) p sid h i = dext_session w p sid h i"
  by (simp add: dext_session_def)

lemma delivers_all_faults [simp]:
  "delivers_all imgs (w\<lparr> faults := fs \<rparr>) = delivers_all imgs w"
  by (rule delivers_all_frame) simp_all

text \<open>One round of the loop, on a good response.\<close>

lemma login_receive_round:
  fixes w :: "'z hba_world_scheme"
  assumes cf: "cf_laws cf" and s: "dext_session w p sid h i"
    and ctx: "lc_interface c = Some p" "lc_sessionId c = sid" "lc_connectionId c = cid"
    and cid: "cid \<noteq> kiSCSIInvalidConnectionId"
    and sock: "dextConnectionSocket (hb_dextSessions h ! i) cid = sock" "0 \<le> sock"
    and good: "good_reply continued r" and hdr48: "length hdr = 48"
    and del: "delivers_all (reply_image r # imgs) w"
  obtains rsp data w' where
    "run_state (login_receive cf (Suc bound) hdr dat m (c, st, Some d)) w =
      (if continued
       then run_state (login_receive cf bound rsp data (length (lines_text (snd r)))
              (take_reply (fst r) c, 0, Some (fold add_line (snd r) d))) w'
       else (Some (0, data, (take_reply (fst r) c, 0, Some (fold add_line (snd r) d))), w'))"
    "length rsp = 48" "dext_session w' p sid h i" "delivers_all imgs w'"
proof -
  let ?txt = "lines_text (snd r)"
  obtain data v where run: "run_state (iSCSIHBAInterfaceReceive (Some p) sid cid (Some hdr) dat m) w =
      ((0, (set_data_segment_length (length ?txt) (fst r), data, length ?txt)), v)"
    and data: "?txt = [] \<longrightarrow> data = None"
      "?txt \<noteq> [] \<longrightarrow> (\<exists>b. data = Some b \<and> take (length ?txt) b = ?txt \<and> length ?txt < length b)"
    and v: "dext_session v p sid h i" "delivers_all imgs v"
    using run_receive_reply [OF s cid sock good hdr48 del, of dat m] by blast
  let ?rsp = "set_data_segment_length (length ?txt) (fst r)"
  let ?w' = "v\<lparr> faults := faults v @ [OutOfBounds] \<rparr>"
  have bhs: "length (fst r) = 48" using good by (simp add: good_reply_def)
  then have flag: "lp_loginStage (login_rsp_of ?rsp) = fst r ! 1"
    by (simp add: login_rsp_of_def set_length_nth)
  have cont: "(fst r ! 1 AND kiSCSIPDUTextReqContinueFlag \<noteq> 0) = continued"
    using good by (simp add: good_reply_def)
  have "run_state (login_receive cf (Suc bound) hdr dat m (c, st, Some d)) w =
      (if continued
       then run_state (login_receive cf bound ?rsp data (length ?txt)
              (take_reply (fst r) c, 0, Some (fold add_line (snd r) d))) ?w'
       else (Some (0, data, (take_reply (fst r) c, 0, Some (fold add_line (snd r) d))), ?w'))"
    using run ctx flag cont
    by (simp add: monad_simps header_accessed_def run_login_response [OF cf good data])
  moreover have "length ?rsp = 48" using bhs by simp
  ultimately show ?thesis using that v by simp
qed

lemma login_receive_replies:
  fixes w :: "'z hba_world_scheme"
  assumes cf: "cf_laws cf" and s: "dext_session w p sid h i"
    and ctx: "lc_interface c = Some p" "lc_sessionId c = sid" "lc_connectionId c = cid"
    and cid: "cid \<noteq> kiSCSIInvalidConnectionId"
    and sock: "dextConnectionSocket (hb_dextSessions h ! i) cid = sock" "0 \<le> sock"
    and good: "good_replies rs" and hdr48: "length hdr = 48"
    and del: "delivers_all (map reply_image rs) w" and bound: "length rs \<le> bound"
  shows "\<exists>data w'. run_state (login_receive cf bound hdr dat m (c, st, Some d)) w =
    (Some (0, data, (fold (\<lambda>r. take_reply (fst r)) rs c, 0,
       Some (fold add_line (concat (map snd rs)) d))), w')"
  using s ctx(1-3) good hdr48 del bound
proof (induction rs arbitrary: w c hdr dat m st d bound rule: good_replies.induct)
  case 1
  then show ?case by simp
next
  case (2 r)
  then obtain b where b: "bound = Suc b" by (cases bound) simp_all
  have good: "good_reply False r" using 2 by simp
  show ?case
    unfolding b
    by (rule login_receive_round [OF cf 2(1-4) cid sock good 2(6), where bound = b and imgs = "[]" and d = d
          and dat = dat and m = m and st = st])
      (use 2(7) in auto)
next
  case (3 r r' rs)
  then obtain b where b: "bound = Suc b" by (cases bound) simp_all
  have good: "good_reply True r" and rest: "good_replies (r' # rs)" using 3 by simp_all
  have del: "delivers_all (reply_image r # map reply_image (r' # rs)) w" using 3(8) by simp
  show ?case
    unfolding b
  proof (rule login_receive_round [OF cf 3(2-5) cid sock good 3(7) del, where bound = b and d = d
          and dat = dat and m = m and st = st])
    fix rsp data w'
    assume run: "run_state (login_receive cf (Suc b) hdr dat m (c, st, Some d)) w =
      (if True
       then run_state (login_receive cf b rsp data (length (lines_text (snd r)))
              (take_reply (fst r) c, 0, Some (fold add_line (snd r) d))) w'
       else (Some (0, data, (take_reply (fst r) c, 0, Some (fold add_line (snd r) d))), w'))"
      and rsp: "length rsp = 48" and s': "dext_session w' p sid h i"
      and del': "delivers_all (map reply_image (r' # rs)) w'"
    have "length (r' # rs) \<le> b" using 3(9) b by simp
    from 3(1) [OF s' _ _ _ rest rsp del' this, of "take_reply (fst r) c"] 3(3-5)
    show "\<exists>data w'. run_state (login_receive cf (Suc b) hdr dat m (c, st, Some d)) w =
      (Some (0, data, (fold (\<lambda>r. take_reply (fst r)) (r # r' # rs) c, 0,
         Some (fold add_line (concat (map snd (r # r' # rs))) d))), w')"
      unfolding run by simp
  qed
qed

section \<open>Queries\<close>

lemma single_query_collects:
  fixes w :: "'z hba_world_scheme"
  assumes "cf_laws cf" and "dext_session w p sid h i"
    and "lc_interface c = Some p" and "lc_sessionId c = sid" and "lc_connectionId c = cid"
    and "cid \<noteq> kiSCSIInvalidConnectionId"
    and "dextConnectionSocket (hb_dextSessions h ! i) cid = sock" and "0 \<le> sock"
    and "run_state (login_send cf c textCmd) w = ((0, len), v)"
    and "good_replies rs" and "length rs \<le> bound"
    and "delivers_all (map reply_image rs) (called (SysStack 48) v)"
  shows "\<exists>w'. run_state (iSCSISessionLoginSingleQuery cf bound (c, st, Some d) textCmd) w =
    (Some (0, (fold (\<lambda>r. take_reply (fst r)) rs c, 0,
       Some (fold add_line (concat (map snd rs)) d))), w')"
proof -
  let ?v = "called (SysStack 48) v"
  let ?hdr = "fixed 48 (sr_bytes (answer v))"
  have "hbas v = hbas w"
    by (rule hbas_framed [OF framed_login_send [OF framed_hbas] assms(9)])
  then have "hbas ?v = hbas w" by simp
  from dext_session_frame [OF this] assms(2) have s: "dext_session ?v p sid h i" by simp
  obtain data w' where run: "run_state (login_receive cf bound ?hdr None len (c, st, Some d)) ?v =
      (Some (0, data, (fold (\<lambda>r. take_reply (fst r)) rs c, 0,
         Some (fold add_line (concat (map snd rs)) d))), w')"
    using login_receive_replies [OF assms(1) s assms(3-8,10) _ assms(12,11), of ?hdr None len st d]
    by auto
  show ?thesis
    using run
    by (simp add: iSCSISessionLoginSingleQuery_def assms(9) monad_simps uninitialised_header_def
        split: prod.split)
qed

text \<open>C5: a login query collects its responses. When the request was sent and the target answers with
  good login responses, all but the last with the continue flag, the query returns success within as
  many rounds, with every line of their texts added to the dictionary in order, and the context as the
  responses leave it: the sequence numbers and the transit flag of the last, the session identifier of
  the first when this is the leading login.\<close>

theorem login_query_collects:
  fixes w :: "'z hba_world_scheme"
  assumes "cf_laws cf" and "dext_session w p sid h i"
    and "lc_interface c = Some p" and "lc_sessionId c = sid" and "lc_connectionId c = cid"
    and "cid \<noteq> kiSCSIInvalidConnectionId"
    and "dextConnectionSocket (hb_dextSessions h ! i) cid = sock" and "0 \<le> sock"
    and "run_state (login_send cf c textCmd) w = ((0, len), v)"
    and "good_replies rs" and "length rs \<le> bound"
    and "delivers_all (map reply_image rs) (called (SysStack 48) v)"
  shows "\<exists>w'. run_state (iSCSISessionLoginSingleQuery cf bound (c, st, Some d) textCmd) w =
    (Some (0, (fold (\<lambda>r. take_reply (fst r)) rs c, 0,
       Some (fold add_line (concat (map snd rs)) d))), w')"
  using assms by (rule single_query_collects)

text \<open>The request on the wire.\<close>

lemma length_login_req [simp]: "length (login_req_bytes q) = 32"
  by (simp add: login_req_bytes_def le16_bytes_def)

lemma swap16_bytes: "le16_bytes (CFSwapInt16HostToBig v) = [ucast (drop_bit 8 v), ucast v]"
  by (auto simp: le16_bytes_def CFSwapInt16HostToBig_def bit_simps intro!: bit_word_eqI)

lemma swap32_low_bytes:
  "le16_bytes (ucast (CFSwapInt32HostToBig v)) = [ucast (drop_bit 24 v), ucast (drop_bit 16 v)]"
  by (auto simp: le16_bytes_def CFSwapInt32HostToBig_def CFSwapInt32BigToHost_def be32_value_def
      le32_bytes_def be32_bytes_def bit_simps intro!: bit_word_eqI)

lemma run_login_send:
  fixes w :: "'z hba_world_scheme"
  assumes cf: "cf_laws cf" and s: "dext_session w p sid h i"
    and ctx: "lc_interface c = Some p" "lc_sessionId c = sid" "lc_connectionId c = cid"
    and cid: "cid \<noteq> kiSCSIInvalidConnectionId"
    and sock: "dextConnectionSocket (hb_dextSessions h ! i) cid = sock" "0 \<le> sock"
    and d: "dict_valid cf d" and ok: "0 \<le> sr_ret (answer w)"
    and n: "n = text_size cf d"
    and hdr: "hdr = login_req_bytes (login_request c) @ fixed 16 (sr_bytes (respond w (Suc (clock w))))"
    and send: "run_state (send_dext sock (set_data_segment_length n hdr)
            (take n (segment_text cf d (sr_bytes (answer w)))))
          (called (SysStack 16) (called (SysAlloc (n + text_padding n)) w)) = (e, v)"
  shows "run_state (login_send cf c (Some d)) w =
    ((e, n), if e = 0 then (called SysFree v)\<lparr> faults := faults v @ [OutOfBounds] \<rparr> else called SysFree v)"
proof -
  let ?v = "called (SysStack 16) (called (SysAlloc (n + text_padding n)) w)"
  let ?block = "segment_text cf d (sr_bytes (answer w))"
  have s': "dext_session ?v p sid h i"
    using s by (simp add: dext_session_def)
  have size: "n \<le> length ?block"
    using written_text_le [OF cf d] by (simp add: segment_text_def n)
  have create: "run_state (iSCSIPDUDataCreateFromDict cf (Some d)) w =
      (Some (Some ?block, n), called (SysAlloc (n + text_padding n)) w)"
    unfolding n by (rule create_from_dict [OF cf d ok])
  have "run_state (iSCSIHBAInterfaceSend (Some p) sid cid (Some hdr) (Some ?block) n) ?v = (e, v)"
    unfolding run_send [OF s' cid sock size] by (rule send)
  then show ?thesis
    by (simp add: login_send_def create monad_simps cast_header_def second_answer_def ctx hdr
        iSCSIPDUDataRelease_def header_accessed_def Let_def)
qed

text \<open>C7: the login request on the wire. When it was sent, the stream of the connection has grown by a
  PDU whose data is the text of the dictionary and whose header has the opcode with the immediate bit,
  the stages with the transit flag exactly when they differ, the identifier of the session in network
  byte order behind the random-format ISID, and the TSIH in network byte order. The CID field is the
  upper half of the connection identifier, zero for all small ones; and the last sixteen bytes of the
  header are what lies behind the 32-byte structure on the stack.\<close>

theorem login_request_on_wire:
  fixes w :: "'z hba_world_scheme"
  assumes "cf_laws cf" and "dext_session w p sid h i"
    and "lc_interface c = Some p" and "lc_sessionId c = sid" and "lc_connectionId c = cid"
    and "cid \<noteq> kiSCSIInvalidConnectionId"
    and "dextConnectionSocket (hb_dextSessions h ! i) cid = sock" and "0 \<le> sock"
    and "dict_valid cf d" and "0 \<le> sr_ret (answer w)"
    and "run_state (login_send cf c (Some d)) w = ((0, len), w')"
  shows "len = text_size cf d \<and>
    wire sock (trace w') = wire sock (trace w) @
      send_image (login_req_bytes (login_request c) @ fixed 16 (sr_bytes (respond w (Suc (clock w)))))
        (take len (segment_text cf d (sr_bytes (answer w)))) \<and>
    take 2 (login_req_bytes (login_request c)) =
      [0x43, (if lc_currentStage c = lc_nextStage c then 0 else 0x80) OR
             ucast (push_bit 2 (lc_currentStage c)) OR ucast (lc_nextStage c)] \<and>
    take 8 (drop 8 (login_req_bytes (login_request c))) =
      [0x80, 0, 0, 0, ucast (drop_bit 8 sid), ucast sid,
       ucast (drop_bit 8 (lc_targetSessionId c)), ucast (lc_targetSessionId c)] \<and>
    take 2 (drop 20 (login_req_bytes (login_request c))) =
      [ucast (drop_bit 24 cid), ucast (drop_bit 16 cid)]"
proof (intro conjI)
  let ?n = "text_size cf d" and ?block = "segment_text cf d (sr_bytes (answer w))"
  let ?hdr = "login_req_bytes (login_request c) @ fixed 16 (sr_bytes (respond w (Suc (clock w))))"
  let ?v = "called (SysStack 16) (called (SysAlloc (?n + text_padding ?n)) w)"
  have size: "length (take ?n ?block) = ?n"
    using written_text_le [OF assms(1,9)] by (simp add: segment_text_def)
  obtain e v' where send: "run_state (send_dext sock (set_data_segment_length ?n ?hdr) (take ?n ?block)) ?v =
      (e, v')"
    by (rule prod.exhaust)
  have e: "e = 0" and len: "len = ?n" and w': "trace w' = trace v' @ [(SysFree, answer v')]"
    using assms(11) unfolding run_login_send [OF assms(1-10) refl refl send]
    by (auto split: if_splits)
  show "len = ?n" by (rule len)
  have "wire sock (trace v') = wire sock (trace ?v) @ send_image ?hdr (take ?n ?block)"
    using send_dext_wire(2) [OF send e] unfolding send_image_def size by simp
  then show "wire sock (trace w') = wire sock (trace w) @ send_image ?hdr (take len ?block)"
    by (simp add: w' len)
  show "take 2 (login_req_bytes (login_request c)) =
      [0x43, (if lc_currentStage c = lc_nextStage c then 0 else 0x80) OR
             ucast (push_bit 2 (lc_currentStage c)) OR ucast (lc_nextStage c)]"
    by (auto simp: login_req_bytes_def login_request_def iSCSIPDULoginReqBHSInit_def Let_def ac_simps)
  show "take 8 (drop 8 (login_req_bytes (login_request c))) =
      [0x80, 0, 0, 0, ucast (drop_bit 8 sid), ucast sid,
       ucast (drop_bit 8 (lc_targetSessionId c)), ucast (lc_targetSessionId c)]"
    using assms(4)
    by (simp add: login_req_bytes_def login_request_def iSCSIPDULoginReqBHSInit_def Let_def
        swap16_bytes fixed_def) (simp add: le16_bytes_def)
  show "take 2 (drop 20 (login_req_bytes (login_request c))) =
      [ucast (drop_bit 24 cid), ucast (drop_bit 16 cid)]"
    using assms(5)
    by (simp add: login_req_bytes_def login_request_def iSCSIPDULoginReqBHSInit_def Let_def
        swap32_low_bytes swap16_bytes fixed_def) (simp add: le16_bytes_def)
qed

section \<open>What success means\<close>

text \<open>Requests are counted by the reads behind the structure of the request.\<close>

definition requests :: "event list \<Rightarrow> nat" where
  "requests tr = length (filter (\<lambda>e. fst e = SysStack 16) tr)"

lemma requests_simps [simp]:
  "requests (tr @ tr') = requests tr + requests tr'"
  "requests [] = 0"
  "requests ((c, r) # tr) = (if c = SysStack 16 then Suc (requests tr) else requests tr)"
  by (simp_all add: requests_def)

definition request_count :: "nat \<Rightarrow> 'z world_scheme \<Rightarrow> bool" where
  "request_count k w \<longleftrightarrow> requests (trace w) = k"

lemma request_count_simps [simp]:
  "c \<noteq> SysStack 16 \<Longrightarrow> request_count k (called c w) = request_count k w"
  "request_count k (w\<lparr> faults := fs \<rparr>) = request_count k w"
  by (simp_all add: request_count_def)

named_theorems uncounted "programs that send no login request"

lemma uncounted_basic [uncounted]:
  "preserves (request_count k) (iSCSIPDUDataCreateFromDict cf d)"
  "preserves (request_count k) (iSCSIPDUDataRelease b)"
  "preserves (request_count k) uninitialised_header"
  "preserves (request_count k) (header_accessed n)"
  "preserves (request_count k) (send_dext sock bhs data)"
  "preserves (request_count k) (receive_dext sock bhs dat n)"
  "preserves (request_count k) (receive_kext h xs bhs dat n)"
  "preserves (request_count k) (IOConnectCallMethod h f xs bs)"
  "preserves (request_count k) (load_hba p)"
  "preserves (request_count k) (fault flt)"
  unfolding iSCSIPDUDataCreateFromDict_def iSCSIPDUDataRelease_def uninitialised_header_def
    header_accessed_def send_dext_def receive_dext_def receive_kext_def IOConnectCallMethod_def
    load_hba_def os_malloc_def iSCSIPDUDataCreate_def os_sendmsg_def
  by (intro preserves_intros preserves_calls; simp)+

lemma uncounted_parse [uncounted]:
  "preserves (request_count k) (iSCSIPDUDataParseToDict cf data n d)"
proof -
  have add: "preserves (request_count k) (iSCSIPDUDataParseToDictCallback d key val)" for d key val
    unfolding iSCSIPDUDataParseToDictCallback_def by (intro preserves_intros uncounted)
  have loop: "preserves (request_count k)
      (parse_loop cf iSCSIPDUDataParseToDictCallback bs tok key eq d)" for bs tok key eq d
    by (induction bs arbitrary: tok key eq d)
      (auto intro!: preserves_intros uncounted add simp: CFRelease_def)
  show ?thesis
    unfolding iSCSIPDUDataParseToDict_def iSCSIPDUDataParseCommon_def
    by (intro preserves_intros uncounted loop)
qed

lemma uncounted_interface [uncounted]:
  "preserves (request_count k) (iSCSIHBAInterfaceSend i sid cid bhs blk n)"
  "preserves (request_count k) (iSCSIHBAInterfaceReceive i sid cid hdr dat n)"
  unfolding iSCSIHBAInterfaceSend_def iSCSIHBAInterfaceReceive_def with_session_def
  by (intro preserves_intros uncounted)+

lemma uncounted_response [uncounted]:
  "preserves (request_count k) (login_response cf rsp data n q)"
  unfolding login_response_def by (intro preserves_intros uncounted)

lemma uncounted_receive [uncounted]:
  "preserves (request_count k) (login_receive cf bound hdr dat n q)"
  by (induction bound arbitrary: hdr dat n q) (simp_all, (intro preserves_intros uncounted | assumption)+)

text \<open>\<open>sends k m\<close>: the program sends exactly \<open>k\<close> requests.\<close>

definition sends :: "nat \<Rightarrow> ('z world_scheme, 'a) state \<Rightarrow> bool" where
  "sends k m \<longleftrightarrow> (\<forall>w. requests (trace (snd (run_state m w))) = requests (trace w) + k)"

lemma sends_uncounted: "(\<And>k. preserves (request_count k) m) \<Longrightarrow> sends 0 m"
  by (simp add: sends_def preserves_def request_count_def)

lemma sends_bind: "sends j m \<Longrightarrow> (\<And>x. sends k (f x)) \<Longrightarrow> sends (j + k) (m \<bind> f)"
  by (simp add: sends_def split: prod.split) (metis add.assoc snd_conv)

lemma login_send_one: "sends 1 (login_send cf c d)"
proof -
  have cast: "sends 1 (cast_header (login_req_bytes q))" for q
    by (simp add: sends_def cast_header_def)
  have rest: "sends 0 (do {
      error \<leftarrow> iSCSIHBAInterfaceSend (lc_interface c) (lc_sessionId c) (lc_connectionId c) (Some cmd) blk n;
      iSCSIPDUDataRelease blk;
      (if error = 0 then header_accessed sizeof_LoginReqBHS else State_Monad.return ());
      State_Monad.return (error, n) })" for cmd blk n
    by (intro sends_uncounted preserves_intros uncounted)
  have "sends (0 + (1 + 0)) (login_send cf c d)"
    unfolding login_send_def Let_def
    by (intro sends_bind sends_uncounted [OF uncounted(1)], split prod.split)
      (intro allI impI sends_bind cast rest)
  then show ?thesis by simp
qed

lemma single_query_requests:
  assumes "run_state (iSCSISessionLoginSingleQuery cf bound q d) w = (r, w')"
  shows "requests (trace w') = Suc (requests (trace w))"
proof -
  have rest: "sends 0 (if error \<noteq> 0 then State_Monad.return (Some (error, q))
      else do {
        rsp \<leftarrow> uninitialised_header;
        received \<leftarrow> login_receive cf bound rsp None n q;
        (case received of
           None \<Rightarrow> State_Monad.return None
         | Some (error, data, query) \<Rightarrow> do {
             iSCSIPDUDataRelease data;
             State_Monad.return (Some (error, query)) })
      })" for error n
    by (intro sends_uncounted preserves_intros uncounted)
  have "sends (1 + 0) (iSCSISessionLoginSingleQuery cf bound q d)"
    unfolding iSCSISessionLoginSingleQuery_def
    by (intro sends_bind login_send_one, split prod.split) (intro allI impI rest)
  then show ?thesis using assms by (auto simp: sends_def dest: spec [of _ w])
qed

text \<open>The stages of the context are not changed by a query.\<close>

definition stages :: "login_query \<Rightarrow> u32 \<times> u32" where
  "stages q = (lc_currentStage (fst q), lc_nextStage (fst q))"

lemma login_response_stages:
  "run_state (login_response cf rsp data n q) w = ((x, q'), w') \<Longrightarrow> stages q' = stages q"
  by (auto simp: login_response_def stages_def monad_simps Let_def split: if_splits prod.splits)

lemma login_receive_stages:
  "run_state (login_receive cf bound hdr dat n q) w = (Some (e, b, q'), w') \<Longrightarrow> stages q' = stages q"
proof (induction bound arbitrary: hdr dat n q w)
  case 0
  then show ?case by simp
next
  case (Suc bound)
  obtain e1 hdr1 dat1 n1 w1 where rec: "run_state (iSCSIHBAInterfaceReceive (lc_interface (fst q))
      (lc_sessionId (fst q)) (lc_connectionId (fst q)) (Some hdr) dat n) w = ((e1, hdr1, dat1, n1), w1)"
    by (metis prod.exhaust)
  obtain w2 where acc: "run_state (header_accessed 38) w1 = ((), w2)"
    by (metis prod.exhaust unit.exhaust)
  obtain x q3 w3 where rsp: "run_state (login_response cf (login_rsp_of hdr1) dat1 n1 q) w2 = ((x, q3), w3)"
    by (metis prod.exhaust)
  show ?case
    using Suc.prems Suc.IH [of hdr1 dat1 n1 q3 w3] login_response_stages [OF rsp]
    by (auto simp: rec acc rsp monad_simps split: if_splits option.splits)
qed

lemma single_query_stages:
  assumes "run_state (iSCSISessionLoginSingleQuery cf bound q d) w = (Some (e, q'), w')"
  shows "stages q' = stages q"
proof -
  obtain e1 n w1 where send: "run_state (login_send cf (fst q) d) w = ((e1, n), w1)"
    by (metis prod.exhaust)
  obtain hdr w2 where hdr: "run_state uninitialised_header w1 = (hdr, w2)"
    by (rule prod.exhaust)
  obtain r w3 where rec: "run_state (login_receive cf bound hdr None n q) w2 = (r, w3)"
    by (rule prod.exhaust)
  show ?thesis
    using assms login_receive_stages [of cf bound hdr None n q w2] rec
    by (auto simp: iSCSISessionLoginSingleQuery_def send hdr rec monad_simps
        split: if_splits option.splits prod.splits)
qed

lemma login_retry_result:
  assumes "run_state (login_retry cf bound k e0 q) w = (Some (e, (c', st', rsp')), w')"
  shows "(st' = kiSCSILoginSuccess \<longrightarrow> lc_transitNextStage c') \<and>
    stages (c', st', rsp') = stages q \<and> requests (trace w') \<le> requests (trace w) + k"
  using assms
proof (induction k arbitrary: e0 q w)
  case 0
  then show ?case by (cases q) (auto simp: stages_def)
next
  case (Suc k)
  obtain c st rsp where q: "q = (c, st, rsp)" by (cases q)
  obtain r w1 where run: "run_state (iSCSISessionLoginSingleQuery cf bound (c, st, None) None) w = (r, w1)"
    by (rule prod.exhaust)
  note count = single_query_requests [OF run]
  from Suc.prems obtain e1 c1 st1 rsp1 where r: "r = Some (e1, (c1, st1, rsp1))"
    by (cases r) (auto simp: q run monad_simps)
  have same: "stages (c1, st1, rsp) = stages q"
    using single_query_stages [OF run [unfolded r]] by (simp add: stages_def q)
  show ?case
  proof (cases "lc_transitNextStage c1")
    case True
    with Suc.prems same count show ?thesis by (auto simp: q run r monad_simps stages_def)
  next
    case False
    then have "run_state (login_retry cf bound k e1 (c1, st1, rsp)) w1 = (Some (e, (c', st', rsp')), w')"
      using Suc.prems by (simp add: q run r monad_simps)
    from Suc.IH [OF this] same count show ?thesis by auto
  qed
qed


text \<open>C27: a text query never reaches the target. The interface it passes on is the null pointer, so it
  returns \<open>kIOReturnBadArgument\<close>, sends nothing and leaves the dictionary of the response as it is.\<close>

theorem text_query_refused:
  "\<exists>w'. run_state (iSCSISessionTextQuery cf bound sid cid d rsp) w = (Some (kIOReturnBadArgument, rsp), w') \<and>
     wire fd (trace w') = wire fd (trace w)"
proof -
  have create: "wire fd (trace (snd (run_state (iSCSIPDUDataCreateFromDict cf d) w))) = wire fd (trace w)"
    by (rule preservesD [where P = "\<lambda>v. wire fd (trace v) = wire fd (trace w)"])
      (unfold iSCSIPDUDataCreateFromDict_def os_malloc_def, intro preserves_intros preserves_calls, simp_all)
  obtain x v where x: "run_state (iSCSIPDUDataCreateFromDict cf d) w = (x, v)"
    by (rule prod.exhaust)
  show ?thesis
    using create
    by (auto simp: iSCSISessionTextQuery_def x monad_simps iSCSIHBAInterfaceSend_def
        iSCSIPDUDataRelease_def Let_def split: option.split prod.split)
qed

section \<open>A query with one response\<close>

text \<open>The system accepts the next \<open>k\<close> calls in full: no result is below \<open>n\<close>.\<close>

definition accepts :: "nat \<Rightarrow> nat \<Rightarrow> 'z world_scheme \<Rightarrow> bool" where
  "accepts n k w \<longleftrightarrow> (\<forall>t < k. int n \<le> sr_ret (respond w (clock w + t)))"

lemma acceptsD: "accepts n k w \<Longrightarrow> t < k \<Longrightarrow> int n \<le> sr_ret (respond w (clock w + t))"
  by (simp add: accepts_def)

lemma accepts_later:
  "accepts n (j + k) w \<Longrightarrow> respond v = respond w \<Longrightarrow> clock v = clock w + j \<Longrightarrow> accepts n k v"
  using acceptsD [of n "j + k" w "j + t" for t] by (simp add: accepts_def add.assoc)

lemma count_result_accepted: "int n \<le> sr_ret r \<Longrightarrow> len \<le> n \<Longrightarrow> count_result len r = Inr len"
  by (auto simp: count_result_def min_def)

lemma send_dext_accepted:
  assumes "accepts n 2 w" and "length hdr \<le> n" and "padded_length (length data) \<le> n" and "data \<noteq> []"
  shows "\<exists>v. run_state (send_dext sock hdr data) w = (0, v) \<and> respond v = respond w \<and>
    clock v = clock w + 2 \<and> world.more v = world.more w"
proof -
  have both: "int n \<le> sr_ret (respond w (clock w))" "int n \<le> sr_ret (respond w (Suc (clock w)))"
    using acceptsD [OF assms(1), of 0] acceptsD [OF assms(1), of 1] by simp_all
  note ge = padded_length_ge [of "length data"]
  have "length data \<le> n" using assms(3) ge by linarith
  with both assms ge show ?thesis
    by (auto simp: send_dext_def monad_simps answer_def count_result_accepted)
qed

lemma login_send_accepted:
  fixes w :: "'z hba_world_scheme"
  assumes cf: "cf_laws cf" and s: "dext_session w p sid h i"
    and ctx: "lc_interface c = Some p" "lc_sessionId c = sid" "lc_connectionId c = cid"
    and cid: "cid \<noteq> kiSCSIInvalidConnectionId"
    and sock: "dextConnectionSocket (hb_dextSessions h ! i) cid = sock" "0 \<le> sock"
    and d: "dict_valid cf d" and ok: "accepts n 5 w"
    and size: "0 < text_size cf d" "padded_length (text_size cf d) \<le> n" "48 \<le> n"
  shows "\<exists>v. run_state (login_send cf c (Some d)) w = ((0, text_size cf d), v) \<and>
    respond v = respond w \<and> clock v = clock w + 5"
proof -
  let ?n = "text_size cf d"
  let ?v = "called (SysStack 16) (called (SysAlloc (?n + text_padding ?n)) w)"
  let ?hdr = "login_req_bytes (login_request c) @ fixed 16 (sr_bytes (respond w (Suc (clock w))))"
  have data: "length (take ?n (segment_text cf d (sr_bytes (answer w)))) = ?n"
    using written_text_le [OF cf d] by (simp add: segment_text_def)
  have first: "0 \<le> sr_ret (answer w)"
    using acceptsD [OF ok, of 0] by (simp add: answer_def)
  have "accepts n 2 ?v"
    using accepts_later [of n 2 3 w ?v] ok by (simp add: accepts_def)
  moreover have "length (set_data_segment_length ?n ?hdr) \<le> n"
    and "padded_length (length (take ?n (segment_text cf d (sr_bytes (answer w))))) \<le> n"
    using data size by simp_all
  moreover have "take ?n (segment_text cf d (sr_bytes (answer w))) \<noteq> []"
    using data size(1) by (metis list.size(3) less_irrefl)
  ultimately obtain v where "run_state (send_dext sock (set_data_segment_length ?n ?hdr)
      (take ?n (segment_text cf d (sr_bytes (answer w))))) ?v = (0, v)"
    and v: "respond v = respond ?v" "clock v = clock ?v + 2"
    using send_dext_accepted by blast
  from run_login_send [OF cf s ctx cid sock d first refl refl this(1)] v show ?thesis by simp
qed


text \<open>One good response to a query that was accepted, with the time it takes: the six calls of the
  request, two for a header, three for data.\<close>

lemma query_reply:
  fixes w :: "'z hba_world_scheme"
  assumes cf: "cf_laws cf" and s: "dext_session w p sid h i"
    and ctx: "lc_interface c = Some p" "lc_sessionId c = sid" "lc_connectionId c = cid"
    and cid: "cid \<noteq> kiSCSIInvalidConnectionId"
    and sock: "dextConnectionSocket (hb_dextSessions h ! i) cid = sock" "0 \<le> sock"
    and d: "dict_valid cf d" and ok: "accepts n 5 w"
    and size: "0 < text_size cf d" "padded_length (text_size cf d) \<le> n" "48 \<le> n"
    and good: "good_reply False r" and stage: "lc_currentStage c = lc_nextStage c \<or> fst r ! 1 AND kiSCSIPDULoginTransitFlag \<noteq> 0"
    and del: "delivers (reply_image r) (w\<lparr> clock := clock w + 6 \<rparr>)"
  shows "\<exists>w'. run_state (iSCSISessionLoginQuery cf (Suc bound) (c, st, Some d0) (Some d)) w =
      (Some (0, (take_reply (fst r) c, 0, Some (fold add_line (snd r) d0))), w') \<and>
    respond w' = respond w \<and> clock w' = clock w + (if lines_text (snd r) = [] then 8 else 11) \<and>
    dext_session w' p sid h i"
proof -
  let ?txt = "lines_text (snd r)" and ?n = "text_size cf d"
  obtain v where send: "run_state (login_send cf c (Some d)) w = ((0, ?n), v)"
    and v: "respond v = respond w" "clock v = clock w + 5"
    using login_send_accepted [OF cf s ctx cid sock d ok size] by blast
  let ?v = "called (SysStack 48) v" and ?hdr = "fixed 48 (sr_bytes (answer v))"
  have s1: "dext_session ?v p sid h i"
    using dext_session_frame [of ?v w] hbas_framed [OF framed_login_send [OF framed_hbas] send] s by simp
  have "length (fst r) = 48" "length ?txt < 2 ^ 24" using good by (simp_all add: good_reply_def)
  moreover have "delivers (send_image (fst r) ?txt) ?v"
    using del v delivers_frame [of ?v "w\<lparr> clock := clock w + 6 \<rparr>"] by (simp add: reply_image_def)
  ultimately obtain data v2 where rec: "run_state (receive_dext sock ?hdr None ?n) ?v =
      ((0, (set_data_segment_length (length ?txt) (fst r), data, length ?txt)), v2)"
    and data: "?txt = [] \<longrightarrow> data = None"
      "?txt \<noteq> [] \<longrightarrow> (\<exists>b. data = Some b \<and> take (length ?txt) b = ?txt \<and> length ?txt < length b)"
    and v2: "clock v2 = clock ?v + (if ?txt = [] then 2 else 4)"
    using receive_dext_image [of "fst r" ?hdr ?txt ?v sock None ?n] by auto
  have s2: "dext_session v2 p sid h i"
    using dext_session_frame [of v2 ?v] hbas_framed [OF framed_transfer(4) [OF framed_hbas] rec] s1 by simp
  have r2: "respond v2 = respond w"
    using preservesD [OF receive_respond [of "respond ?v" sock ?hdr None ?n] refl] rec v by simp
  have flag: "lp_loginStage (login_rsp_of (set_data_segment_length k (fst r))) = fst r ! 1" for k
    using good by (simp add: login_rsp_of_def set_length_nth good_reply_def)
  have cont: "fst r ! Suc 0 AND kiSCSIPDUTextReqContinueFlag = 0"
    using good by (simp add: good_reply_def)
  have take: "lc_transitNextStage (take_reply (fst r) c) = (fst r ! 1 AND kiSCSIPDULoginTransitFlag \<noteq> 0)"
    by (simp add: take_reply_def)
  let ?c = "take_reply (fst r) c" and ?d = "Some (fold add_line (snd r) d0)"
  have "run_state (login_receive cf (Suc bound) ?hdr None ?n (c, st, Some d0)) ?v =
      (Some (0, data, (?c, 0, ?d)), v2\<lparr> faults := faults v2 @ [OutOfBounds] \<rparr>)"
    by (simp add: monad_simps ctx run_receive [OF s1 cid sock] rec header_accessed_def flag cont
        run_login_response [OF cf good data])
  then obtain w' where "run_state (iSCSISessionLoginSingleQuery cf (Suc bound) (c, st, Some d0) (Some d)) w =
      (Some (0, (?c, 0, ?d)), w')" and w': "respond w' = respond v2" "hbas w' = hbas v2"
      "clock w' = clock v2 + (if data = None then 0 else 1)"
    by (cases "data = None") (simp_all add: iSCSISessionLoginSingleQuery_def send monad_simps
        uninitialised_header_def iSCSIPDUDataRelease_def del: login_receive.simps)
  then have "run_state (iSCSISessionLoginQuery cf (Suc bound) (c, st, Some d0) (Some d)) w =
      (Some (0, (?c, 0, ?d)), w')"
    using stage by (simp add: iSCSISessionLoginQuery_def monad_simps take)
  moreover have "dext_session w' p sid h i"
    using dext_session_frame [OF w'(2)] s2 by simp
  moreover have "clock w' = clock w + (if ?txt = [] then 8 else 11)"
    using w'(3) v2 v(2) data by auto
  ultimately show ?thesis using w'(1) r2 by (intro exI conjI) simp_all
qed

section \<open>Examples\<close>

definition demo_context :: iSCSILoginQueryContext where
  "demo_context = \<lparr> lc_interface = Some 0, lc_sessionId = 0, lc_connectionId = 1, lc_currentStage = 0,
     lc_nextStage = 1, lc_statSN = 0, lc_expCmdSN = 0, lc_targetSessionId = 0, lc_transitNextStage = False \<rparr>"

text \<open>Two responses: one with the continue flag and a line, one with the transit flag and no text.\<close>

definition demo_replies :: "login_reply list" where
  "demo_replies =
     [(0x23 # 0x40 # replicate 46 0, [demo_text ''A=1'']), (0x23 # 0x80 # replicate 46 0, [])]"

definition demo_query_world :: hba_world where
  "demo_query_world = demo_hba_world demo_hba
     [ret_ok, ret_int 48, ret_ok, ret_ok, ret_bytes (take 48 (reply_image (demo_replies ! 0))), ret_ok,
      ret_bytes (drop 48 (reply_image (demo_replies ! 0))), ret_ok,
      ret_bytes (reply_image (demo_replies ! 1))]"

lemma demo_session' [simp]: "dext_session demo_query_world 0 0 demo_hba 0"
  unfolding demo_query_world_def by (rule demo_session)

lemma demo_good_replies: "good_replies demo_replies"
  by (simp add: demo_replies_def good_reply_def text_line_def demo_text_def ascii_text_def lines_text_def)

lemma length_demo_images:
  "length (reply_image (demo_replies ! 0)) = 52" "length (reply_image (demo_replies ! 1)) = 48"
  by (simp_all add: demo_replies_def reply_image_def send_image_def lines_text_def demo_text_def
      text_pad_def padded_length_def)

lemma demo_login_send:
  "\<exists>v. run_state (login_send ascii_cf demo_context None) demo_query_world = ((0, 0), v) \<and>
     respond v = respond demo_query_world \<and> clock v = 2"
proof -
  have s: "dext_session (called (SysStack 16) demo_query_world) 0 0 demo_hba 0"
    by (simp add: dext_session_frame [of _ demo_query_world])
  have "answer (called (SysStack 16) demo_query_world) = ret_int 48"
    by (simp add: second_answer_def demo_query_world_def demo_hba_world_def script_def)
  moreover have "length (login_req_bytes (login_request demo_context) @ fixed 16 bs) = 48" for bs
    by simp
  moreover have "clock demo_query_world = 0"
    by (simp add: demo_query_world_def demo_hba_world_def)
  ultimately show ?thesis
    using dext_sessionD [OF s] demo_socket
    by (simp add: login_send_def iSCSIPDUDataCreateFromDict_def monad_simps cast_header_def
        demo_context_def iSCSIHBAInterfaceSend_def run_load_hba run_with_session [OF s] send_dext_def
        Let_def iSCSIPDUDataRelease_def header_accessed_def count_result_def ret_int_def ret_ok_def)
qed

lemma demo_delivers:
  fixes v :: hba_world
  assumes "respond v = respond demo_query_world" and "clock v = 2"
  shows "delivers_all (map reply_image demo_replies) (called (SysStack 48) v)"
proof -
  have clocks: "(3 :: nat) + 1 = 4" "(3 :: nat) + 2 = 5" "(3 :: nat) + 3 = 6" "(7 :: nat) + 1 = 8"
    "(3 :: nat) + 4 = 7"
    by simp_all
  have resp: "respond demo_query_world 4 = ret_bytes (take 48 (reply_image (demo_replies ! 0)))"
    "respond demo_query_world 5 = ret_ok"
    "respond demo_query_world 6 = ret_bytes (drop 48 (reply_image (demo_replies ! 0)))"
    "respond demo_query_world 8 = ret_bytes (reply_image (demo_replies ! 1))"
    by (simp_all add: demo_query_world_def demo_hba_world_def script_def)
  have "map reply_image demo_replies = [reply_image (demo_replies ! 0), reply_image (demo_replies ! 1)]"
    by (simp add: demo_replies_def)
  moreover have "delivers (reply_image (demo_replies ! 0)) (called (SysStack 48) v)"
    using assms resp length_demo_images clocks
    by (simp add: delivers_def bytes_result_def ret_bytes_def ret_ok_def)
  moreover have "delivers (reply_image (demo_replies ! 1)) ((called (SysStack 48) v)\<lparr> clock := 7 \<rparr>)"
    using assms resp length_demo_images clocks
    by (simp add: delivers_def bytes_result_def ret_bytes_def ret_ok_def)
  ultimately show ?thesis
    using assms length_demo_images by simp
qed

abbreviation demo_context' :: iSCSILoginQueryContext where
  "demo_context' \<equiv> fold (\<lambda>r. take_reply (fst r)) demo_replies demo_context"

lemma demo_context_simps:
  "lc_interface demo_context = Some 0" "lc_sessionId demo_context = 0" "lc_connectionId demo_context = 1"
  "(1 :: u32) \<noteq> kiSCSIInvalidConnectionId" "(0 :: int) \<le> 5" "length demo_replies \<le> 2"
  "lc_transitNextStage demo_context'" "lc_currentStage demo_context' = 0" "lc_nextStage demo_context' = 1"
  by (simp_all add: demo_context_def demo_replies_def take_reply_def)

lemma demo_lines:
  "fold add_line (concat (map snd demo_replies)) [] = [(demo_text ''A'', demo_text ''1'')]"
  by (simp add: demo_replies_def add_line_def cf_add_def key_part_def value_part_def demo_text_def)

theorem login_query_collects_witness:
  "\<exists>w'. run_state (iSCSISessionLoginSingleQuery ascii_cf 2 (demo_context, 7, Some []) None) demo_query_world =
    (Some (0, (demo_context', 0, Some [(demo_text ''A'', demo_text ''1'')])), w')"
proof -
  obtain v where v: "run_state (login_send ascii_cf demo_context None) demo_query_world = ((0, 0), v)"
      "respond v = respond demo_query_world" "clock v = 2"
    using demo_login_send by blast
  show ?thesis
    using login_query_collects [OF ascii_cf_laws demo_session' demo_context_simps(1-4) demo_socket
        demo_context_simps(5) v(1) demo_good_replies demo_context_simps(6) demo_delivers [OF v(2,3)], of 7 "[]"]
    unfolding demo_lines .
qed

theorem login_request_on_wire_witness:
  "\<exists>len w'. run_state (login_send ascii_cf demo_context (Some []))
       (demo_hba_world demo_hba [ret_ok, ret_ok, ret_int 48]) = ((0, len), w') \<and>
     (\<exists>stack. wire 5 (trace w') = send_image (login_req_bytes (login_request demo_context) @ stack) [])"
proof -
  let ?w = "demo_hba_world demo_hba [ret_ok, ret_ok, ret_int 48]"
  have ok: "0 \<le> sr_ret (answer ?w)"
    by (simp add: demo_hba_world_def answer_def script_simps)
  have v: "dict_valid ascii_cf []" by (simp add: dict_valid_def)
  have size: "text_size ascii_cf [] = 0" by (simp add: text_size_def)
  have c: "lc_interface demo_context = Some 0" "lc_sessionId demo_context = 0"
    "lc_connectionId demo_context = 1" "(1 :: u32) \<noteq> kiSCSIInvalidConnectionId"
    by (simp_all add: demo_context_def)
  obtain e len w' where run: "run_state (login_send ascii_cf demo_context (Some [])) ?w = ((e, len), w')"
    by (metis prod.exhaust)
  let ?hdr = "login_req_bytes (login_request demo_context) @ fixed 16 (sr_bytes (respond ?w (Suc (clock ?w))))"
  have "\<exists>v. run_state (send_dext 5 (set_data_segment_length 0 ?hdr)
          (take 0 (segment_text ascii_cf [] (sr_bytes (answer ?w)))))
        (called (SysStack 16) (called (SysAlloc (0 + text_padding 0)) ?w)) = (0, v)"
    by (simp add: send_dext_def monad_simps answer_def count_result_def demo_hba_world_def script_simps)
  then obtain v where "run_state (send_dext 5 (set_data_segment_length 0 ?hdr)
          (take 0 (segment_text ascii_cf [] (sr_bytes (answer ?w)))))
        (called (SysStack 16) (called (SysAlloc (0 + text_padding 0)) ?w)) = (0, v)"
    by blast
  from run_login_send [OF ascii_cf_laws demo_session c demo_socket _ v ok size [symmetric] refl this] run
  have e: "e = 0" and len: "len = 0" by simp_all
  have "wire 5 (trace ?w) = []" by (simp add: demo_hba_world_def)
  with login_request_on_wire [OF ascii_cf_laws demo_session c demo_socket _ v ok run [unfolded e], THEN conjunct2,
      THEN conjunct1] run e len
  show ?thesis by auto
qed


end
