(* ===== verification/Auth.thy ===== *)
theory Auth
  imports QueryTarget
begin

text \<open>
  Authentication: \<open>Source/User/iscsid/iSCSIAuth.c\<close>, with the target and authentication objects of
  \<open>iSCSITypes.c\<close> (dictionaries) and the keys of \<open>iSCSIRFC3720Keys.h\<close>.

  The MD5 routine of CommonCrypto is a parameter, a function from messages to digests. The creation of
  dictionaries is taken not to fail, as Core Foundation aborts when it runs out of memory.
\<close>

section \<open>Dictionaries and strings\<close>

definition cfs :: "string \<Rightarrow> cfstring" where
  "cfs s = map of_char s"

text \<open>\<open>CFDictionaryGetValue\<close>, null for a missing key, and \<open>CFDictionarySetValue\<close>.\<close>

definition cf_get :: "cfstring \<Rightarrow> cfdict \<Rightarrow> cfstring option" where
  "cf_get k d = map_of d k"

definition cf_set :: "cfstring \<Rightarrow> cfstring \<Rightarrow> cfdict \<Rightarrow> cfdict" where
  "cf_set k v d = (if k \<in> fst ` set d then map (\<lambda>(k', v'). (k', if k' = k then v else v')) d
                   else d @ [(k, v)])"

text \<open>\<open>CFStringCompare\<close> for equality, with and without case, and \<open>CFStringFind\<close>: a null pointer
  crashes them.\<close>

definition CFStringEqual :: "cfstring option \<Rightarrow> cfstring option \<Rightarrow> ('z world_scheme, bool) state" where
  "CFStringEqual s t =
     (case (s, t) of
        (Some x, Some y) \<Rightarrow> State_Monad.return (x = y)
      | _ \<Rightarrow> do { fault NullDeref; State_Monad.return False })"

definition CFStringEqualNoCase ::
  "corefoundation \<Rightarrow> cfstring option \<Rightarrow> cfstring option \<Rightarrow> ('z world_scheme, bool) state" where
  "CFStringEqualNoCase cf s t =
     (case (s, t) of
        (Some x, Some y) \<Rightarrow> State_Monad.return (cf_equal_nocase cf x y)
      | _ \<Rightarrow> do { fault NullDeref; State_Monad.return False })"

definition CFStringFindNoCase ::
  "corefoundation \<Rightarrow> cfstring option \<Rightarrow> cfstring option \<Rightarrow> ('z world_scheme, bool) state" where
  "CFStringFindNoCase cf s t =
     (case (s, t) of
        (Some x, Some y) \<Rightarrow> State_Monad.return (cf_find_nocase cf x y)
      | _ \<Rightarrow> do { fault NullDeref; State_Monad.return False })"

definition CFDictionaryAddValue ::
  "cfstring \<Rightarrow> cfstring option \<Rightarrow> cfdict \<Rightarrow> ('z world_scheme, cfdict) state" where
  "CFDictionaryAddValue k v d =
     (case v of
        Some x \<Rightarrow> State_Monad.return (cf_add k x d)
      | None \<Rightarrow> do { fault NullDeref; State_Monad.return d })"

section \<open>Objects\<close>

abbreviation kiSCSITargetIQNKey :: cfstring where "kiSCSITargetIQNKey \<equiv> cfs ''Target Name''"
abbreviation kiSCSITargetAliasKey :: cfstring where "kiSCSITargetAliasKey \<equiv> cfs ''Target Alias''"
abbreviation (input) kiSCSIUnspecifiedTargetIQN :: cfstring where "kiSCSIUnspecifiedTargetIQN \<equiv> []"
abbreviation (input) kiSCSIUnspecifiedTargetAlias :: cfstring where "kiSCSIUnspecifiedTargetAlias \<equiv> []"

type_synonym iSCSITarget = cfdict
type_synonym iSCSIAuth = cfdict

definition iSCSITargetCreateMutable :: iSCSITarget where
  "iSCSITargetCreateMutable =
     cf_set kiSCSITargetAliasKey kiSCSIUnspecifiedTargetAlias
       (cf_set kiSCSITargetIQNKey kiSCSIUnspecifiedTargetIQN [])"

definition iSCSITargetGetIQN :: "iSCSITarget \<Rightarrow> cfstring option" where
  "iSCSITargetGetIQN target = cf_get kiSCSITargetIQNKey target"

definition iSCSITargetSetIQN :: "cfstring option \<Rightarrow> iSCSITarget \<Rightarrow> ('z world_scheme, iSCSITarget) state" where
  "iSCSITargetSetIQN IQN target = do {
     blank \<leftarrow> CFStringEqual IQN (Some []);
     State_Monad.return
       (if blank then target
        else (case IQN of Some s \<Rightarrow> cf_set kiSCSITargetIQNKey s target | None \<Rightarrow> target))
   }"

definition iSCSITargetSetAlias :: "cfstring \<Rightarrow> iSCSITarget \<Rightarrow> iSCSITarget" where
  "iSCSITargetSetAlias alias target = (if alias = [] then target else cf_set kiSCSITargetAliasKey alias target)"

datatype iSCSIAuthMethods = kiSCSIAuthMethodNone | kiSCSIAuthMethodCHAP | kiSCSIAuthMethodInvalid

definition iSCSIAuthCreateNone :: iSCSIAuth where
  "iSCSIAuthCreateNone = [(cfs ''Authentication Method'', cfs ''None'')]"

definition iSCSIAuthCreateCHAP :: "cfstring option \<Rightarrow> cfstring option \<Rightarrow> iSCSIAuth option" where
  "iSCSIAuthCreateCHAP name sharedSecret =
     (case (name, sharedSecret) of
        (Some n, Some s) \<Rightarrow>
          Some [(cfs ''Authentication Method'', cfs ''CHAP''), (cfs ''User'', n), (cfs ''Shared Secret'', s)]
      | _ \<Rightarrow> None)"

definition iSCSIAuthGetMethod :: "iSCSIAuth \<Rightarrow> iSCSIAuthMethods" where
  "iSCSIAuthGetMethod auth =
     (case cf_get (cfs ''Authentication Method'') auth of
        None \<Rightarrow> kiSCSIAuthMethodInvalid
      | Some m \<Rightarrow>
          if m = cfs ''CHAP'' then kiSCSIAuthMethodCHAP
          else if m = cfs ''None'' then kiSCSIAuthMethodNone
          else kiSCSIAuthMethodInvalid)"

text \<open>The two strings are left null unless the method is CHAP.\<close>

definition iSCSIAuthGetCHAPValues :: "iSCSIAuth \<Rightarrow> cfstring option \<times> cfstring option" where
  "iSCSIAuthGetCHAPValues auth =
     (if iSCSIAuthGetMethod auth = kiSCSIAuthMethodCHAP
      then (cf_get (cfs ''User'') auth, cf_get (cfs ''Shared Secret'') auth) else (None, None))"

text \<open>The session manager: of its fields the login code reads the interface. The initiator name and
  alias are globals, not those fields.\<close>

record iSCSISessionManager =
  sm_hbaInterface :: "nat option"
  sm_initiatorName :: cfstring
  sm_initiatorAlias :: cfstring

definition iSCSISessionManagerGetHBAInterface :: "iSCSISessionManager \<Rightarrow> nat option" where
  "iSCSISessionManagerGetHBAInterface managerRef = sm_hbaInterface managerRef"

definition kiSCSIInitiatorIQN :: cfstring where
  "kiSCSIInitiatorIQN = cfs ''iqn.2015-01.com.localhost''"

definition kiSCSIInitiatorAlias :: cfstring where
  "kiSCSIInitiatorAlias = cfs ''default''"

text \<open>Keys and values of RFC 3720.\<close>

abbreviation kRFC3720_Key_InitiatorName :: cfstring where "kRFC3720_Key_InitiatorName \<equiv> cfs ''InitiatorName''"
abbreviation kRFC3720_Key_InitiatorAlias :: cfstring where "kRFC3720_Key_InitiatorAlias \<equiv> cfs ''InitiatorAlias''"
abbreviation kRFC3720_Key_TargetName :: cfstring where "kRFC3720_Key_TargetName \<equiv> cfs ''TargetName''"
abbreviation kRFC3720_Key_TargetAlias :: cfstring where "kRFC3720_Key_TargetAlias \<equiv> cfs ''TargetAlias''"
abbreviation kRFC3720_Key_SessionType :: cfstring where "kRFC3720_Key_SessionType \<equiv> cfs ''SessionType''"
abbreviation kRFC3720_Value_SessionTypeDiscovery :: cfstring where
  "kRFC3720_Value_SessionTypeDiscovery \<equiv> cfs ''Discovery''"
abbreviation kRFC3720_Value_SessionTypeNormal :: cfstring where
  "kRFC3720_Value_SessionTypeNormal \<equiv> cfs ''Normal''"
abbreviation kRFC3720_Key_AuthMethod :: cfstring where "kRFC3720_Key_AuthMethod \<equiv> cfs ''AuthMethod''"
abbreviation kRFC3720_Value_AuthMethodAll :: cfstring where
  "kRFC3720_Value_AuthMethodAll \<equiv> cfs ''None,CHAP,KRB5,SPKM1,SPKM2,SRP''"
abbreviation kRFC3720_Value_AuthMethodNone :: cfstring where "kRFC3720_Value_AuthMethodNone \<equiv> cfs ''None''"
abbreviation kRFC3720_Value_AuthMethodCHAP :: cfstring where "kRFC3720_Value_AuthMethodCHAP \<equiv> cfs ''CHAP''"
abbreviation kRFC3720_Key_AuthCHAPDigest :: cfstring where "kRFC3720_Key_AuthCHAPDigest \<equiv> cfs ''CHAP_A''"
abbreviation kRFC3720_Value_AuthCHAPDigestMD5 :: cfstring where "kRFC3720_Value_AuthCHAPDigestMD5 \<equiv> cfs ''5''"
abbreviation kRFC3720_Key_AuthCHAPId :: cfstring where "kRFC3720_Key_AuthCHAPId \<equiv> cfs ''CHAP_I''"
abbreviation kRFC3720_Key_AuthCHAPChallenge :: cfstring where "kRFC3720_Key_AuthCHAPChallenge \<equiv> cfs ''CHAP_C''"
abbreviation kRFC3720_Key_AuthCHAPResponse :: cfstring where "kRFC3720_Key_AuthCHAPResponse \<equiv> cfs ''CHAP_R''"
abbreviation kRFC3720_Key_AuthCHAPName :: cfstring where "kRFC3720_Key_AuthCHAPName \<equiv> cfs ''CHAP_N''"
abbreviation kRFC3720_Key_TargetPortalGroupTag :: cfstring where
  "kRFC3720_Key_TargetPortalGroupTag \<equiv> cfs ''TargetPortalGroupTag''"

section \<open>Hexadecimal strings\<close>

definition hex_value :: "u8 \<Rightarrow> nat option" where
  "hex_value b =
     (if 48 \<le> b \<and> b \<le> 57 then Some (unat (b - 48))
      else if 97 \<le> b \<and> b \<le> 102 then Some (unat (b - 87))
      else if 65 \<le> b \<and> b \<le> 70 then Some (unat (b - 55))
      else None)"

text \<open>\<open>sscanf\<close> with the conversion \<open>%x\<close> and a field width of one or two: leading white space is
  skipped, a sign takes one place of the field; \<open>None\<close> when nothing is stored. A field that is only
  the prefix \<open>0x\<close> stores zero (the library reads it so).\<close>

definition is_space :: "u8 \<Rightarrow> bool" where
  "is_space b \<longleftrightarrow> b = 32 \<or> (9 \<le> b \<and> b \<le> 13)"

definition scan_hex :: "nat \<Rightarrow> u8 list \<Rightarrow> int option" where
  "scan_hex width s =
     (case take width (dropWhile is_space s) of
        [] \<Rightarrow> None
      | [a] \<Rightarrow> map_option int (hex_value a)
      | a # b # _ \<Rightarrow>
          (case (hex_value a, hex_value b) of
             (Some x, Some y) \<Rightarrow> Some (int (16 * x + y))
           | (Some x, None) \<Rightarrow> Some (int x)
           | (None, Some y) \<Rightarrow>
               if a = 43 then Some (int y) else if a = 45 then Some (- int y) else None
           | (None, None) \<Rightarrow> None))"

text \<open>One conversion: \<open>bytes[byteIdx] = buffer\<close>, where \<open>buffer\<close> keeps its value when \<open>sscanf\<close> stores
  nothing. The scan stops at a null; when there is none before the end of the buffer, it runs out of it.\<close>

definition hex_step ::
  "u8 list \<Rightarrow> nat \<Rightarrow> nat \<Rightarrow> u8 list \<times> nat \<times> int \<Rightarrow> ('z world_scheme, u8 list \<times> nat \<times> int) state" where
  "hex_step buf width idx st =
     (let (bytes, byteIdx, buffer) = st;
          buffer = (case scan_hex width (takeWhile (\<lambda>b. b \<noteq> 0) (drop idx buf)) of
                      Some v \<Rightarrow> v | None \<Rightarrow> buffer)
      in do {
        (if 0 \<in> set (drop idx buf) then State_Monad.return () else fault OutOfBounds);
        (if byteIdx < length bytes then State_Monad.return () else fault OutOfBounds);
        State_Monad.return (bytes[byteIdx := word_of_int buffer], byteIdx + 1, buffer)
      })"

primrec hex_pairs ::
  "u8 list \<Rightarrow> nat list \<Rightarrow> u8 list \<times> nat \<times> int \<Rightarrow> ('z world_scheme, u8 list \<times> nat \<times> int) state" where
  "hex_pairs buf [] st = State_Monad.return st"
| "hex_pairs buf (idx # is) st = do { st \<leftarrow> hex_step buf 2 idx st; hex_pairs buf is st }"

text \<open>The buffer has room for the string and four more bytes: \<open>sizeof('\0')\<close> is the size of an \<open>int\<close>.
  Its other bytes are what the stack held.\<close>

definition hex_buffer :: "corefoundation \<Rightarrow> cfstring \<Rightarrow> ('z world_scheme, u8 list) state" where
  "hex_buffer cf hexString = do {
     let hexStringLength = cf_length cf hexString + 4;
     r \<leftarrow> sys (SysStack hexStringLength);
     let stack = fixed hexStringLength (sr_bytes r);
     State_Monad.return
       (if ascii_text hexString \<and> length hexString < hexStringLength
        then poke 0 (hexString @ [0]) stack
        else poke 0 (take hexStringLength (cf_partial cf hexString hexStringLength)) stack)
   }"

definition CFDataCreateWithHexString ::
  "corefoundation \<Rightarrow> cfstring option \<Rightarrow> ('z world_scheme, u8 list option) state" where
  "CFDataCreateWithHexString cf hexString =
     (case hexString of
        None \<Rightarrow> State_Monad.return None
      | Some s \<Rightarrow> do {
          buf \<leftarrow> hex_buffer cf s;
          let hexStringLength = cf_length cf s + 4;
          let byteLength = cf_length cf s;
          let (startIndex, byteLength) =
            (if buf ! 0 = 48 \<and> buf ! 1 = 120 then (2, byteLength - 2)
             else if buf ! 0 = 120 then (1, byteLength - 1) else (0, byteLength));
          let byteLength = (byteLength + 1) div 2;
          let st = (replicate byteLength 0, 0, 0);
          (startIndex, st) \<leftarrow>
            (if hexStringLength mod 2 \<noteq> 0 then do {
               st \<leftarrow> hex_step buf 1 startIndex st;
               State_Monad.return (startIndex + 1, st)
             }
             else State_Monad.return (startIndex, st));
          (bytes, _, _) \<leftarrow> hex_pairs buf
            (map (\<lambda>j. startIndex + 2 * j) [0..<(hexStringLength - startIndex + 1) div 2]) st;
          State_Monad.return (Some bytes)
        })"

definition hex_char :: "nat \<Rightarrow> u8" where
  "hex_char d = (if d < 10 then of_nat (48 + d) else of_nat (87 + d))"

text \<open>\<open>%02x\<close>.\<close>

definition hex_byte :: "u8 \<Rightarrow> cfstring" where
  "hex_byte b = [hex_char (unat b div 16), hex_char (unat b mod 16)]"

definition CreateHexStringWithBytes :: "u8 list \<Rightarrow> cfstring" where
  "CreateHexStringWithBytes bytes = cfs ''0x'' @ concat (map hex_byte bytes)"

section \<open>CHAP\<close>

text \<open>\<open>CFStringGetLength(secret)\<close> bytes of the buffer that holds the secret in ASCII are hashed.\<close>

definition iSCSIAuthNegotiateCHAPCreateResponse ::
  "corefoundation \<Rightarrow> (u8 list \<Rightarrow> u8 list) \<Rightarrow> cfstring \<Rightarrow> cfstring \<Rightarrow> cfstring \<Rightarrow>
   ('z world_scheme, cfstring) state" where
  "iSCSIAuthNegotiateCHAPCreateResponse cf md5 identifier secret challenge = do {
     secretBuffer \<leftarrow> hex_buffer cf secret;
     challengeData \<leftarrow> CFDataCreateWithHexString cf (Some challenge);
     let message = word_of_int (cf_int cf identifier) # take (cf_length cf secret) secretBuffer @
       (case challengeData of Some d \<Rightarrow> d | None \<Rightarrow> []);
     State_Monad.return (CreateHexStringWithBytes (md5 message))
   }"

text \<open>Bytes of \<open>/dev/random\<close>; a file that cannot be opened is a null pointer.\<close>

definition random_bytes :: "nat \<Rightarrow> ('z world_scheme, u8 list) state" where
  "random_bytes n = do {
     r \<leftarrow> sys SysRandom;
     (if sr_ret r < 0 then fault NullDeref else State_Monad.return ());
     State_Monad.return (fixed n (sr_bytes r))
   }"

definition iSCSIAuthNegotiateCHAPCreateChallenge :: "('z world_scheme, cfstring) state" where
  "iSCSIAuthNegotiateCHAPCreateChallenge = do {
     challenge \<leftarrow> random_bytes 16;
     State_Monad.return (CreateHexStringWithBytes challenge)
   }"

definition iSCSIAuthNegotiateCHAPCreateId :: "('z world_scheme, cfstring) state" where
  "iSCSIAuthNegotiateCHAPCreateId = do {
     bytes \<leftarrow> random_bytes 1;
     State_Monad.return (decimal (unat (bytes ! 0)))
   }"

text \<open>A context in automatic storage: the fields that are not assigned hold what the stack held.\<close>

definition stack_context ::
  "nat option \<Rightarrow> SessionIdentifier \<Rightarrow> ConnectionIdentifier \<Rightarrow> u32 \<Rightarrow> u32 \<Rightarrow> u16 \<Rightarrow>
   ('z world_scheme, iSCSILoginQueryContext) state" where
  "stack_context interface sessionId connectionId currentStage nextStage targetSessionId = do {
     r \<leftarrow> sys (SysStack 9);
     let old = fixed 9 (sr_bytes r);
     State_Monad.return \<lparr> lc_interface = interface, lc_sessionId = sessionId,
       lc_connectionId = connectionId, lc_currentStage = currentStage, lc_nextStage = nextStage,
       lc_statSN = le32_at 0 old, lc_expCmdSN = le32_at 4 old, lc_targetSessionId = targetSessionId,
       lc_transitNextStage = (old ! 8 \<noteq> 0) \<rparr>
   }"

text \<open>The answer to the target's challenge, when we have a name and a secret and the target sent an
  identifier and a challenge.\<close>

definition chap_answer ::
  "corefoundation \<Rightarrow> (u8 list \<Rightarrow> u8 list) \<Rightarrow> cfstring option \<times> cfstring option \<Rightarrow> cfdict \<Rightarrow>
   ('z world_scheme, cfdict) state" where
  "chap_answer cf md5 initiator authRsp =
     (case initiator of
        (Some initiatorUser, Some initiatorSecret) \<Rightarrow>
          (case (cf_get kRFC3720_Key_AuthCHAPId authRsp, cf_get kRFC3720_Key_AuthCHAPChallenge authRsp) of
             (Some identifier, Some challenge) \<Rightarrow> do {
               response \<leftarrow> iSCSIAuthNegotiateCHAPCreateResponse cf md5 identifier initiatorSecret challenge;
               let authCmd = cf_add kRFC3720_Key_AuthCHAPResponse response [];
               State_Monad.return (cf_add kRFC3720_Key_AuthCHAPName initiatorUser authCmd)
             }
           | _ \<Rightarrow> State_Monad.return [])
      | _ \<Rightarrow> State_Monad.return [])"

text \<open>Our challenge to the target, when it has a name and a secret: the identifier and challenge sent,
  and the command with them.\<close>

definition chap_challenge ::
  "cfstring option \<times> cfstring option \<Rightarrow> cfdict \<Rightarrow>
   ('z world_scheme, (cfstring \<times> cfstring) option \<times> cfdict) state" where
  "chap_challenge target authCmd =
     (case target of
        (Some targetUser, Some targetSecret) \<Rightarrow> do {
          identifier \<leftarrow> iSCSIAuthNegotiateCHAPCreateId;
          challenge \<leftarrow> iSCSIAuthNegotiateCHAPCreateChallenge;
          let authCmd = cf_add kRFC3720_Key_AuthCHAPId identifier authCmd;
          State_Monad.return (Some (identifier, challenge),
            cf_add kRFC3720_Key_AuthCHAPChallenge challenge authCmd)
        }
      | _ \<Rightarrow> State_Monad.return (None, authCmd))"

text \<open>The target's answer against the one we expect. Any non-null answer is expected here:
  \<open>iSCSIAuthNegotiateCHAPCreateResponse\<close> never returns null.\<close>

definition chap_check ::
  "corefoundation \<Rightarrow> (u8 list \<Rightarrow> u8 list) \<Rightarrow> cfstring option \<Rightarrow> (cfstring \<times> cfstring) option \<Rightarrow>
   cfdict \<Rightarrow> ('z world_scheme, errno_t) state" where
  "chap_check cf md5 targetSecret sent authRsp =
     (case (targetSecret, sent) of
        (Some secret, Some (identifier, challenge)) \<Rightarrow> do {
          expResponse \<leftarrow> iSCSIAuthNegotiateCHAPCreateResponse cf md5 identifier secret challenge;
          State_Monad.return
            (case cf_get kRFC3720_Key_AuthCHAPResponse authRsp of
               Some response \<Rightarrow> if cf_equal_nocase cf response expResponse then 0 else EAUTH
             | None \<Rightarrow> EAUTH)
        }
      | _ \<Rightarrow> State_Monad.return 0)"

definition save_alias :: "errno_t \<Rightarrow> cfdict \<Rightarrow> iSCSITarget \<Rightarrow> iSCSITarget" where
  "save_alias error rsp target =
     (if error = 0
      then (case cf_get kRFC3720_Key_TargetAlias rsp of
              Some targetAlias \<Rightarrow> iSCSITargetSetAlias targetAlias target | None \<Rightarrow> target)
      else target)"

text \<open>The result: the error, the status code and the target; \<open>None\<close> when a query has not ended
  within the bound.\<close>

definition the_dict :: "cfdict option \<Rightarrow> cfdict" where
  "the_dict d = (case d of Some x \<Rightarrow> x | None \<Rightarrow> [])"

definition iSCSIAuthNegotiateCHAP ::
  "corefoundation \<Rightarrow> (u8 list \<Rightarrow> u8 list) \<Rightarrow> nat \<Rightarrow> iSCSISessionManager \<Rightarrow> iSCSITarget \<Rightarrow> iSCSIAuth \<Rightarrow>
   iSCSIAuth \<Rightarrow> SessionIdentifier \<Rightarrow> ConnectionIdentifier \<Rightarrow> u16 \<Rightarrow> u32 \<Rightarrow>
   ('z hba_world_scheme, (errno_t \<times> u32 \<times> iSCSITarget) option) state" where
  "iSCSIAuthNegotiateCHAP cf md5 bound managerRef target initiatorAuth targetAuth sessionId connectionId
     targetSessionId statusCode = do {
     let authCmd = cf_add kRFC3720_Key_AuthCHAPDigest kRFC3720_Value_AuthCHAPDigestMD5 [];
     context \<leftarrow> stack_context (iSCSISessionManagerGetHBAInterface managerRef) sessionId connectionId
        kiSCSIPDUSecurityNegotiation kiSCSIPDUSecurityNegotiation targetSessionId;
     result \<leftarrow> iSCSISessionLoginQuery cf bound (context, statusCode, Some []) (Some authCmd);
     (case result of
        None \<Rightarrow> State_Monad.return None
      | Some (error, (context, statusCode, authRsp)) \<Rightarrow>
          if error \<noteq> 0 \<or> statusCode \<noteq> kiSCSILoginSuccess
          then State_Monad.return (Some (error, statusCode, target))
          else do {
            let initiator = iSCSIAuthGetCHAPValues initiatorAuth;
            let targetValues = iSCSIAuthGetCHAPValues targetAuth;
            authCmd \<leftarrow> chap_answer cf md5 initiator (the_dict authRsp);
            (sent, authCmd) \<leftarrow> chap_challenge targetValues authCmd;
            let context = context\<lparr> lc_nextStage := kiSCSIPDULoginOperationalNegotiation \<rparr>;
            result \<leftarrow> iSCSISessionLoginQuery cf bound (context, statusCode, authRsp) (Some authCmd);
            (case result of
               None \<Rightarrow> State_Monad.return None
             | Some (error, (context, statusCode, authRsp)) \<Rightarrow> do {
                 let error = (if statusCode \<noteq> kiSCSILoginSuccess then EAUTH else error);
                 error \<leftarrow> (if error = 0 then chap_check cf md5 (snd targetValues) sent (the_dict authRsp)
                           else State_Monad.return error);
                 State_Monad.return (Some (error, statusCode, save_alias error (the_dict authRsp) target))
               })
          })
   }"

section \<open>Negotiation\<close>

definition iSCSIAuthNegotiateBuildDict ::
  "iSCSITarget \<Rightarrow> iSCSIAuth \<Rightarrow> iSCSIAuth \<Rightarrow> ('z world_scheme, cfdict) state" where
  "iSCSIAuthNegotiateBuildDict target initiatorAuth targetAuth = do {
     let targetIQN = iSCSITargetGetIQN target;
     discovery \<leftarrow> CFStringEqual targetIQN (Some kiSCSIUnspecifiedTargetIQN);
     authCmd \<leftarrow>
       (if discovery
        then State_Monad.return (cf_add kRFC3720_Key_SessionType kRFC3720_Value_SessionTypeDiscovery [])
        else CFDictionaryAddValue kRFC3720_Key_TargetName targetIQN
               (cf_add kRFC3720_Key_SessionType kRFC3720_Value_SessionTypeNormal []));
     let authCmd = cf_add kRFC3720_Key_InitiatorName kiSCSIInitiatorIQN authCmd;
     let authCmd = cf_add kRFC3720_Key_InitiatorAlias kiSCSIInitiatorAlias authCmd;
     let methods =
       (if iSCSIAuthGetMethod initiatorAuth = kiSCSIAuthMethodCHAP
        then if iSCSIAuthGetMethod targetAuth = kiSCSIAuthMethodNone
             then kRFC3720_Value_AuthMethodNone @ cfs '','' @ kRFC3720_Value_AuthMethodCHAP
             else kRFC3720_Value_AuthMethodCHAP
        else kRFC3720_Value_AuthMethodNone);
     State_Monad.return (cf_add kRFC3720_Key_AuthMethod methods authCmd)
   }"

abbreviation (input) kiSCSIHBASOTargetPortalGroupTag :: nat where "kiSCSIHBASOTargetPortalGroupTag \<equiv> 12"
abbreviation (input) kiSCSIHBASOTargetSessionId :: nat where "kiSCSIHBASOTargetSessionId \<equiv> 11"
abbreviation (input) kiSCSIHBACOInitialExpStatSN :: nat where "kiSCSIHBACOInitialExpStatSN \<equiv> 8"

text \<open>A parameter of two bytes, zero when it cannot be read.\<close>

definition get_u16_parameter ::
  "nat option \<Rightarrow> SessionIdentifier \<Rightarrow> nat \<Rightarrow> ('z hba_world_scheme, u16) state" where
  "get_u16_parameter interface sessionId parameter = do {
     (_, bytes) \<leftarrow> iSCSIHBAInterfaceGetSessionParameter interface sessionId parameter True 2;
     State_Monad.return (case bytes of Some bs \<Rightarrow> le16_at 0 bs | None \<Rightarrow> 0)
   }"

text \<open>The check of the portal group tag: \<open>Some\<close> the error with which the function is left.\<close>

definition check_portal_group ::
  "corefoundation \<Rightarrow> nat option \<Rightarrow> SessionIdentifier \<Rightarrow> u16 \<Rightarrow> cfdict \<Rightarrow>
   ('z hba_world_scheme, errno_t option) state" where
  "check_portal_group cf hbaInterface sessionId targetSessionId authRsp =
     (case cf_get kRFC3720_Key_TargetPortalGroupTag authRsp of
        None \<Rightarrow> State_Monad.return (Some EAUTH)
      | Some targetPortalGroupRsp \<Rightarrow>
          if targetSessionId = 0 then do {
            let targetPortalGroupTag = word_of_int (cf_int cf targetPortalGroupRsp);
            iSCSIHBAInterfaceSetSessionParameter hbaInterface sessionId kiSCSIHBASOTargetPortalGroupTag
              (Some (le16_bytes targetPortalGroupTag));
            State_Monad.return None
          }
          else do {
            targetPortalGroupTag \<leftarrow>
              get_u16_parameter hbaInterface sessionId kiSCSIHBASOTargetPortalGroupTag;
            State_Monad.return
              (if uint targetPortalGroupTag \<noteq> cf_int cf targetPortalGroupRsp then Some 0 else None)
          })"

text \<open>From the choice of the method on, which the target has made in its response.\<close>

definition negotiate_method ::
  "corefoundation \<Rightarrow> (u8 list \<Rightarrow> u8 list) \<Rightarrow> nat \<Rightarrow> iSCSISessionManager \<Rightarrow> iSCSITarget \<Rightarrow> iSCSIAuth \<Rightarrow>
   iSCSIAuth \<Rightarrow> SessionIdentifier \<Rightarrow> ConnectionIdentifier \<Rightarrow> u16 \<Rightarrow> iSCSILoginQueryContext \<Rightarrow> u32 \<Rightarrow>
   cfdict \<Rightarrow> ('z hba_world_scheme, (errno_t \<times> u32 \<times> iSCSITarget) option) state" where
  "negotiate_method cf md5 bound managerRef target initiatorAuth targetAuth sessionId connectionId
     targetSessionId context statusCode authRsp =
     (let authValue = cf_get kRFC3720_Key_AuthMethod authRsp in
      if authValue = Some kRFC3720_Value_AuthMethodCHAP then do {
        result \<leftarrow> iSCSIAuthNegotiateCHAP cf md5 bound managerRef target initiatorAuth targetAuth sessionId
          connectionId targetSessionId statusCode;
        (case result of
           None \<Rightarrow> State_Monad.return None
         | Some (error, statusCode, target) \<Rightarrow>
             if error \<noteq> 0 \<or> statusCode \<noteq> kiSCSILoginSuccess
             then State_Monad.return (Some (error, statusCode, target))
             else State_Monad.return (Some (0, statusCode, save_alias error authRsp target)))
      }
      else if authValue = Some kRFC3720_Value_AuthMethodNone then do {
        let context = context\<lparr> lc_nextStage := kiSCSIPDULoginOperationalNegotiation \<rparr>;
        result \<leftarrow> iSCSISessionLoginQuery cf bound (context, statusCode, None) None;
        (case result of
           None \<Rightarrow> State_Monad.return None
         | Some (_, (_, statusCode, _)) \<Rightarrow>
             if statusCode \<noteq> kiSCSILoginSuccess then State_Monad.return (Some (0, statusCode, target))
             else State_Monad.return (Some (0, statusCode, save_alias 0 authRsp target)))
      }
      else State_Monad.return (Some (0, statusCode, save_alias 0 authRsp target)))"

definition iSCSIAuthNegotiate ::
  "corefoundation \<Rightarrow> (u8 list \<Rightarrow> u8 list) \<Rightarrow> nat \<Rightarrow> iSCSISessionManager \<Rightarrow> iSCSITarget \<Rightarrow> iSCSIAuth \<Rightarrow>
   iSCSIAuth \<Rightarrow> SessionIdentifier \<Rightarrow> ConnectionIdentifier \<Rightarrow> u32 \<Rightarrow>
   ('z hba_world_scheme, (errno_t \<times> u32 \<times> iSCSITarget) option) state" where
  "iSCSIAuthNegotiate cf md5 bound managerRef target initiatorAuth targetAuth sessionId connectionId
     statusCode = do {
     let hbaInterface = iSCSISessionManagerGetHBAInterface managerRef;
     authCmd \<leftarrow> iSCSIAuthNegotiateBuildDict target initiatorAuth targetAuth;
     targetSessionId \<leftarrow> get_u16_parameter hbaInterface sessionId kiSCSIHBASOTargetSessionId;
     context \<leftarrow> stack_context hbaInterface sessionId connectionId kiSCSIPDUSecurityNegotiation
        kiSCSIPDUSecurityNegotiation targetSessionId;
     result \<leftarrow> iSCSISessionLoginQuery cf bound (context, statusCode, Some []) (Some authCmd);
     (case result of
        None \<Rightarrow> State_Monad.return None
      | Some (error, (context, statusCode, rsp)) \<Rightarrow>
          if error \<noteq> 0 \<or> statusCode \<noteq> kiSCSILoginSuccess
          then State_Monad.return (Some (error, statusCode, target))
          else do {
            let authRsp = the_dict rsp;
            iSCSIHBAInterfaceSetConnectionParameter hbaInterface sessionId connectionId
              kiSCSIHBACOInitialExpStatSN (Some (le32_bytes (lc_statSN context + 1)));
            discovery \<leftarrow> CFStringEqual (iSCSITargetGetIQN target) (Some kiSCSIUnspecifiedTargetIQN);
            left \<leftarrow> (if \<not> discovery
                    then check_portal_group cf hbaInterface sessionId targetSessionId authRsp
                    else State_Monad.return None);
            (case left of
               Some error \<Rightarrow> State_Monad.return (Some (error, statusCode, target))
             | None \<Rightarrow> do {
                 offered \<leftarrow> CFStringFindNoCase cf (cf_get kRFC3720_Key_AuthMethod authCmd)
                   (cf_get kRFC3720_Key_AuthMethod authRsp);
                 if \<not> offered then State_Monad.return (Some (EAUTH, statusCode, target))
                 else negotiate_method cf md5 bound managerRef target initiatorAuth targetAuth sessionId
                   connectionId targetSessionId context statusCode authRsp
               })
          })
   }"

section \<open>Interrogation\<close>

text \<open>The authentication method the target asks for. The pointer arguments are not null; the method is
  \<open>None\<close> when it is not written.\<close>

definition iSCSIAuthInterrogate ::
  "corefoundation \<Rightarrow> nat \<Rightarrow> iSCSISessionManager \<Rightarrow> iSCSITarget option \<Rightarrow> SessionIdentifier \<Rightarrow>
   ConnectionIdentifier \<Rightarrow> bool \<Rightarrow> u32 \<Rightarrow>
   ('z hba_world_scheme, (errno_t \<times> u32 \<times> iSCSIAuthMethods option) option) state" where
  "iSCSIAuthInterrogate cf bound managerRef target sessionId connectionId has_method statusCode =
     (case target of
        None \<Rightarrow> State_Monad.return (Some (EINVAL, statusCode, None))
      | Some t \<Rightarrow>
          if sessionId = kiSCSIInvalidSessionId \<or> connectionId = kiSCSIInvalidConnectionId \<or> \<not> has_method
          then State_Monad.return (Some (EINVAL, statusCode, None))
          else do {
            let authCmd = cf_add kRFC3720_Key_SessionType kRFC3720_Value_SessionTypeNormal [];
            authCmd \<leftarrow> CFDictionaryAddValue kRFC3720_Key_TargetName (iSCSITargetGetIQN t) authCmd;
            let authCmd = cf_add kRFC3720_Key_InitiatorName kiSCSIInitiatorIQN authCmd;
            let authCmd = cf_add kRFC3720_Key_InitiatorAlias kiSCSIInitiatorAlias authCmd;
            let authCmd = cf_add kRFC3720_Key_AuthMethod kRFC3720_Value_AuthMethodAll authCmd;
            context \<leftarrow> stack_context (iSCSISessionManagerGetHBAInterface managerRef) sessionId connectionId
               kiSCSIPDUSecurityNegotiation kiSCSIPDUSecurityNegotiation 0;
            result \<leftarrow> iSCSISessionLoginQuery cf bound (context, statusCode, Some []) (Some authCmd);
            State_Monad.return (case result of
               None \<Rightarrow> None
             | Some (error, (context, statusCode, authRsp)) \<Rightarrow>
                 let authMethod =
                   (if error = 0 \<and> statusCode = kiSCSILoginSuccess
                    then (case cf_get kRFC3720_Key_AuthMethod (the_dict authRsp) of
                            None \<Rightarrow> kiSCSIAuthMethodNone
                          | Some m \<Rightarrow>
                              if m = kRFC3720_Value_AuthMethodCHAP then kiSCSIAuthMethodCHAP
                              else if m = kRFC3720_Value_AuthMethodNone then kiSCSIAuthMethodNone
                              else kiSCSIAuthMethodInvalid)
                    else kiSCSIAuthMethodInvalid)
                 in Some (error, statusCode, Some authMethod))
          })"

end
