(* ===== verification/AuthProps.thy ===== *)
theory AuthProps
  imports Auth QueryProps
begin

text \<open>
  Properties of the authentication code: hexadecimal strings, the CHAP response, and what a successful
  negotiation says about the target.
\<close>

section \<open>Hexadecimal strings\<close>

lemma length_cfs [simp]: "length (cfs s) = length s"
  by (simp add: cfs_def)

lemma hex_char_value: "d < 16 \<Longrightarrow> hex_value (hex_char d) = Some d"
proof -
  have "\<forall>d \<in> {..<16}. hex_value (hex_char d) = Some d"
    by (simp add: lessThan_nat_numeral lessThan_Suc hex_char_def hex_value_def)
  then show "d < 16 \<Longrightarrow> hex_value (hex_char d) = Some d" by blast
qed

lemma hex_char_ascii: "d < 16 \<Longrightarrow> hex_char d < 0x80 \<and> hex_char d \<noteq> 0 \<and> \<not> is_space (hex_char d)"
proof -
  have "\<forall>d \<in> {..<16}. hex_char d < 0x80 \<and> hex_char d \<noteq> 0 \<and> \<not> is_space (hex_char d)"
    by (simp add: lessThan_nat_numeral lessThan_Suc hex_char_def is_space_def)
  then show "d < 16 \<Longrightarrow> hex_char d < 0x80 \<and> hex_char d \<noteq> 0 \<and> \<not> is_space (hex_char d)" by blast
qed

lemma hex_digits: "unat (b :: u8) div 16 < 16" "unat b mod 16 < 16"
proof -
  have "unat b < 256" using unsigned_less [of b] by simp
  then show "unat b div 16 < 16" by linarith
qed simp

lemma scan_hex_byte: "scan_hex 2 (takeWhile (\<lambda>b. b \<noteq> 0) (hex_byte b @ rest)) = Some (int (unat b))"
proof -
  note d = hex_char_value [OF hex_digits(1), of b] hex_char_value [OF hex_digits(2), of b]
    hex_char_ascii [OF hex_digits(1), of b] hex_char_ascii [OF hex_digits(2), of b]
  have "16 * (unat b div 16) + unat b mod 16 = unat b" by simp
  then show ?thesis
    using d by (simp add: scan_hex_def hex_byte_def numeral_2_eq_2)
qed

lemma length_hex_bytes [simp]: "length (concat (map hex_byte bs)) = 2 * length bs"
  by (induction bs) (simp_all add: hex_byte_def)

lemma hex_string_ascii: "ascii_text (CreateHexStringWithBytes bs)"
  using hex_char_ascii hex_digits
  by (auto simp: CreateHexStringWithBytes_def ascii_text_def hex_byte_def cfs_def)

lemma length_hex_string: "length (CreateHexStringWithBytes bs) = 2 * length bs + 2"
  by (simp add: CreateHexStringWithBytes_def)

text \<open>The conversions of the digits of \<open>bs\<close>, behind \<open>pre\<close>.\<close>

lemma hex_pairs_bytes:
  fixes w :: "'z world_scheme"
  assumes "buf = pre @ concat (map hex_byte bs) @ 0 # rest"
    and "is = map (\<lambda>j. length pre + 2 * j) [0..<length bs]" and "length out = length donebs + length bs"
    and "take (length donebs) out = donebs"
  shows "\<exists>v. run_state (hex_pairs buf is (out, length donebs, v0)) w = ((donebs @ bs, length donebs + length bs, v), w)"
  using assms
proof (induction bs arbitrary: pre "is" out donebs v0)
  case Nil
  then show ?case by simp
next
  case (Cons b bs)
  have idx: "is = length pre # map (\<lambda>j. length (pre @ hex_byte b) + 2 * j) [0..<length bs]"
    using Cons.prems(2) by (simp add: upt_conv_Cons map_Suc_upt [symmetric] hex_byte_def del: upt_Suc)
  have at: "drop (length pre) buf = hex_byte b @ concat (map hex_byte bs) @ 0 # rest"
    using Cons.prems(1) by simp
  have v: "word_of_int (int (unat b)) = b" by simp
  have "length donebs < length out" using Cons.prems(3) by simp
  then have step: "run_state (hex_step buf 2 (length pre) (out, length donebs, v0)) w =
      ((out[length donebs := b], Suc (length donebs), int (unat b)), w)"
    unfolding hex_step_def at scan_hex_byte by (simp add: v monad_simps)
  let ?out = "out[length donebs := b]"
  have take: "take (length (donebs @ [b])) ?out = donebs @ [b]"
    using Cons.prems(3,4) by (simp add: take_Suc_conv_app_nth take_update_swap)
  have len: "length ?out = length (donebs @ [b]) + length bs"
    using Cons.prems(3) by simp
  have buf: "buf = (pre @ hex_byte b) @ concat (map hex_byte bs) @ 0 # rest"
    using Cons.prems(1) by simp
  from Cons.IH [OF buf refl len take, of "int (unat b)"] show ?case
    by (simp add: idx step monad_simps)
qed

lemma hex_pairs_append:
  "run_state (hex_pairs buf (xs @ ys) st) w =
     (case run_state (hex_pairs buf xs st) w of (st, w) \<Rightarrow> run_state (hex_pairs buf ys st) w)"
  by (induction xs arbitrary: st w) (simp_all split: prod.split)

text \<open>The buffer of an ASCII string.\<close>

lemma run_hex_buffer:
  assumes "cf_laws cf" and "ascii_text s"
  shows "\<exists>stack. length stack = 3 \<and> run_state (hex_buffer cf s) w =
    (s @ 0 # stack, called (SysStack (length s + 4)) w)"
proof -
  have "cf_length cf s = length s" using assms by (simp add: cf_laws_def)
  moreover have "poke 0 (s @ [0]) (fixed (length s + 4) bs) =
      s @ 0 # drop (length s + 1) (fixed (length s + 4) bs)" for bs
    by (simp add: poke_def)
  moreover have "length (drop (length s + 1) (fixed (length s + 4) bs)) = 3" for bs by simp
  ultimately show ?thesis
    using assms(2) by (auto simp: hex_buffer_def Let_def)
qed

text \<open>A round behind the end of the data.\<close>

lemma hex_step_past:
  assumes "length bytes \<le> byteIdx"
  shows "\<exists>v'. run_state (hex_step buf 2 idx (bytes, byteIdx, v)) w =
    ((bytes, Suc byteIdx, v'), w\<lparr> faults := faults w @
       (if 0 \<in> set (drop idx buf) then [] else [OutOfBounds]) @ [OutOfBounds] \<rparr>)"
  using assms by (simp add: hex_step_def monad_simps Let_def list_update_beyond)

lemma decode_hex_string:
  fixes w :: "'z world_scheme"
  assumes cf: "cf_laws cf"
  shows "\<exists>w' more. run_state (CFDataCreateWithHexString cf (Some (CreateHexStringWithBytes bs))) w =
      (Some bs, w') \<and>
    faults w' = faults w @ OutOfBounds # more @ [OutOfBounds] \<and> respond w' = respond w \<and>
    clock w' = Suc (clock w) \<and> trace w' = trace w @ [(SysStack (2 * length bs + 6), answer w)] \<and>
    world.more w' = world.more w"
proof -
  let ?s = "CreateHexStringWithBytes bs" and ?k = "length bs"
  obtain stack where stack: "length stack = 3" and buf: "run_state (hex_buffer cf ?s) w =
      (?s @ 0 # stack, called (SysStack (length ?s + 4)) w)"
    using run_hex_buffer [OF cf hex_string_ascii] by blast
  let ?buf = "?s @ 0 # stack" and ?w = "called (SysStack (length ?s + 4)) w"
  have len: "cf_length cf ?s = 2 * ?k + 2"
    using cf hex_string_ascii by (simp add: cf_laws_def length_hex_string)
  have prefix: "?buf ! 0 = 48" "?buf ! 1 = 120"
    by (simp_all add: CreateHexStringWithBytes_def cfs_def)
  have rounds: "(2 * ?k + 2 + 4 - 2 + 1) div 2 = ?k + 2" by simp
  have "?buf = cfs ''0x'' @ concat (map hex_byte bs) @ 0 # stack"
    by (simp add: CreateHexStringWithBytes_def)
  from hex_pairs_bytes [OF this refl, of "replicate ?k 0" "[]" 0 ?w]
  obtain v where main: "run_state (hex_pairs ?buf (map (\<lambda>j. 2 + 2 * j) [0..<?k]) (replicate ?k 0, 0, 0)) ?w =
      ((bs, ?k, v), ?w)"
    by auto
  have idx: "map (\<lambda>j. 2 + 2 * j) [0..<?k + 2] = map (\<lambda>j. 2 + 2 * j) [0..<?k] @ [2 + 2 * ?k, 2 + 2 * Suc ?k]"
    by simp
  have "0 \<in> set (drop (2 + 2 * ?k) ?buf)"
    using length_hex_string [of bs] by simp
  with hex_step_past [of bs ?k ?buf "2 + 2 * ?k" v ?w]
  obtain v1 where one: "run_state (hex_step ?buf 2 (2 + 2 * ?k) (bs, ?k, v)) ?w =
      ((bs, Suc ?k, v1), ?w\<lparr> faults := faults ?w @ [OutOfBounds] \<rparr>)"
    by auto
  let ?more = "if 0 \<in> set (drop (2 + 2 * Suc ?k) ?buf) then [] else [OutOfBounds]"
  obtain v2 where two: "run_state (hex_step ?buf 2 (2 + 2 * Suc ?k) (bs, Suc ?k, v1))
        (?w\<lparr> faults := faults ?w @ [OutOfBounds] \<rparr>) =
      ((bs, Suc (Suc ?k), v2), ?w\<lparr> faults := faults ?w @ OutOfBounds # ?more @ [OutOfBounds] \<rparr>)"
    using hex_step_past [of bs "Suc ?k" ?buf "2 + 2 * Suc ?k" v1 "?w\<lparr> faults := faults ?w @ [OutOfBounds] \<rparr>"]
    by auto
  have last: "run_state (hex_pairs ?buf (map (\<lambda>j. 2 + 2 * j) [0..<?k + 2]) (replicate ?k 0, 0, 0)) ?w =
      ((bs, Suc (Suc ?k), v2), ?w\<lparr> faults := faults ?w @ OutOfBounds # ?more @ [OutOfBounds] \<rparr>)"
    unfolding idx hex_pairs_append main by (simp only: prod.case hex_pairs.simps run_state_bind one two run_state_return)
  show ?thesis
  proof (intro exI conjI)
    show "run_state (CFDataCreateWithHexString cf (Some ?s)) w =
        (Some bs, ?w\<lparr> faults := faults ?w @ OutOfBounds # ?more @ [OutOfBounds] \<rparr>)"
      using last prefix rounds
      by (simp add: CFDataCreateWithHexString_def monad_simps buf len Let_def del: upt_Suc)
  qed (simp_all add: length_hex_string)
qed

text \<open>C26: hexadecimal strings round-trip. What \<open>CreateHexStringWithBytes\<close> prints, \<open>CFDataCreateWithHexString\<close>
  reads back, for any bytes. But the buffer is four bytes longer than the string, so the loop goes round
  twice more and writes two bytes behind the data.\<close>

theorem hex_roundtrip:
  assumes "cf_laws cf"
  shows "\<exists>w' more. run_state (CFDataCreateWithHexString cf (Some (CreateHexStringWithBytes bs))) w =
      (Some bs, w') \<and> faults w' = faults w @ OutOfBounds # more @ [OutOfBounds]"
  using decode_hex_string [OF assms] by blast

theorem hex_roundtrip_witness:
  "\<exists>w'. run_state (CFDataCreateWithHexString ascii_cf (Some (cfs ''0x0aff''))) (text_world []) =
    (Some [0x0A, 0xFF], w')"
proof -
  have "CreateHexStringWithBytes [0x0A, 0xFF] = cfs ''0x0aff''"
    by (simp add: CreateHexStringWithBytes_def hex_byte_def hex_char_def cfs_def)
  with hex_roundtrip [OF ascii_cf_laws, of "[0x0A, 0xFF]" "text_world []"] show ?thesis by auto
qed

section \<open>Decimal identifiers\<close>

lemma numeral_value_snoc: "numeral_value (s @ [b]) = 10 * numeral_value s + (unat b - 48)"
  by (simp add: numeral_value_def)

lemma decimal_digit: "d < 10 \<Longrightarrow> 48 \<le> (of_nat (48 + d) :: u8) \<and> (of_nat (48 + d) :: u8) \<le> 57 \<and>
    unat (of_nat (48 + d) :: u8) = 48 + d"
proof -
  have "\<forall>d \<in> {..<10}. 48 \<le> (of_nat (48 + d) :: u8) \<and> (of_nat (48 + d) :: u8) \<le> 57 \<and>
    unat (of_nat (48 + d) :: u8) = 48 + d"
    by (simp add: lessThan_nat_numeral lessThan_Suc)
  then show "d < 10 \<Longrightarrow> 48 \<le> (of_nat (48 + d) :: u8) \<and> (of_nat (48 + d) :: u8) \<le> 57 \<and>
    unat (of_nat (48 + d) :: u8) = 48 + d" by blast
qed

lemma decimal_numeral: "numeral_text (decimal n) \<and> numeral_value (decimal n) = n"
proof (induction n rule: decimal.induct)
  case (1 n)
  show ?case
  proof (cases "n < 10")
    case True
    then show ?thesis
      using decimal_digit [of n]
      by (simp add: decimal.simps [of n] numeral_text_def numeral_value_def)
  next
    case False
    have "n mod 10 < 10" by simp
    from decimal_digit [OF this] 1 False show ?thesis
      by (simp add: decimal.simps [of n] numeral_text_def numeral_value_snoc)
  qed
qed

lemma cf_int_decimal: "cf_text_laws cf \<Longrightarrow> n < 2 ^ 31 \<Longrightarrow> cf_int cf (decimal n) = int n"
  using decimal_numeral [of n] by (simp add: cf_text_laws_def)

section \<open>The CHAP response\<close>

lemma run_chap_response:
  fixes w :: "'z world_scheme"
  assumes cf: "cf_laws cf" "cf_text_laws cf" and secret: "ascii_text secret" and n: "n < 256"
  shows "\<exists>w'. run_state (iSCSIAuthNegotiateCHAPCreateResponse cf md5 (decimal n) secret
        (CreateHexStringWithBytes challenge)) w =
      (CreateHexStringWithBytes (md5 (of_nat n # secret @ challenge)), w') \<and>
    respond w' = respond w \<and> world.more w' = world.more w \<and> (\<exists>tr. trace w' = trace w @ tr)"
proof -
  obtain stack where "run_state (hex_buffer cf secret) w =
      (secret @ 0 # stack, called (SysStack (length secret + 4)) w)"
    using run_hex_buffer [OF cf(1) secret] by blast
  moreover have "cf_length cf secret = length secret"
    using cf(1) secret by (simp add: cf_laws_def)
  moreover have "cf_int cf (decimal n) = int n"
    using cf_int_decimal [OF cf(2)] n by simp
  ultimately show ?thesis
    using decode_hex_string [OF cf(1), of challenge "called (SysStack (length secret + 4)) w"]
    by (auto simp: iSCSIAuthNegotiateCHAPCreateResponse_def monad_simps Let_def)
qed

text \<open>C25: the CHAP response. For an identifier below 256, a secret in ASCII and a challenge in the
  hexadecimal form of RFC 3720, the response is the hexadecimal form of the MD5 digest of the
  identifier byte, the secret and the challenge bytes, in this order (RFC 1994).\<close>

theorem chap_response:
  fixes w :: "'z world_scheme"
  assumes "cf_laws cf" and "cf_text_laws cf" and "ascii_text secret" and "n < 256"
  shows "fst (run_state (iSCSIAuthNegotiateCHAPCreateResponse cf md5 (decimal n) secret
        (CreateHexStringWithBytes challenge)) w) =
      CreateHexStringWithBytes (md5 (of_nat n # secret @ challenge))"
  using run_chap_response [OF assms, of md5 challenge w] by auto

theorem chap_response_witness:
  "fst (run_state (iSCSIAuthNegotiateCHAPCreateResponse ascii_cf (take 3) (cfs ''65'') (cfs ''secret'')
      (cfs ''0x0102'')) (text_world [])) = cfs ''0x417365''"
proof -
  have "decimal 65 = cfs ''65''" "CreateHexStringWithBytes [1, 2] = cfs ''0x0102''"
    by (simp_all add: decimal.simps cfs_def CreateHexStringWithBytes_def hex_byte_def hex_char_def)
  moreover have "ascii_text (cfs ''secret'')" by (simp add: ascii_text_def cfs_def)
  moreover have "CreateHexStringWithBytes (take 3 (of_nat 65 # cfs ''secret'' @ [1, 2])) = cfs ''0x417365''"
    by (simp add: cfs_def CreateHexStringWithBytes_def hex_byte_def hex_char_def)
  ultimately show ?thesis
    using chap_response [OF ascii_cf_laws ascii_cf_text_laws, of "cfs ''secret''" 65 "take 3" "[1, 2]" "text_world []"]
    by simp
qed

section \<open>Mutual authentication\<close>

lemma cf_get_None: "cf_get k d = None \<longleftrightarrow> k \<notin> fst ` set d"
  by (simp add: cf_get_def map_of_eq_None_iff)

lemma cf_get_append: "cf_get k (d @ [(k', v)]) = (case cf_get k d of Some x \<Rightarrow> Some x | None \<Rightarrow>
    if k = k' then Some v else None)"
  by (auto simp: cf_get_def map_add_def split: option.split)

lemma cf_get_add:
  "cf_get k (cf_add k' v d) = (if k = k' \<and> cf_get k' d = None then Some v else cf_get k d)"
proof (cases "cf_get k' d")
  case None
  then have "cf_add k' v d = d @ [(k', v)]"
    by (simp add: cf_add_def cf_get_None)
  with None show ?thesis by (simp add: cf_get_append split: option.split)
next
  case (Some x)
  then have "k' \<in> fst ` set d"
    using cf_get_None [of k' d] by auto
  with Some show ?thesis by (simp add: cf_add_def)
qed

lemma cf_get_Nil [simp]: "cf_get k [] = None"
  by (simp add: cf_get_def)

text \<open>The keys of the CHAP exchange are different.\<close>

lemma chap_keys [simp]:
  "kRFC3720_Key_AuthCHAPId \<noteq> kRFC3720_Key_AuthCHAPResponse"
  "kRFC3720_Key_AuthCHAPId \<noteq> kRFC3720_Key_AuthCHAPName"
  "kRFC3720_Key_AuthCHAPChallenge \<noteq> kRFC3720_Key_AuthCHAPResponse"
  "kRFC3720_Key_AuthCHAPChallenge \<noteq> kRFC3720_Key_AuthCHAPName"
  "kRFC3720_Key_AuthCHAPChallenge \<noteq> kRFC3720_Key_AuthCHAPId"
  "kRFC3720_Key_AuthCHAPId \<noteq> kRFC3720_Key_AuthCHAPChallenge"
  by (simp_all add: cfs_def)

lemma chap_answer_keys:
  "run_state (chap_answer cf md5 initiator rsp) w = (cmd, w') \<Longrightarrow>
     cf_get kRFC3720_Key_AuthCHAPId cmd = None \<and> cf_get kRFC3720_Key_AuthCHAPChallenge cmd = None"
  by (auto simp: chap_answer_def monad_simps cf_get_add Let_def split: option.splits prod.splits)

lemma run_chap_challenge:
  assumes "cf_get kRFC3720_Key_AuthCHAPId cmd = None" and "cf_get kRFC3720_Key_AuthCHAPChallenge cmd = None"
  shows "\<exists>n ch cmd' v. run_state (chap_challenge (Some u, Some s) cmd) w =
      ((Some (decimal n, CreateHexStringWithBytes ch), cmd'), v) \<and>
    n = unat (fixed 1 (sr_bytes (answer w)) ! 0) \<and> ch = fixed 16 (sr_bytes (second_answer w)) \<and>
    cf_get kRFC3720_Key_AuthCHAPId cmd' = Some (decimal n) \<and>
    cf_get kRFC3720_Key_AuthCHAPChallenge cmd' = Some (CreateHexStringWithBytes ch) \<and>
    trace v = trace w @ [(SysRandom, answer w), (SysRandom, second_answer w)]"
  using assms
  by (simp add: chap_challenge_def iSCSIAuthNegotiateCHAPCreateId_def
      iSCSIAuthNegotiateCHAPCreateChallenge_def random_bytes_def monad_simps Let_def cf_get_add
      second_answer_def answer_def del: decimal.simps)

text \<open>What a successful exchange went through: the second query, with our challenge in its command and
  the target's answer in its response.\<close>

lemma chap_exchange:
  fixes w :: "'z hba_world_scheme"
  assumes run: "run_state (iSCSIAuthNegotiateCHAP cf md5 bound m target ia ta sid cid tsih st) w =
      (Some (0, kiSCSILoginSuccess, target'), w')"
    and ta: "iSCSIAuthGetCHAPValues ta = (Some u, Some s)"
  obtains n ch cmd q and v0 :: "'z hba_world_scheme" and v c' rsp v' where
    "n = unat (fixed 1 (sr_bytes (answer v0)) ! 0)" "ch = fixed 16 (sr_bytes (second_answer v0))"
    "trace v = trace v0 @ [(SysRandom, answer v0), (SysRandom, second_answer v0)]"
    "cf_get kRFC3720_Key_AuthCHAPId cmd = Some (decimal n)"
    "cf_get kRFC3720_Key_AuthCHAPChallenge cmd = Some (CreateHexStringWithBytes ch)"
    "run_state (iSCSISessionLoginQuery cf bound q (Some cmd)) v = (Some (0, (c', kiSCSILoginSuccess, rsp)), v')"
    "run_state (chap_check cf md5 (Some s) (Some (decimal n, CreateHexStringWithBytes ch)) (the_dict rsp)) v' =
      (0, w')"
proof -
  obtain c w1 where c: "run_state (stack_context (iSCSISessionManagerGetHBAInterface m) sid cid
      kiSCSIPDUSecurityNegotiation kiSCSIPDUSecurityNegotiation tsih) w = (c, w1)"
    by (rule prod.exhaust)
  let ?cmd1 = "cf_add kRFC3720_Key_AuthCHAPDigest kRFC3720_Value_AuthCHAPDigestMD5 []"
  obtain r1 w2 where q1: "run_state (iSCSISessionLoginQuery cf bound (c, st, Some []) (Some ?cmd1)) w1 = (r1, w2)"
    by (rule prod.exhaust)
  obtain e1 c1 st1 rsp1 where r1: "r1 = Some (e1, (c1, st1, rsp1))"
    using run by (cases r1) (auto simp: iSCSIAuthNegotiateCHAP_def c q1 monad_simps Let_def)
  have ok: "e1 = 0" "st1 = kiSCSILoginSuccess"
    using run by (auto simp: iSCSIAuthNegotiateCHAP_def c q1 r1 monad_simps Let_def split: if_splits)
  obtain cmd2 w3 where a: "run_state (chap_answer cf md5 (iSCSIAuthGetCHAPValues ia) (the_dict rsp1)) w2 =
      (cmd2, w3)"
    by (rule prod.exhaust)
  from chap_answer_keys [OF a] run_chap_challenge [of cmd2 u s w3]
  obtain n ch cmd v where ch: "run_state (chap_challenge (Some u, Some s) cmd2) w3 =
      ((Some (decimal n, CreateHexStringWithBytes ch), cmd), v)"
    and parts: "n = unat (fixed 1 (sr_bytes (answer w3)) ! 0)" "ch = fixed 16 (sr_bytes (second_answer w3))"
      "trace v = trace w3 @ [(SysRandom, answer w3), (SysRandom, second_answer w3)]"
    and keys: "cf_get kRFC3720_Key_AuthCHAPId cmd = Some (decimal n)"
      "cf_get kRFC3720_Key_AuthCHAPChallenge cmd = Some (CreateHexStringWithBytes ch)"
    by auto
  let ?c = "c1\<lparr> lc_nextStage := kiSCSIPDULoginOperationalNegotiation \<rparr>"
  obtain r2 v' where q2: "run_state (iSCSISessionLoginQuery cf bound (?c, kiSCSILoginSuccess, rsp1) (Some cmd)) v = (r2, v')"
    by (rule prod.exhaust)
  note steps = c q1 r1 ok a ch q2 ta
  obtain e2 c2 st2 rsp2 where r2: "r2 = Some (e2, (c2, st2, rsp2))"
    using run by (cases r2) (auto simp: iSCSIAuthNegotiateCHAP_def steps monad_simps Let_def)
  obtain e3 w4 where check: "run_state (if (if st2 \<noteq> kiSCSILoginSuccess then EAUTH else e2) = 0
      then chap_check cf md5 (Some s) (Some (decimal n, CreateHexStringWithBytes ch)) (the_dict rsp2)
      else State_Monad.return (if st2 \<noteq> kiSCSILoginSuccess then EAUTH else e2)) v' = (e3, w4)"
    by (rule prod.exhaust)
  have fin: "e3 = 0" "st2 = kiSCSILoginSuccess" "w4 = w'"
    using run check
    by (auto simp: iSCSIAuthNegotiateCHAP_def steps r2 monad_simps Let_def split: if_splits prod.splits)
  then have "e2 = 0" and "run_state (chap_check cf md5 (Some s)
      (Some (decimal n, CreateHexStringWithBytes ch)) (the_dict rsp2)) v' = (0, w')"
    using check by (auto split: if_splits)
  then show ?thesis
    using that [OF parts keys q2 [unfolded r2 fin(2) \<open>e2 = 0\<close>]] fin by simp
qed


section \<open>Examples\<close>

text \<open>A target that answers the CHAP exchange, for a digest that is empty. The two random numbers are
  zero, and the answer is the one expected.\<close>

definition chap_replies :: "login_reply list" where
  "chap_replies =
     [(0x23 # replicate 47 0, []), (0x23 # 0x81 # replicate 46 0, [cfs ''CHAP_R=0x''])]"

definition chap_world :: hba_world where
  "chap_world = demo_hba_world demo_hba
     (replicate 8 (ret_int 100000) @ [ret_bytes (reply_image (chap_replies ! 0))] @
      replicate 9 (ret_int 100000) @ [ret_bytes (take 48 (reply_image (chap_replies ! 1))),
      ret_ok, ret_bytes (drop 48 (reply_image (chap_replies ! 1)))])"

definition demo_manager :: iSCSISessionManager where
  "demo_manager = \<lparr> sm_hbaInterface = Some 0, sm_initiatorName = [], sm_initiatorAlias = [] \<rparr>"

abbreviation demo_target_auth :: iSCSIAuth where
  "demo_target_auth \<equiv> [(cfs ''Authentication Method'', cfs ''CHAP''), (cfs ''User'', cfs ''t''),
     (cfs ''Shared Secret'', cfs ''s'')]"

lemma demo_target_values: "iSCSIAuthGetCHAPValues demo_target_auth = (Some (cfs ''t''), Some (cfs ''s''))"
  by (simp add: iSCSIAuthGetCHAPValues_def iSCSIAuthGetMethod_def cf_get_def cfs_def)

lemma chap_world_answers:
  "respond chap_world = script (replicate 8 (ret_int 100000) @ [ret_bytes (reply_image (chap_replies ! 0))] @
      replicate 9 (ret_int 100000) @ [ret_bytes (take 48 (reply_image (chap_replies ! 1))),
      ret_ok, ret_bytes (drop 48 (reply_image (chap_replies ! 1)))])"
  "clock chap_world = 0"
  by (simp_all add: chap_world_def demo_hba_world_def)

lemma chap_world_accepts:
  "t < 8 \<or> 9 \<le> t \<and> t < 18 \<Longrightarrow> respond chap_world t = ret_int 100000"
  by (auto simp: chap_world_answers script_def nth_append)

lemma chap_world_session: "dext_session chap_world 0 0 demo_hba 0"
  unfolding chap_world_def by (rule demo_session)

lemma chap_good: "good_reply False (chap_replies ! 0)" "good_reply False (chap_replies ! 1)"
  by (simp_all add: chap_replies_def good_reply_def text_line_def cfs_def ascii_text_def lines_text_def)

lemma chap_images: "length (reply_image (chap_replies ! 0)) = 48" "length (reply_image (chap_replies ! 1)) = 60"
  by (simp_all add: chap_replies_def reply_image_def send_image_def lines_text_def cfs_def
      text_pad_def padded_length_def)

lemma chap_delivers:
  fixes v :: hba_world
  assumes "respond v = respond chap_world"
  shows "clock v = 7 \<Longrightarrow> delivers (reply_image (chap_replies ! 0)) v"
    and "clock v = 17 \<Longrightarrow> delivers (reply_image (chap_replies ! 1)) v"
  using chap_images
  by (auto simp: delivers_def assms chap_world_answers script_def nth_append bytes_result_def ret_bytes_def ret_ok_def)

lemma demo_ids: "(0 :: SessionIdentifier) \<noteq> kiSCSIInvalidSessionId" "(1 :: u32) \<noteq> kiSCSIInvalidConnectionId"
  "(0 :: int) \<le> 5"
  by simp_all

lemma chap_first_query:
  obtains c v where "run_state (stack_context (Some 0) 0 1 0 0 0) chap_world = (c, called (SysStack 9) chap_world)"
    "lc_interface c = Some 0" "lc_sessionId c = 0" "lc_connectionId c = 1" "lc_currentStage c = 0"
    "run_state (iSCSISessionLoginQuery ascii_cf 1 (c, 0, Some []) (Some [(cfs ''CHAP_A'', cfs ''5'')]))
       (called (SysStack 9) chap_world) =
     (Some (0, (take_reply (fst (chap_replies ! 0)) c, 0, Some [])), v)"
    "respond v = respond chap_world" "clock v = 9" "dext_session v 0 0 demo_hba 0"
proof -
  obtain c where c: "run_state (stack_context (Some 0) 0 1 0 0 0) chap_world = (c, called (SysStack 9) chap_world)"
    "lc_interface c = Some 0" "lc_sessionId c = 0" "lc_connectionId c = 1" "lc_currentStage c = 0"
    "lc_nextStage c = 0"
    by (simp add: stack_context_def Let_def)
  let ?w = "called (SysStack 9) chap_world"
  have s: "dext_session ?w 0 0 demo_hba 0"
    using dext_session_frame [of ?w chap_world] chap_world_session by simp
  have d: "dict_valid ascii_cf [(cfs ''CHAP_A'', cfs ''5'')]"
    "text_size ascii_cf [(cfs ''CHAP_A'', cfs ''5'')] = 9"
    by (simp_all add: dict_valid_def ascii_cf_def ascii_text_def cfs_def text_size_def)
  have ok: "accepts 100000 5 ?w"
    by (simp add: accepts_def chap_world_answers(2) chap_world_accepts) (simp add: ret_int_def)
  have stage: "lc_currentStage c = lc_nextStage c \<or> fst (chap_replies ! 0) ! 1 AND kiSCSIPDULoginTransitFlag \<noteq> 0"
    using c by simp
  have del: "delivers (reply_image (chap_replies ! 0)) (?w\<lparr> clock := clock ?w + 6 \<rparr>)"
    by (rule chap_delivers) (simp_all add: chap_world_answers(2))
  have "lines_text (snd (chap_replies ! 0)) = []" "snd (chap_replies ! 0) = []"
    by (simp_all add: chap_replies_def lines_text_def)
  with query_reply [OF ascii_cf_laws s c(2-4) demo_ids(2) demo_socket demo_ids(3) d(1) ok _ _ _ chap_good(1) stage del,
      of 0 0 "[]"] d(2) that c chap_world_answers(2)
  show ?thesis by (auto simp: padded_length_def)
qed

lemma decimal_zero: "decimal 0 = cfs ''0''"
  by (simp add: decimal.simps cfs_def)

lemma chap_second_query:
  fixes v :: hba_world
  assumes v: "respond v = respond chap_world" "clock v = 11" "dext_session v 0 0 demo_hba 0"
    and c: "lc_interface c = Some 0" "lc_sessionId c = 0" "lc_connectionId c = 1"
  obtains w' where "run_state (iSCSISessionLoginQuery ascii_cf 1 (c, 0, Some [])
      (Some [(cfs ''CHAP_I'', cfs ''0''), (cfs ''CHAP_C'', CreateHexStringWithBytes (replicate 16 0))])) v =
    (Some (0, (take_reply (fst (chap_replies ! 1)) c, 0, Some [(cfs ''CHAP_R'', cfs ''0x'')])), w')"
proof -
  let ?d = "[(cfs ''CHAP_I'', cfs ''0''), (cfs ''CHAP_C'', CreateHexStringWithBytes (replicate 16 0))]"
  have d: "dict_valid ascii_cf ?d" "text_size ascii_cf ?d = 51"
    using hex_string_ascii [of "replicate 16 0"]
    by (simp_all add: dict_valid_def ascii_cf_def text_size_def length_hex_string)
      (simp_all add: ascii_text_def cfs_def)
  have ok: "accepts 100000 5 v"
    by (simp add: accepts_def v chap_world_accepts) (simp add: ret_int_def)
  have stage: "lc_currentStage c = lc_nextStage c \<or> fst (chap_replies ! 1) ! 1 AND kiSCSIPDULoginTransitFlag \<noteq> 0"
    by (simp add: chap_replies_def)
  have del: "delivers (reply_image (chap_replies ! 1)) (v\<lparr> clock := clock v + 6 \<rparr>)"
    by (rule chap_delivers) (simp_all add: v)
  have "fold add_line (snd (chap_replies ! 1)) [] = [(cfs ''CHAP_R'', cfs ''0x'')]"
    by (simp add: chap_replies_def add_line_def cf_add_def key_part_def value_part_def cfs_def)
  with query_reply [OF ascii_cf_laws v(3) c demo_ids(2) demo_socket demo_ids(3) d(1) ok _ _ _ chap_good(2) stage del,
      of 0 0 "[]"] d(2) that
  show ?thesis by (auto simp: padded_length_def)
qed

lemma chap_exchange_succeeds:
  obtains w' where "run_state (iSCSIAuthNegotiateCHAP ascii_cf (\<lambda>_. []) 1 demo_manager [] iSCSIAuthCreateNone
    demo_target_auth 0 1 0 0) chap_world = (Some (0, 0, []), w')"
proof -
  obtain c v where c: "run_state (stack_context (Some 0) 0 1 0 0 0) chap_world = (c, called (SysStack 9) chap_world)"
    "lc_interface c = Some 0" "lc_sessionId c = 0" "lc_connectionId c = 1"
    and q1: "run_state (iSCSISessionLoginQuery ascii_cf 1 (c, 0, Some []) (Some [(cfs ''CHAP_A'', cfs ''5'')]))
       (called (SysStack 9) chap_world) =
     (Some (0, (take_reply (fst (chap_replies ! 0)) c, 0, Some [])), v)"
    and v: "respond v = respond chap_world" "clock v = 9" "dext_session v 0 0 demo_hba 0"
    by (rule chap_first_query)
  let ?c = "(take_reply (fst (chap_replies ! 0)) c)\<lparr> lc_nextStage := kiSCSIPDULoginOperationalNegotiation \<rparr>"
  let ?v = "called SysRandom (called SysRandom v)"
  have cmd: "cf_add kRFC3720_Key_AuthCHAPDigest kRFC3720_Value_AuthCHAPDigestMD5 [] = [(cfs ''CHAP_A'', cfs ''5'')]"
    by (simp add: cf_add_def)
  have "fixed n (sr_bytes (respond v 9)) = replicate n 0" "fixed n (sr_bytes (respond v 10)) = replicate n 0" for n
    using v chap_world_accepts [of 9] chap_world_accepts [of 10]
    by (simp_all add: fixed_def ret_int_def ret_ok_def)
  then have ch: "run_state (chap_challenge (Some (cfs ''t''), Some (cfs ''s'')) []) v =
      ((Some (decimal 0, CreateHexStringWithBytes (replicate 16 0)),
        [(cfs ''CHAP_I'', cfs ''0''), (cfs ''CHAP_C'', CreateHexStringWithBytes (replicate 16 0))]), ?v)"
    using v chap_world_accepts [of 9] chap_world_accepts [of 10]
    by (simp add: chap_challenge_def iSCSIAuthNegotiateCHAPCreateId_def
        iSCSIAuthNegotiateCHAPCreateChallenge_def random_bytes_def monad_simps Let_def cf_add_def
        answer_def second_answer_def decimal_zero ret_int_def ret_ok_def chap_keys [symmetric] del: decimal.simps)
  have s: "dext_session ?v 0 0 demo_hba 0"
    using dext_session_frame [of ?v v] v by simp
  have cs: "lc_interface ?c = Some 0" "lc_sessionId ?c = 0" "lc_connectionId ?c = 1"
    using c by simp_all
  have time: "respond ?v = respond chap_world" "clock ?v = 11" using v by simp_all
  obtain v' where q2: "run_state (iSCSISessionLoginQuery ascii_cf 1 (?c, 0, Some [])
      (Some [(cfs ''CHAP_I'', cfs ''0''), (cfs ''CHAP_C'', CreateHexStringWithBytes (replicate 16 0))])) ?v =
    (Some (0, (take_reply (fst (chap_replies ! 1)) ?c, 0, Some [(cfs ''CHAP_R'', cfs ''0x'')])), v')"
    by (rule chap_second_query [OF time s cs])
  have a: "run_state (chap_answer ascii_cf (\<lambda>_. []) (iSCSIAuthGetCHAPValues iSCSIAuthCreateNone) d) v = ([], v)" for d
    by (simp add: chap_answer_def iSCSIAuthGetCHAPValues_def iSCSIAuthCreateNone_def iSCSIAuthGetMethod_def
        cf_get_def cfs_def)
  have "ascii_text (cfs ''s'')" by (simp add: ascii_text_def cfs_def)
  from run_chap_response [OF ascii_cf_laws ascii_cf_text_laws this, of 0 "\<lambda>_. []" "replicate 16 0" v']
  obtain w' where "run_state (iSCSIAuthNegotiateCHAPCreateResponse ascii_cf (\<lambda>_. []) (decimal 0) (cfs ''s'')
      (CreateHexStringWithBytes (replicate 16 0))) v' = (cfs ''0x'', w')"
    by (auto simp: CreateHexStringWithBytes_def)
  then have check: "run_state (chap_check ascii_cf (\<lambda>_. []) (Some (cfs ''s''))
      (Some (decimal 0, CreateHexStringWithBytes (replicate 16 0))) [(cfs ''CHAP_R'', cfs ''0x'')]) v' = (0, w')"
    by (simp add: chap_check_def monad_simps cf_get_def ascii_cf_def)
  have "cf_get kRFC3720_Key_TargetAlias [(cfs ''CHAP_R'', cfs ''0x'')] = None"
    by (simp add: cf_get_def cfs_def)
  then have "run_state (iSCSIAuthNegotiateCHAP ascii_cf (\<lambda>_. []) 1 demo_manager [] iSCSIAuthCreateNone
    demo_target_auth 0 1 0 0) chap_world = (Some (0, 0, []), w')"
    using c(1) q1 ch q2 check
    by (simp add: iSCSIAuthNegotiateCHAP_def monad_simps Let_def demo_manager_def cmd a demo_target_values
        iSCSISessionManagerGetHBAInterface_def the_dict_def save_alias_def del: decimal.simps)
  with that show ?thesis .
qed


section \<open>The choice of the method\<close>

lemma request_count_hbas [simp]:
  fixes w :: "'z hba_world_scheme"
  shows "request_count k (w\<lparr> hbas := H \<rparr>) = request_count k w"
  by (simp add: request_count_def)

lemma uncounted_forward [uncounted]:
  "preserves (request_count k) (dext_execute_scalar ipc cmd xs)"
  "preserves (request_count k) (set_entry p i e)"
  "preserves (request_count k) (kext_call h f xs)"
  "preserves (request_count k) (param_in bs)"
  "preserves (request_count k) (param_out v n)"
  unfolding dext_execute_scalar_def dext_execute_command_def kext_call_def IOConnectCallMethod_def
    set_entry_def store_hba_def load_hba_def load_ipc_def param_in_def param_out_def
  by (intro preserves_intros preserves_calls preserves_modify; simp)+

lemma uncounted_parameters [uncounted]:
  "preserves (request_count k) (iSCSIHBAInterfaceSetSessionParameter i sid n v)"
  "preserves (request_count k) (iSCSIHBAInterfaceSetConnectionParameter i sid cid n v)"
  "preserves (request_count k) (iSCSIHBAInterfaceGetSessionParameter i sid n b m)"
  unfolding iSCSIHBAInterfaceSetSessionParameter_def iSCSIHBAInterfaceSetConnectionParameter_def
    iSCSIHBAInterfaceGetSessionParameter_def IOConnectCallMethod_def
    DextIPCSetSessionParam_def DextIPCSetConnectionParam_def with_session_def
  by (intro preserves_intros uncounted preserves_calls; simp)+

lemma uncountedD:
  assumes "\<And>k. preserves (request_count k) m" and "run_state m w = (r, w')"
  shows "requests (trace w') = requests (trace w)"
  using preservesD [OF assms(1), of "requests (trace w)" w] assms(2) by (simp add: request_count_def)

text \<open>What is done after the first query, when the target's method is neither CHAP nor None.\<close>

lemma negotiate_other_method:
  assumes "cf_get kRFC3720_Key_AuthMethod rsp = Some m"
    and "m \<noteq> kRFC3720_Value_AuthMethodCHAP" and "m \<noteq> kRFC3720_Value_AuthMethodNone"
  shows "negotiate_method cf md5 bound M target ia ta sid cid tsih c st rsp =
    State_Monad.return (Some (0, st, save_alias 0 rsp target))"
  using assms by (simp add: negotiate_method_def Let_def)

lemma offered_chap:
  assumes "iSCSIAuthGetMethod ia = kiSCSIAuthMethodCHAP" and "iSCSIAuthGetMethod ta = kiSCSIAuthMethodCHAP"
    and "run_state (iSCSIAuthNegotiateBuildDict target ia ta) w = (cmd, w1)"
  shows "cf_get kRFC3720_Key_AuthMethod cmd = Some kRFC3720_Value_AuthMethodCHAP"
proof -
  have "kRFC3720_Key_AuthMethod \<noteq> kRFC3720_Key_SessionType" "kRFC3720_Key_AuthMethod \<noteq> kRFC3720_Key_TargetName"
    "kRFC3720_Key_AuthMethod \<noteq> kRFC3720_Key_InitiatorName" "kRFC3720_Key_AuthMethod \<noteq> kRFC3720_Key_InitiatorAlias"
    by (simp_all add: cfs_def)
  then show ?thesis
    using assms
    by (auto simp: iSCSIAuthNegotiateBuildDict_def CFDictionaryAddValue_def monad_simps cf_get_add Let_def
        split: if_splits option.splits prod.splits)
qed

text \<open>C8: a target can talk its way out of CHAP. Both ends are configured for CHAP, so the initiator
  offers only CHAP. The target answers with a method that is a substring of it, case apart, but not
  CHAP itself, such as \<open>chap\<close> or \<open>C\<close>, and a portal group tag, on a leading login. Then the negotiation
  returns success: without another request, and whatever the digest of CHAP is.\<close>

theorem auth_method_substring:
  fixes w :: "'z hba_world_scheme"
  assumes "iSCSIAuthGetMethod ia = kiSCSIAuthMethodCHAP" and "iSCSIAuthGetMethod ta = kiSCSIAuthMethodCHAP"
    and "iSCSITargetGetIQN target = Some iqn" and "iqn \<noteq> []"
    and "run_state (iSCSIAuthNegotiateBuildDict target ia ta) w = (cmd, w1)"
    and "run_state (get_u16_parameter (sm_hbaInterface M) sid kiSCSIHBASOTargetSessionId) w1 = (0, w2)"
    and "run_state (stack_context (sm_hbaInterface M) sid cid kiSCSIPDUSecurityNegotiation
        kiSCSIPDUSecurityNegotiation 0) w2 = (c, w3)"
    and "run_state (iSCSISessionLoginQuery cf bound (c, st, Some []) (Some cmd)) w3 =
        (Some (0, (c', kiSCSILoginSuccess, Some rsp)), w4)"
    and "cf_get kRFC3720_Key_TargetPortalGroupTag rsp = Some tag"
    and "cf_get kRFC3720_Key_AuthMethod rsp = Some m"
    and "cf_find_nocase cf kRFC3720_Value_AuthMethodCHAP m"
    and "m \<noteq> kRFC3720_Value_AuthMethodCHAP" and "m \<noteq> kRFC3720_Value_AuthMethodNone"
  shows "\<exists>w'. run_state (iSCSIAuthNegotiate cf md5 bound M target ia ta sid cid st) w =
      (Some (0, kiSCSILoginSuccess, save_alias 0 rsp target), w') \<and>
    requests (trace w') = requests (trace w4)"
proof -
  let ?set1 = "iSCSIHBAInterfaceSetConnectionParameter (sm_hbaInterface M) sid cid kiSCSIHBACOInitialExpStatSN
      (Some (le32_bytes (lc_statSN c' + 1)))"
  let ?set2 = "iSCSIHBAInterfaceSetSessionParameter (sm_hbaInterface M) sid kiSCSIHBASOTargetPortalGroupTag
      (Some (le16_bytes (word_of_int (cf_int cf tag))))"
  obtain r5 w5 where s1: "run_state ?set1 w4 = (r5, w5)" by (rule prod.exhaust)
  obtain r6 w6 where s2: "run_state ?set2 w5 = (r6, w6)" by (rule prod.exhaust)
  have "requests (trace w5) = requests (trace w4)"
    by (rule uncountedD [OF uncounted_parameters(2) s1])
  moreover have "requests (trace w6) = requests (trace w5)"
    by (rule uncountedD [OF uncounted_parameters(1) s2])
  moreover have "run_state (iSCSIAuthNegotiate cf md5 bound M target ia ta sid cid st) w =
      (Some (0, kiSCSILoginSuccess, save_alias 0 rsp target), w6)"
    using offered_chap [OF assms(1,2,5)]
    by (simp add: iSCSIAuthNegotiate_def iSCSISessionManagerGetHBAInterface_def assms(3-13) monad_simps Let_def
        CFStringEqual_def CFStringFindNoCase_def check_portal_group_def the_dict_def s1 s2
        negotiate_other_method)
  ultimately show ?thesis by simp
qed

text \<open>A target that answers \<open>AuthMethod=C\<close>.\<close>

definition bypass_reply :: login_reply where
  "bypass_reply = (0x23 # replicate 47 0, [cfs ''AuthMethod=C'', cfs ''TargetPortalGroupTag=1''])"

definition bypass_world :: hba_world where
  "bypass_world = demo_hba_world demo_hba
     (replicate 8 (ret_int 100000) @ [ret_bytes (take 48 (reply_image bypass_reply)),
      ret_ok, ret_bytes (drop 48 (reply_image bypass_reply))])"

abbreviation demo_auth_target :: iSCSITarget where
  "demo_auth_target \<equiv> [(cfs ''Target Name'', cfs ''iqn.t'')]"

abbreviation demo_auth_command :: cfdict where
  "demo_auth_command \<equiv> [(cfs ''SessionType'', cfs ''Normal''), (cfs ''TargetName'', cfs ''iqn.t''),
     (cfs ''InitiatorName'', kiSCSIInitiatorIQN), (cfs ''InitiatorAlias'', kiSCSIInitiatorAlias),
     (cfs ''AuthMethod'', cfs ''CHAP'')]"

lemma demo_method: "iSCSIAuthGetMethod demo_target_auth = kiSCSIAuthMethodCHAP"
  by (simp add: iSCSIAuthGetMethod_def cf_get_def cfs_def)

lemma of_char_inject: "(of_char c :: u8) = of_char d \<longleftrightarrow> c = d"
proof -
  have val: "unat (of_char x :: u8) = of_char x" for x
    by (subst of_nat_of_char [symmetric]) (simp add: unat_of_nat)
  show ?thesis by (metis val of_char_eq_iff)
qed

lemma cfs_inject [simp]: "cfs s = cfs t \<longleftrightarrow> s = t"
  by (simp add: cfs_def inj_map_eq_map inj_def of_char_inject)

lemma cfs_Nil [simp]: "cfs s = [] \<longleftrightarrow> s = []"
  by (simp add: cfs_def)

lemma demo_build:
  "run_state (iSCSIAuthNegotiateBuildDict demo_auth_target demo_target_auth demo_target_auth) w =
     (demo_auth_command, w)"
  by (simp add: iSCSIAuthNegotiateBuildDict_def demo_method iSCSITargetGetIQN_def CFStringEqual_def
      CFDictionaryAddValue_def Let_def cf_get_def cf_add_def)

lemma demo_leading: "run_state (get_u16_parameter (Some 0) 0 kiSCSIHBASOTargetSessionId) bypass_world = (0, bypass_world)"
  by (simp add: get_u16_parameter_def bypass_world_def run_get_session_parameter [OF demo_session]
      monad_simps)
    (simp add: demo_hba_def demo_entry_def fresh_de_def zero_de_def le16_at_def le64_bytes_def fixed_def le32_bytes_def be32_bytes_def)

lemma bypass_good: "good_reply False bypass_reply"
  by (simp add: bypass_reply_def good_reply_def text_line_def cfs_def ascii_text_def lines_text_def)

lemma bypass_image: "length (reply_image bypass_reply) = 48 + 36"
  by (simp add: bypass_reply_def reply_image_def send_image_def lines_text_def cfs_def
      text_pad_def padded_length_def)

theorem auth_method_substring_witness:
  "\<exists>w'. run_state (iSCSIAuthNegotiate ascii_cf (\<lambda>_. []) 1 demo_manager demo_auth_target demo_target_auth
      demo_target_auth 0 1 0) bypass_world = (Some (0, 0, demo_auth_target), w')"
proof -
  have t: "respond bypass_world = script (replicate 8 (ret_int 100000) @
      [ret_bytes (take 48 (reply_image bypass_reply)), ret_ok, ret_bytes (drop 48 (reply_image bypass_reply))])"
    "clock bypass_world = 0"
    by (simp_all add: bypass_world_def demo_hba_world_def)
  obtain c where c: "run_state (stack_context (Some 0) 0 1 0 0 0) bypass_world = (c, called (SysStack 9) bypass_world)"
    "lc_interface c = Some 0" "lc_sessionId c = 0" "lc_connectionId c = 1" "lc_currentStage c = 0"
    "lc_nextStage c = 0"
    by (simp add: stack_context_def Let_def)
  let ?w = "called (SysStack 9) bypass_world"
  have s: "dext_session ?w 0 0 demo_hba 0"
    using dext_session_frame [of ?w bypass_world] demo_session by (simp add: bypass_world_def)
  have d: "dict_valid ascii_cf demo_auth_command" "text_size ascii_cf demo_auth_command = 115"
    by (simp_all add: dict_valid_def ascii_cf_def text_size_def kiSCSIInitiatorIQN_def
        kiSCSIInitiatorAlias_def) (simp_all add: ascii_text_def cfs_def)
  have ok: "accepts 100000 5 ?w"
    by (simp add: accepts_def t script_def nth_append) (simp add: ret_int_def)
  have stage: "lc_currentStage c = lc_nextStage c \<or> fst bypass_reply ! 1 AND kiSCSIPDULoginTransitFlag \<noteq> 0"
    using c by simp
  have del: "delivers (reply_image bypass_reply) (?w\<lparr> clock := clock ?w + 6 \<rparr>)"
    using bypass_image by (simp add: delivers_def t script_def nth_append bytes_result_def ret_bytes_def ret_ok_def)
  let ?rsp = "[(cfs ''AuthMethod'', cfs ''C''), (cfs ''TargetPortalGroupTag'', cfs ''1'')]"
  have rsp: "fold add_line (snd bypass_reply) [] = ?rsp"
    by (simp add: bypass_reply_def add_line_def cf_add_def key_part_def value_part_def cfs_def)
  obtain v where q: "run_state (iSCSISessionLoginQuery ascii_cf 1 (c, 0, Some []) (Some demo_auth_command)) ?w =
      (Some (0, (take_reply (fst bypass_reply) c, 0, Some ?rsp)), v)"
    using query_reply [OF ascii_cf_laws s c(2-4) demo_ids(2) demo_socket demo_ids(3) d(1) ok _ _ _ bypass_good
      stage del, of 0 0 "[]"] d(2) rsp
    by (auto simp: padded_length_def)
  have vals: "iSCSITargetGetIQN demo_auth_target = Some (cfs ''iqn.t'')"
    "cf_get kRFC3720_Key_TargetPortalGroupTag ?rsp = Some (cfs ''1'')"
    "cf_get kRFC3720_Key_AuthMethod ?rsp = Some (cfs ''C'')"
    "cf_find_nocase ascii_cf kRFC3720_Value_AuthMethodCHAP (cfs ''C'')"
    "cfs ''C'' \<noteq> kRFC3720_Value_AuthMethodCHAP" "cfs ''C'' \<noteq> kRFC3720_Value_AuthMethodNone"
    "save_alias 0 ?rsp demo_auth_target = demo_auth_target" "sm_hbaInterface demo_manager = Some 0"
    by (simp_all add: iSCSITargetGetIQN_def cf_get_def ascii_cf_def ascii_lower_def occurs_in.simps
        save_alias_def demo_manager_def cfs_def)
  have name: "cfs ''iqn.t'' \<noteq> []" by (simp add: cfs_def)
  obtain w' where "run_state (iSCSIAuthNegotiate ascii_cf (\<lambda>_. []) 1 demo_manager demo_auth_target
      demo_target_auth demo_target_auth 0 1 0) bypass_world = (Some (0, 0, save_alias 0 ?rsp demo_auth_target), w')"
    using auth_method_substring [OF demo_method demo_method vals(1) name demo_build demo_leading [folded vals(8)]
        c(1) [folded vals(8)] q vals(2-6), of "\<lambda>_. []"] by blast
  then show ?thesis unfolding vals(7) by blast
qed

end
