(* ===== verification/Objects.thy ===== *)
theory Objects
  imports Auth "HOL-Library.AList"
begin

text \<open>
  The objects of the framework, \<open>Source/User/iSCSI Framework/iSCSITypes.c\<close>: portals, session and
  connection configurations, discovery records, and their external representation. Targets and
  authentication objects are in \<^theory_text>\<open>Auth\<close>. Each is a Core Foundation dictionary.
\<close>

section \<open>Portals\<close>

abbreviation kiSCSIPortalAddresssKey :: cfstring where "kiSCSIPortalAddresssKey \<equiv> cfs ''Address''"
abbreviation kiSCSIPortalPortKey :: cfstring where "kiSCSIPortalPortKey \<equiv> cfs ''Port''"
abbreviation kiSCSIPortalHostInterfaceKey :: cfstring where "kiSCSIPortalHostInterfaceKey \<equiv> cfs ''Host Interface''"
abbreviation kiSCSIDefaultPort :: cfstring where "kiSCSIDefaultPort \<equiv> cfs ''3260''"
abbreviation kiSCSIDefaultHostInterface :: cfstring where "kiSCSIDefaultHostInterface \<equiv> cfs ''default''"

type_synonym iSCSIPortal = cfdict

definition iSCSIPortalCreateMutable :: iSCSIPortal where
  "iSCSIPortalCreateMutable =
     cf_add kiSCSIPortalHostInterfaceKey kiSCSIDefaultHostInterface
       (cf_add kiSCSIPortalPortKey kiSCSIDefaultPort (cf_add kiSCSIPortalAddresssKey [] []))"

definition iSCSIPortalGetAddress :: "iSCSIPortal \<Rightarrow> cfstring option" where
  "iSCSIPortalGetAddress portal = cf_get kiSCSIPortalAddresssKey portal"

definition iSCSIPortalGetPort :: "iSCSIPortal \<Rightarrow> cfstring option" where
  "iSCSIPortalGetPort portal = cf_get kiSCSIPortalPortKey portal"

definition iSCSIPortalGetHostInterface :: "iSCSIPortal \<Rightarrow> cfstring option" where
  "iSCSIPortalGetHostInterface portal = cf_get kiSCSIPortalHostInterfaceKey portal"

text \<open>A null pointer crashes all three.\<close>

definition CFDictionarySetValue ::
  "cfstring \<Rightarrow> cfstring option \<Rightarrow> cfdict \<Rightarrow> ('z world_scheme, cfdict) state" where
  "CFDictionarySetValue k v d =
     (case v of
        Some x \<Rightarrow> State_Monad.return (cf_set k x d)
      | None \<Rightarrow> do { fault NullDeref; State_Monad.return d })"

definition set_unless_blank ::
  "cfstring \<Rightarrow> cfstring option \<Rightarrow> cfdict \<Rightarrow> ('z world_scheme, cfdict) state" where
  "set_unless_blank k v d = do {
     blank \<leftarrow> CFStringEqual v (Some []);
     if blank then State_Monad.return d else CFDictionarySetValue k v d
   }"

definition iSCSIPortalSetAddress ::
  "cfstring option \<Rightarrow> iSCSIPortal \<Rightarrow> ('z world_scheme, iSCSIPortal) state" where
  "iSCSIPortalSetAddress address portal = set_unless_blank kiSCSIPortalAddresssKey address portal"

definition iSCSIPortalSetPort ::
  "cfstring option \<Rightarrow> iSCSIPortal \<Rightarrow> ('z world_scheme, iSCSIPortal) state" where
  "iSCSIPortalSetPort port portal = set_unless_blank kiSCSIPortalPortKey port portal"

definition iSCSIPortalSetHostInterface ::
  "cfstring option \<Rightarrow> iSCSIPortal \<Rightarrow> ('z world_scheme, iSCSIPortal) state" where
  "iSCSIPortalSetHostInterface hostInterface portal =
     CFDictionarySetValue kiSCSIPortalHostInterfaceKey hostInterface portal"

section \<open>Configurations\<close>

text \<open>The values of a configuration. A boolean is read as the number 0 or 1; a string is not a number.\<close>

datatype cfvalue = CFString cfstring | CFNumber int | CFBoolean bool

type_synonym cfobject = "(cfstring \<times> cfvalue) list"

definition CFNumberGetValue :: "cfvalue option \<Rightarrow> int \<Rightarrow> ('z world_scheme, int) state" where
  "CFNumberGetValue v old =
     (case v of
        None \<Rightarrow> State_Monad.return old
      | Some (CFNumber n) \<Rightarrow> State_Monad.return n
      | Some (CFBoolean b) \<Rightarrow> State_Monad.return (of_bool b)
      | Some (CFString _) \<Rightarrow> do { fault BadObject; State_Monad.return old })"

abbreviation kiSCSISessionConfigErrorRecoveryKey :: cfstring where
  "kiSCSISessionConfigErrorRecoveryKey \<equiv> cfs ''Error Recovery Level''"
abbreviation kiSCSISessionConfigPortalGroupTagKey :: cfstring where
  "kiSCSISessionConfigPortalGroupTagKey \<equiv> cfs ''Target Portal Group Tag''"
abbreviation kiSCSISessionConfigMaxConnectionsKey :: cfstring where
  "kiSCSISessionConfigMaxConnectionsKey \<equiv> cfs ''Maximum Connections''"
abbreviation kiSCSIConnectionConfigHeaderDigestKey :: cfstring where
  "kiSCSIConnectionConfigHeaderDigestKey \<equiv> cfs ''Header Digest''"
abbreviation kiSCSIConnectionConfigDataDigestKey :: cfstring where
  "kiSCSIConnectionConfigDataDigestKey \<equiv> cfs ''Data Digest''"

text \<open>The setters pass a pointer to their argument and the width of the number. For the portal group
  tag and the digests the width is larger than the argument, and the upper half of the number is what
  lies behind it on the stack.\<close>

definition iSCSISessionConfigGetErrorRecoveryLevel :: "cfobject \<Rightarrow> ('z world_scheme, u32) state" where
  "iSCSISessionConfigGetErrorRecoveryLevel target = do {
     n \<leftarrow> CFNumberGetValue (map_of target kiSCSISessionConfigErrorRecoveryKey) 0;
     State_Monad.return (word_of_int n)
   }"

definition iSCSISessionConfigSetErrorRecoveryLevel :: "u32 \<Rightarrow> cfobject \<Rightarrow> cfobject" where
  "iSCSISessionConfigSetErrorRecoveryLevel level target =
     AList.update kiSCSISessionConfigErrorRecoveryKey (CFNumber (sint level)) target"

definition iSCSISessionConfigGetTargetPortalGroupTag :: "cfobject \<Rightarrow> ('z world_scheme, u16) state" where
  "iSCSISessionConfigGetTargetPortalGroupTag target = do {
     n \<leftarrow> CFNumberGetValue (map_of target kiSCSISessionConfigPortalGroupTagKey) 0;
     State_Monad.return (word_of_int n)
   }"

definition iSCSISessionConfigSetTargetPortalGroupTag ::
  "u16 \<Rightarrow> cfobject \<Rightarrow> ('z world_scheme, cfobject) state" where
  "iSCSISessionConfigSetTargetPortalGroupTag tag target = do {
     r \<leftarrow> sys (SysStack 2);
     let number = le32_at 0 (le16_bytes tag @ fixed 2 (sr_bytes r));
     State_Monad.return
       (AList.update kiSCSISessionConfigPortalGroupTagKey (CFNumber (sint number)) target)
   }"

definition iSCSISessionConfigGetMaxConnections :: "cfobject \<Rightarrow> ('z world_scheme, u32) state" where
  "iSCSISessionConfigGetMaxConnections target = do {
     n \<leftarrow> CFNumberGetValue (map_of target kiSCSISessionConfigMaxConnectionsKey) 0;
     State_Monad.return (word_of_int n)
   }"

definition iSCSISessionConfigSetMaxConnections :: "u32 \<Rightarrow> cfobject \<Rightarrow> cfobject" where
  "iSCSISessionConfigSetMaxConnections maxConnections target =
     AList.update kiSCSISessionConfigMaxConnectionsKey (CFNumber (sint maxConnections)) target"

definition iSCSISessionConfigCreateMutable :: "('z world_scheme, cfobject) state" where
  "iSCSISessionConfigCreateMutable = do {
     let config = iSCSISessionConfigSetErrorRecoveryLevel 0 [];
     let config = iSCSISessionConfigSetMaxConnections 1 config;
     iSCSISessionConfigSetTargetPortalGroupTag 0 config
   }"

definition iSCSIConnectionConfigCreateMutable :: cfobject where
  "iSCSIConnectionConfigCreateMutable =
     AList.update kiSCSIConnectionConfigDataDigestKey (CFBoolean False)
       (AList.update kiSCSIConnectionConfigHeaderDigestKey (CFBoolean False) [])"

text \<open>The digest options, read with a null check of the object.\<close>

definition get_digest :: "cfstring \<Rightarrow> cfobject option \<Rightarrow> ('z world_scheme, u32) state" where
  "get_digest key config =
     (case config of
        None \<Rightarrow> State_Monad.return 0
      | Some c \<Rightarrow> do { n \<leftarrow> CFNumberGetValue (map_of c key) 0; State_Monad.return (word_of_int n) })"

definition set_digest :: "cfstring \<Rightarrow> u32 \<Rightarrow> cfobject \<Rightarrow> ('z world_scheme, cfobject) state" where
  "set_digest key digestType config = do {
     r \<leftarrow> sys (SysStack 4);
     let number = le_value (le32_bytes digestType @ fixed 4 (sr_bytes r));
     State_Monad.return (AList.update key (CFNumber (sint number)) config)
   }"

definition iSCSIConnectionConfigGetHeaderDigest :: "cfobject option \<Rightarrow> ('z world_scheme, u32) state" where
  "iSCSIConnectionConfigGetHeaderDigest config = get_digest kiSCSIConnectionConfigHeaderDigestKey config"

definition iSCSIConnectionConfigSetHeaderDigest ::
  "u32 \<Rightarrow> cfobject \<Rightarrow> ('z world_scheme, cfobject) state" where
  "iSCSIConnectionConfigSetHeaderDigest digestType config =
     set_digest kiSCSIConnectionConfigHeaderDigestKey digestType config"

definition iSCSIConnectionConfigGetDataDigest :: "cfobject option \<Rightarrow> ('z world_scheme, u32) state" where
  "iSCSIConnectionConfigGetDataDigest config = get_digest kiSCSIConnectionConfigDataDigestKey config"

definition iSCSIConnectionConfigSetDataDigest ::
  "u32 \<Rightarrow> cfobject \<Rightarrow> ('z world_scheme, cfobject) state" where
  "iSCSIConnectionConfigSetDataDigest digestType config =
     set_digest kiSCSIConnectionConfigDataDigestKey digestType config"

section \<open>Discovery records\<close>

text \<open>The portals of each portal group of each target.\<close>

type_synonym iSCSIDiscoveryRec = "(cfstring \<times> (cfstring \<times> iSCSIPortal list) list) list"

definition iSCSIDiscoveryRecCreateMutable :: iSCSIDiscoveryRec where
  "iSCSIDiscoveryRecCreateMutable = []"

definition or_empty :: "'a list option \<Rightarrow> 'a list" where
  "or_empty x = (case x of Some xs \<Rightarrow> xs | None \<Rightarrow> [])"

definition iSCSIDiscoveryRecAddPortal ::
  "cfstring option \<Rightarrow> cfstring option \<Rightarrow> iSCSIPortal option \<Rightarrow> iSCSIDiscoveryRec \<Rightarrow> iSCSIDiscoveryRec" where
  "iSCSIDiscoveryRecAddPortal targetIQN portalGroupTag portal discoveryRec =
     (case (targetIQN, portalGroupTag, portal) of
        (Some IQN, Some tag, Some portalDict) \<Rightarrow>
          (let targetDict = or_empty (map_of discoveryRec IQN);
               portalsArray = or_empty (map_of targetDict tag);
               targetDict = AList.update tag (portalsArray @ [portalDict]) targetDict
           in AList.update IQN targetDict discoveryRec)
      | _ \<Rightarrow> discoveryRec)"

definition iSCSIDiscoveryRecAddTarget :: "cfstring option \<Rightarrow> iSCSIDiscoveryRec \<Rightarrow> iSCSIDiscoveryRec" where
  "iSCSIDiscoveryRecAddTarget targetIQN discoveryRec =
     (case targetIQN of
        Some IQN \<Rightarrow> AList.update IQN (or_empty (map_of discoveryRec IQN)) discoveryRec
      | None \<Rightarrow> discoveryRec)"

definition iSCSIDiscoveryRecCreateArrayOfTargets :: "iSCSIDiscoveryRec option \<Rightarrow> cfstring list option" where
  "iSCSIDiscoveryRecCreateArrayOfTargets discoveryRec = map_option (map fst) discoveryRec"

definition iSCSIDiscoveryRecCreateArrayOfPortalGroupTags ::
  "iSCSIDiscoveryRec option \<Rightarrow> cfstring option \<Rightarrow> cfstring list option" where
  "iSCSIDiscoveryRecCreateArrayOfPortalGroupTags discoveryRec targetIQN =
     (case (discoveryRec, targetIQN) of
        (Some d, Some IQN) \<Rightarrow> map_option (map fst) (map_of d IQN)
      | _ \<Rightarrow> None)"

definition iSCSIDiscoveryRecGetPortals ::
  "iSCSIDiscoveryRec option \<Rightarrow> cfstring option \<Rightarrow> cfstring option \<Rightarrow> iSCSIPortal list option" where
  "iSCSIDiscoveryRecGetPortals discoveryRec targetIQN portalGroupTag =
     (case (discoveryRec, targetIQN, portalGroupTag) of
        (Some d, Some IQN, Some tag) \<Rightarrow>
          (case map_of d IQN of None \<Rightarrow> None | Some targetDict \<Rightarrow> map_of targetDict tag)
      | _ \<Rightarrow> None)"

section \<open>External representation\<close>

text \<open>Property lists are read and written by Core Foundation, two parameters: \<open>read\<close> gives the object
  and whether the data was in the binary format, or nothing; then the format variable keeps what the
  stack held, and without a null check a null object is released.\<close>

abbreviation (input) kCFPropertyListBinaryFormat_v1_0 :: u32 where "kCFPropertyListBinaryFormat_v1_0 \<equiv> 200"

definition create_with_data ::
  "(u8 list \<Rightarrow> ('o \<times> bool) option) \<Rightarrow> bool \<Rightarrow> u8 list \<Rightarrow> ('z world_scheme, 'o option) state" where
  "create_with_data read null_check data =
     (case read data of
        Some (object, binary) \<Rightarrow> State_Monad.return (if binary then Some object else None)
      | None \<Rightarrow> do {
          r \<leftarrow> sys (SysStack 4);
          (if le32_at 0 (fixed 4 (sr_bytes r)) \<noteq> kCFPropertyListBinaryFormat_v1_0 \<and> \<not> null_check
           then fault NullDeref else State_Monad.return ());
          State_Monad.return None
        })"

definition iSCSIPortalCreateWithData ::
  "(u8 list \<Rightarrow> (iSCSIPortal \<times> bool) option) \<Rightarrow> u8 list \<Rightarrow> ('z world_scheme, iSCSIPortal option) state" where
  "iSCSIPortalCreateWithData read data = create_with_data read False data"

definition iSCSITargetCreateWithData ::
  "(u8 list \<Rightarrow> (iSCSITarget \<times> bool) option) \<Rightarrow> u8 list \<Rightarrow> ('z world_scheme, iSCSITarget option) state" where
  "iSCSITargetCreateWithData read data = create_with_data read False data"

definition iSCSIAuthCreateWithData ::
  "(u8 list \<Rightarrow> (iSCSIAuth \<times> bool) option) \<Rightarrow> u8 list \<Rightarrow> ('z world_scheme, iSCSIAuth option) state" where
  "iSCSIAuthCreateWithData read data = create_with_data read False data"

definition iSCSISessionConfigCreateWithData ::
  "(u8 list \<Rightarrow> (cfobject \<times> bool) option) \<Rightarrow> u8 list \<Rightarrow> ('z world_scheme, cfobject option) state" where
  "iSCSISessionConfigCreateWithData read data = create_with_data read False data"

definition iSCSIConnectionConfigCreateWithData ::
  "(u8 list \<Rightarrow> (cfobject \<times> bool) option) \<Rightarrow> u8 list \<Rightarrow> ('z world_scheme, cfobject option) state" where
  "iSCSIConnectionConfigCreateWithData read data = create_with_data read False data"

definition iSCSIDiscoveryRecCreateMutableWithData ::
  "(u8 list \<Rightarrow> (iSCSIDiscoveryRec \<times> bool) option) \<Rightarrow> u8 list \<Rightarrow>
   ('z world_scheme, iSCSIDiscoveryRec option) state" where
  "iSCSIDiscoveryRecCreateMutableWithData read data = create_with_data read True data"

end
