(* ===== verification/Negotiation.thy ===== *)
theory Negotiation
  imports Objects
begin

text \<open>
  The negotiation of session and connection parameters, first part of
  \<open>Source/User/iscsid/iSCSISession.c\<close>: the keys that are offered, and what is made of the answers of the
  target, which are stored through the HBA interface.

  \<open>kRFC3720_FirstBurstLength_Max\<close> and \<open>kRFC3720_MaxRecvDataSegmentLength_Max\<close> are \<open>2e24-1\<close>, a
  floating-point number that no \<open>unsigned int\<close> holds; C does not define the conversion. The value the
  compiler makes of it is the parameter \<open>lmax\<close>.
\<close>

section \<open>Keys and defaults\<close>

abbreviation kRFC3720_Key_MaxConnections :: cfstring where "kRFC3720_Key_MaxConnections \<equiv> cfs ''MaxConnections''"
abbreviation kRFC3720_Key_InitialR2T :: cfstring where "kRFC3720_Key_InitialR2T \<equiv> cfs ''InitialR2T''"
abbreviation kRFC3720_Key_ImmediateData :: cfstring where "kRFC3720_Key_ImmediateData \<equiv> cfs ''ImmediateData''"
abbreviation kRFC3720_Key_MaxRecvDataSegmentLength :: cfstring where
  "kRFC3720_Key_MaxRecvDataSegmentLength \<equiv> cfs ''MaxRecvDataSegmentLength''"
abbreviation kRFC3720_Key_MaxBurstLength :: cfstring where "kRFC3720_Key_MaxBurstLength \<equiv> cfs ''MaxBurstLength''"
abbreviation kRFC3720_Key_FirstBurstLength :: cfstring where "kRFC3720_Key_FirstBurstLength \<equiv> cfs ''FirstBurstLength''"
abbreviation kRFC3720_Key_DefaultTime2Wait :: cfstring where "kRFC3720_Key_DefaultTime2Wait \<equiv> cfs ''DefaultTime2Wait''"
abbreviation kRFC3720_Key_DefaultTime2Retain :: cfstring where
  "kRFC3720_Key_DefaultTime2Retain \<equiv> cfs ''DefaultTime2Retain''"
abbreviation kRFC3720_Key_MaxOutstandingR2T :: cfstring where
  "kRFC3720_Key_MaxOutstandingR2T \<equiv> cfs ''MaxOutstandingR2T''"
abbreviation kRFC3720_Key_DataPDUInOrder :: cfstring where "kRFC3720_Key_DataPDUInOrder \<equiv> cfs ''DataPDUInOrder''"
abbreviation kRFC3720_Key_DataSequenceInOrder :: cfstring where
  "kRFC3720_Key_DataSequenceInOrder \<equiv> cfs ''DataSequenceInOrder''"
abbreviation kRFC3720_Key_ErrorRecoveryLevel :: cfstring where
  "kRFC3720_Key_ErrorRecoveryLevel \<equiv> cfs ''ErrorRecoveryLevel''"
abbreviation kRFC3720_Key_HeaderDigest :: cfstring where "kRFC3720_Key_HeaderDigest \<equiv> cfs ''HeaderDigest''"
abbreviation kRFC3720_Key_DataDigest :: cfstring where "kRFC3720_Key_DataDigest \<equiv> cfs ''DataDigest''"
abbreviation kRFC3720_Value_DigestNone :: cfstring where "kRFC3720_Value_DigestNone \<equiv> cfs ''None''"
abbreviation kRFC3720_Value_DigestCRC32C :: cfstring where "kRFC3720_Value_DigestCRC32C \<equiv> cfs ''CRC32C''"
abbreviation kRFC3720_Value_Yes :: cfstring where "kRFC3720_Value_Yes \<equiv> cfs ''Yes''"

abbreviation (input) kRFC3720_MaxConnections :: u32 where "kRFC3720_MaxConnections \<equiv> 1"
abbreviation (input) kRFC3720_MaxBurstLength :: u32 where "kRFC3720_MaxBurstLength \<equiv> 262144"
abbreviation (input) kRFC3720_FirstBurstLength :: u32 where "kRFC3720_FirstBurstLength \<equiv> 65536"
abbreviation (input) kRFC3720_MaxOutstandingR2T :: u32 where "kRFC3720_MaxOutstandingR2T \<equiv> 1"
abbreviation (input) kRFC3720_MaxRecvDataSegmentLength :: u32 where "kRFC3720_MaxRecvDataSegmentLength \<equiv> 8192"
abbreviation (input) kRFC3720_DefaultTime2Wait :: u32 where "kRFC3720_DefaultTime2Wait \<equiv> 2"
abbreviation (input) kRFC3720_DefaultTime2Retain :: u32 where "kRFC3720_DefaultTime2Retain \<equiv> 20"

abbreviation (input) kiSCSIHBASODefaultTime2Retain :: nat where "kiSCSIHBASODefaultTime2Retain \<equiv> 0"
abbreviation (input) kiSCSIHBASODefaultTime2Wait :: nat where "kiSCSIHBASODefaultTime2Wait \<equiv> 1"
abbreviation (input) kiSCSIHBASOErrorRecoveryLevel :: nat where "kiSCSIHBASOErrorRecoveryLevel \<equiv> 2"
abbreviation (input) kiSCSIHBASOMaxConnections :: nat where "kiSCSIHBASOMaxConnections \<equiv> 3"
abbreviation (input) kiSCSIHBASOImmediateData :: nat where "kiSCSIHBASOImmediateData \<equiv> 4"
abbreviation (input) kiSCSIHBASOInitialR2T :: nat where "kiSCSIHBASOInitialR2T \<equiv> 5"
abbreviation (input) kiSCSIHBASODataPDUInOrder :: nat where "kiSCSIHBASODataPDUInOrder \<equiv> 6"
abbreviation (input) kiSCSIHBASODataSequenceInOrder :: nat where "kiSCSIHBASODataSequenceInOrder \<equiv> 7"
abbreviation (input) kiSCSIHBASOMaxOutstandingR2T :: nat where "kiSCSIHBASOMaxOutstandingR2T \<equiv> 8"
abbreviation (input) kiSCSIHBASOMaxBurstLength :: nat where "kiSCSIHBASOMaxBurstLength \<equiv> 9"
abbreviation (input) kiSCSIHBASOFirstBurstLength :: nat where "kiSCSIHBASOFirstBurstLength \<equiv> 10"
abbreviation (input) kiSCSIHBACOMaxSendDataSegmentLength :: nat where "kiSCSIHBACOMaxSendDataSegmentLength \<equiv> 6"
abbreviation (input) kiSCSIHBACOMaxRecvDataSegmentLength :: nat where "kiSCSIHBACOMaxRecvDataSegmentLength \<equiv> 7"

section \<open>Values\<close>

definition CFStringGetIntValue :: "corefoundation \<Rightarrow> cfstring option \<Rightarrow> ('z world_scheme, int) state" where
  "CFStringGetIntValue cf s =
     (case s of
        Some x \<Rightarrow> State_Monad.return (cf_int cf x)
      | None \<Rightarrow> do { fault NullDeref; State_Monad.return 0 })"

definition iSCSILVGetEqual ::
  "corefoundation \<Rightarrow> cfstring option \<Rightarrow> cfstring option \<Rightarrow> ('z world_scheme, bool) state" where
  "iSCSILVGetEqual cf cmdStr rspStr = CFStringEqualNoCase cf cmdStr rspStr"

definition iSCSILVGetAnd ::
  "corefoundation \<Rightarrow> cfstring option \<Rightarrow> cfstring option \<Rightarrow> ('z world_scheme, bool) state" where
  "iSCSILVGetAnd cf cmdStr rspStr = do {
     cmd \<leftarrow> CFStringEqualNoCase cf cmdStr (Some kRFC3720_Value_Yes);
     rsp \<leftarrow> CFStringEqualNoCase cf rspStr (Some kRFC3720_Value_Yes);
     State_Monad.return (cmd \<and> rsp)
   }"

definition iSCSILVGetOr ::
  "corefoundation \<Rightarrow> cfstring option \<Rightarrow> cfstring option \<Rightarrow> ('z world_scheme, bool) state" where
  "iSCSILVGetOr cf cmdStr rspStr = do {
     cmd \<leftarrow> CFStringEqualNoCase cf cmdStr (Some kRFC3720_Value_Yes);
     if cmd then State_Monad.return True
     else CFStringEqualNoCase cf rspStr (Some kRFC3720_Value_Yes)
   }"

definition iSCSILVGetMin ::
  "corefoundation \<Rightarrow> cfstring option \<Rightarrow> cfstring option \<Rightarrow> ('z world_scheme, u32) state" where
  "iSCSILVGetMin cf cmdStr rspStr = do {
     cmdInt \<leftarrow> CFStringGetIntValue cf cmdStr;
     rspInt \<leftarrow> CFStringGetIntValue cf rspStr;
     let (c, r) = (word_of_int cmdInt :: u32, word_of_int rspInt);
     State_Monad.return (if c < r then c else r)
   }"

definition iSCSILVGetMax ::
  "corefoundation \<Rightarrow> cfstring option \<Rightarrow> cfstring option \<Rightarrow> ('z world_scheme, u32) state" where
  "iSCSILVGetMax cf cmdStr rspStr = do {
     cmdInt \<leftarrow> CFStringGetIntValue cf cmdStr;
     rspInt \<leftarrow> CFStringGetIntValue cf rspStr;
     let (c, r) = (word_of_int cmdInt :: u32, word_of_int rspInt);
     State_Monad.return (if r < c then c else r)
   }"

definition iSCSILVRangeInvalid :: "u32 \<Rightarrow> u32 \<Rightarrow> u32 \<Rightarrow> bool" where
  "iSCSILVRangeInvalid val lo hi \<longleftrightarrow> val < lo \<or> hi < val"

definition boolean_byte :: "bool \<Rightarrow> u8 list" where
  "boolean_byte b = [of_bool b]"

section \<open>The offer\<close>

text \<open>\<open>%u\<close>.\<close>

definition unsigned_string :: "u32 \<Rightarrow> cfstring" where
  "unsigned_string n = decimal (unat n)"

definition iSCSINegotiateBuildSWDictNormal :: "cfobject \<Rightarrow> cfdict \<Rightarrow> ('z world_scheme, cfdict) state" where
  "iSCSINegotiateBuildSWDictNormal sessCfg sessCmd = do {
     maxConnections \<leftarrow> iSCSISessionConfigGetMaxConnections sessCfg;
     let cmd = cf_add kRFC3720_Key_MaxConnections
       (unsigned_string (if maxConnections = 0 then kRFC3720_MaxConnections else maxConnections)) sessCmd;
     let cmd = cf_add kRFC3720_Key_InitialR2T kRFC3720_Value_Yes cmd;
     let cmd = cf_add kRFC3720_Key_ImmediateData kRFC3720_Value_Yes cmd;
     let cmd = cf_add kRFC3720_Key_MaxBurstLength (unsigned_string kRFC3720_MaxBurstLength) cmd;
     let cmd = cf_add kRFC3720_Key_FirstBurstLength (unsigned_string kRFC3720_FirstBurstLength) cmd;
     let cmd = cf_add kRFC3720_Key_MaxOutstandingR2T (unsigned_string kRFC3720_MaxOutstandingR2T) cmd;
     let cmd = cf_add kRFC3720_Key_DataPDUInOrder kRFC3720_Value_Yes cmd;
     State_Monad.return (cf_add kRFC3720_Key_DataSequenceInOrder kRFC3720_Value_Yes cmd)
   }"

definition iSCSINegotiateBuildSWDictCommon :: "cfobject \<Rightarrow> cfdict \<Rightarrow> ('z world_scheme, cfdict) state" where
  "iSCSINegotiateBuildSWDictCommon sessCfg sessCmd = do {
     let cmd = cf_add kRFC3720_Key_DefaultTime2Wait (unsigned_string kRFC3720_DefaultTime2Wait) sessCmd;
     let cmd = cf_add kRFC3720_Key_DefaultTime2Retain (unsigned_string kRFC3720_DefaultTime2Retain) cmd;
     errorRecoveryLevel \<leftarrow> iSCSISessionConfigGetErrorRecoveryLevel sessCfg;
     let v = (if errorRecoveryLevel = 0 then cfs ''0''
              else if errorRecoveryLevel = 1 then cfs ''1''
              else if errorRecoveryLevel = 2 then cfs ''2'' else cfs ''0'');
     State_Monad.return (cf_add kRFC3720_Key_ErrorRecoveryLevel v cmd)
   }"

definition iSCSINegotiateBuildCWDict :: "cfobject option \<Rightarrow> cfdict \<Rightarrow> ('z world_scheme, cfdict) state" where
  "iSCSINegotiateBuildCWDict connCfg connCmd = do {
     dataDigest \<leftarrow> iSCSIConnectionConfigGetDataDigest connCfg;
     let cmd = cf_add kRFC3720_Key_DataDigest
       (if dataDigest \<noteq> 0 then kRFC3720_Value_DigestCRC32C else kRFC3720_Value_DigestNone) connCmd;
     headerDigest \<leftarrow> iSCSIConnectionConfigGetHeaderDigest connCfg;
     let cmd = cf_add kRFC3720_Key_HeaderDigest
       (if headerDigest \<noteq> 0 then kRFC3720_Value_DigestCRC32C else kRFC3720_Value_DigestNone) cmd;
     State_Monad.return
       (cf_add kRFC3720_Key_MaxRecvDataSegmentLength (unsigned_string kRFC3720_MaxRecvDataSegmentLength) cmd)
   }"

section \<open>The answers\<close>

text \<open>A number both sides have to agree on: checked against its range, then the minimum of offer and
  answer is stored. The answer is converted twice; the range check sees the first conversion.\<close>

definition negotiate_number ::
  "corefoundation \<Rightarrow> nat option \<Rightarrow> SessionIdentifier \<Rightarrow> cfstring \<Rightarrow> u32 \<Rightarrow> u32 \<Rightarrow> nat \<Rightarrow> cfdict \<Rightarrow> cfstring \<Rightarrow>
   ('z hba_world_scheme, errno_t) state" where
  "negotiate_number cf hbaInterface sessionId key lo hi parameter sessCmd targetRsp =
     (if iSCSILVRangeInvalid (word_of_int (cf_int cf targetRsp)) lo hi then State_Monad.return ENOTSUP
      else do {
        v \<leftarrow> iSCSILVGetMin cf (cf_get key sessCmd) (Some targetRsp);
        iSCSIHBAInterfaceSetSessionParameter hbaInterface sessionId parameter (Some (le32_bytes v));
        State_Monad.return 0
      })"

definition negotiate_recovery_level ::
  "corefoundation \<Rightarrow> nat option \<Rightarrow> SessionIdentifier \<Rightarrow> cfdict \<Rightarrow> cfstring \<Rightarrow>
   ('z hba_world_scheme, errno_t) state" where
  "negotiate_recovery_level cf hbaInterface sessionId sessCmd targetRsp = do {
     let errorRecoveryLevel = (word_of_int (cf_int cf targetRsp) :: u8);
     if iSCSILVRangeInvalid (ucast errorRecoveryLevel) 0 2 then State_Monad.return ENOTSUP
     else do {
       v \<leftarrow> iSCSILVGetMin cf (cf_get kRFC3720_Key_ErrorRecoveryLevel sessCmd) (Some targetRsp);
       iSCSIHBAInterfaceSetSessionParameter hbaInterface sessionId kiSCSIHBASOErrorRecoveryLevel
         (Some [ucast v]);
       State_Monad.return 0
     }
   }"

definition iSCSINegotiateParseSWDictCommon ::
  "corefoundation \<Rightarrow> iSCSISessionManager \<Rightarrow> SessionIdentifier \<Rightarrow> cfdict \<Rightarrow> cfdict \<Rightarrow>
   ('z hba_world_scheme, errno_t) state" where
  "iSCSINegotiateParseSWDictCommon cf managerRef sessionId sessCmd sessRsp =
     (let hbaInterface = iSCSISessionManagerGetHBAInterface managerRef in
      (case cf_get kRFC3720_Key_DefaultTime2Retain sessRsp of
         None \<Rightarrow> State_Monad.return ENOTSUP
       | Some targetRsp \<Rightarrow> do {
           error \<leftarrow> negotiate_number cf hbaInterface sessionId kRFC3720_Key_DefaultTime2Retain 0 3600
             kiSCSIHBASODefaultTime2Retain sessCmd targetRsp;
           if error \<noteq> 0 then State_Monad.return error
           else (case cf_get kRFC3720_Key_DefaultTime2Wait sessRsp of
             None \<Rightarrow> State_Monad.return ENOTSUP
           | Some targetRsp \<Rightarrow> do {
               error \<leftarrow> negotiate_number cf hbaInterface sessionId kRFC3720_Key_DefaultTime2Wait 0 3600
                 kiSCSIHBASODefaultTime2Wait sessCmd targetRsp;
               if error \<noteq> 0 then State_Monad.return error
               else (case cf_get kRFC3720_Key_ErrorRecoveryLevel sessRsp of
                 None \<Rightarrow> State_Monad.return ENOTSUP
               | Some targetRsp \<Rightarrow>
                   negotiate_recovery_level cf hbaInterface sessionId sessCmd targetRsp)
             })
         }))"

text \<open>A number or a choice that is only looked at when the target mentions it.\<close>

definition negotiate_if_present ::
  "cfstring \<Rightarrow> cfdict \<Rightarrow> (cfstring \<Rightarrow> ('z world_scheme, errno_t) state) \<Rightarrow> ('z world_scheme, errno_t) state" where
  "negotiate_if_present key sessRsp negotiate =
     (case cf_get key sessRsp of Some targetRsp \<Rightarrow> negotiate targetRsp | None \<Rightarrow> State_Monad.return 0)"

definition negotiate_choice ::
  "nat option \<Rightarrow> SessionIdentifier \<Rightarrow> cfstring \<Rightarrow> nat \<Rightarrow> cfdict \<Rightarrow> cfdict \<Rightarrow>
   (cfstring option \<Rightarrow> cfstring option \<Rightarrow> ('z hba_world_scheme, bool) state) \<Rightarrow>
   ('z hba_world_scheme, bool) state" where
  "negotiate_choice hbaInterface sessionId key parameter sessCmd sessRsp decide =
     (case cf_get key sessRsp of
        None \<Rightarrow> State_Monad.return False
      | Some targetRsp \<Rightarrow> do {
          v \<leftarrow> decide (cf_get key sessCmd) (Some targetRsp);
          iSCSIHBAInterfaceSetSessionParameter hbaInterface sessionId parameter (Some (boolean_byte v));
          State_Monad.return v
        })"

definition iSCSINegotiateParseSWDictNormal ::
  "corefoundation \<Rightarrow> u32 \<Rightarrow> iSCSISessionManager \<Rightarrow> SessionIdentifier \<Rightarrow> cfdict \<Rightarrow> cfdict \<Rightarrow>
   ('z hba_world_scheme, errno_t) state" where
  "iSCSINegotiateParseSWDictNormal cf lmax managerRef sessionId sessCmd sessRsp =
     (let hbaInterface = iSCSISessionManagerGetHBAInterface managerRef in do {
        error \<leftarrow> negotiate_if_present kRFC3720_Key_MaxConnections sessRsp
          (negotiate_number cf hbaInterface sessionId kRFC3720_Key_MaxConnections 1 65535
             kiSCSIHBASOMaxConnections sessCmd);
        if error \<noteq> 0 then State_Monad.return error
        else do {
          initialR2T \<leftarrow> negotiate_choice hbaInterface sessionId kRFC3720_Key_InitialR2T
            kiSCSIHBASOInitialR2T sessCmd sessRsp (iSCSILVGetOr cf);
          immediateData \<leftarrow> negotiate_choice hbaInterface sessionId kRFC3720_Key_ImmediateData
            kiSCSIHBASOImmediateData sessCmd sessRsp (iSCSILVGetAnd cf);
          negotiate_choice hbaInterface sessionId kRFC3720_Key_DataPDUInOrder
            kiSCSIHBASODataPDUInOrder sessCmd sessRsp (iSCSILVGetAnd cf);
          negotiate_choice hbaInterface sessionId kRFC3720_Key_DataSequenceInOrder
            kiSCSIHBASODataSequenceInOrder sessCmd sessRsp (iSCSILVGetAnd cf);
          negotiate_if_present kRFC3720_Key_MaxBurstLength sessRsp (\<lambda>targetRsp. do {
            v \<leftarrow> iSCSILVGetMin cf (cf_get kRFC3720_Key_MaxBurstLength sessCmd) (Some targetRsp);
            iSCSIHBAInterfaceSetSessionParameter hbaInterface sessionId kiSCSIHBASOMaxBurstLength
              (Some (le32_bytes v));
            State_Monad.return 0
          });
          error \<leftarrow> negotiate_if_present kRFC3720_Key_FirstBurstLength sessRsp (\<lambda>targetRsp.
            if \<not> initialR2T \<or> immediateData
            then negotiate_number cf hbaInterface sessionId kRFC3720_Key_FirstBurstLength 512 lmax
                   kiSCSIHBASOFirstBurstLength sessCmd targetRsp
            else State_Monad.return 0);
          if error \<noteq> 0 then State_Monad.return error
          else negotiate_if_present kRFC3720_Key_MaxOutstandingR2T sessRsp
            (negotiate_number cf hbaInterface sessionId kRFC3720_Key_MaxOutstandingR2T 1 65535
               kiSCSIHBASOMaxOutstandingR2T sessCmd)
        }
      })"

text \<open>Whether a digest is used: the target has answered with what was offered, and that is CRC32C.\<close>

definition digest_agreed ::
  "corefoundation \<Rightarrow> cfstring \<Rightarrow> cfdict \<Rightarrow> cfdict \<Rightarrow> ('z world_scheme, bool) state" where
  "digest_agreed cf key connCmd connRsp =
     (case cf_get key connRsp of
        None \<Rightarrow> State_Monad.return False
      | Some targetRsp \<Rightarrow> do {
          agree \<leftarrow> iSCSILVGetEqual cf (cf_get key connCmd) (Some targetRsp);
          if agree then iSCSILVGetEqual cf (Some targetRsp) (Some kRFC3720_Value_DigestCRC32C)
          else State_Monad.return False
        })"

definition iSCSINegotiateParseCWDict ::
  "corefoundation \<Rightarrow> u32 \<Rightarrow> iSCSISessionManager \<Rightarrow> SessionIdentifier \<Rightarrow> ConnectionIdentifier \<Rightarrow> cfdict \<Rightarrow>
   cfdict \<Rightarrow> ('z hba_world_scheme, errno_t) state" where
  "iSCSINegotiateParseCWDict cf lmax managerRef sessionId connectionId connCmd connRsp = do {
     let hbaInterface = iSCSISessionManagerGetHBAInterface managerRef;
     useDataDigest \<leftarrow> digest_agreed cf kRFC3720_Key_DataDigest connCmd connRsp;
     iSCSIHBAInterfaceSetConnectionParameter hbaInterface sessionId connectionId
       kiSCSIHBACOUseDataDigest (Some (boolean_byte useDataDigest));
     useHeaderDigest \<leftarrow> digest_agreed cf kRFC3720_Key_HeaderDigest connCmd connRsp;
     iSCSIHBAInterfaceSetConnectionParameter hbaInterface sessionId connectionId
       kiSCSIHBACOUseHeaderDigest (Some (boolean_byte useHeaderDigest));
     iSCSIHBAInterfaceSetConnectionParameter hbaInterface sessionId connectionId
       kiSCSIHBACOMaxRecvDataSegmentLength (Some (le32_bytes kRFC3720_MaxRecvDataSegmentLength));
     let maxSend = (case cf_get kRFC3720_Key_MaxRecvDataSegmentLength connRsp of
       None \<Rightarrow> Some kRFC3720_MaxRecvDataSegmentLength
     | Some targetRsp \<Rightarrow>
         let v = word_of_int (cf_int cf targetRsp) in
         if iSCSILVRangeInvalid v 512 lmax then None else Some v);
     (case maxSend of
        None \<Rightarrow> State_Monad.return ENOTSUP
      | Some v \<Rightarrow> do {
          iSCSIHBAInterfaceSetConnectionParameter hbaInterface sessionId connectionId
            kiSCSIHBACOMaxSendDataSegmentLength (Some (le32_bytes v));
          State_Monad.return 0
        })
   }"

section \<open>The dialogue\<close>

text \<open>What is done with the answer when the status is success, whatever the error.\<close>

definition negotiate_store ::
  "corefoundation \<Rightarrow> u32 \<Rightarrow> iSCSISessionManager \<Rightarrow> iSCSITarget \<Rightarrow> SessionIdentifier \<Rightarrow>
   ConnectionIdentifier \<Rightarrow> iSCSILoginQueryContext \<Rightarrow> errno_t \<Rightarrow> cfdict \<Rightarrow> cfdict \<Rightarrow>
   ('z hba_world_scheme, errno_t) state" where
  "negotiate_store cf lmax managerRef target sessionId connectionId context error sessCmd sessRsp = do {
     let hbaInterface = iSCSISessionManagerGetHBAInterface managerRef;
     iSCSIHBAInterfaceSetSessionParameter hbaInterface sessionId kiSCSIHBASOTargetSessionId
       (Some (le16_bytes (lc_targetSessionId context)));
     iSCSIHBAInterfaceSetSessionParameter hbaInterface sessionId kiSCSIHBASOInitialCmdSN
       (Some (le32_bytes (lc_expCmdSN context)));
     error \<leftarrow> (if error = 0
       then iSCSINegotiateParseSWDictCommon cf managerRef sessionId sessCmd sessRsp
       else State_Monad.return error);
     error \<leftarrow> (if error = 0 \<and> iSCSITargetGetIQN target \<noteq> None
       then iSCSINegotiateParseSWDictNormal cf lmax managerRef sessionId sessCmd sessRsp
       else State_Monad.return error);
     if error = 0
     then iSCSINegotiateParseCWDict cf lmax managerRef sessionId connectionId sessCmd sessRsp
     else State_Monad.return error
   }"

text \<open>The result: the error, the status code and the target; \<open>None\<close> when the query has not ended within
  the bound.\<close>

definition iSCSINegotiateSession ::
  "corefoundation \<Rightarrow> u32 \<Rightarrow> nat \<Rightarrow> iSCSISessionManager \<Rightarrow> iSCSITarget \<Rightarrow> SessionIdentifier \<Rightarrow>
   ConnectionIdentifier \<Rightarrow> cfobject \<Rightarrow> cfobject option \<Rightarrow> u32 \<Rightarrow>
   ('z hba_world_scheme, (errno_t \<times> u32 \<times> iSCSITarget) option) state" where
  "iSCSINegotiateSession cf lmax bound managerRef target sessionId connectionId sessCfg connCfg statusCode = do {
     let hbaInterface = iSCSISessionManagerGetHBAInterface managerRef;
     sessCmd \<leftarrow> iSCSINegotiateBuildSWDictCommon sessCfg [];
     discoverySession \<leftarrow> CFStringEqual (iSCSITargetGetIQN target) (Some kiSCSIUnspecifiedTargetIQN);
     sessCmd \<leftarrow> (if \<not> discoverySession then iSCSINegotiateBuildSWDictNormal sessCfg sessCmd
                 else State_Monad.return sessCmd);
     sessCmd \<leftarrow> iSCSINegotiateBuildCWDict connCfg sessCmd;
     context \<leftarrow> stack_context hbaInterface sessionId connectionId
       kiSCSIPDULoginOperationalNegotiation kiSCSIPDUFullFeaturePhase 0;
     result \<leftarrow> iSCSISessionLoginQuery cf bound (context, statusCode, Some []) (Some sessCmd);
     (case result of
        None \<Rightarrow> State_Monad.return None
      | Some (error, (context, statusCode, rsp)) \<Rightarrow> do {
          let sessRsp = the_dict rsp;
          error \<leftarrow> (if statusCode = kiSCSILoginSuccess
            then negotiate_store cf lmax managerRef target sessionId connectionId context error sessCmd sessRsp
            else State_Monad.return error);
          State_Monad.return (Some (error, statusCode, save_alias error sessRsp target))
        })
   }"

text \<open>The target object is passed where a connection configuration is expected: its values are
  strings.\<close>

definition object_of_dict :: "cfdict \<Rightarrow> cfobject" where
  "object_of_dict d = map (\<lambda>(k, v). (k, CFString v)) d"

definition iSCSINegotiateConnection ::
  "corefoundation \<Rightarrow> u32 \<Rightarrow> nat \<Rightarrow> iSCSISessionManager \<Rightarrow> iSCSITarget option \<Rightarrow> SessionIdentifier \<Rightarrow>
   ConnectionIdentifier \<Rightarrow> u32 \<Rightarrow> ('z hba_world_scheme, (errno_t \<times> u32) option) state" where
  "iSCSINegotiateConnection cf lmax bound managerRef target sessionId connectionId statusCode = do {
     let hbaInterface = iSCSISessionManagerGetHBAInterface managerRef;
     connCmd \<leftarrow> iSCSINegotiateBuildCWDict (map_option object_of_dict target) [];
     old \<leftarrow> sys (SysStack 2);
     context \<leftarrow> stack_context hbaInterface sessionId connectionId
       kiSCSIPDULoginOperationalNegotiation kiSCSIPDULoginOperationalNegotiation 0;
     (_, tsih) \<leftarrow> iSCSIHBAInterfaceGetSessionParameter hbaInterface sessionId kiSCSIHBASOTargetSessionId True 2;
     let targetSessionId =
       (case tsih of Some bs \<Rightarrow> le16_at 0 bs | None \<Rightarrow> le16_at 0 (fixed 2 (sr_bytes old)));
     let context = context\<lparr> lc_targetSessionId := targetSessionId \<rparr>;
     let context = (if targetSessionId \<noteq> 0 then context\<lparr> lc_nextStage := kiSCSIPDUFullFeaturePhase \<rparr> else context);
     result \<leftarrow> iSCSISessionLoginQuery cf bound (context, statusCode, Some []) (Some connCmd);
     (case result of
        None \<Rightarrow> State_Monad.return None
      | Some (error, (context, statusCode, connRsp)) \<Rightarrow> do {
          error \<leftarrow> (if error = 0 \<and> statusCode = kiSCSILoginSuccess
            then iSCSINegotiateParseCWDict cf lmax managerRef sessionId connectionId connCmd (the_dict connRsp)
            else State_Monad.return error);
          State_Monad.return (Some (error, statusCode))
        })
   }"

end
