(* ===== verification/Utils.thy ===== *)
theory Utils
  imports Objects
begin

text \<open>
  Helpers of the framework, \<open>Source/User/iSCSI Framework/iSCSIUtils.c\<close>: the addresses of a portal and of
  the host interface it is reached through.

  The resolver and the list of interfaces are calls to the environment: \<open>getaddrinfo\<close> answers with an
  error or with socket addresses, \<open>getifaddrs\<close> with the names and addresses of the interfaces.
\<close>

section \<open>Socket addresses\<close>

text \<open>A \<open>struct sockaddr_storage\<close> in automatic storage, and \<open>memcpy\<close> of a shorter address into one.\<close>

definition unpack_sockaddr :: "u8 list \<Rightarrow> sockaddr_storage" where
  "unpack_sockaddr bs = \<lparr> ss_len = bs ! 0, ss_family = unat (bs ! 1), ss_port = le16_at 2 bs,
     ss_rest = drop 4 bs \<rparr>"

definition stack_sockaddr :: "('z world_scheme, sockaddr_storage) state" where
  "stack_sockaddr = do {
     r \<leftarrow> sys (SysStack 128);
     State_Monad.return (unpack_sockaddr (fixed 128 (sr_bytes r)))
   }"

definition copy_sockaddr :: "sockaddr_storage \<Rightarrow> sockaddr_storage \<Rightarrow> sockaddr_storage" where
  "copy_sockaddr a old = a\<lparr> ss_rest := overwrite (ss_rest a) (ss_rest old) \<rparr>"

text \<open>The bytes of a string up to the null, in a buffer on the stack.\<close>

definition c_string :: "corefoundation \<Rightarrow> cfstring option \<Rightarrow> ('z world_scheme, u8 list) state" where
  "c_string cf s =
     (case s of
        None \<Rightarrow> do { fault NullDeref; State_Monad.return [] }
      | Some x \<Rightarrow> do {
          buf \<leftarrow> hex_buffer cf x;
          State_Monad.return (takeWhile (\<lambda>b. b \<noteq> 0) buf)
        })"

section \<open>The addresses of a portal\<close>

text \<open>The local address for the default interface. Only the family is set for IPv6, and the address:
  length, port, flow information and scope keep what was there.\<close>

definition default_address :: "sockaddr_storage \<Rightarrow> sockaddr_storage \<Rightarrow> sockaddr_storage" where
  "default_address remoteAddress localAddress =
     (let local = localAddress\<lparr> ss_family := ss_family remoteAddress \<rparr>
      in if ss_family local = AF_INET
         then local\<lparr> ss_port := 0, ss_rest := poke 0 [0, 0, 0, 0] (ss_rest local), ss_len := 16 \<rparr>
         else if ss_family local = AF_INET6
         then local\<lparr> ss_rest := poke 4 (replicate 16 0) (ss_rest local) \<rparr>
         else local)"

text \<open>The first interface of the family with the name, case apart. A name that is not UTF-8 gives no
  string.\<close>

fun find_interface ::
  "corefoundation \<Rightarrow> cfstring option \<Rightarrow> nat \<Rightarrow> (u8 list \<times> sockaddr_storage) list \<Rightarrow>
   ('z world_scheme, sockaddr_storage option) state" where
  "find_interface cf hostIface family [] = State_Monad.return None"
| "find_interface cf hostIface family ((name, a) # rest) =
     (if ss_family a = family then do {
        ifaceNameMatch \<leftarrow> CFStringEqualNoCase cf (if cf_valid cf name then Some name else None) hostIface;
        if ifaceNameMatch then State_Monad.return (Some a) else find_interface cf hostIface family rest
      }
      else find_interface cf hostIface family rest)"

definition iSCSIUtilsGetAddressForPortal ::
  "corefoundation \<Rightarrow> iSCSIPortal option \<Rightarrow> sockaddr_storage \<Rightarrow> sockaddr_storage \<Rightarrow>
   ('z world_scheme, errno_t \<times> sockaddr_storage \<times> sockaddr_storage) state" where
  "iSCSIUtilsGetAddressForPortal cf portal remoteAddress localAddress =
     (case portal of
        None \<Rightarrow> State_Monad.return (EINVAL, remoteAddress, localAddress)
      | Some p \<Rightarrow> do {
          targetAddr \<leftarrow> c_string cf (iSCSIPortalGetAddress p);
          targetPort \<leftarrow> c_string cf (iSCSIPortalGetPort p);
          r \<leftarrow> sys (SysGetaddrinfo targetAddr targetPort);
          if sr_errno r \<noteq> 0 then State_Monad.return (sr_errno r, remoteAddress, localAddress)
          else do {
            remoteAddress \<leftarrow> (case sr_addrs r of
               [] \<Rightarrow> do { fault NullDeref; State_Monad.return remoteAddress }
             | (_, a) # _ \<Rightarrow> State_Monad.return (copy_sockaddr a remoteAddress));
            sys SysFreeaddrinfo;
            let hostIface = iSCSIPortalGetHostInterface p;
            default_interface \<leftarrow> CFStringEqual hostIface (Some kiSCSIDefaultHostInterface);
            if default_interface
            then State_Monad.return (0, remoteAddress, default_address remoteAddress localAddress)
            else do {
              i \<leftarrow> sys SysGetifaddrs;
              if sr_ret i \<noteq> 0
              then State_Monad.return (word_of_int (sr_ret i), remoteAddress, localAddress)
              else do {
                found \<leftarrow> find_interface cf hostIface (ss_family remoteAddress) (sr_addrs i);
                sys SysFreeifaddrs;
                State_Monad.return (case found of
                   Some a \<Rightarrow> (0, remoteAddress, copy_sockaddr a localAddress)
                 | None \<Rightarrow> (EAFNOSUPPORT, remoteAddress, localAddress))
              }
            }
          }
        })"

section \<open>Small helpers\<close>

definition iSCSIUtilsValidatePort :: "corefoundation \<Rightarrow> cfstring option \<Rightarrow> ('z world_scheme, bool) state" where
  "iSCSIUtilsValidatePort cf port =
     (case port of
        None \<Rightarrow> do { fault NullDeref; State_Monad.return True }
      | Some s \<Rightarrow> State_Monad.return (0 \<le> cf_int cf s \<and> cf_int cf s \<le> 2 ^ 16 - 1))"

end
