(* ===== verification/Session.thy ===== *)
theory Session
  imports Negotiation Utils HbaActivate
begin

text \<open>
  Sessions, second part of \<open>Source/User/iscsid/iSCSISession.c\<close>: login and logout, connections of a
  session, discovery of targets, and the queries the daemon answers from the HBA interface.
\<close>

section \<open>Logout\<close>

record iSCSIPDULogoutReqBHS =
  gq_opCodeAndDeliveryMarker :: u8
  gq_reasonCode :: u8
  gq_reserved1 :: u16
  gq_totalAHSLength :: u8
  gq_dataSegmentLength :: "u8 list"
  gq_reserved2 :: u64
  gq_initiatorTaskTag :: u32
  gq_CID :: u16
  gq_reserved3 :: u16
  gq_cmdSN :: u32
  gq_expStatSN :: u32

abbreviation (input) kiSCSIPDUOpCodeLogoutReq :: u8 where "kiSCSIPDUOpCodeLogoutReq \<equiv> 0x06"
abbreviation (input) kiSCSIPDUOpCodeLogoutRsp :: u8 where "kiSCSIPDUOpCodeLogoutRsp \<equiv> 0x26"
abbreviation (input) kISCSIPDULogoutReasonCodeFlag :: u8 where "kISCSIPDULogoutReasonCodeFlag \<equiv> 0x80"
abbreviation (input) kiSCSIPDULogoutCloseSession :: u8 where "kiSCSIPDULogoutCloseSession \<equiv> 0"
abbreviation (input) kISCSIPDULogoutCloseConnection :: u8 where "kISCSIPDULogoutCloseConnection \<equiv> 1"

definition iSCSIPDULogoutReqBHSInit :: iSCSIPDULogoutReqBHS where
  "iSCSIPDULogoutReqBHSInit = \<lparr>
     gq_opCodeAndDeliveryMarker = kiSCSIPDUOpCodeLogoutReq OR kiSCSIPDUImmediateDeliveryFlag,
     gq_reasonCode = 0, gq_reserved1 = 0, gq_totalAHSLength = 0, gq_dataSegmentLength = [0, 0, 0],
     gq_reserved2 = 0, gq_initiatorTaskTag = 0, gq_CID = 0, gq_reserved3 = 0, gq_cmdSN = 0,
     gq_expStatSN = 0 \<rparr>"

definition logout_req_bytes :: "iSCSIPDULogoutReqBHS \<Rightarrow> u8 list" where
  "logout_req_bytes q =
     [gq_opCodeAndDeliveryMarker q, gq_reasonCode q] @ le16_bytes (gq_reserved1 q) @
     [gq_totalAHSLength q] @ fixed 3 (gq_dataSegmentLength q) @ le64_bytes (gq_reserved2 q) @
     le32_bytes (gq_initiatorTaskTag q) @ le16_bytes (gq_CID q) @ le16_bytes (gq_reserved3 q) @
     le32_bytes (gq_cmdSN q) @ le32_bytes (gq_expStatSN q)"

record iSCSIPDULogoutRspBHS =
  gp_opCode :: u8
  gp_reserved1 :: u8
  gp_response :: u8
  gp_reserved2 :: u8
  gp_totalAHSLength :: u8
  gp_dataSegmentLength :: "u8 list"
  gp_reserved3 :: "u8 list"
  gp_initiatorTaskTag :: u32
  gp_reserved4 :: u32
  gp_statSN :: u32
  gp_expCmdSN :: u32
  gp_maxCmdSN :: u32
  gp_reserved5 :: u32
  gp_time2Wait :: u16
  gp_time2Retain :: u16

definition logout_rsp_of :: "u8 list \<Rightarrow> iSCSIPDULogoutRspBHS" where
  "logout_rsp_of bs = \<lparr> gp_opCode = bs ! 0, gp_reserved1 = bs ! 1, gp_response = bs ! 2,
     gp_reserved2 = bs ! 3, gp_totalAHSLength = bs ! 4, gp_dataSegmentLength = take 3 (drop 5 bs),
     gp_reserved3 = take 8 (drop 8 bs), gp_initiatorTaskTag = le32_at 16 bs, gp_reserved4 = le32_at 20 bs,
     gp_statSN = le32_at 24 bs, gp_expCmdSN = le32_at 28 bs, gp_maxCmdSN = le32_at 32 bs,
     gp_reserved5 = le32_at 36 bs, gp_time2Wait = le16_at 40 bs, gp_time2Retain = le16_at 42 bs \<rparr>"

abbreviation (input) sizeof_LogoutReqBHS :: nat where "sizeof_LogoutReqBHS \<equiv> 32"
abbreviation (input) sizeof_LogoutRspBHS :: nat where "sizeof_LogoutRspBHS \<equiv> 44"

text \<open>\<open>iSCSIPDUDataRelease(data)\<close>, with the block itself in place of the address of the pointer: the
  first eight bytes of the block are taken for a pointer, which is freed unless it is null.\<close>

definition release_block :: "u8 list option \<Rightarrow> ('z world_scheme, unit) state" where
  "release_block data =
     (case data of
        None \<Rightarrow> State_Monad.return ()
      | Some block \<Rightarrow>
          if fixed 8 block = replicate 8 0 then State_Monad.return () else fault BadObject)"

definition iSCSISessionLogoutCommon ::
  "iSCSISessionManager \<Rightarrow> SessionIdentifier \<Rightarrow> ConnectionIdentifier \<Rightarrow> u8 \<Rightarrow> u32 \<Rightarrow>
   ('z hba_world_scheme, errno_t \<times> u32) state" where
  "iSCSISessionLogoutCommon managerRef sessionId connectionId logoutReason statusCode =
     (if kiSCSIInvalidSessionId \<le> sessionId \<or> kiSCSIInvalidConnectionId \<le> connectionId
      then State_Monad.return (EINVAL, statusCode)
      else do {
        let hbaInterface = iSCSISessionManagerGetHBAInterface managerRef;
        cmd \<leftarrow> cast_header (logout_req_bytes (iSCSIPDULogoutReqBHSInit\<lparr>
          gq_reasonCode := logoutReason OR kISCSIPDULogoutReasonCodeFlag \<rparr>));
        error \<leftarrow> iSCSIHBAInterfaceSend hbaInterface sessionId connectionId (Some cmd) None 0;
        if error \<noteq> 0 then State_Monad.return (error, statusCode)
        else do {
          header_accessed sizeof_LogoutReqBHS;
          rsp \<leftarrow> uninitialised_header;
          (error, rsp, data, _) \<leftarrow>
            iSCSIHBAInterfaceReceive hbaInterface sessionId connectionId (Some rsp) None 0;
          if error \<noteq> 0 then State_Monad.return (error, statusCode)
          else do {
            header_accessed sizeof_LogoutRspBHS;
            let (error, statusCode) =
              (if gp_opCode (logout_rsp_of rsp) = kiSCSIPDUOpCodeLogoutRsp
               then (0, ucast (gp_response (logout_rsp_of rsp)))
               else if gp_opCode (logout_rsp_of rsp) = kiSCSIPDUOpCodeReject then (EINVAL, statusCode)
               else (0, statusCode));
            release_block data;
            State_Monad.return (error, statusCode)
          }
        }
      })"

definition iSCSISessionLogout ::
  "iSCSISessionManager \<Rightarrow> SessionIdentifier \<Rightarrow> u32 \<Rightarrow> ('z hba_world_scheme, errno_t \<times> u32) state" where
  "iSCSISessionLogout managerRef sessionId statusCode =
     (if sessionId = kiSCSIInvalidSessionId then State_Monad.return (EINVAL, statusCode)
      else do {
        let hbaInterface = iSCSISessionManagerGetHBAInterface managerRef;
        error \<leftarrow> iSCSIHBAInterfaceDeactivateAllConnections hbaInterface sessionId;
        if error \<noteq> 0 then State_Monad.return (error, statusCode)
        else do {
          (error, conn) \<leftarrow> iSCSIHBAInterfaceGetConnection hbaInterface sessionId True;
          (error, statusCode) \<leftarrow> (if error = 0
            then iSCSISessionLogoutCommon managerRef sessionId
                   (case conn of Some c \<Rightarrow> c | None \<Rightarrow> kiSCSIInvalidConnectionId)
                   kiSCSIPDULogoutCloseSession statusCode
            else State_Monad.return (error, statusCode));
          iSCSIHBAInterfaceReleaseSession hbaInterface sessionId;
          State_Monad.return (error, statusCode)
        }
      })"

section \<open>Login\<close>

text \<open>The result: the error, the identifiers, the status code and the target; \<open>None\<close> when a query has
  not ended within the bound. \<open>has_out\<close> is whether the three result pointers are non-null;
  \<open>sessionId0\<close>, \<open>connectionId0\<close> and \<open>statusCode\<close> are what they point to.\<close>

definition iSCSISessionLogin ::
  "corefoundation \<Rightarrow> (u8 list \<Rightarrow> u8 list) \<Rightarrow> u32 \<Rightarrow> nat \<Rightarrow> iSCSISessionManager \<Rightarrow> iSCSITarget option \<Rightarrow>
   iSCSIPortal option \<Rightarrow> iSCSIAuth option \<Rightarrow> iSCSIAuth option \<Rightarrow> cfobject option \<Rightarrow> cfobject option \<Rightarrow> bool \<Rightarrow>
   SessionIdentifier \<Rightarrow> ConnectionIdentifier \<Rightarrow> u32 \<Rightarrow>
   ('z hba_world_scheme,
    (errno_t \<times> SessionIdentifier \<times> ConnectionIdentifier \<times> u32 \<times> iSCSITarget option) option) state" where
  "iSCSISessionLogin cf md5 lmax bound managerRef target portal initiatorAuth targetAuth sessCfg connCfg
     has_out sessionId0 connectionId0 statusCode =
     (case (target, portal, initiatorAuth, targetAuth, sessCfg, connCfg) of
        (Some t, Some p, Some ia, Some ta, Some scfg, Some ccfg) \<Rightarrow>
          if \<not> has_out
          then State_Monad.return (Some (EINVAL, sessionId0, connectionId0, statusCode, target))
          else do {
            let hbaInterface = iSCSISessionManagerGetHBAInterface managerRef;
            ssTarget \<leftarrow> stack_sockaddr;
            ssHost \<leftarrow> stack_sockaddr;
            (error, ssTarget, ssHost) \<leftarrow> iSCSIUtilsGetAddressForPortal cf (Some p) ssTarget ssHost;
            if error \<noteq> 0
            then State_Monad.return (Some (error, sessionId0, connectionId0, statusCode, target))
            else do {
              (error, ids) \<leftarrow> iSCSIHBAInterfaceCreateSession cf hbaInterface (iSCSITargetGetIQN t)
                (iSCSIPortalGetAddress p) (iSCSIPortalGetPort p) (iSCSIPortalGetHostInterface p)
                (Some ssTarget) (Some ssHost) True;
              let (sessionId, connectionId) =
                (case ids of Some x \<Rightarrow> x | None \<Rightarrow> (sessionId0, connectionId0));
              if error = 0 \<and> (sessionId = kiSCSIInvalidSessionId \<or> connectionId = kiSCSIInvalidConnectionId)
              then State_Monad.return (Some (EAGAIN, sessionId, connectionId, statusCode, target))
              else do {
                result \<leftarrow> (if error = 0
                  then iSCSIAuthNegotiate cf md5 bound managerRef t ia ta sessionId connectionId statusCode
                  else State_Monad.return (Some (error, statusCode, t)));
                (case result of
                   None \<Rightarrow> State_Monad.return None
                 | Some (error, statusCode, t) \<Rightarrow> do {
                     result \<leftarrow> (if error = 0 \<and> statusCode = kiSCSILoginSuccess
                       then iSCSINegotiateSession cf lmax bound managerRef t sessionId connectionId scfg
                              (Some ccfg) statusCode
                       else State_Monad.return (Some (error, statusCode, t)));
                     (case result of
                        None \<Rightarrow> State_Monad.return None
                      | Some (error, statusCode, t) \<Rightarrow> do {
                          (if error \<noteq> 0 \<or> statusCode \<noteq> kiSCSILoginSuccess then do {
                             iSCSIHBAInterfaceReleaseSession hbaInterface sessionId;
                             State_Monad.return ()
                           }
                           else do {
                             discovery \<leftarrow> CFStringEqual (iSCSITargetGetIQN t) (Some kiSCSIUnspecifiedTargetIQN);
                             (if \<not> discovery then do {
                                iSCSIHBAInterfaceActivateConnection hbaInterface sessionId connectionId;
                                State_Monad.return ()
                              }
                              else State_Monad.return ())
                           });
                          State_Monad.return (Some (error, sessionId, connectionId, statusCode, Some t))
                        })
                   })
              }
            }
          }
      | _ \<Rightarrow> State_Monad.return (Some (EINVAL, sessionId0, connectionId0, statusCode, target)))"

section \<open>Connections\<close>

definition iSCSISessionCopyTargetForId ::
  "corefoundation \<Rightarrow> iSCSISessionManager \<Rightarrow> SessionIdentifier \<Rightarrow>
   ('z hba_world_scheme, iSCSITarget option) state" where
  "iSCSISessionCopyTargetForId cf managerRef sessionId =
     (if sessionId = kiSCSIInvalidSessionId then State_Monad.return None
      else do {
        targetIQN \<leftarrow> iSCSIHBAInterfaceCreateTargetIQNForSessionId cf
          (iSCSISessionManagerGetHBAInterface managerRef) sessionId;
        (case targetIQN of
           None \<Rightarrow> State_Monad.return None
         | Some IQN \<Rightarrow> do {
             target \<leftarrow> iSCSITargetSetIQN (Some IQN) iSCSITargetCreateMutable;
             State_Monad.return (Some target)
           })
      })"

text \<open>The connection identifier is written as soon as the arguments are checked. The result is 0 even
  when authentication has failed.\<close>

definition iSCSISessionAddConnection ::
  "corefoundation \<Rightarrow> (u8 list \<Rightarrow> u8 list) \<Rightarrow> nat \<Rightarrow> iSCSISessionManager \<Rightarrow> SessionIdentifier \<Rightarrow>
   iSCSIPortal option \<Rightarrow> iSCSIAuth \<Rightarrow> iSCSIAuth \<Rightarrow> bool \<Rightarrow> ConnectionIdentifier \<Rightarrow> u32 \<Rightarrow>
   ('z hba_world_scheme, (errno_t \<times> ConnectionIdentifier \<times> u32) option) state" where
  "iSCSISessionAddConnection cf md5 bound managerRef sessionId portal initiatorAuth targetAuth has_out
     connectionId0 statusCode =
     (case portal of
        None \<Rightarrow> State_Monad.return (Some (EINVAL, connectionId0, statusCode))
      | Some p \<Rightarrow>
          if sessionId = kiSCSIInvalidSessionId \<or> \<not> has_out
          then State_Monad.return (Some (EINVAL, connectionId0, statusCode))
          else do {
            let hbaInterface = iSCSISessionManagerGetHBAInterface managerRef;
            ssTarget \<leftarrow> stack_sockaddr;
            ssHost \<leftarrow> stack_sockaddr;
            (error, ssTarget, ssHost) \<leftarrow> iSCSIUtilsGetAddressForPortal cf (Some p) ssTarget ssHost;
            if error \<noteq> 0 then State_Monad.return (Some (error, kiSCSIInvalidConnectionId, statusCode))
            else do {
              (error, conn) \<leftarrow> iSCSIHBAInterfaceCreateConnection cf hbaInterface sessionId
                (iSCSIPortalGetAddress p) (iSCSIPortalGetPort p) (iSCSIPortalGetHostInterface p)
                (Some ssTarget) (Some ssHost) True;
              let connectionId = (case conn of Some c \<Rightarrow> c | None \<Rightarrow> kiSCSIInvalidConnectionId);
              if error \<noteq> 0 \<or> connectionId = kiSCSIInvalidConnectionId
              then State_Monad.return (Some (EAGAIN, connectionId, statusCode))
              else do {
                targetTemp \<leftarrow> iSCSISessionCopyTargetForId cf managerRef sessionId;
                target \<leftarrow> (case targetTemp of
                   Some t \<Rightarrow> State_Monad.return t
                 | None \<Rightarrow> do { fault NullDeref; State_Monad.return [] });
                result \<leftarrow> (if statusCode = kiSCSILoginSuccess
                  then iSCSIAuthNegotiate cf md5 bound managerRef target initiatorAuth targetAuth sessionId
                         connectionId statusCode
                  else State_Monad.return (Some (0, statusCode, target)));
                (case result of
                   None \<Rightarrow> State_Monad.return None
                 | Some (error, statusCode, target) \<Rightarrow> do {
                     (if error = 0 \<and> statusCode = kiSCSILoginSuccess
                      then iSCSIHBAInterfaceActivateConnection hbaInterface sessionId connectionId
                      else iSCSIHBAInterfaceReleaseConnection hbaInterface sessionId connectionId);
                     State_Monad.return (Some (0, connectionId, statusCode))
                   })
              }
            }
          })"

definition iSCSISessionRemoveConnection ::
  "iSCSISessionManager \<Rightarrow> SessionIdentifier \<Rightarrow> ConnectionIdentifier \<Rightarrow> u32 \<Rightarrow>
   ('z hba_world_scheme, errno_t \<times> u32) state" where
  "iSCSISessionRemoveConnection managerRef sessionId connectionId statusCode =
     (if kiSCSIInvalidSessionId \<le> sessionId \<or> kiSCSIInvalidConnectionId \<le> connectionId
      then State_Monad.return (EINVAL, statusCode)
      else do {
        let hbaInterface = iSCSISessionManagerGetHBAInterface managerRef;
        (error, count) \<leftarrow> iSCSIHBAInterfaceGetNumConnections hbaInterface sessionId True;
        if error \<noteq> 0 then State_Monad.return (error, statusCode)
        else if count = Some 1 then iSCSISessionLogout managerRef sessionId statusCode
        else do {
          error \<leftarrow> iSCSIHBAInterfaceDeactivateConnection hbaInterface sessionId connectionId;
          (error, statusCode) \<leftarrow> (if error = 0
            then iSCSISessionLogoutCommon managerRef sessionId connectionId
                   kISCSIPDULogoutCloseConnection statusCode
            else State_Monad.return (error, statusCode));
          iSCSIHBAInterfaceReleaseConnection hbaInterface sessionId connectionId;
          State_Monad.return (error, statusCode)
        }
      })"

section \<open>Discovery\<close>

abbreviation kRFC3720_Key_TargetAddress :: cfstring where "kRFC3720_Key_TargetAddress \<equiv> cfs ''TargetAddress''"
abbreviation kRFC3720_Key_SendTargets :: cfstring where "kRFC3720_Key_SendTargets \<equiv> cfs ''SendTargets''"
abbreviation kRFC3720_Value_SendTargetsAll :: cfstring where "kRFC3720_Value_SendTargetsAll \<equiv> cfs ''All''"
abbreviation (input) kiSCSIPDUTextReqFinalFlag :: u8 where "kiSCSIPDUTextReqFinalFlag \<equiv> 0x80"
abbreviation (input) kiSCSIPDUTargetTransferTagReserved :: u32 where
  "kiSCSIPDUTargetTransferTagReserved \<equiv> 0xFFFFFFFF"

definition comma :: u8 where "comma = 44"
definition colon :: u8 where "colon = 58"

text \<open>The parts of \<open>address:port,tag\<close>: the strings before and after the first comma (up to the second),
  and before and after the last colon of the first; \<open>None\<close> when there is no such character, which
  Core Foundation answers with a range exception.\<close>

definition split_tag :: "cfstring \<Rightarrow> cfstring \<times> cfstring option" where
  "split_tag v =
     (takeWhile (\<lambda>b. b \<noteq> comma) v,
      if comma \<in> set v then Some (takeWhile (\<lambda>b. b \<noteq> comma) (tl (dropWhile (\<lambda>b. b \<noteq> comma) v)))
      else None)"

definition split_port :: "cfstring \<Rightarrow> (cfstring \<times> cfstring) option" where
  "split_port v =
     (if colon \<in> set v
      then Some (rev (tl (dropWhile (\<lambda>b. b \<noteq> colon) (rev v))), rev (takeWhile (\<lambda>b. b \<noteq> colon) (rev v)))
      else None)"

text \<open>The container of the callback: the static variable \<open>targetIQN\<close> and the record.\<close>

definition iSCSIPDUDataParseToDiscoveryRecCallback ::
  "cfstring option \<times> iSCSIDiscoveryRec \<Rightarrow> cfstring option \<Rightarrow> cfstring option \<Rightarrow>
   ('z world_scheme, cfstring option \<times> iSCSIDiscoveryRec) state" where
  "iSCSIPDUDataParseToDiscoveryRecCallback container key val = do {
     let (targetIQN, discoveryRec) = container;
     is_name \<leftarrow> CFStringEqual key (Some kRFC3720_Key_TargetName);
     if is_name then
       (case val of
          None \<Rightarrow> do { fault NullDeref; State_Monad.return container }
        | Some v \<Rightarrow> State_Monad.return (Some v, iSCSIDiscoveryRecAddTarget (Some v) discoveryRec))
     else do {
       is_address \<leftarrow> CFStringEqual key (Some kRFC3720_Key_TargetAddress);
       if \<not> is_address then State_Monad.return container
       else (case val of
          None \<Rightarrow> do { fault NullDeref; State_Monad.return container }
        | Some v \<Rightarrow>
            (case (split_port (fst (split_tag v)), snd (split_tag v)) of
               (Some (address, port), Some portalGroupTag) \<Rightarrow> do {
                 portal \<leftarrow> iSCSIPortalSetAddress (Some address) iSCSIPortalCreateMutable;
                 portal \<leftarrow> iSCSIPortalSetPort (Some port) portal;
                 portal \<leftarrow> iSCSIPortalSetHostInterface (Some kiSCSIDefaultHostInterface) portal;
                 State_Monad.return (None,
                   iSCSIDiscoveryRecAddPortal targetIQN (Some portalGroupTag) (Some portal) discoveryRec)
               }
             | _ \<Rightarrow> do { fault OutOfBounds; State_Monad.return container }))
     }
   }"

text \<open>The loop over the responses: the error with which it ends and whether by \<open>return\<close>.\<close>

fun discovery_receive ::
  "corefoundation \<Rightarrow> nat \<Rightarrow> nat option \<Rightarrow> SessionIdentifier \<Rightarrow> ConnectionIdentifier \<Rightarrow> u8 list \<Rightarrow>
   u8 list option \<Rightarrow> nat \<Rightarrow> cfstring option \<times> iSCSIDiscoveryRec \<Rightarrow>
   ('z hba_world_scheme,
    (errno_t \<times> bool \<times> u8 list option \<times> cfstring option \<times> iSCSIDiscoveryRec) option) state" where
  "discovery_receive cf 0 hbaInterface sessionId connectionId rsp data len container = State_Monad.return None"
| "discovery_receive cf (Suc bound) hbaInterface sessionId connectionId rsp data len container = do {
     (error, rsp, data, len) \<leftarrow>
       iSCSIHBAInterfaceReceive hbaInterface sessionId connectionId (Some rsp) data len;
     if error \<noteq> 0 then State_Monad.return (Some (error, True, data, container))
     else if rsp ! 0 \<noteq> kiSCSIPDUOpCodeTextRsp \<and> rsp ! 0 = kiSCSIPDUOpCodeReject
     then State_Monad.return (Some (EINVAL, False, data, container))
     else do {
       container \<leftarrow> (if rsp ! 0 = kiSCSIPDUOpCodeTextRsp
         then iSCSIPDUDataParseCommon cf data len container iSCSIPDUDataParseToDiscoveryRecCallback
         else State_Monad.return container);
       if rsp ! 1 AND kiSCSIPDUTextReqContinueFlag \<noteq> 0
       then discovery_receive cf bound hbaInterface sessionId connectionId rsp data len container
       else State_Monad.return (Some (0, False, data, container))
     }
   }"

text \<open>A target without portals gets the portal that was asked, with tag 0.\<close>

definition add_discovery_portal :: "iSCSIPortal \<Rightarrow> cfstring \<Rightarrow> iSCSIDiscoveryRec \<Rightarrow> iSCSIDiscoveryRec" where
  "add_discovery_portal portal targetIQN discoveryRec =
     (if iSCSIDiscoveryRecCreateArrayOfPortalGroupTags (Some discoveryRec) (Some targetIQN) = Some []
      then iSCSIDiscoveryRecAddPortal (Some targetIQN) (Some (cfs ''0'')) (Some portal) discoveryRec
      else discoveryRec)"

text \<open>The result: the error, the record when one was made, the status code and the static variable.\<close>

type_synonym discovery_result = "errno_t \<times> iSCSIDiscoveryRec option \<times> u32 \<times> cfstring option"

text \<open>After the login.\<close>

definition send_targets ::
  "corefoundation \<Rightarrow> nat \<Rightarrow> iSCSISessionManager \<Rightarrow> iSCSIPortal \<Rightarrow> SessionIdentifier \<Rightarrow>
   ConnectionIdentifier \<Rightarrow> u32 \<Rightarrow> cfstring option \<Rightarrow>
   ('z hba_world_scheme, discovery_result option) state" where
  "send_targets cf bound managerRef portal sessionId connectionId statusCode targetIQN = do {
     let textCmd = cf_set kRFC3720_Key_SendTargets kRFC3720_Value_SendTargetsAll [];
     created \<leftarrow> iSCSIPDUDataCreateFromDict cf (Some textCmd);
     (data, len) \<leftarrow> (case created of
        None \<Rightarrow> do { fault BadObject; State_Monad.return (None, 0) }
      | Some x \<Rightarrow> State_Monad.return x);
     let cmd = iSCSIPDUTextReqBHSInit\<lparr> tq_textReqStageFlags := kiSCSIPDUTextReqFinalFlag,
       tq_targetTransferTag := kiSCSIPDUTargetTransferTagReserved \<rparr>;
     let hbaInterface = iSCSISessionManagerGetHBAInterface managerRef;
     error \<leftarrow> iSCSIHBAInterfaceSend hbaInterface sessionId connectionId (Some (text_req_bytes cmd)) data len;
     iSCSIPDUDataRelease data;
     if error \<noteq> 0 then do {
       iSCSISessionLogout managerRef sessionId 0;
       State_Monad.return (Some (error, None, statusCode, targetIQN))
     }
     else do {
       rsp \<leftarrow> uninitialised_header;
       received \<leftarrow> discovery_receive cf bound hbaInterface sessionId connectionId rsp None len
         (targetIQN, iSCSIDiscoveryRecCreateMutable);
       (case received of
          None \<Rightarrow> State_Monad.return None
        | Some (error, left, data, targetIQN, discoveryRec) \<Rightarrow> do {
            iSCSIPDUDataRelease data;
            iSCSISessionLogout managerRef sessionId 0;
            State_Monad.return (Some (error,
              Some (if left then discoveryRec
                    else (case iSCSIDiscoveryRecCreateArrayOfTargets (Some discoveryRec) of
                       None \<Rightarrow> discoveryRec
                     | Some targets \<Rightarrow> fold (add_discovery_portal portal) targets discoveryRec)),
              statusCode, targetIQN))
          })
     }
   }"

definition iSCSIQueryPortalForTargets ::
  "corefoundation \<Rightarrow> (u8 list \<Rightarrow> u8 list) \<Rightarrow> u32 \<Rightarrow> nat \<Rightarrow> iSCSISessionManager \<Rightarrow> iSCSIPortal option \<Rightarrow>
   iSCSIAuth option \<Rightarrow> bool \<Rightarrow> u32 \<Rightarrow> cfstring option \<Rightarrow>
   ('z hba_world_scheme, discovery_result option) state" where
  "iSCSIQueryPortalForTargets cf md5 lmax bound managerRef portal initiatorAuth has_out statusCode targetIQN =
     (case portal of
        None \<Rightarrow> State_Monad.return (Some (EINVAL, None, statusCode, targetIQN))
      | Some p \<Rightarrow>
          if \<not> has_out then State_Monad.return (Some (EINVAL, None, statusCode, targetIQN))
          else do {
            target \<leftarrow> iSCSITargetSetIQN (Some kiSCSIUnspecifiedTargetIQN) iSCSITargetCreateMutable;
            r \<leftarrow> sys (SysStack 6);
            let old = fixed 6 (sr_bytes r);
            sessCfg \<leftarrow> iSCSISessionConfigCreateMutable;
            result \<leftarrow> iSCSISessionLogin cf md5 lmax bound managerRef (Some target) portal initiatorAuth
              (Some iSCSIAuthCreateNone) (Some sessCfg) (Some iSCSIConnectionConfigCreateMutable) True
              (le16_at 0 old) (le32_at 2 old) statusCode;
            (case result of
               None \<Rightarrow> State_Monad.return None
             | Some (error, sessionId, connectionId, statusCode, _) \<Rightarrow>
                 if error \<noteq> 0 then State_Monad.return (Some (error, None, statusCode, targetIQN))
                 else send_targets cf bound managerRef p sessionId connectionId statusCode targetIQN)
          })"

definition iSCSIQueryTargetForAuthMethod ::
  "corefoundation \<Rightarrow> nat \<Rightarrow> iSCSISessionManager \<Rightarrow> iSCSIPortal option \<Rightarrow> cfstring option \<Rightarrow> bool \<Rightarrow> u32 \<Rightarrow>
   ('z hba_world_scheme, (errno_t \<times> u32 \<times> iSCSIAuthMethods option) option) state" where
  "iSCSIQueryTargetForAuthMethod cf bound managerRef portal targetIQN has_method statusCode =
     (case portal of
        None \<Rightarrow> State_Monad.return (Some (EINVAL, statusCode, None))
      | Some p \<Rightarrow>
          if \<not> has_method then State_Monad.return (Some (EINVAL, statusCode, None))
          else do {
            let hbaInterface = iSCSISessionManagerGetHBAInterface managerRef;
            ssTarget \<leftarrow> stack_sockaddr;
            ssHost \<leftarrow> stack_sockaddr;
            (error, ssTarget, ssHost) \<leftarrow> iSCSIUtilsGetAddressForPortal cf portal ssTarget ssHost;
            if error \<noteq> 0 then State_Monad.return (Some (error, statusCode, None))
            else do {
              target \<leftarrow> iSCSITargetSetIQN targetIQN iSCSITargetCreateMutable;
              r \<leftarrow> sys (SysStack 6);
              let old = fixed 6 (sr_bytes r);
              (error, ids) \<leftarrow> iSCSIHBAInterfaceCreateSession cf hbaInterface targetIQN
                (iSCSIPortalGetAddress p) (iSCSIPortalGetPort p) (iSCSIPortalGetHostInterface p)
                (Some ssTarget) (Some ssHost) True;
              let (sessionId, connectionId) = (case ids of Some x \<Rightarrow> x | None \<Rightarrow> (le16_at 0 old, le32_at 2 old));
              result \<leftarrow> (if error = 0
                then iSCSIAuthInterrogate cf bound managerRef (Some target) sessionId connectionId True statusCode
                else State_Monad.return (Some (error, statusCode, None)));
              (case result of
                 None \<Rightarrow> State_Monad.return None
               | Some x \<Rightarrow> do {
                   iSCSIHBAInterfaceReleaseSession hbaInterface sessionId;
                   State_Monad.return (Some x)
                 })
            }
          })"

section \<open>Queries\<close>

definition iSCSISessionGetSessionIdForTarget ::
  "corefoundation \<Rightarrow> iSCSISessionManager \<Rightarrow> cfstring option \<Rightarrow> ('z hba_world_scheme, SessionIdentifier) state" where
  "iSCSISessionGetSessionIdForTarget cf managerRef targetIQN =
     iSCSIHBAInterfaceGetSessionIdForTargetIQN cf (iSCSISessionManagerGetHBAInterface managerRef) targetIQN"

definition iSCSISessionGetConnectionIdForPortal ::
  "corefoundation \<Rightarrow> iSCSISessionManager \<Rightarrow> SessionIdentifier \<Rightarrow> iSCSIPortal \<Rightarrow>
   ('z hba_world_scheme, ConnectionIdentifier) state" where
  "iSCSISessionGetConnectionIdForPortal cf managerRef sessionId portal =
     iSCSIHBAInterfaceGetConnectionIdForPortalAddress cf (iSCSISessionManagerGetHBAInterface managerRef)
       sessionId (iSCSIPortalGetAddress portal)"

text \<open>\<open>CFArrayCreate\<close> takes an array of pointers, eight bytes each; it is given an array of identifiers
  in automatic storage. The elements are what eight bytes at a time spell, from behind the array too.\<close>

definition array_of_pointers :: "nat \<Rightarrow> u8 list \<Rightarrow> nat \<Rightarrow> ('z world_scheme, u64 list) state" where
  "array_of_pointers room written count = do {
     r \<leftarrow> sys (SysStack (max room (8 * count)));
     (if room < length written \<or> room < 8 * count then fault OutOfBounds else State_Monad.return ());
     let bytes = overwrite (take room written) (fixed (max room (8 * count)) (sr_bytes r));
     State_Monad.return (map (\<lambda>i. le_value (take 8 (drop (8 * i) bytes))) [0..<count])
   }"

abbreviation (input) kiSCSIMaxSessions :: nat where "kiSCSIMaxSessions \<equiv> 16"
abbreviation (input) kiSCSIMaxConnectionsPerSession :: nat where "kiSCSIMaxConnectionsPerSession \<equiv> 2"

definition iSCSISessionCopyArrayOfSessionIds ::
  "iSCSISessionManager \<Rightarrow> ('z hba_world_scheme, u64 list option) state" where
  "iSCSISessionCopyArrayOfSessionIds managerRef = do {
     (error, out) \<leftarrow> iSCSIHBAInterfaceGetSessionIds (iSCSISessionManagerGetHBAInterface managerRef) True;
     (case out of
        Some (sessionIds, sessionCount) \<Rightarrow>
          if error \<noteq> 0 then State_Monad.return None
          else do {
            elements \<leftarrow> array_of_pointers (2 * kiSCSIMaxSessions) (concat (map le16_bytes sessionIds))
              (unat sessionCount);
            State_Monad.return (Some elements)
          }
      | None \<Rightarrow> State_Monad.return None)
   }"

definition iSCSISessionCopyArrayOfConnectionIds ::
  "iSCSISessionManager \<Rightarrow> SessionIdentifier \<Rightarrow> ('z hba_world_scheme, u64 list option) state" where
  "iSCSISessionCopyArrayOfConnectionIds managerRef sessionId =
     (if sessionId = kiSCSIInvalidSessionId then State_Monad.return None
      else do {
        (error, out) \<leftarrow>
          iSCSIHBAInterfaceGetConnectionIds (iSCSISessionManagerGetHBAInterface managerRef) sessionId True;
        (case out of
           Some (connectionIds, connectionCount) \<Rightarrow>
             if error \<noteq> 0 then State_Monad.return None
             else do {
               elements \<leftarrow> array_of_pointers (4 * kiSCSIMaxConnectionsPerSession)
                 (concat (map le32_bytes connectionIds)) (unat connectionCount);
               State_Monad.return (Some elements)
             }
         | None \<Rightarrow> State_Monad.return None)
      })"

definition iSCSISessionCopyPortalForConnectionId ::
  "corefoundation \<Rightarrow> iSCSISessionManager \<Rightarrow> SessionIdentifier \<Rightarrow> ConnectionIdentifier \<Rightarrow>
   ('z hba_world_scheme, iSCSIPortal option) state" where
  "iSCSISessionCopyPortalForConnectionId cf managerRef sessionId connectionId =
     (if sessionId = kiSCSIInvalidSessionId \<or> connectionId = kiSCSIInvalidConnectionId
      then State_Monad.return None
      else do {
        let hbaInterface = iSCSISessionManagerGetHBAInterface managerRef;
        address \<leftarrow> iSCSIHBAInterfaceCreatePortalAddressForConnectionId cf hbaInterface sessionId connectionId;
        if address = None then State_Monad.return None
        else do {
          port \<leftarrow> iSCSIHBAInterfaceCreatePortalPortForConnectionId cf hbaInterface sessionId connectionId;
          if port = None then State_Monad.return None
          else do {
            hostInterface \<leftarrow>
              iSCSIHBAInterfaceCreateHostInterfaceForConnectionId cf hbaInterface sessionId connectionId;
            if hostInterface = None then State_Monad.return None
            else do {
              portal \<leftarrow> iSCSIPortalSetAddress address iSCSIPortalCreateMutable;
              portal \<leftarrow> iSCSIPortalSetPort port portal;
              portal \<leftarrow> iSCSIPortalSetHostInterface hostInterface portal;
              State_Monad.return (Some portal)
            }
          }
        }
      })"

text \<open>Parameters read into a local variable, which keeps its value when nothing is read.\<close>

definition get_session_parameter ::
  "nat option \<Rightarrow> SessionIdentifier \<Rightarrow> nat \<Rightarrow> nat \<Rightarrow> u8 list \<Rightarrow> ('z hba_world_scheme, u8 list) state" where
  "get_session_parameter hbaInterface sessionId parameter room old = do {
     (_, bytes) \<leftarrow> iSCSIHBAInterfaceGetSessionParameter hbaInterface sessionId parameter True room;
     State_Monad.return (case bytes of Some bs \<Rightarrow> bs | None \<Rightarrow> old)
   }"

definition get_connection_parameter ::
  "nat option \<Rightarrow> SessionIdentifier \<Rightarrow> ConnectionIdentifier \<Rightarrow> nat \<Rightarrow> nat \<Rightarrow> u8 list \<Rightarrow>
   ('z hba_world_scheme, u8 list) state" where
  "get_connection_parameter hbaInterface sessionId connectionId parameter room old = do {
     (_, bytes) \<leftarrow>
       iSCSIHBAInterfaceGetConnectionParameter hbaInterface sessionId connectionId parameter True room;
     State_Monad.return (case bytes of Some bs \<Rightarrow> bs | None \<Rightarrow> old)
   }"

definition number32 :: "u8 list \<Rightarrow> cfvalue" where
  "number32 bs = CFNumber (sint (le32_at 0 bs))"

definition number16 :: "u8 list \<Rightarrow> cfvalue" where
  "number16 bs = CFNumber (sint (le16_at 0 bs))"

definition number8 :: "u8 list \<Rightarrow> cfvalue" where
  "number8 bs = CFNumber (sint (bs ! 0))"

definition yes_no :: "u8 list \<Rightarrow> cfvalue" where
  "yes_no bs = CFString (if bs ! 0 \<noteq> 0 then kRFC3720_Value_Yes else cfs ''No'')"

definition iSCSISessionCopyCFPropertiesForTarget ::
  "corefoundation \<Rightarrow> iSCSISessionManager \<Rightarrow> iSCSITarget option \<Rightarrow> ('z hba_world_scheme, cfobject option) state" where
  "iSCSISessionCopyCFPropertiesForTarget cf managerRef target =
     (case target of
        None \<Rightarrow> State_Monad.return None
      | Some t \<Rightarrow> do {
          let hbaInterface = iSCSISessionManagerGetHBAInterface managerRef;
          sessionId \<leftarrow> iSCSISessionGetSessionIdForTarget cf managerRef (iSCSITargetGetIQN t);
          if sessionId = kiSCSIInvalidSessionId then State_Monad.return None
          else do {
            let get = get_session_parameter hbaInterface sessionId;
            maxConnections \<leftarrow> get kiSCSIHBASOMaxConnections 4 [0, 0, 0, 0];
            maxBurstLength \<leftarrow> get kiSCSIHBASOMaxBurstLength 4 maxConnections;
            firstBurstLength \<leftarrow> get kiSCSIHBASOFirstBurstLength 4 maxBurstLength;
            maxOutStandingR2T \<leftarrow> get kiSCSIHBASOMaxOutstandingR2T 4 firstBurstLength;
            defaultTime2Retain \<leftarrow> get kiSCSIHBASODefaultTime2Retain 4 maxOutStandingR2T;
            defaultTime2Wait \<leftarrow> get kiSCSIHBASODefaultTime2Wait 4 defaultTime2Retain;
            targetPortalGroupTag \<leftarrow> get kiSCSIHBASOTargetPortalGroupTag 2 [0, 0];
            targetSessionId \<leftarrow> get kiSCSIHBASOTargetSessionId 2 [0, 0];
            errorRecoveryLevel \<leftarrow> get kiSCSIHBASOErrorRecoveryLevel 1 [0];
            immediateData \<leftarrow> get kiSCSIHBASOImmediateData 1 [0];
            initialR2T \<leftarrow> get kiSCSIHBASOInitialR2T 1 immediateData;
            dataPDUInOrder \<leftarrow> get kiSCSIHBASODataPDUInOrder 1 initialR2T;
            dataSequenceInOrder \<leftarrow> get kiSCSIHBASODataSequenceInOrder 1 dataPDUInOrder;
            State_Monad.return (Some [
              (kRFC3720_Key_InitialR2T, yes_no initialR2T),
              (kRFC3720_Key_ImmediateData, yes_no immediateData),
              (kRFC3720_Key_DataPDUInOrder, yes_no dataPDUInOrder),
              (kRFC3720_Key_DataSequenceInOrder, yes_no dataSequenceInOrder),
              (kRFC3720_Key_MaxConnections, number32 maxConnections),
              (kRFC3720_Key_MaxBurstLength, number32 maxBurstLength),
              (kRFC3720_Key_FirstBurstLength, number32 firstBurstLength),
              (kRFC3720_Key_MaxOutstandingR2T, number32 maxOutStandingR2T),
              (kRFC3720_Key_DefaultTime2Retain, number32 defaultTime2Retain),
              (kRFC3720_Key_DefaultTime2Wait, number32 defaultTime2Wait),
              (kRFC3720_Key_TargetPortalGroupTag, number16 targetPortalGroupTag),
              (cfs ''TSIH'', number16 targetSessionId),
              (kRFC3720_Key_ErrorRecoveryLevel, number8 errorRecoveryLevel),
              (cfs ''SessionId'', CFNumber (sint sessionId))])
          }
        })"

text \<open>Both digest parameters are recorded in the variable of the data digest.\<close>

definition iSCSISessionCopyCFPropertiesForPortal ::
  "corefoundation \<Rightarrow> iSCSISessionManager \<Rightarrow> iSCSITarget option \<Rightarrow> iSCSIPortal option \<Rightarrow>
   ('z hba_world_scheme, cfobject option) state" where
  "iSCSISessionCopyCFPropertiesForPortal cf managerRef target portal =
     (case (target, portal) of
        (Some t, Some p) \<Rightarrow> do {
          let hbaInterface = iSCSISessionManagerGetHBAInterface managerRef;
          sessionId \<leftarrow> iSCSISessionGetSessionIdForTarget cf managerRef (iSCSITargetGetIQN t);
          if sessionId = kiSCSIInvalidSessionId then State_Monad.return None
          else do {
            connectionId \<leftarrow> iSCSISessionGetConnectionIdForPortal cf managerRef sessionId p;
            if connectionId = kiSCSIInvalidConnectionId then State_Monad.return None
            else do {
              let get = get_connection_parameter hbaInterface sessionId connectionId;
              maxRecv \<leftarrow> get kiSCSIHBACOMaxRecvDataSegmentLength 4 [0, 0, 0, 0];
              useDataDigest \<leftarrow> get kiSCSIHBACOUseDataDigest 1 [0];
              useHeaderDigest \<leftarrow> get kiSCSIHBACOUseHeaderDigest 1 useDataDigest;
              let dataDigestType = (if useDataDigest ! 0 \<noteq> 0 \<or> useHeaderDigest ! 0 \<noteq> 0 then 1 else 0 :: u32);
              let headerDigestType = (0 :: u32);
              r1 \<leftarrow> sys (SysStack 4);
              r2 \<leftarrow> sys (SysStack 4);
              let index = (\<lambda>v r. CFNumber (sint (le_value (le32_bytes v @ fixed 4 (sr_bytes r)))));
              State_Monad.return (Some [
                (kRFC3720_Key_DataDigest, index dataDigestType r1),
                (kRFC3720_Key_HeaderDigest, index headerDigestType r2),
                (kRFC3720_Key_MaxRecvDataSegmentLength, number32 maxRecv),
                (cfs ''ConnectionId'', CFNumber (sint connectionId))])
            }
          }
        }
      | _ \<Rightarrow> State_Monad.return None)"

end
