(* ===== verification/Spec2Isabelle.thy ===== *)
theory Spec2Isabelle
  imports Crc32c TcpEngine IpcShared DextIpc SlotTable PduRelay PduText HbaTable HbaSession HbaTransfer
    HbaActivate HbaInvariant HbaProps QueryTarget QueryProps Auth AuthProps Objects Negotiation Utils
    Session
begin

text \<open>
  A verification library for the user-space part of the iSCSI initiator for macOS: the code of the
  daemon \<open>iscsid\<close> that moves protocol data units (PDUs) between TCP connections and the driver
  extension, and the digest routine they share.

  \<^bold>\<open>The program.\<close> The daemon owns the TCP connections to the targets. The TCP engine
  (\<open>iSCSITCPEngine.c\<close>) keeps a buffered, non-blocking connection context per socket and turns kqueue
  events into callbacks. The PDU relay (\<open>iSCSIPDURelay.c\<close>) cuts the received bytes into PDUs, checks
  their digests (\<open>crc32c.c\<close>) and hands them to the login code or, after login, to the driver
  extension through the IPC layer (\<open>iSCSIDextIPC.c\<close>), whose packed messages are in
  \<open>iSCSIDextDaemonIPCShared.h\<close>. In the other direction the relay puts a PDU on the wire.
  Sessions and connections are opened, configured and activated through the HBA interface
  (\<open>iSCSIHBAInterface.c\<close>), which speaks to the kernel extension or keeps the table of sessions
  itself (DEXT mode). Over it a login query (\<open>iSCSIQueryTarget.c\<close>) sends a login request whose data
  is a text segment of key=value pairs (\<open>iSCSIPDUUser.c\<close>) and collects the responses; the
  authentication (\<open>iSCSIAuth.c\<close>) is a dialogue of such queries, the negotiation of session parameters
  (\<open>iSCSISession.c\<close>) another; both are steps of a login.

  \<^bold>\<open>The model.\<close> C code runs in the state monad of \<open>HOL-Library.State_Monad\<close> over a record that
  holds the memory of the modules. Calls that leave the program (system calls, IOKit, callbacks)
  are values of the type \<open>syscall\<close> of \<^theory_text>\<open>World\<close>; what they return is any function of time, a
  field of the state that every theorem leaves arbitrary unless it says otherwise; each call and its
  answer are recorded in a trace, on which the theorems speak about what was sent, closed or
  delivered. Memory errors (double free, use after free, access outside a block) are recorded as faults
  instead of being undefined.

  \<^item> \<^theory_text>\<open>Prelude\<close>: machine types, error codes, XOR and byte order, monad lemmas, invariants of
    monadic programs (\<open>preserves\<close>).
  \<^item> \<^theory_text>\<open>World\<close>: calls, answers, trace, faults, C buffers, the stream a descriptor has accepted.
  \<^item> \<^theory_text>\<open>Crc32c\<close>: \<open>Source/Kernel/crc32c.c\<close>; both builds equal the bitwise CRC, bursts are detected.
  \<^item> \<^theory_text>\<open>TcpEngine\<close>: \<open>iSCSITCPEngine.c\<close>; the interface \<open>byte_stream\<close> (order of bytes), bounds, closing,
    the event loop.
  \<^item> \<^theory_text>\<open>IpcShared\<close>, \<^theory_text>\<open>DextIpc\<close>: message layout and \<open>iSCSIDextIPC.c\<close>; the interface \<open>ipc_command\<close>.
  \<^item> \<^theory_text>\<open>SlotTable\<close>, \<^theory_text>\<open>PduRelay\<close>: \<open>iSCSIPDURelay.c\<close>; the interface \<open>slot_table\<close>, the wire image
    of a PDU, the receive loop.
  \<^item> \<^theory_text>\<open>PduText\<close>: the text segments of \<open>iSCSIPDUUser.c\<close>, byte by byte in the heap block. Core
    Foundation strings are byte strings; the encoding, comparison and conversion functions of the
    library are a record of parameters, with their documented behaviour on ASCII text as hypotheses
    (\<open>cf_laws\<close>, \<open>cf_text_laws\<close>, met by \<open>ascii_cf\<close>). Layout, parsing, round trip.
  \<^item> \<^theory_text>\<open>HbaTable\<close>, \<^theory_text>\<open>HbaSession\<close>, \<^theory_text>\<open>HbaTransfer\<close>, \<^theory_text>\<open>HbaActivate\<close>: \<open>iSCSIHBAInterface.c\<close> in both modes:
    the session table, creation and release, parameter caches and login PDUs, activation and queries.
    \<^theory_text>\<open>HbaInvariant\<close> shows that every sequence of operations keeps the table well-formed, \<^theory_text>\<open>HbaProps\<close>
    what is sent, received and cached.
  \<^item> \<^theory_text>\<open>QueryTarget\<close>, \<^theory_text>\<open>QueryProps\<close>: \<open>iSCSIQueryTarget.c\<close>: the request on the wire, the responses
    collected, what success means.
  \<^item> \<^theory_text>\<open>Auth\<close>, \<^theory_text>\<open>AuthProps\<close>: \<open>iSCSIAuth.c\<close> and the objects of \<open>iSCSITypes.c\<close> it uses: hexadecimal
    strings, the CHAP response, mutual authentication, the choice of the method.
  \<^item> \<^theory_text>\<open>Objects\<close>, \<^theory_text>\<open>Utils\<close>: the portals, configurations and discovery records of \<open>iSCSITypes.c\<close>, and
    the addresses of \<open>iSCSIUtils.c\<close>. Reading a property list is a parameter.
  \<^item> \<^theory_text>\<open>Negotiation\<close>, \<^theory_text>\<open>Session\<close>: \<open>iSCSISession.c\<close>: what is offered to the target, what is made of its
    answers and stored, login and logout, connections, discovery of targets, queries. The constant
    \<open>2e24-1\<close>, which no unsigned integer holds, is the parameter \<open>lmax\<close>.

  \<^bold>\<open>Bounds.\<close> Loops whose length the peer decides have a bound argument. The loop of the relay gets
  \<open>2 n + 2\<close> rounds for \<open>n\<close> bytes, which is shown to be enough. The loop over login responses ends when a
  response has no continue flag, which no number guarantees: its result is \<open>None\<close> when \<open>bound\<close>
  responses were not enough, and one round per response is shown to be enough. The retries of a query
  are the five of the code. The drain of the notification handler is bounded by the queue.

  \<^bold>\<open>Not modelled.\<close> Logging. The C++ code of the two extensions. The session manager, the discovery service, the
  request handlers of the daemon and the framework's preferences are for later. Concurrency of the
  daemon's threads: an operation runs to its end, and other activity is in the answers of the
  environment.
\<close>

end
